(* ===== verification/BTree_Map.thy ===== *)
theory BTree_Map
  imports Main "HOL-Library.Char_ord" "HOL-Library.List_Lexorder"
begin

section \<open>Ordered maps\<close>

text \<open>
  The standard library's \<open>BTreeMap\<close>, as far as the engine uses it: a finite map whose entries are
  visited in strictly increasing key order. It is the type of association lists with strictly
  increasing keys, so two maps with the same lookups are equal, as two equal \<open>BTreeMap\<close>s are.
  The operations are \<open>get\<close>, \<open>insert\<close>, \<open>remove\<close>, \<open>contains_key\<close> and the iterators \<open>iter\<close>, \<open>keys\<close>
  and \<open>values\<close>. The locale \<open>ordered_map\<close> is the interface the components rely on.
\<close>

typedef (overloaded) ('k::linorder, 'v) btmap = "{xs :: ('k \<times> 'v) list. sorted_wrt (<) (map fst xs)}"
  morphisms bt_entries Abs_btmap
  by (rule exI [of _ "[]"]) simp

setup_lifting type_definition_btmap

primrec alist_put :: "'k::linorder \<Rightarrow> 'v \<Rightarrow> ('k \<times> 'v) list \<Rightarrow> ('k \<times> 'v) list" where
  "alist_put k v [] = [(k, v)]"
| "alist_put k v (e # es) =
     (if k < fst e then (k, v) # e # es
      else if k = fst e then (k, v) # es
      else e # alist_put k v es)"

lemma fst_alist_put: "fst ` set (alist_put k v es) = insert k (fst ` set es)"
  by (induction es) auto

lemma sorted_alist_put:
  "sorted_wrt (<) (map fst es) \<Longrightarrow> sorted_wrt (<) (map fst (alist_put k v es))"
proof (induction es)
  case (Cons e es)
  have "x \<in> insert k (fst ` set es)" if "x \<in> set (map fst (alist_put k v es))" for x
    using that by (metis fst_alist_put list.set_map)
  with Cons show ?case by fastforce
qed simp

lemma map_of_alist_put: "map_of (alist_put k v es) = (map_of es)(k \<mapsto> v)"
  by (induction es) auto

lift_definition bt_empty :: "('k::linorder, 'v) btmap" is "[]"
  by simp

lift_definition bt_insert :: "'k::linorder \<Rightarrow> 'v \<Rightarrow> ('k, 'v) btmap \<Rightarrow> ('k, 'v) btmap" is alist_put
  by (rule sorted_alist_put)

lift_definition bt_remove :: "'k::linorder \<Rightarrow> ('k, 'v) btmap \<Rightarrow> ('k, 'v) btmap" is
  "\<lambda>k. filter (\<lambda>e. fst e \<noteq> k)"
  by (simp add: sorted_wrt_filter sorted_wrt_map)

definition bt_get :: "('k::linorder, 'v) btmap \<Rightarrow> 'k \<rightharpoonup> 'v" where
  "bt_get m = map_of (bt_entries m)"

definition bt_contains :: "('k::linorder, 'v) btmap \<Rightarrow> 'k \<Rightarrow> bool" where
  "bt_contains m k \<longleftrightarrow> bt_get m k \<noteq> None"

definition bt_values :: "('k::linorder, 'v) btmap \<Rightarrow> 'v list" where
  "bt_values m = map snd (bt_entries m)"

definition bt_keys :: "('k::linorder, 'v) btmap \<Rightarrow> 'k list" where
  "bt_keys m = map fst (bt_entries m)"

instantiation btmap :: (linorder, equal) equal
begin

definition equal_btmap :: "('a, 'b) btmap \<Rightarrow> ('a, 'b) btmap \<Rightarrow> bool" where
  "equal_btmap m n \<longleftrightarrow> bt_entries m = bt_entries n"

instance
  by standard (simp add: equal_btmap_def bt_entries_inject)

end

subsection \<open>The interface\<close>

text \<open>
  What a client of an ordered map may rely on: the lookup laws, and that the entries are exactly
  the lookups, in strictly increasing key order.
\<close>

locale ordered_map =
  fixes empty :: "'m"
    and get :: "'m \<Rightarrow> 'k::linorder \<Rightarrow> 'v option"
    and put :: "'k \<Rightarrow> 'v \<Rightarrow> 'm \<Rightarrow> 'm"
    and remove :: "'k \<Rightarrow> 'm \<Rightarrow> 'm"
    and entries :: "'m \<Rightarrow> ('k \<times> 'v) list"
  assumes get_empty: "get empty = Map.empty"
    and get_put: "get (put k v m) = (get m)(k \<mapsto> v)"
    and get_remove: "get (remove k m) = (get m)(k := None)"
    and get_entries: "get m = map_of (entries m)"
    and entries_sorted: "sorted_wrt (<) (map fst (entries m))"
    and extensional: "get m = get m' \<Longrightarrow> m = m'"
begin

lemma keys_distinct: "distinct (map fst (entries m))"
  using entries_sorted [of m] by (simp add: strict_sorted_iff)

lemma entry_iff: "(k, v) \<in> set (entries m) \<longleftrightarrow> get m k = Some v"
  by (simp add: get_entries keys_distinct)

lemma key_iff: "k \<in> fst ` set (entries m) \<longleftrightarrow> get m k \<noteq> None"
  by (simp add: get_entries map_of_eq_None_iff)

lemma value_iff: "v \<in> snd ` set (entries m) \<longleftrightarrow> (\<exists>k. get m k = Some v)"
  by (force simp flip: entry_iff)

lemma put_same: "get m k = Some v \<Longrightarrow> put k v m = m"
  by (rule extensional) (simp add: get_put fun_upd_idem)

lemma put_put: "put k v (put k w m) = put k v m"
  by (rule extensional) (simp add: get_put)

lemma put_comm: "k \<noteq> l \<Longrightarrow> put k v (put l w m) = put l w (put k v m)"
  by (rule extensional) (simp add: get_put fun_upd_twist)

lemma finite_dom: "finite (dom (get m))"
  by (simp add: get_entries finite_dom_map_of)

end

subsection \<open>The model provides the interface\<close>

lemma bt_entries_sorted: "sorted_wrt (<) (map fst (bt_entries m))"
  using bt_entries [of m] by simp

lemma map_of_filter_key: "map_of (filter (\<lambda>e. fst e \<noteq> k) es) = (map_of es)(k := None)"
  by (induction es) (auto simp: fun_eq_iff)

lemma strictly_sorted_map_of_eq:
  assumes "sorted_wrt (<) (map fst xs)" and "sorted_wrt (<) (map fst ys)" and "map_of xs = map_of ys"
  shows "xs = (ys :: ('k::linorder \<times> 'v) list)"
proof (rule map_sorted_distinct_set_unique [of fst])
  from assms(1,2) show d: "distinct (map fst xs)" "distinct (map fst ys)"
    and "sorted (map fst xs)" "sorted (map fst ys)"
    by (simp_all add: strict_sorted_iff)
  with assms(3) show eq: "set xs = set ys"
    by (metis map_of_eqI map_of_inject_set)
  have "inj_on fst (set xs)"
    using d(1) by (simp add: distinct_map)
  with eq show "inj_on fst (set xs \<union> set ys)"
    by simp
qed

interpretation bt: ordered_map bt_empty bt_get bt_insert bt_remove bt_entries
proof
  show "bt_get bt_empty = (Map.empty :: 'a \<Rightarrow> 'b option)"
    by (simp add: bt_get_def bt_empty.rep_eq)
  show "bt_get (bt_insert k v m) = (bt_get m)(k \<mapsto> v)" for k :: 'a and v :: 'b and m
    by (simp add: bt_get_def bt_insert.rep_eq map_of_alist_put)
  show "bt_get (bt_remove k m) = (bt_get m)(k := None)" for k :: 'a and m :: "('a, 'b) btmap"
    by (simp add: bt_get_def bt_remove.rep_eq map_of_filter_key)
  show "bt_get m = map_of (bt_entries m)" for m :: "('a, 'b) btmap"
    by (rule bt_get_def)
  show "sorted_wrt (<) (map fst (bt_entries m))" for m :: "('a, 'b) btmap"
    by (rule bt_entries_sorted)
  show "m = m'" if "bt_get m = bt_get m'" for m m' :: "('a, 'b) btmap"
    using that bt_entries_sorted [of m] bt_entries_sorted [of m']
    by (metis bt_get_def bt_entries_inject strictly_sorted_map_of_eq)
qed

lemmas bt_simps [simp] = bt.get_empty bt.get_put bt.get_remove

lemma bt_contains_iff [simp]: "bt_contains m k \<longleftrightarrow> (\<exists>v. bt_get m k = Some v)"
  by (simp add: bt_contains_def)

lemma not_Some_pair [simp]: "(\<forall>a b. x \<noteq> Some (a, b)) \<longleftrightarrow> x = None"
  by (cases x) auto

lemma bt_values_iff: "v \<in> set (bt_values m) \<longleftrightarrow> (\<exists>k. bt_get m k = Some v)"
  by (simp add: bt_values_def bt.value_iff)

lemma bt_keys_iff: "k \<in> set (bt_keys m) \<longleftrightarrow> (\<exists>v. bt_get m k = Some v)"
  by (simp add: bt_keys_def bt.key_iff)

lemma list_ex_bt_values:
  "list_ex P (bt_values m) \<longleftrightarrow> (\<exists>k v. bt_get m k = Some v \<and> P v)"
  by (metis list_ex_iff bt_values_iff)

lemma list_all_bt_values:
  "list_all P (bt_values m) \<longleftrightarrow> (\<forall>k v. bt_get m k = Some v \<longrightarrow> P v)"
  by (metis list_all_iff bt_values_iff)

subsection \<open>Collecting a sequence\<close>

text \<open>\<open>collect\<close> inserts the pairs in order, so a later pair replaces an earlier one with the same key.\<close>

definition bt_collect :: "('k::linorder \<times> 'v) list \<Rightarrow> ('k, 'v) btmap" where
  "bt_collect es = fold (\<lambda>e. bt_insert (fst e) (snd e)) es bt_empty"

definition bt_len :: "('k::linorder, 'v) btmap \<Rightarrow> nat" where
  "bt_len m = length (bt_entries m)"

lemma bt_get_fold_put: "bt_get (fold (\<lambda>e. bt_insert (fst e) (snd e)) es m) = bt_get m ++ map_of (rev es)"
  by (induction es arbitrary: m) (auto simp: map_add_def fun_eq_iff split: option.splits)

lemma bt_get_collect: "bt_get (bt_collect es) = map_of (rev es)"
  by (simp add: bt_collect_def bt_get_fold_put)

lemma bt_len_dom: "bt_len m = card (dom (bt_get m))"
proof -
  have "dom (bt_get m) = set (map fst (bt_entries m))"
    by (simp add: bt.get_entries dom_map_of_conv_image_fst)
  then show ?thesis
    by (simp only: distinct_card [OF bt.keys_distinct] bt_len_def length_map)
qed

lemma bt_len_collect: "bt_len (bt_collect es) = card (fst ` set es)"
  by (simp add: bt_len_dom bt_get_collect dom_map_of_conv_image_fst)

lemma bt_get_collect_iff:
  "distinct (map fst es) \<Longrightarrow> bt_get (bt_collect es) k = Some v \<longleftrightarrow> (k, v) \<in> set es"
  by (simp add: bt_get_collect rev_map [symmetric])

end
