(* ===== verification/Garive_Prelude.thy ===== *)
theory Garive_Prelude
  imports BTree_Map "HOL-Library.Word" "HOL-Library.Product_Lexorder"
begin

section \<open>Shared vocabulary\<close>

text \<open>
  What the components share: Rust's \<open>Result\<close> as a sum type with its bind, the checked arithmetic of
  the machine integers, opaque identities, the string tests the validators use, and the locales that
  state what an event reducer promises (an invariant preserved by all or by admissible events,
  absorbing states, a state that only moves up in an order), from which the facts about whole runs
  follow once.
\<close>

subsection \<open>Results\<close>

text \<open>
  \<open>Result<T, E>\<close> is \<open>E + T\<close>: \<open>Inl\<close> is \<open>Err\<close>, \<open>Inr\<close> is \<open>Ok\<close>. \<open>rbind\<close> is the \<open>?\<close> operator: it stops at the
  first error. \<open>ok_or\<close> is \<open>Option::ok_or\<close>; \<open>rcheck\<close> runs a check on every element of a list in order.
\<close>

definition rbind :: "'e + 'a \<Rightarrow> ('a \<Rightarrow> 'e + 'b) \<Rightarrow> 'e + 'b" where
  "rbind r f = (case r of Inl e \<Rightarrow> Inl e | Inr x \<Rightarrow> f x)"

definition ok_or :: "'a option \<Rightarrow> 'e \<Rightarrow> 'e + 'a" where
  "ok_or x e = (case x of None \<Rightarrow> Inl e | Some v \<Rightarrow> Inr v)"

definition ensure :: "bool \<Rightarrow> 'e \<Rightarrow> 'e + unit" where
  "ensure b e = (if b then Inr () else Inl e)"

primrec rcheck :: "('a \<Rightarrow> 'e + unit) \<Rightarrow> 'a list \<Rightarrow> 'e + unit" where
  "rcheck f [] = Inr ()"
| "rcheck f (x # xs) = rbind (f x) (\<lambda>_. rcheck f xs)"

text \<open>\<open>rall\<close> is a block of checks, each followed by \<open>?\<close>; \<open>rvoid\<close> drops what a check returns.\<close>

primrec rall :: "('e + unit) list \<Rightarrow> 'e + unit" where
  "rall [] = Inr ()"
| "rall (r # rs) = rbind r (\<lambda>_. rall rs)"

definition rvoid :: "'e + 'a \<Rightarrow> 'e + unit" where
  "rvoid r = rbind r (\<lambda>_. Inr ())"

named_theorems result_simps \<open>when a result is a success or a failure\<close>

lemma rbind_simps [simp]: "rbind (Inl e) f = Inl e" "rbind (Inr x) f = f x"
  by (simp_all add: rbind_def)

lemma rbind_eq_Inr [result_simps]: "rbind r f = Inr y \<longleftrightarrow> (\<exists>x. r = Inr x \<and> f x = Inr y)"
  by (cases r) auto

lemma rbind_eq_Inl: "rbind r f = Inl e \<longleftrightarrow> r = Inl e \<or> (\<exists>x. r = Inr x \<and> f x = Inl e)"
  by (cases r) auto

lemma rbind_cong [fundef_cong]:
  "r = r' \<Longrightarrow> (\<And>x. r' = Inr x \<Longrightarrow> f x = g x) \<Longrightarrow> rbind r f = rbind r' g"
  by (cases r') auto

lemma ok_or_simps [simp]: "ok_or None e = Inl e" "ok_or (Some v) e = Inr v"
  by (simp_all add: ok_or_def)

lemma ok_or_eq_Inr [result_simps]: "ok_or x e = Inr v \<longleftrightarrow> x = Some v"
  by (cases x) auto

lemma ok_or_eq_Inl: "ok_or x e = Inl e' \<longleftrightarrow> x = None \<and> e' = e"
  by (cases x) auto

lemma ensure_eq_Inr [result_simps]: "ensure b e = Inr u \<longleftrightarrow> b"
  by (simp add: ensure_def)

lemma ensure_eq_Inl: "ensure b e = Inl e' \<longleftrightarrow> \<not> b \<and> e' = e"
  by (auto simp: ensure_def)

lemma rcheck_eq_Inr [result_simps]: "rcheck f xs = Inr u \<longleftrightarrow> (\<forall>x \<in> set xs. f x = Inr ())"
  by (induction xs) (auto simp: rbind_eq_Inr)

lemma rall_eq_Inr [result_simps]: "rall rs = Inr u \<longleftrightarrow> list_all (\<lambda>r. r = Inr ()) rs"
  by (induction rs) (auto simp: rbind_eq_Inr)

lemma rvoid_eq_Inr [result_simps]: "rvoid r = Inr u \<longleftrightarrow> (\<exists>x. r = Inr x)"
  by (auto simp: rvoid_def rbind_eq_Inr)

lemma rcheck_eq_Inl: "rcheck f xs = Inl e \<Longrightarrow> \<exists>x \<in> set xs. f x = Inl e"
  by (induction xs) (auto simp: rbind_eq_Inl)

lemma rall_eq_Inl: "rall rs = Inl e \<Longrightarrow> Inl e \<in> set rs"
  by (induction rs) (auto simp: rbind_eq_Inl)

lemma rvoid_eq_Inl: "rvoid r = Inl e \<longleftrightarrow> r = Inl e"
  by (auto simp: rvoid_def rbind_eq_Inl)

lemma if_Inl_eq_Inr [result_simps]: "(if b then Inl e else r) = Inr y \<longleftrightarrow> \<not> b \<and> r = Inr y"
  by simp

lemma if_else_Inl_eq_Inr [result_simps]: "(if b then r else Inl e) = Inr y \<longleftrightarrow> b \<and> r = Inr y"
  by simp

text \<open>\<open>collect\<close> of an iterator of results: the first error, or the list of all successes.\<close>

primrec rmap :: "('a \<Rightarrow> 'e + 'b) \<Rightarrow> 'a list \<Rightarrow> 'e + 'b list" where
  "rmap f [] = Inr []"
| "rmap f (x # xs) = rbind (f x) (\<lambda>y. rbind (rmap f xs) (\<lambda>ys. Inr (y # ys)))"

lemma rmap_eq_Inr [result_simps]: "rmap f xs = Inr ys \<longleftrightarrow> list_all2 (\<lambda>x y. f x = Inr y) xs ys"
  by (induction xs arbitrary: ys) (auto simp: rbind_eq_Inr list_all2_Cons1)

lemma list_all2_map_eq: "list_all2 (\<lambda>x y. P y \<and> x = f y) xs ys \<longleftrightarrow> xs = map f ys \<and> (\<forall>y \<in> set ys. P y)"
  by (induction ys arbitrary: xs) (auto simp: list_all2_Cons2)

text \<open>
  \<open>rpost r P\<close> says that a result, if it is a success, satisfies \<open>P\<close>. The rules in \<open>post_intros\<close> follow
  the shape of a computation, so that a property of what it returns is a property of each of its
  successful returns, under the conditions that lead there.
\<close>

definition rpost :: "'e + 'a \<Rightarrow> ('a \<Rightarrow> bool) \<Rightarrow> bool" where
  "rpost r P \<longleftrightarrow> (\<forall>x. r = Inr x \<longrightarrow> P x)"

named_theorems post_intros \<open>rules that walk a result down to its successful returns\<close>

lemma rpostD: "rpost r P \<Longrightarrow> r = Inr x \<Longrightarrow> P x"
  by (simp add: rpost_def)

lemma rpost_rbind [post_intros]: "(\<And>x. r = Inr x \<Longrightarrow> rpost (f x) P) \<Longrightarrow> rpost (rbind r f) P"
  by (auto simp: rpost_def rbind_eq_Inr)

lemma rpost_Inl [post_intros]: "rpost (Inl e) P"
  by (simp add: rpost_def)

lemma rpost_Inr [post_intros]: "P x \<Longrightarrow> rpost (Inr x) P"
  by (simp add: rpost_def)

lemma rpost_if [post_intros]:
  "(b \<Longrightarrow> rpost r P) \<Longrightarrow> (\<not> b \<Longrightarrow> rpost s P) \<Longrightarrow> rpost (if b then r else s) P"
  by simp

lemma rpost_prod [post_intros]: "(\<And>a b. x = (a, b) \<Longrightarrow> rpost (f a b) P) \<Longrightarrow> rpost (case_prod f x) P"
  by (cases x) simp

lemma rpost_option [post_intros]:
  "(x = None \<Longrightarrow> rpost r P) \<Longrightarrow> (\<And>v. x = Some v \<Longrightarrow> rpost (f v) P) \<Longrightarrow>
   rpost (case x of None \<Rightarrow> r | Some v \<Rightarrow> f v) P"
  by (cases x) simp_all

lemma rpost_Let [post_intros]: "rpost (f x) P \<Longrightarrow> rpost (let y = x in f y) P"
  by (simp add: Let_def)

subsection \<open>Steps that may panic\<close>

text \<open>
  Where an \<open>unwrap\<close>, an index or an arithmetic expression may panic, a step returns an option of a
  result: \<open>None\<close> is the panic. \<open>pbind\<close> is \<open>?\<close> on such a step.
\<close>

definition pbind :: "('e + 'a) option \<Rightarrow> ('a \<Rightarrow> ('e + 'b) option) \<Rightarrow> ('e + 'b) option" where
  "pbind r f = Option.bind r (\<lambda>x. case x of Inl e \<Rightarrow> Some (Inl e) | Inr y \<Rightarrow> f y)"

lemma pbind_eq_Some:
  "pbind r f = Some y \<longleftrightarrow> (\<exists>e. r = Some (Inl e) \<and> y = Inl e) \<or> (\<exists>x. r = Some (Inr x) \<and> f x = Some y)"
  by (cases r; cases "the r") (auto simp: pbind_def)

lemma pbind_eq_Inr: "pbind r f = Some (Inr y) \<longleftrightarrow> (\<exists>x. r = Some (Inr x) \<and> f x = Some (Inr y))"
  by (auto simp: pbind_eq_Some)

lemma pbind_eq_None: "pbind r f = None \<longleftrightarrow> r = None \<or> (\<exists>x. r = Some (Inr x) \<and> f x = None)"
  by (cases r; cases "the r") (auto simp: pbind_def)

lemma pbind_total: "r \<noteq> None \<Longrightarrow> (\<And>x. r = Some (Inr x) \<Longrightarrow> f x \<noteq> None) \<Longrightarrow> pbind r f \<noteq> None"
  by (auto simp: pbind_def split: sum.splits)

lemma pbind_simps [simp]: "pbind (Some (Inl e)) f = Some (Inl e)" "pbind (Some (Inr x)) f = f x"
  by (simp_all add: pbind_def)

subsection \<open>Machine integers\<close>

type_synonym u64 = "64 word"
type_synonym u32 = "32 word"

text \<open>
  The checked operations are \<open>None\<close> exactly where the result would wrap around; \<open>saturating_add\<close> stops
  at the largest number.
\<close>

definition checked_add :: "'a::len word \<Rightarrow> 'a word \<Rightarrow> 'a word option" where
  "checked_add a b = (if unat a + unat b < 2 ^ LENGTH('a) then Some (a + b) else None)"

definition checked_sub :: "'a::len word \<Rightarrow> 'a word \<Rightarrow> 'a word option" where
  "checked_sub a b = (if b \<le> a then Some (a - b) else None)"

definition checked_mul :: "'a::len word \<Rightarrow> 'a word \<Rightarrow> 'a word option" where
  "checked_mul a b = (if unat a * unat b < 2 ^ LENGTH('a) then Some (a * b) else None)"

definition saturating_add :: "'a::len word \<Rightarrow> 'a word \<Rightarrow> 'a word" where
  "saturating_add a b = (if unat a + unat b < 2 ^ LENGTH('a) then a + b else - 1)"

lemma unat_checked_sub: "checked_sub a b = Some c \<Longrightarrow> unat b \<le> unat a \<and> unat c = unat a - unat b"
  by (auto simp: checked_sub_def unat_sub word_le_nat_alt split: if_splits)

lemma unat_checked_mul: "checked_mul a b = Some c \<Longrightarrow> unat c = unat a * unat b"
  by (auto simp: checked_mul_def unat_word_ariths split: if_splits)

lemma unat_saturating_add:
  "unat (saturating_add a b) = min (unat a + unat b) (2 ^ LENGTH('a) - 1)" for a :: "'a::len word"
  by (auto simp: saturating_add_def unat_word_ariths unsigned_minus_1_eq_mask mask_eq_exp_minus_1)

lemma checked_add_eq_Some:
  "checked_add a b = Some c \<longleftrightarrow> unat a + unat b < 2 ^ LENGTH('a) \<and> c = a + b"
  for a :: "'a::len word"
  by (auto simp: checked_add_def)

lemma unat_checked_add:
  "checked_add a b = Some c \<Longrightarrow> unat c = unat a + unat b"
  by (auto simp: checked_add_eq_Some unat_word_ariths)

lemma unat_checked_succ: "checked_add a 1 = Some c \<Longrightarrow> unat c = Suc (unat a)" for a :: u64
  using unat_checked_add [of a 1 c] by simp

lemma checked_succ_iff: "checked_add a 1 = Some b \<longleftrightarrow> unat b = Suc (unat a)" for a :: u64
proof
  show "unat b = Suc (unat a)" if "checked_add a 1 = Some b"
    using that by (rule unat_checked_succ)
  show "checked_add a 1 = Some b" if "unat b = Suc (unat a)"
  proof -
    have "unat a + 1 < 2 ^ 64"
      using that unsigned_less [of b, where ?'a = nat] by simp
    then have "checked_add a 1 = Some (a + 1)"
      by (simp add: checked_add_def)
    moreover from this have "unat (a + 1) = unat b"
      using that unat_checked_succ by simp
    ultimately show ?thesis
      by (simp add: word_unat_eq_iff)
  qed
qed

lemma unat_succ_less: "a < b \<Longrightarrow> unat (a + 1) = Suc (unat a)" for a b :: "'a::len word"
proof -
  assume "a < b"
  then have "Suc (unat a) \<le> unat b"
    by (simp add: word_less_nat_alt Suc_leI)
  also have "\<dots> < 2 ^ LENGTH('a)"
    by (rule unsigned_less)
  finally have "Suc (unat a) < 2 ^ LENGTH('a)" .
  then show ?thesis
    by (simp add: unat_word_ariths)
qed

lemma succ_le_less: "a < b \<Longrightarrow> a + 1 \<le> b" for a b :: "'a::len word"
  by (rule inc_le)

subsection \<open>Opaque identities\<close>

text \<open>
  Every identity newtype wraps a string and is ordered as the string is. The type parameter is a
  tag that keeps the identities of different entities apart.
\<close>

datatype 'tag ident = Ident (as_str: string)

instantiation ident :: (type) linorder
begin

definition less_eq_ident :: "'a ident \<Rightarrow> 'a ident \<Rightarrow> bool" where
  "less_eq_ident x y \<longleftrightarrow> as_str x \<le> as_str y"

definition less_ident :: "'a ident \<Rightarrow> 'a ident \<Rightarrow> bool" where
  "less_ident x y \<longleftrightarrow> as_str x < as_str y"

instance
  by standard (auto simp: less_eq_ident_def less_ident_def intro: ident.expand)

end

lemma inj_as_str: "inj as_str"
  by (rule injI) (simp add: ident.expand)

text \<open>A sequence without repetitions of the images of a set is the image of such a sequence of the set.\<close>

lemma list_of_image:
  assumes "inj f" and "distinct xs" and "set xs = f ` A"
  obtains ys where "xs = map f ys" "distinct ys" "set ys = A"
proof
  have "map (f \<circ> inv f) xs = xs"
    by (rule map_idI) (use assms in \<open>auto simp: inv_f_f\<close>)
  then show "xs = map f (map (inv f) xs)"
    by simp
  then show "distinct (map (inv f) xs)"
    using assms(2) by (metis distinct_map)
  show "set (map (inv f) xs) = A"
    using assms by (simp add: image_inv_f_f)
qed

subsection \<open>Strings\<close>

definition starts_with :: "string \<Rightarrow> string \<Rightarrow> bool" where
  "starts_with s p \<longleftrightarrow> take (length p) s = p"

text \<open>\<open>is_ascii_hexdigit\<close> without the upper case letters: \<open>0\<close> to \<open>9\<close> and \<open>a\<close> to \<open>f\<close>.\<close>

definition lower_hex :: "char \<Rightarrow> bool" where
  "lower_hex c \<longleftrightarrow> c \<in> set ''0123456789abcdef''"

definition valid_digest :: "string \<Rightarrow> bool" where
  "valid_digest s \<longleftrightarrow> length s = 64 \<and> list_all lower_hex s"

subsection \<open>Event reducers\<close>

text \<open>A run applies a reducer to a sequence of events and stops at the first error.\<close>

primrec run :: "('s \<Rightarrow> 'e \<Rightarrow> 'err + 's) \<Rightarrow> 's \<Rightarrow> 'e list \<Rightarrow> 'err + 's" where
  "run step s [] = Inr s"
| "run step s (e # es) = rbind (step s e) (\<lambda>s'. run step s' es)"

lemma run_append: "run step s (xs @ ys) = rbind (run step s xs) (\<lambda>t. run step t ys)"
proof (induction xs arbitrary: s)
  case (Cons x xs)
  then show ?case by (cases "step s x") simp_all
qed simp

locale guarded_reducer =
  fixes step :: "'s \<Rightarrow> 'e \<Rightarrow> 'err + 's" and inv :: "'s \<Rightarrow> bool" and ok :: "'e \<Rightarrow> bool"
  assumes step_keeps_ok: "inv s \<Longrightarrow> ok e \<Longrightarrow> step s e = Inr t \<Longrightarrow> inv t"
begin

lemma run_keeps_ok: "inv s \<Longrightarrow> list_all ok es \<Longrightarrow> run step s es = Inr t \<Longrightarrow> inv t"
  by (induction es arbitrary: s) (auto simp: rbind_eq_Inr intro: step_keeps_ok)

end

locale invariant_reducer =
  fixes step :: "'s \<Rightarrow> 'e \<Rightarrow> 'err + 's" and inv :: "'s \<Rightarrow> bool"
  assumes step_keeps: "inv s \<Longrightarrow> step s e = Inr t \<Longrightarrow> inv t"

sublocale invariant_reducer \<subseteq> guarded_reducer step inv "\<lambda>_. True"
  by unfold_locales (rule step_keeps)

context invariant_reducer
begin

lemma run_keeps: "inv s \<Longrightarrow> run step s es = Inr t \<Longrightarrow> inv t"
  by (rule run_keeps_ok) (simp_all add: list_all_iff)

end

locale absorbing_reducer =
  fixes step :: "'s \<Rightarrow> 'e \<Rightarrow> 'err + 's" and final :: "'s \<Rightarrow> bool"
  assumes final_stuck: "final s \<Longrightarrow> step s e \<noteq> Inr t"
begin

lemma run_final: "final s \<Longrightarrow> run step s es = Inr t \<Longrightarrow> es = [] \<and> t = s"
  by (cases es) (auto simp: rbind_eq_Inr final_stuck)

lemma final_is_last: "run step s (es @ [e]) = Inr t \<Longrightarrow> run step s es = Inr u \<Longrightarrow> \<not> final u"
  using final_stuck by (auto simp: run_append rbind_eq_Inr)

end

locale ordered_reducer = invariant_reducer step inv
  for step :: "'s \<Rightarrow> 'e \<Rightarrow> 'err + 's" and inv :: "'s \<Rightarrow> bool" +
  fixes le :: "'s \<Rightarrow> 's \<Rightarrow> bool"
  assumes le_refl: "le s s"
    and le_trans: "le s t \<Longrightarrow> le t u \<Longrightarrow> le s u"
    and step_le: "inv s \<Longrightarrow> step s e = Inr t \<Longrightarrow> le s t"
begin

lemma run_le: "inv s \<Longrightarrow> run step s es = Inr t \<Longrightarrow> le s t"
proof (induction es arbitrary: s)
  case Nil
  then show ?case by (simp add: le_refl)
next
  case (Cons e es)
  then obtain u where u: "step s e = Inr u" "run step u es = Inr t"
    by (auto simp: rbind_eq_Inr)
  with Cons.prems have "inv u" "le s u"
    by (auto intro: step_keeps step_le)
  with Cons.IH [of u] u(2) show ?case
    by (blast intro: le_trans)
qed

end

end
