(* ===== verification/Json_Canonical.thy ===== *)
theory Json_Canonical
  imports Garive_Prelude
begin

section \<open>JSON values and canonical payloads\<close>

text \<open>
  The payload of every durable fact is canonical JSON bound by a SHA-256 digest
  (\<open>engine/ledger/src/canonical.rs\<close>). A JSON value is \<open>serde_json::Value\<close>: a number is an unsigned or a
  negative 64-bit integer or a float (its bits), and an object lists its members in the increasing
  key order of the \<open>BTreeMap\<close> behind \<open>serde_json::Map\<close>. Strings are their UTF-8 bytes: the encoder
  escapes only ASCII characters and copies every other character, so it acts byte by byte.

  Third-party code is a parameter: the record \<open>externals\<close> holds SHA-256 as lower case hexadecimal
  text, the JSON parser \<open>serde_json::from_str\<close>, and chrono's RFC 3339 parser, which returns the instant
  in its canonical UTC spelling.

  The main results are that the encoder is injective (no two payload values share their canonical
  text, so none share a digest but by a SHA-256 collision), that it accepts exactly the values
  without floats, and what \<open>from_canonical_parts\<close> admits.
\<close>

datatype json_number = PosInt u64 | NegInt int | Float u64

datatype json =
    JNull
  | JBool bool
  | JNumber json_number
  | JString string
  | JArray "json list"
  | JObject "(string \<times> json) list"

type_synonym jmap = "(string \<times> json) list"

fun as_object :: "json \<Rightarrow> jmap option" where
  "as_object (JObject m) = Some m"
| "as_object _ = None"

fun as_array :: "json \<Rightarrow> json list option" where
  "as_array (JArray vs) = Some vs"
| "as_array _ = None"

fun json_as_str :: "json \<Rightarrow> string option" where
  "json_as_str (JString s) = Some s"
| "json_as_str _ = None"

fun as_u64 :: "json \<Rightarrow> u64 option" where
  "as_u64 (JNumber (PosInt n)) = Some n"
| "as_u64 _ = None"

fun is_boolean :: "json \<Rightarrow> bool" where
  "is_boolean (JBool _) = True"
| "is_boolean _ = False"

fun as_bool :: "json \<Rightarrow> bool option" where
  "as_bool (JBool b) = Some b"
| "as_bool _ = None"

definition jget :: "jmap \<Rightarrow> string \<Rightarrow> json option" where
  "jget m k = map_of m k"

definition jhas :: "jmap \<Rightarrow> string \<Rightarrow> bool" where
  "jhas m k \<longleftrightarrow> jget m k \<noteq> None"

text \<open>\<open>value[key]\<close> on a \<open>serde_json::Value\<close> is \<open>Null\<close> where the key is missing or the value no object.\<close>

definition jindex :: "json \<Rightarrow> string \<Rightarrow> json" where
  "jindex v k = (case as_object v of
      None \<Rightarrow> JNull
    | Some m \<Rightarrow> (case jget m k of None \<Rightarrow> JNull | Some w \<Rightarrow> w))"

subsection \<open>External code\<close>

record externals =
  sha256_hex :: "string \<Rightarrow> string"
  from_str :: "string \<Rightarrow> json option"
  rfc3339_utc :: "string \<Rightarrow> string option"

subsection \<open>The canonical encoder\<close>

datatype canonical_payload_error = InvalidJson | UnsupportedNumber | NonCanonical | DigestMismatch

definition digit_char :: "nat \<Rightarrow> char" where
  "digit_char d = char_of (48 + d)"

fun decimal :: "nat \<Rightarrow> string" where
  "decimal n = (if n < 10 then [digit_char n] else decimal (n div 10) @ [digit_char (n mod 10)])"

declare decimal.simps [simp del]

definition number_text :: "json_number \<Rightarrow> string option" where
  "number_text n = (case n of
      PosInt w \<Rightarrow> Some (decimal (unat w))
    | NegInt i \<Rightarrow> Some (if i < 0 then CHR ''-'' # decimal (nat (- i)) else decimal (nat i))
    | Float _ \<Rightarrow> None)"

definition hex_char :: "nat \<Rightarrow> char" where
  "hex_char d = (if d < 10 then char_of (48 + d) else char_of (87 + d))"

text \<open>The text one character of a string becomes; \<open>CHR 0x5C\<close> is the backslash, \<open>CHR 0x22\<close> the quote.\<close>

definition escape_char :: "char \<Rightarrow> string" where
  "escape_char c =
     (if c = CHR 0x22 then [CHR 0x5C, CHR 0x22]
      else if c = CHR 0x5C then [CHR 0x5C, CHR 0x5C]
      else if c = CHR 0x08 then [CHR 0x5C, CHR ''b'']
      else if c = CHR 0x0C then [CHR 0x5C, CHR ''f'']
      else if c = CHR 0x0A then [CHR 0x5C, CHR ''n'']
      else if c = CHR 0x0D then [CHR 0x5C, CHR ''r'']
      else if c = CHR 0x09 then [CHR 0x5C, CHR ''t'']
      else if of_char c \<le> (0x1F :: nat)
        then [CHR 0x5C, CHR ''u'', CHR ''0'', CHR ''0'',
              hex_char (of_char c div 16), hex_char (of_char c mod 16)]
      else [c])"

definition encode_string :: "string \<Rightarrow> string" where
  "encode_string s = CHR 0x22 # concat (map escape_char s) @ [CHR 0x22]"

text \<open>
  \<open>encode_items\<close> and \<open>encode_members\<close> are the loops over an array and an object: the flag says whether
  the element is the first, which no comma precedes.
\<close>

fun encode :: "json \<Rightarrow> canonical_payload_error + string"
  and encode_items :: "bool \<Rightarrow> json list \<Rightarrow> canonical_payload_error + string"
  and encode_members :: "bool \<Rightarrow> jmap \<Rightarrow> canonical_payload_error + string" where
  "encode JNull = Inr ''null''"
| "encode (JBool b) = Inr (if b then ''true'' else ''false'')"
| "encode (JNumber n) = ok_or (number_text n) UnsupportedNumber"
| "encode (JString s) = Inr (encode_string s)"
| "encode (JArray vs) = rbind (encode_items True vs) (\<lambda>t. Inr (CHR ''['' # t @ '']''))"
| "encode (JObject m) = rbind (encode_members True m) (\<lambda>t. Inr (CHR ''{'' # t @ ''}''))"
| "encode_items first [] = Inr []"
| "encode_items first (v # vs) =
     rbind (encode v) (\<lambda>s. rbind (encode_items False vs)
       (\<lambda>t. Inr ((if first then [] else '','') @ s @ t)))"
| "encode_members first [] = Inr []"
| "encode_members first ((k, v) # m) =
     rbind (encode v) (\<lambda>s. rbind (encode_members False m)
       (\<lambda>t. Inr ((if first then [] else '','') @ encode_string k @ '':'' @ s @ t)))"

subsection \<open>Canonical payloads\<close>

record canonical_payload =
  payload_json :: string
  payload_sha256 :: string

definition from_value :: "externals \<Rightarrow> json \<Rightarrow> canonical_payload_error + canonical_payload" where
  "from_value X v = rbind (encode v)
     (\<lambda>j. Inr \<lparr>payload_json = j, payload_sha256 = sha256_hex X j\<rparr>)"

definition from_canonical_parts ::
  "externals \<Rightarrow> string \<Rightarrow> string \<Rightarrow> canonical_payload_error + canonical_payload" where
  "from_canonical_parts X j d =
     rbind (ok_or (from_str X j) InvalidJson) (\<lambda>v.
     rbind (from_value X v) (\<lambda>canonical.
       if payload_json canonical \<noteq> j then Inl NonCanonical
       else if payload_sha256 canonical \<noteq> d then Inl DigestMismatch
       else Inr canonical))"

definition payload_verify :: "externals \<Rightarrow> canonical_payload \<Rightarrow> canonical_payload_error + unit" where
  "payload_verify X p =
     (if sha256_hex X (payload_json p) = payload_sha256 p then Inr () else Inl DigestMismatch)"

subsection \<open>Numbers\<close>

definition is_digit :: "char \<Rightarrow> bool" where
  "is_digit c \<longleftrightarrow> 48 \<le> (of_char c :: nat) \<and> of_char c \<le> (57 :: nat)"

lemma of_digit_char: "d < 10 \<Longrightarrow> of_char (digit_char d) = (48 + d :: nat)"
  by (simp add: digit_char_def of_char_of)

lemma is_digit_digit_char: "d < 10 \<Longrightarrow> is_digit (digit_char d)"
  by (simp add: is_digit_def of_digit_char)

lemma decimal_digits: "list_all is_digit (decimal n)"
proof (induction n rule: decimal.induct)
  case (1 n)
  then show ?case
    by (subst decimal.simps) (auto simp: is_digit_digit_char)
qed

lemma decimal_not_Nil: "decimal n \<noteq> []"
  by (subst decimal.simps) simp

definition decimal_value :: "string \<Rightarrow> nat" where
  "decimal_value s = foldl (\<lambda>acc c. 10 * acc + (of_char c - 48)) 0 s"

lemma decimal_value_decimal: "decimal_value (decimal n) = n"
proof (induction n rule: decimal.induct)
  case (1 n)
  then show ?case
    by (subst decimal.simps) (auto simp: decimal_value_def of_digit_char)
qed

lemma decimal_inj: "decimal m = decimal n \<longleftrightarrow> m = n"
  by (metis decimal_value_decimal)


text \<open>Text that does not go on with a digit ends a number.\<close>

definition no_digit :: "string \<Rightarrow> bool" where
  "no_digit r \<longleftrightarrow> r = [] \<or> \<not> is_digit (hd r)"

lemma takeWhile_decimal: "no_digit r \<Longrightarrow> takeWhile is_digit (decimal n @ r) = decimal n"
  using decimal_digits [of n]
  by (cases r) (auto simp: no_digit_def list_all_iff)

lemma decimal_split:
  assumes "decimal m @ r = decimal n @ q" and "no_digit r" and "no_digit q"
  shows "m = n \<and> r = q"
proof -
  from assms have "decimal m = decimal n"
    by (metis takeWhile_decimal)
  with assms(1) show ?thesis
    by (simp add: decimal_inj)
qed

lemma decimal_hd: "is_digit (hd (decimal n))"
  using decimal_digits [of n] decimal_not_Nil [of n] by (cases "decimal n") auto

lemma decimal_not_minus: "decimal n @ r \<noteq> CHR ''-'' # q"
  using decimal_hd [of n] decimal_not_Nil [of n] by (cases "decimal n") (auto simp: is_digit_def)

fun wf_number :: "json_number \<Rightarrow> bool" where
  "wf_number (NegInt i) \<longleftrightarrow> i < 0"
| "wf_number _ \<longleftrightarrow> True"

lemma number_text_cases:
  assumes "number_text a = Some s" and "wf_number a"
  obtains (nonneg) w where "a = PosInt w" and "s = decimal (unat w)"
    | (negative) i where "a = NegInt i" and "i < 0" and "s = CHR ''-'' # decimal (nat (- i))"
  using assms by (cases a) (auto simp: number_text_def)

lemma number_split:
  assumes "number_text a = Some s" and "number_text b = Some t" and "wf_number a" and "wf_number b"
    and eq: "s @ r = t @ q" and tails: "no_digit r" "no_digit q"
  shows "a = b \<and> r = q"
  using assms(1,3)
proof (cases rule: number_text_cases)
  case (nonneg w)
  from assms(2,4) show ?thesis
  proof (cases rule: number_text_cases)
    case (nonneg v)
    with \<open>s = decimal (unat w)\<close> eq have "decimal (unat w) @ r = decimal (unat v) @ q" by simp
    then have "unat w = unat v \<and> r = q" using tails by (rule decimal_split)
    with nonneg \<open>a = PosInt w\<close> show ?thesis
      by (simp add: word_unat_eq_iff)
  next
    case (negative i)
    with \<open>s = decimal (unat w)\<close> eq decimal_not_minus [of "unat w" r] show ?thesis by (metis append_Cons)
  qed
next
  case (negative i)
  from assms(2,4) show ?thesis
  proof (cases rule: number_text_cases)
    case (nonneg v)
    with negative eq decimal_not_minus [of "unat v" q] show ?thesis by (metis append_Cons)
  next
    case (negative j)
    with \<open>s = CHR ''-'' # decimal (nat (- i))\<close> eq
    have "decimal (nat (- i)) @ r = decimal (nat (- j)) @ q" by simp
    then have "nat (- i) = nat (- j) \<and> r = q" using tails by (rule decimal_split)
    with negative \<open>a = NegInt i\<close> \<open>i < 0\<close> show ?thesis by auto
  qed
qed

lemma number_text_lead:
  "number_text a = Some s \<Longrightarrow> s \<noteq> [] \<and> (is_digit (hd s) \<or> hd s = CHR ''-'')"
  using decimal_hd decimal_not_Nil
  by (auto simp: number_text_def split: json_number.splits if_splits)

subsection \<open>Strings\<close>

lemma of_hex_char:
  "d < 16 \<Longrightarrow> of_char (hex_char d) = (if d < 10 then 48 + d else 87 + d :: nat)"
  by (simp add: hex_char_def of_char_of)

lemma hex_char_inj:
  assumes "d < 16" and "e < 16"
  shows "hex_char d = hex_char e \<longleftrightarrow> d = e"
proof
  assume "hex_char d = hex_char e"
  then have "(if d < 10 then 48 + d else 87 + d) = (if e < 10 then 48 + e else 87 + e)"
    using assms by (metis of_hex_char)
  with assms show "d = e" by (simp split: if_splits)
qed simp

lemma control_char_eq:
  assumes "hex_char (of_char c div 16) = hex_char (of_char d div 16)"
    and "hex_char (of_char c mod 16) = hex_char (of_char d mod 16)"
  shows "c = d"
proof -
  have "(of_char x :: nat) div 16 < 16" for x
    using nat_of_char_less_256 [of x] by (simp add: less_mult_imp_div_less)
  with assms have "(of_char c :: nat) div 16 = of_char d div 16" "(of_char c :: nat) mod 16 = of_char d mod 16"
    by (simp_all add: hex_char_inj)
  then have "(of_char c :: nat) = of_char d"
    by (metis div_mult_mod_eq)
  then show ?thesis by simp
qed

lemma escape_cases:
  obtains (plain) "escape_char c = [c]" and "c \<noteq> CHR 0x5C" and "c \<noteq> CHR 0x22"
    | (short) e where "escape_char c = [CHR 0x5C, e]" and "e \<noteq> CHR ''u''"
        and "(e, c) \<in> set [(CHR 0x22, CHR 0x22), (CHR 0x5C, CHR 0x5C), (CHR ''b'', CHR 0x08),
               (CHR ''f'', CHR 0x0C), (CHR ''n'', CHR 0x0A), (CHR ''r'', CHR 0x0D), (CHR ''t'', CHR 0x09)]"
    | (control) "escape_char c = [CHR 0x5C, CHR ''u'', CHR ''0'', CHR ''0'',
              hex_char (of_char c div 16), hex_char (of_char c mod 16)]"
proof (cases "c \<in> set [CHR 0x22, CHR 0x5C, CHR 0x08, CHR 0x0C, CHR 0x0A, CHR 0x0D, CHR 0x09]")
  case True
  with short show ?thesis by (auto simp: escape_char_def)
next
  case False
  then show ?thesis
  proof (cases "of_char c \<le> (0x1F :: nat)")
    case True
    with False have "escape_char c = [CHR 0x5C, CHR ''u'', CHR ''0'', CHR ''0'',
              hex_char (of_char c div 16), hex_char (of_char c mod 16)]"
      by (simp add: escape_char_def)
    then show ?thesis by (rule control)
  next
    case big: False
    with False have "escape_char c = [c]" "c \<noteq> CHR 0x5C" "c \<noteq> CHR 0x22"
      by (simp_all add: escape_char_def)
    then show ?thesis by (rule plain)
  qed
qed

lemma short_escape_inj:
  "(e, c) \<in> set [(CHR 0x22, CHR 0x22), (CHR 0x5C, CHR 0x5C), (CHR ''b'', CHR 0x08),
      (CHR ''f'', CHR 0x0C), (CHR ''n'', CHR 0x0A), (CHR ''r'', CHR 0x0D), (CHR ''t'', CHR 0x09)] \<Longrightarrow>
   (e, d) \<in> set [(CHR 0x22, CHR 0x22), (CHR 0x5C, CHR 0x5C), (CHR ''b'', CHR 0x08),
      (CHR ''f'', CHR 0x0C), (CHR ''n'', CHR 0x0A), (CHR ''r'', CHR 0x0D), (CHR ''t'', CHR 0x09)] \<Longrightarrow>
   c = d"
  by auto

lemma escape_split:
  assumes eq: "escape_char c @ x = escape_char d @ y"
  shows "c = d \<and> x = y"
proof (cases c rule: escape_cases)
  case plain
  with eq show ?thesis by (cases d rule: escape_cases) simp_all
next
  case (short e)
  show ?thesis
  proof (cases d rule: escape_cases)
    case (short e')
    with eq \<open>escape_char c = [CHR 0x5C, e]\<close> have "e' = e" "x = y" by simp_all
    with short \<open>(e, c) \<in> _\<close> short_escape_inj show ?thesis by blast
  qed (use eq short in simp_all)
next
  case control
  show ?thesis
  proof (cases d rule: escape_cases)
    case control': control
    with eq control have "hex_char (of_char c div 16) = hex_char (of_char d div 16)"
      and "hex_char (of_char c mod 16) = hex_char (of_char d mod 16)" and "x = y"
      by simp_all
    then show ?thesis by (blast intro: control_char_eq)
  qed (use eq control in simp_all)
qed

lemma escape_lead:
  obtains b x where "escape_char c = b # x" and "b \<noteq> CHR 0x22"
proof (cases "escape_char c")
  case Nil
  then show ?thesis by (simp add: escape_char_def split: if_splits)
next
  case (Cons b x)
  then have "b \<noteq> CHR 0x22"
    by (auto simp: escape_char_def split: if_splits)
  with Cons that show ?thesis by blast
qed

lemma escapes_split:
  "concat (map escape_char a) @ CHR 0x22 # r = concat (map escape_char b) @ CHR 0x22 # q
   \<Longrightarrow> a = b \<and> r = q"
proof (induction a arbitrary: b)
  case Nil
  show ?case
  proof (cases b)
    case (Cons d b')
    obtain e x where "escape_char d = e # x" "e \<noteq> CHR 0x22" by (rule escape_lead)
    with Nil Cons show ?thesis by simp
  qed (use Nil in simp)
next
  case (Cons c a)
  show ?case
  proof (cases b)
    case Nil
    obtain e x where "escape_char c = e # x" "e \<noteq> CHR 0x22" by (rule escape_lead)
    with Nil Cons.prems show ?thesis by simp
  next
    case (Cons d b')
    with Cons.prems have "c = d \<and> concat (map escape_char a) @ CHR 0x22 # r
        = concat (map escape_char b') @ CHR 0x22 # q"
      using escape_split [of c _ d] by simp
    with Cons Cons.IH show ?thesis by blast
  qed
qed

lemma encode_string_split:
  "encode_string a @ r = encode_string b @ q \<Longrightarrow> a = b \<and> r = q"
  using escapes_split [of a r b q] by (simp add: encode_string_def)

subsection \<open>The encoder is injective\<close>

text \<open>A value as serde builds it: a \<open>NegInt\<close> is negative.\<close>

fun wf_json :: "json \<Rightarrow> bool" where
  "wf_json (JNumber n) = wf_number n"
| "wf_json (JArray vs) = list_all wf_json vs"
| "wf_json (JObject m) = list_all (\<lambda>e. wf_json (snd e)) m"
| "wf_json _ = True"

fun lead_char :: "json \<Rightarrow> char \<Rightarrow> bool" where
  "lead_char JNull c = (c = CHR ''n'')"
| "lead_char (JBool b) c = (c = (if b then CHR ''t'' else CHR ''f''))"
| "lead_char (JNumber _) c = (is_digit c \<or> c = CHR ''-'')"
| "lead_char (JString _) c = (c = CHR 0x22)"
| "lead_char (JArray _) c = (c = CHR ''['')"
| "lead_char (JObject _) c = (c = CHR ''{'')"

lemma encode_lead:
  assumes "encode v = Inr s"
  obtains c t where "s = c # t" and "lead_char v c"
  using assms
  by (cases v; cases s)
    (auto simp: rbind_eq_Inr ok_or_eq_Inr encode_string_def split: if_splits dest!: number_text_lead)

lemma digit_chars [simp]:
  "\<not> is_digit CHR '',''" "\<not> is_digit CHR '']''" "\<not> is_digit CHR ''}''" "\<not> is_digit CHR ''n''"
  "\<not> is_digit CHR ''t''" "\<not> is_digit CHR ''f''" "\<not> is_digit CHR 0x22" "\<not> is_digit CHR ''[''"
  "\<not> is_digit CHR ''{''" "\<not> is_digit CHR ''-''"
  by (simp_all add: is_digit_def)

lemma lead_char_close: "lead_char v c \<Longrightarrow> c \<noteq> CHR '']'' \<and> c \<noteq> CHR ''}'' \<and> c \<noteq> CHR '',''"
  by (cases v) auto

lemma no_digit_items:
  "encode_items False vs = Inr s \<Longrightarrow> no_digit (s @ CHR '']'' # r)"
  by (cases vs) (auto simp: rbind_eq_Inr no_digit_def)

lemma no_digit_members:
  "encode_members False m = Inr s \<Longrightarrow> no_digit (s @ CHR ''}'' # r)"
  by (cases m) (auto simp: rbind_eq_Inr no_digit_def)

definition splits_value :: "json \<Rightarrow> bool" where
  "splits_value v \<longleftrightarrow> (\<forall>w s t r q. wf_json v \<longrightarrow> wf_json w \<longrightarrow> encode v = Inr s \<longrightarrow> encode w = Inr t \<longrightarrow>
     no_digit r \<longrightarrow> no_digit q \<longrightarrow> s @ r = t @ q \<longrightarrow> v = w \<and> r = q)"

definition splits_items :: "bool \<Rightarrow> json list \<Rightarrow> bool" where
  "splits_items f vs \<longleftrightarrow> (\<forall>ws s t r q. list_all wf_json vs \<longrightarrow> list_all wf_json ws \<longrightarrow>
     encode_items f vs = Inr s \<longrightarrow> encode_items f ws = Inr t \<longrightarrow>
     s @ CHR '']'' # r = t @ CHR '']'' # q \<longrightarrow> vs = ws \<and> r = q)"

definition splits_members :: "bool \<Rightarrow> jmap \<Rightarrow> bool" where
  "splits_members f m \<longleftrightarrow> (\<forall>n s t r q. list_all (\<lambda>e. wf_json (snd e)) m \<longrightarrow>
     list_all (\<lambda>e. wf_json (snd e)) n \<longrightarrow>
     encode_members f m = Inr s \<longrightarrow> encode_members f n = Inr t \<longrightarrow>
     s @ CHR ''}'' # r = t @ CHR ''}'' # q \<longrightarrow> m = n \<and> r = q)"

lemma splits_valueD:
  "splits_value v \<Longrightarrow> wf_json v \<Longrightarrow> wf_json w \<Longrightarrow> encode v = Inr s \<Longrightarrow> encode w = Inr t \<Longrightarrow>
   no_digit r \<Longrightarrow> no_digit q \<Longrightarrow> s @ r = t @ q \<Longrightarrow> v = w \<and> r = q"
  unfolding splits_value_def by blast

lemma splits_itemsD:
  "splits_items f vs \<Longrightarrow> encode_items f vs = Inr s \<Longrightarrow> encode_items f ws = Inr t \<Longrightarrow>
   list_all wf_json vs \<Longrightarrow> list_all wf_json ws \<Longrightarrow>
   s @ CHR '']'' # r = t @ CHR '']'' # q \<Longrightarrow> vs = ws \<and> r = q"
  unfolding splits_items_def by blast

lemma splits_membersD:
  "splits_members f m \<Longrightarrow> encode_members f m = Inr s \<Longrightarrow> encode_members f n = Inr t \<Longrightarrow>
   list_all (\<lambda>e. wf_json (snd e)) m \<Longrightarrow> list_all (\<lambda>e. wf_json (snd e)) n \<Longrightarrow>
   s @ CHR ''}'' # r = t @ CHR ''}'' # q \<Longrightarrow> m = n \<and> r = q"
  unfolding splits_members_def by blast

lemma splits_scalar:
  assumes "encode v = Inr s" and "encode w = Inr t" and "s @ r = t @ q"
    and "\<not> (\<exists>c. lead_char v c \<and> lead_char w c)"
  shows False
  using assms encode_lead [of v s] encode_lead [of w t] by (metis append_Cons list.inject)

lemma splits_items_step:
  assumes v: "splits_value v" and vs: "\<And>a. encode v = Inr a \<Longrightarrow> splits_items False vs"
  shows "splits_items f (v # vs)"
  unfolding splits_items_def
proof (intro allI impI)
  fix ws s t r q
  assume wf: "list_all wf_json (v # vs)" "list_all wf_json ws"
    and enc: "encode_items f (v # vs) = Inr s" "encode_items f ws = Inr t"
    and eq: "s @ CHR '']'' # r = t @ CHR '']'' # q"
  from enc(1) obtain a b where ab: "encode v = Inr a" "encode_items False vs = Inr b"
    and s: "s = (if f then [] else '','') @ a @ b"
    by (auto simp: rbind_eq_Inr)
  obtain c a' where a: "a = c # a'" "lead_char v c"
    using ab(1) by (rule encode_lead)
  show "v # vs = ws \<and> r = q"
  proof (cases ws)
    case Nil
    with enc(2) eq s a lead_char_close [OF a(2)] show ?thesis by (auto split: if_splits)
  next
    case (Cons w ws')
    with enc(2) obtain d e where de: "encode w = Inr d" "encode_items False ws' = Inr e"
      and t: "t = (if f then [] else '','') @ d @ e"
      by (auto simp: rbind_eq_Inr)
    from eq s t have "a @ b @ CHR '']'' # r = d @ e @ CHR '']'' # q"
      by (simp split: if_splits)
    with wf Cons have "v = w \<and> b @ CHR '']'' # r = e @ CHR '']'' # q"
      by (intro splits_valueD [OF v _ _ ab(1) de(1) no_digit_items [OF ab(2)] no_digit_items [OF de(2)]])
        simp_all
    moreover from this wf Cons have "vs = ws' \<and> r = q"
      by (intro splits_itemsD [OF vs [OF ab(1)] ab(2) de(2)]) simp_all
    ultimately show ?thesis using Cons by blast
  qed
qed

lemma splits_items_Nil: "splits_items f []"
  unfolding splits_items_def
proof (intro allI impI)
  fix ws s t r q
  assume enc: "encode_items f [] = Inr s" "encode_items f ws = Inr t"
    and eq: "s @ CHR '']'' # r = t @ CHR '']'' # q"
  show "[] = ws \<and> r = q"
  proof (cases ws)
    case (Cons w ws')
    with enc(2) obtain d e where de: "encode w = Inr d" and t: "t = (if f then [] else '','') @ d @ e"
      by (auto simp: rbind_eq_Inr)
    obtain c d' where d: "d = c # d'" "lead_char w c" using de by (rule encode_lead)
    with enc(1) eq t lead_char_close [OF d(2)] show ?thesis by (auto split: if_splits)
  qed (use enc eq in simp)
qed

lemma splits_members_step:
  assumes v: "splits_value v" and m: "\<And>a. encode v = Inr a \<Longrightarrow> splits_members False m"
  shows "splits_members f ((k, v) # m)"
  unfolding splits_members_def
proof (intro allI impI)
  fix n s t r q
  assume wf: "list_all (\<lambda>e. wf_json (snd e)) ((k, v) # m)" "list_all (\<lambda>e. wf_json (snd e)) n"
    and enc: "encode_members f ((k, v) # m) = Inr s" "encode_members f n = Inr t"
    and eq: "s @ CHR ''}'' # r = t @ CHR ''}'' # q"
  from enc(1) obtain a b where ab: "encode v = Inr a" "encode_members False m = Inr b"
    and s: "s = (if f then [] else '','') @ encode_string k @ '':'' @ a @ b"
    by (auto simp: rbind_eq_Inr)
  show "(k, v) # m = n \<and> r = q"
  proof (cases n)
    case Nil
    with enc(2) eq s show ?thesis by (auto simp: encode_string_def split: if_splits)
  next
    case (Cons e n')
    obtain l w where e: "e = (l, w)" by (cases e)
    with Cons enc(2) obtain d g where dg: "encode w = Inr d" "encode_members False n' = Inr g"
      and t: "t = (if f then [] else '','') @ encode_string l @ '':'' @ d @ g"
      by (auto simp: rbind_eq_Inr)
    from eq s t have "encode_string k @ CHR '':'' # a @ b @ CHR ''}'' # r
        = encode_string l @ CHR '':'' # d @ g @ CHR ''}'' # q"
      by (simp split: if_splits)
    from encode_string_split [OF this]
    have kl: "k = l" and rest: "a @ b @ CHR ''}'' # r = d @ g @ CHR ''}'' # q"
      by simp_all
    from rest wf Cons e have "v = w \<and> b @ CHR ''}'' # r = g @ CHR ''}'' # q"
      by (intro splits_valueD [OF v _ _ ab(1) dg(1) no_digit_members [OF ab(2)] no_digit_members [OF dg(2)]])
        simp_all
    moreover from this wf Cons have "m = n' \<and> r = q"
      by (intro splits_membersD [OF m [OF ab(1)] ab(2) dg(2)]) simp_all
    ultimately show ?thesis using Cons e kl by blast
  qed
qed

lemma splits_members_Nil: "splits_members f []"
  unfolding splits_members_def
proof (intro allI impI)
  fix n s t r q
  assume enc: "encode_members f [] = Inr s" "encode_members f n = Inr t"
    and eq: "s @ CHR ''}'' # r = t @ CHR ''}'' # q"
  show "[] = n \<and> r = q"
    by (cases n) (use enc eq in \<open>auto simp: rbind_eq_Inr encode_string_def split: if_splits\<close>)
qed

lemma splits_leaf:
  assumes "v = JNull \<or> (\<exists>b. v = JBool b)"
  shows "splits_value v"
  unfolding splits_value_def
proof (intro allI impI)
  fix w s t r q
  assume enc: "encode v = Inr s" "encode w = Inr t" and eq: "s @ r = t @ q"
  have "\<exists>c. lead_char v c \<and> lead_char w c"
    using splits_scalar [OF enc eq] by blast
  then have "w = v" using assms by (cases w) (auto split: if_splits)
  with enc eq show "v = w \<and> r = q" by simp
qed

lemma splits_number: "splits_value (JNumber a)"
  unfolding splits_value_def
proof (intro allI impI)
  fix w s t r q
  assume wf: "wf_json (JNumber a)" "wf_json w" and enc: "encode (JNumber a) = Inr s" "encode w = Inr t"
    and tails: "no_digit r" "no_digit q" and eq: "s @ r = t @ q"
  have "\<exists>c. lead_char (JNumber a) c \<and> lead_char w c"
    using splits_scalar [OF enc eq] by blast
  then obtain b where w: "w = JNumber b" by (cases w) (auto split: if_splits)
  with enc have "number_text a = Some s" "number_text b = Some t"
    by (simp_all add: ok_or_eq_Inr)
  with wf w eq tails have "a = b \<and> r = q"
    by (intro number_split [of a s b t]) simp_all
  with w show "JNumber a = w \<and> r = q" by simp
qed

lemma splits_string: "splits_value (JString a)"
  unfolding splits_value_def
proof (intro allI impI)
  fix w s t r q
  assume enc: "encode (JString a) = Inr s" "encode w = Inr t" and eq: "s @ r = t @ q"
  have "\<exists>c. lead_char (JString a) c \<and> lead_char w c"
    using splits_scalar [OF enc eq] by blast
  then obtain b where w: "w = JString b" by (cases w) (auto split: if_splits)
  with enc eq have "encode_string a @ r = encode_string b @ q" by simp
  from encode_string_split [OF this] w show "JString a = w \<and> r = q" by simp
qed

lemma encode_splits:
  "splits_value v" "splits_items f vs" "splits_members f m"
proof (induction v and f vs and f m rule: encode_encode_items_encode_members.induct)
  case (5 vs)
  show ?case
    unfolding splits_value_def
  proof (intro allI impI)
    fix w s t r q
    assume wf: "wf_json (JArray vs)" "wf_json w" and enc: "encode (JArray vs) = Inr s" "encode w = Inr t"
      and eq: "s @ r = t @ q"
    have "\<exists>c. lead_char (JArray vs) c \<and> lead_char w c"
      using splits_scalar [OF enc eq] by blast
    then obtain ws where w: "w = JArray ws" by (cases w) (auto split: if_splits)
    with enc obtain a b where ab: "encode_items True vs = Inr a" "encode_items True ws = Inr b"
      and st: "s = CHR ''['' # a @ '']''" "t = CHR ''['' # b @ '']''"
      by (auto simp: rbind_eq_Inr)
    with eq wf w have "vs = ws \<and> r = q"
      by (intro splits_itemsD [OF 5 ab]) simp_all
    with w show "JArray vs = w \<and> r = q" by simp
  qed
next
  case (6 m)
  show ?case
    unfolding splits_value_def
  proof (intro allI impI)
    fix w s t r q
    assume wf: "wf_json (JObject m)" "wf_json w" and enc: "encode (JObject m) = Inr s" "encode w = Inr t"
      and eq: "s @ r = t @ q"
    have "\<exists>c. lead_char (JObject m) c \<and> lead_char w c"
      using splits_scalar [OF enc eq] by blast
    then obtain n where w: "w = JObject n" by (cases w) (auto split: if_splits)
    with enc obtain a b where ab: "encode_members True m = Inr a" "encode_members True n = Inr b"
      and st: "s = CHR ''{'' # a @ ''}''" "t = CHR ''{'' # b @ ''}''"
      by (auto simp: rbind_eq_Inr)
    with eq wf w have "m = n \<and> r = q"
      by (intro splits_membersD [OF 6 ab]) simp_all
    with w show "JObject m = w \<and> r = q" by simp
  qed
next
  case (8 f v vs)
  then show ?case by (intro splits_items_step) simp_all
next
  case (10 f k v m)
  then show ?case by (intro splits_members_step) simp_all
qed (auto intro: splits_items_Nil splits_members_Nil splits_leaf splits_number splits_string)

lemma encode_inj:
  assumes "wf_json v" and "wf_json w" and "encode v = Inr s" and "encode w = Inr s"
  shows "v = w"
  using splits_valueD [OF encode_splits(1) assms, of "[]" "[]"] by (simp add: no_digit_def)

subsection \<open>Which values are accepted, and what the digest binds\<close>

fun no_floats :: "json \<Rightarrow> bool" where
  "no_floats (JNumber (Float _)) = False"
| "no_floats (JArray vs) = list_all no_floats vs"
| "no_floats (JObject m) = list_all (\<lambda>e. no_floats (snd e)) m"
| "no_floats _ = True"

lemma encode_accepts:
  "(\<exists>s. encode v = Inr s) = no_floats v"
  "(\<exists>s. encode_items f vs = Inr s) = list_all no_floats vs"
  "(\<exists>s. encode_members f m = Inr s) = list_all (\<lambda>e. no_floats (snd e)) m"
proof (induction v and f vs and f m rule: encode_encode_items_encode_members.induct)
  case (3 n)
  then show ?case by (cases n) (auto simp: number_text_def)
qed (auto simp: rbind_eq_Inr)

lemma encode_errors:
  "encode v = Inl e \<Longrightarrow> e = UnsupportedNumber"
  "encode_items f vs = Inl e \<Longrightarrow> e = UnsupportedNumber"
  "encode_members f m = Inl e \<Longrightarrow> e = UnsupportedNumber"
  by (induction v and f vs and f m rule: encode_encode_items_encode_members.induct)
    (auto simp: rbind_eq_Inl ok_or_eq_Inl)

lemma from_value_verifies: "from_value X v = Inr p \<Longrightarrow> payload_verify X p = Inr ()"
  by (auto simp: from_value_def payload_verify_def rbind_eq_Inr)

lemma from_canonical_parts_eq_Inr:
  "from_canonical_parts X j d = Inr p \<longleftrightarrow>
     (\<exists>v. from_str X j = Some v \<and> encode v = Inr j) \<and> d = sha256_hex X j \<and>
     p = \<lparr>payload_json = j, payload_sha256 = d\<rparr>"
  by (auto simp: from_canonical_parts_def from_value_def result_simps)

end
