(* ===== verification/Rust_Text.thy ===== *)
theory Rust_Text
  imports Json_Canonical "HOL-Library.Sublist"
begin

section \<open>Text of the standard library\<close>

text \<open>
  The string operations of the standard library that the validators of the engine use, on strings as
  their UTF-8 bytes: \<open>split\<close>, \<open>contains\<close>, \<open>strip_prefix\<close>, \<open>rsplit_once\<close>, the test \<open>trim() == self\<close>,
  parsing of unsigned numbers, and the textual form of IPv4 and IPv6 addresses. The operations on
  slices \<open>windows(2)\<close> and the ordered-and-unique test built on it are here too.
\<close>

subsection \<open>Splitting and searching\<close>

text \<open>\<open>split(c)\<close> yields one part more than there are separators.\<close>

fun split_on :: "char \<Rightarrow> string \<Rightarrow> string list" where
  "split_on c [] = [[]]"
| "split_on c (x # xs) =
     (if x = c then [] # split_on c xs
      else (x # hd (split_on c xs)) # tl (split_on c xs))"

definition contains_char :: "string \<Rightarrow> char \<Rightarrow> bool" where
  "contains_char s c \<longleftrightarrow> c \<in> set s"

definition strip_prefix :: "string \<Rightarrow> string \<Rightarrow> string option" where
  "strip_prefix p s = (if take (length p) s = p then Some (drop (length p) s) else None)"

definition ends_with :: "string \<Rightarrow> string \<Rightarrow> bool" where
  "ends_with s p \<longleftrightarrow> length p \<le> length s \<and> drop (length s - length p) s = p"

definition rsplit_once :: "char \<Rightarrow> string \<Rightarrow> (string \<times> string) option" where
  "rsplit_once c s =
     (if c \<in> set s
      then Some (rev (tl (dropWhile (\<lambda>x. x \<noteq> c) (rev s))), rev (takeWhile (\<lambda>x. x \<noteq> c) (rev s)))
      else None)"

lemma split_on_not_Nil [simp]: "split_on c s \<noteq> []"
  by (cases s) auto

text \<open>For evaluation, the parts of the rest are computed once.\<close>

lemma split_on_code [code]:
  "split_on c [] = [[]]"
  "split_on c (x # xs) =
     (let ps = split_on c xs in if x = c then [] # ps else (case ps of [] \<Rightarrow> [] | p # qs \<Rightarrow> (x # p) # qs))"
  by (simp_all add: Let_def split: list.split)

lemma split_on_sep: "split_on c (a @ c # b) = split_on c a @ split_on c b"
  by (induction a) auto

lemma split_on_free: "c \<notin> set a \<Longrightarrow> split_on c a = [a]"
  by (induction a) auto

lemma split_on_parts: "p \<in> set (split_on c s) \<Longrightarrow> c \<notin> set p"
proof (induction s arbitrary: p)
  case (Cons x xs)
  obtain q qs where q: "split_on c xs = q # qs"
    by (cases "split_on c xs") auto
  with Cons show ?case
    by (auto split: if_splits)
qed simp

text \<open>Joining the parts with the separator gives the string back.\<close>

fun join_on :: "char \<Rightarrow> string list \<Rightarrow> string" where
  "join_on c [] = []"
| "join_on c [p] = p"
| "join_on c (p # ps) = p @ c # join_on c ps"

lemma join_split: "join_on c (split_on c s) = s"
proof (induction s)
  case (Cons x xs)
  then show ?case
    by (cases "split_on c xs"; cases "tl (split_on c xs)") auto
qed simp

subsection \<open>Trimmed text\<close>

text \<open>
  \<open>trim\<close> drops the characters with the Unicode property \<open>White_Space\<close> at both ends. The list has their
  UTF-8 encodings; as UTF-8 synchronises itself, a string begins or ends with such a character exactly
  when its bytes do.
\<close>

definition byte :: "nat \<Rightarrow> char" where
  "byte n = char_of n"

definition white_space :: "string list" where
  "white_space =
     map (\<lambda>b. [byte b]) [9, 10, 11, 12, 13, 32] @
     map (\<lambda>b. [byte 0xC2, byte b]) [0x85, 0xA0] @
     [[byte 0xE1, byte 0x9A, byte 0x80]] @
     map (\<lambda>b. [byte 0xE2, byte 0x80, byte b])
       [0x80, 0x81, 0x82, 0x83, 0x84, 0x85, 0x86, 0x87, 0x88, 0x89, 0x8A, 0xA8, 0xA9, 0xAF] @
     [[byte 0xE2, byte 0x81, byte 0x9F], [byte 0xE3, byte 0x80, byte 0x80]]"

definition trimmed :: "string \<Rightarrow> bool" where
  "trimmed s \<longleftrightarrow> \<not> list_ex (\<lambda>w. starts_with s w \<or> ends_with s w) white_space"

text \<open>The bounded, trimmed and non-empty text that the engine crates check with functions of this name.\<close>

definition valid_text :: "string \<Rightarrow> nat \<Rightarrow> bool" where
  "valid_text s max_bytes \<longleftrightarrow> s \<noteq> [] \<and> length s \<le> max_bytes \<and> trimmed s"

subsection \<open>Numbers\<close>

text \<open>\<open>parse::<u16>\<close>: an optional plus sign and decimal digits, whose number fits in 16 bits.\<close>

definition parse_u16 :: "string \<Rightarrow> nat option" where
  "parse_u16 s =
     (let digits = (if s \<noteq> [] \<and> hd s = CHR ''+'' then tl s else s) in
      if digits = [] \<or> \<not> list_all is_digit digits \<or> decimal_value digits > 65535 then None
      else Some (decimal_value digits))"

definition alphanumeric :: "char \<Rightarrow> bool" where
  "alphanumeric c \<longleftrightarrow> is_digit c \<or> (CHR ''a'' \<le> c \<and> c \<le> CHR ''z'') \<or> (CHR ''A'' \<le> c \<and> c \<le> CHR ''Z'')"

subsection \<open>Internet addresses\<close>

text \<open>
  A dotted quad: four decimal numbers of at most three digits, at most 255 and without leading zeros.
  It is printed as it is read.
\<close>

definition parse_octet :: "string \<Rightarrow> nat option" where
  "parse_octet s =
     (if s = [] \<or> length s > 3 \<or> \<not> list_all is_digit s \<or> (length s > 1 \<and> hd s = CHR ''0'') \<or> decimal_value s > 255
      then None else Some (decimal_value s))"

definition parse_ipv4 :: "string \<Rightarrow> nat list option" where
  "parse_ipv4 s =
     (let parts = map parse_octet (split_on CHR ''.'' s) in
      if length parts = 4 \<and> list_all (\<lambda>p. p \<noteq> None) parts then Some (map the parts) else None)"

definition show_ipv4 :: "nat list \<Rightarrow> string" where
  "show_ipv4 octets = join_on CHR ''.'' (map decimal octets)"

text \<open>
  The groups of an IPv6 address: one to four hexadecimal digits each, separated by colons. Reading
  stops before the first text that is not one more group, and the remaining text is returned. Dotted
  quads inside IPv6 text are not modelled: the caller excludes dots before it parses.
\<close>

definition hex_digit :: "char \<Rightarrow> nat option" where
  "hex_digit c =
     (if is_digit c then Some (of_char c - 48)
      else if CHR ''a'' \<le> c \<and> c \<le> CHR ''f'' then Some (of_char c - 87)
      else if CHR ''A'' \<le> c \<and> c \<le> CHR ''F'' then Some (of_char c - 55)
      else None)"

definition hex_value :: "string \<Rightarrow> nat" where
  "hex_value s = foldl (\<lambda>n c. 16 * n + the (hex_digit c)) 0 s"

definition read_group :: "string \<Rightarrow> (nat \<times> string) option" where
  "read_group s =
     (let digits = takeWhile (\<lambda>c. hex_digit c \<noteq> None) s in
      if digits = [] \<or> length digits > 4 then None
      else Some (hex_value digits, dropWhile (\<lambda>c. hex_digit c \<noteq> None) s))"

fun read_groups :: "nat \<Rightarrow> bool \<Rightarrow> string \<Rightarrow> nat list \<times> string" where
  "read_groups 0 first s = ([], s)"
| "read_groups (Suc n) first s =
     (case (if first then Some s else strip_prefix '':'' s) of
        None \<Rightarrow> ([], s)
      | Some r \<Rightarrow>
          (case read_group r of
             None \<Rightarrow> ([], s)
           | Some (g, t) \<Rightarrow> (g # fst (read_groups n False t), snd (read_groups n False t))))"

definition parse_ipv6 :: "string \<Rightarrow> nat list option" where
  "parse_ipv6 s =
     (case read_groups 8 True s of (head, rest) \<Rightarrow>
        if length head = 8 then (if rest = [] then Some head else None)
        else
          (case strip_prefix ''::'' rest of
             None \<Rightarrow> None
           | Some t \<Rightarrow>
               (case read_groups (8 - (length head + 1)) True t of (tail, rest') \<Rightarrow>
                  if rest' = [] then Some (head @ replicate (8 - length head - length tail) 0 @ tail) else None)))"

text \<open>The longest run of zero groups, the first of them if there are several, as start and length.\<close>

fun longest_zeros :: "nat \<Rightarrow> nat \<times> nat \<Rightarrow> nat \<times> nat \<Rightarrow> nat list \<Rightarrow> nat \<times> nat" where
  "longest_zeros i longest current [] = longest"
| "longest_zeros i longest current (g # gs) =
     (if g = 0
      then (let current' = (if snd current = 0 then (i, 1) else (fst current, snd current + 1)) in
            longest_zeros (Suc i) (if snd current' > snd longest then current' else longest) current' gs)
      else longest_zeros (Suc i) longest (0, 0) gs)"

fun hexadecimal :: "nat \<Rightarrow> string" where
  "hexadecimal n = (if n < 16 then [hex_char n] else hexadecimal (n div 16) @ [hex_char (n mod 16)])"

declare hexadecimal.simps [simp del]

definition show_groups :: "nat list \<Rightarrow> string" where
  "show_groups gs = join_on CHR '':'' (map hexadecimal gs)"

definition show_ipv6 :: "nat list \<Rightarrow> string" where
  "show_ipv6 gs =
     (if take 5 gs = [0, 0, 0, 0, 0] \<and> gs ! 5 = 0xFFFF
      then ''::ffff:'' @ show_ipv4 [gs ! 6 div 256, gs ! 6 mod 256, gs ! 7 div 256, gs ! 7 mod 256]
      else
        (case longest_zeros 0 (0, 0) (0, 0) gs of (start, len) \<Rightarrow>
           if len > 1 then show_groups (take start gs) @ ''::'' @ show_groups (drop (start + len) gs)
           else show_groups gs))"

subsection \<open>Neighbours in a slice\<close>

text \<open>\<open>windows(2).any(...)\<close> and \<open>windows(2).all(pair[0] < pair[1])\<close>.\<close>

fun any_pair :: "('a \<Rightarrow> 'a \<Rightarrow> bool) \<Rightarrow> 'a list \<Rightarrow> bool" where
  "any_pair P (x # y # xs) = (P x y \<or> any_pair P (y # xs))"
| "any_pair P _ = False"

definition ordered_unique :: "'a::linorder list \<Rightarrow> bool" where
  "ordered_unique xs \<longleftrightarrow> \<not> any_pair (\<lambda>x y. \<not> x < y) xs"

lemma any_pair_successively: "any_pair P xs \<longleftrightarrow> \<not> successively (\<lambda>x y. \<not> P x y) xs"
  by (induction P xs rule: any_pair.induct) auto

lemma ordered_unique_iff: "ordered_unique xs \<longleftrightarrow> sorted_wrt (<) xs" for xs :: "'a::linorder list"
proof -
  have "transp ((<) :: 'a \<Rightarrow> 'a \<Rightarrow> bool)"
    by (auto intro: transpI)
  then show ?thesis
    by (simp add: ordered_unique_def any_pair_successively successively_conv_sorted_wrt)
qed

text \<open>In a list sorted by a key, neighbours with equal keys are the only repetitions of a key.\<close>

lemma any_pair_sorted_key:
  assumes "sorted (map f xs)"
  shows "any_pair (\<lambda>x y. f x = f y) xs \<longleftrightarrow> \<not> distinct (map f xs)"
  using assms
proof (induction xs rule: induct_list012)
  case (3 x y zs)
  then have "f x \<le> f y" "\<And>z. z \<in> set zs \<Longrightarrow> f y \<le> f z"
    by auto
  then have "f x \<in> f ` set (y # zs) \<longleftrightarrow> f x = f y"
    by (auto dest: antisym)
  with 3 show ?case
    by auto
qed auto

end
