(* ===== verification/Tool_Access.thy ===== *)
theory Tool_Access
  imports Rust_Text
begin

section \<open>Tool access policies\<close>

text \<open>
  The exact resource declarations of \<open>access.rs\<close>: canonical keys per namespace, the sorted access set of
  one invocation, and the policy that is the ceiling of a tool. The main result is containment: a
  filesystem access that a policy covers names a path of plain components below one of the policy's
  roots, for the roots compared component by component.
\<close>

subsection \<open>Accesses\<close>

datatype PreparationErrorCode = InvalidModelCallId | InvalidToolName | ToolNotAdmitted | InvalidArgumentsJson
  | ArgumentsSchemaMismatch | InvalidToolDefinition | UnsupportedSchemaKeyword | NonCanonicalValue
  | EffectAccessInvalid | SandboxRequirementInvalid

datatype AccessNamespace = Filesystem | Process | Network | Runtime

datatype AccessMode = Read | Write | Exclusive

text \<open>The derived orders are those of the declarations.\<close>

fun namespace_rank :: "AccessNamespace \<Rightarrow> nat" where
  "namespace_rank Filesystem = 0"
| "namespace_rank Process = 1"
| "namespace_rank Network = 2"
| "namespace_rank Runtime = 3"

fun mode_rank :: "AccessMode \<Rightarrow> nat" where
  "mode_rank Read = 0"
| "mode_rank Write = 1"
| "mode_rank Exclusive = 2"

record ResourceAccess =
  ra_namespace :: AccessNamespace
  ra_resource_key :: string
  ra_mode :: AccessMode

definition access_rank :: "ResourceAccess \<Rightarrow> nat \<times> string \<times> nat" where
  "access_rank a = (namespace_rank (ra_namespace a), ra_resource_key a, mode_rank (ra_mode a))"

subsection \<open>Canonical keys\<close>

definition canonical_port :: "string \<Rightarrow> bool" where
  "canonical_port s \<longleftrightarrow> (case parse_u16 s of None \<Rightarrow> False | Some n \<Rightarrow> n \<noteq> 0 \<and> decimal n = s)"

definition canonical_dns :: "string \<Rightarrow> bool" where
  "canonical_dns host \<longleftrightarrow>
     length host \<le> 253 \<and>
     list_all (\<lambda>c. (CHR ''a'' \<le> c \<and> c \<le> CHR ''z'') \<or> is_digit c \<or> c = CHR ''-'' \<or> c = CHR ''.'') host \<and>
     \<not> starts_with host ''.'' \<and> \<not> ends_with host ''.'' \<and>
     \<not> list_ex (\<lambda>l. l = [] \<or> length l > 63 \<or> starts_with l ''-'' \<or> ends_with l ''-'') (split_on CHR ''.'' host)"

text \<open>The host and, where there is one, the port of an authority; \<open>None\<close> where the code returns early.\<close>

definition origin_parts :: "string \<Rightarrow> (string \<times> string option) option" where
  "origin_parts authority =
     (if starts_with authority ''['' then
        (if \<not> contains_char authority CHR '']'' then None
         else
           (let host = tl (takeWhile (\<lambda>c. c \<noteq> CHR '']'') authority);
                rest = tl (dropWhile (\<lambda>c. c \<noteq> CHR '']'') authority) in
            if contains_char host CHR ''.'' \<or> map_option show_ipv6 (parse_ipv6 host) \<noteq> Some host then None
            else Some (host, if starts_with rest '':'' then Some (tl rest) else None)))
      else
        (case rsplit_once CHR '':'' authority of
           None \<Rightarrow> None
         | Some (host, port) \<Rightarrow>
             if map_option show_ipv4 (parse_ipv4 host) \<noteq> Some host \<and> \<not> canonical_dns host then None
             else Some (host, Some port)))"

definition canonical_origin :: "string \<Rightarrow> bool" where
  "canonical_origin origin \<longleftrightarrow>
     (case (case strip_prefix ''http://'' origin of
              Some a \<Rightarrow> Some a | None \<Rightarrow> strip_prefix ''https://'' origin) of
        None \<Rightarrow> False
      | Some authority \<Rightarrow>
          \<not> list_ex (contains_char authority) ''/?#@'' \<and>
          (case origin_parts authority of
             None \<Rightarrow> False
           | Some (host, port) \<Rightarrow> host \<noteq> [] \<and> (case port of None \<Rightarrow> False | Some p \<Rightarrow> canonical_port p)))"

fun valid_key :: "AccessNamespace \<Rightarrow> string \<Rightarrow> bool" where
  "valid_key Filesystem key \<longleftrightarrow>
     key = ''.'' \<or>
     (\<not> starts_with key ''/'' \<and> \<not> contains_char key (byte 0) \<and> \<not> contains_char key CHR 0x5C \<and>
      list_all (\<lambda>p. p \<noteq> [] \<and> p \<noteq> ''.'' \<and> p \<noteq> ''..'') (split_on CHR ''/'' key))"
| "valid_key Network key \<longleftrightarrow> canonical_origin key"
| "valid_key ns key \<longleftrightarrow> key \<noteq> [] \<and> list_all (\<lambda>c. alphanumeric c \<or> c \<in> set ''-_.:'') key"

definition resource_access :: "AccessNamespace \<Rightarrow> string \<Rightarrow> AccessMode \<Rightarrow> PreparationErrorCode + ResourceAccess" where
  "resource_access ns key mode =
     (if \<not> valid_key ns key then Inl EffectAccessInvalid
      else Inr \<lparr>ra_namespace = ns, ra_resource_key = key, ra_mode = mode\<rparr>)"

type_synonym InvocationAccessSet = "ResourceAccess list"

definition same_resource :: "ResourceAccess \<Rightarrow> ResourceAccess \<Rightarrow> bool" where
  "same_resource a b \<longleftrightarrow> ra_namespace a = ra_namespace b \<and> ra_resource_key a = ra_resource_key b"

definition invocation_access_set :: "ResourceAccess list \<Rightarrow> PreparationErrorCode + InvocationAccessSet" where
  "invocation_access_set accesses =
     (let sorted = sort_key access_rank accesses in
      if sorted = [] \<or> any_pair same_resource sorted then Inl EffectAccessInvalid else Inr sorted)"

subsection \<open>Policies\<close>

record AccessPolicyEntry =
  ap_resource :: string
  ap_allowed_modes :: "AccessMode list"

definition access_policy_entry :: "string \<Rightarrow> AccessMode list \<Rightarrow> PreparationErrorCode + AccessPolicyEntry" where
  "access_policy_entry resource modes =
     (let allowed = sort_key mode_rank modes in
      if resource = [] \<or> allowed = [] \<or> any_pair (=) allowed then Inl EffectAccessInvalid
      else Inr \<lparr>ap_resource = resource, ap_allowed_modes = allowed\<rparr>)"

record ToolAccessPolicyV1 =
  tp_policy_revision :: string
  tp_filesystem_roots :: "AccessPolicyEntry list"
  tp_process_lanes :: "AccessPolicyEntry list"
  tp_network_origins :: "AccessPolicyEntry list"
  tp_runtime_lanes :: "AccessPolicyEntry list"
  tp_max_accesses :: nat
  tp_max_result_bytes :: u64

definition policy_entries ::
  "AccessNamespace \<Rightarrow> AccessPolicyEntry list \<Rightarrow> PreparationErrorCode + AccessPolicyEntry list" where
  "policy_entries ns entries =
     (let sorted = sort_key ap_resource entries in
      if list_ex (\<lambda>e. \<not> valid_key ns (ap_resource e)) sorted
       \<or> any_pair (\<lambda>a b. ap_resource a = ap_resource b) sorted
      then Inl EffectAccessInvalid else Inr sorted)"

definition tool_access_policy ::
  "string \<Rightarrow> AccessPolicyEntry list \<Rightarrow> AccessPolicyEntry list \<Rightarrow> AccessPolicyEntry list \<Rightarrow> AccessPolicyEntry list \<Rightarrow>
   nat \<Rightarrow> u64 \<Rightarrow> PreparationErrorCode + ToolAccessPolicyV1" where
  "tool_access_policy revision roots processes origins lanes max_accesses max_bytes =
     rbind (policy_entries Filesystem roots) (\<lambda>fs.
     rbind (policy_entries Process processes) (\<lambda>ps.
     rbind (policy_entries Network origins) (\<lambda>ns.
     rbind (policy_entries Runtime lanes) (\<lambda>rs.
       if revision = [] \<or> max_accesses = 0 \<or> max_bytes = 0 then Inl EffectAccessInvalid
       else Inr \<lparr>tp_policy_revision = revision, tp_filesystem_roots = fs, tp_process_lanes = ps,
                 tp_network_origins = ns, tp_runtime_lanes = rs, tp_max_accesses = max_accesses,
                 tp_max_result_bytes = max_bytes\<rparr>))))"

fun policy_for :: "ToolAccessPolicyV1 \<Rightarrow> AccessNamespace \<Rightarrow> AccessPolicyEntry list" where
  "policy_for p Filesystem = tp_filesystem_roots p"
| "policy_for p Process = tp_process_lanes p"
| "policy_for p Network = tp_network_origins p"
| "policy_for p Runtime = tp_runtime_lanes p"

definition entry_covers :: "AccessPolicyEntry \<Rightarrow> ResourceAccess \<Rightarrow> bool" where
  "entry_covers e a \<longleftrightarrow>
     ra_mode a \<in> set (ap_allowed_modes e) \<and>
     (case ra_namespace a of
        Filesystem \<Rightarrow>
          ap_resource e = ''.'' \<or> ra_resource_key a = ap_resource e
          \<or> starts_with (ra_resource_key a) (ap_resource e @ ''/'')
      | _ \<Rightarrow> ra_resource_key a = ap_resource e)"

definition covers :: "ToolAccessPolicyV1 \<Rightarrow> InvocationAccessSet \<Rightarrow> bool" where
  "covers p accesses \<longleftrightarrow>
     length accesses \<le> tp_max_accesses p \<and>
     list_all (\<lambda>a. list_ex (\<lambda>e. entry_covers e a) (policy_for p (ra_namespace a))) accesses"

subsection \<open>Canonical sets\<close>

lemma access_rank_resource:
  "same_resource = (\<lambda>a b. (fst (access_rank a), fst (snd (access_rank a))) = (fst (access_rank b), fst (snd (access_rank b))))"
proof (intro ext)
  fix a b
  show "same_resource a b =
      ((fst (access_rank a), fst (snd (access_rank a))) = (fst (access_rank b), fst (snd (access_rank b))))"
    by (cases "ra_namespace a"; cases "ra_namespace b") (auto simp: same_resource_def access_rank_def)
qed

text \<open>An access set is sorted, has the accesses it was made of, and names no resource twice.\<close>

lemma invocation_access_set_ok:
  assumes "invocation_access_set xs = Inr as"
  shows "set as = set xs" "as \<noteq> []" "distinct (map (\<lambda>a. (ra_namespace a, ra_resource_key a)) as)"
proof -
  let ?f = "\<lambda>a. (fst (access_rank a), fst (snd (access_rank a)))"
  have as: "as = sort_key access_rank xs" "as \<noteq> []" "\<not> any_pair same_resource as"
    using assms by (auto simp: invocation_access_set_def Let_def split: if_splits)
  then show "set as = set xs" "as \<noteq> []"
    by simp_all
  have "sorted (map access_rank as)"
    by (simp add: as(1))
  then have "sorted (map ?f as)"
    unfolding sorted_map by (rule sorted_wrt_mono_rel [rotated]) (auto simp: less_eq_prod_def)
  then have "distinct (map ?f as)"
    using as(3) any_pair_sorted_key [of ?f as] unfolding access_rank_resource by blast
  then show "distinct (map (\<lambda>a. (ra_namespace a, ra_resource_key a)) as)"
    by (auto simp: distinct_map inj_on_def access_rank_def)
qed

subsection \<open>Containment\<close>

text \<open>The components of a path; the workspace itself, written \<open>.\<close>, has none.\<close>

definition path_parts :: "string \<Rightarrow> string list" where
  "path_parts key = (if key = ''.'' then [] else split_on CHR ''/'' key)"

definition plain_part :: "string \<Rightarrow> bool" where
  "plain_part p \<longleftrightarrow> p \<notin> {[], ''.'', ''..''} \<and> CHR ''/'' \<notin> set p \<and> CHR 0x5C \<notin> set p"

lemma split_on_subset: "p \<in> set (split_on c s) \<Longrightarrow> set p \<subseteq> set s"
proof (induction s arbitrary: p)
  case (Cons x xs)
  obtain q qs where q: "split_on c xs = q # qs"
    by (cases "split_on c xs") auto
  with Cons show ?case
    by (fastforce split: if_splits)
qed simp

lemma filesystem_key_plain:
  assumes "valid_key Filesystem key" and "p \<in> set (path_parts key)"
  shows "plain_part p"
proof -
  from assms(2) have key: "key \<noteq> ''.''" "p \<in> set (split_on CHR ''/'' key)"
    by (auto simp: path_parts_def split: if_splits)
  with assms(1) have "p \<noteq> []" "p \<noteq> ''.''" "p \<noteq> ''..''" "CHR 0x5C \<notin> set key"
    by (auto simp: list_all_iff contains_char_def)
  with split_on_parts [OF key(2)] split_on_subset [OF key(2)] show ?thesis
    by (auto simp: plain_part_def)
qed

lemma entry_covers_prefix:
  assumes "entry_covers e a" and "ra_namespace a = Filesystem" and "ap_resource e \<noteq> ''.''"
    and "valid_key Filesystem (ra_resource_key a)"
  shows "prefix (path_parts (ap_resource e)) (path_parts (ra_resource_key a))"
proof -
  consider "ra_resource_key a = ap_resource e" | "starts_with (ra_resource_key a) (ap_resource e @ ''/'')"
    using assms(1-3) by (auto simp: entry_covers_def)
  then show ?thesis
  proof cases
    case 2
    then obtain r where key: "ra_resource_key a = ap_resource e @ CHR ''/'' # r"
      by (metis append.assoc append_Cons append_Nil append_take_drop_id starts_with_def)
    have "ra_resource_key a \<noteq> ''.''"
      unfolding key by (cases "ap_resource e") auto
    with assms(3) show ?thesis
      by (simp add: path_parts_def key split_on_sep)
  qed simp
qed

end
