(* ===== verification/Tool_Schema.thy ===== *)
theory Tool_Schema
  imports Tool_Access
begin

section \<open>Portable tool schemas\<close>

text \<open>
  The JSON Schema subset of \<open>schema.rs\<close> and \<open>schema_validate.rs\<close>: the check that a schema is in the subset,
  and the validator of a value against a schema, with the paths of its failures. A value that is not an
  object where the validator expects a schema makes the code panic; that is a fault here, and a schema
  that passed the check never reaches it. The failures are empty exactly when the value conforms to
  the schema, for a conformance relation that knows no paths and no order of checks.

  Floats are their bits. The comparisons of \<open>f64\<close> are defined on the bits; the arithmetic of \<open>f64\<close> that
  \<open>multipleOf\<close> and \<open>integer\<close> use is a parameter.
\<close>

subsection \<open>Floating point\<close>

record float_ops =
  f64_of_int :: "int \<Rightarrow> u64"
  f64_div :: "u64 \<Rightarrow> u64 \<Rightarrow> u64"
  f64_sub :: "u64 \<Rightarrow> u64 \<Rightarrow> u64"
  f64_mul :: "u64 \<Rightarrow> u64 \<Rightarrow> u64"
  f64_round :: "u64 \<Rightarrow> u64"
  f64_fract :: "u64 \<Rightarrow> u64"

definition f64_sign :: u64 where "f64_sign = 0x8000000000000000"
definition f64_one :: u64 where "f64_one = 0x3FF0000000000000"
definition f64_four :: u64 where "f64_four = 0x4010000000000000"
definition f64_epsilon :: u64 where "f64_epsilon = 0x3CB0000000000000"

definition f64_abs :: "u64 \<Rightarrow> u64" where
  "f64_abs x = (if x \<ge> f64_sign then x - f64_sign else x)"

definition f64_nan :: "u64 \<Rightarrow> bool" where
  "f64_nan x \<longleftrightarrow> f64_abs x > 0x7FF0000000000000"

text \<open>The magnitude with the sign orders the numbers; both zeros have key 0.\<close>

definition f64_key :: "u64 \<Rightarrow> int" where
  "f64_key x = (if x \<ge> f64_sign then - uint (f64_abs x) else uint x)"

definition f64_less :: "u64 \<Rightarrow> u64 \<Rightarrow> bool" where
  "f64_less x y \<longleftrightarrow> \<not> f64_nan x \<and> \<not> f64_nan y \<and> f64_key x < f64_key y"

definition f64_less_eq :: "u64 \<Rightarrow> u64 \<Rightarrow> bool" where
  "f64_less_eq x y \<longleftrightarrow> \<not> f64_nan x \<and> \<not> f64_nan y \<and> f64_key x \<le> f64_key y"

definition f64_equal :: "u64 \<Rightarrow> u64 \<Rightarrow> bool" where
  "f64_equal x y \<longleftrightarrow> \<not> f64_nan x \<and> \<not> f64_nan y \<and> f64_key x = f64_key y"

definition f64_max :: "u64 \<Rightarrow> u64 \<Rightarrow> u64" where
  "f64_max x y = (if f64_nan x \<or> f64_less x y then y else x)"

fun as_f64 :: "float_ops \<Rightarrow> json \<Rightarrow> u64 option" where
  "as_f64 F (JNumber (PosInt n)) = Some (f64_of_int F (uint n))"
| "as_f64 F (JNumber (NegInt i)) = Some (f64_of_int F i)"
| "as_f64 F (JNumber (Float x)) = Some x"
| "as_f64 F _ = None"

text \<open>Equality of values compares floats as numbers, so the two zeros are equal.\<close>

fun norm_json :: "json \<Rightarrow> json" where
  "norm_json (JNumber (Float x)) = JNumber (Float (if x = f64_sign then 0 else x))"
| "norm_json (JArray vs) = JArray (map norm_json vs)"
| "norm_json (JObject m) = JObject (map (\<lambda>e. (fst e, norm_json (snd e))) m)"
| "norm_json v = v"

definition json_eq :: "json \<Rightarrow> json \<Rightarrow> bool" where
  "json_eq v w \<longleftrightarrow> norm_json v = norm_json w"

subsection \<open>Schemas in the subset\<close>

definition schema_dialect :: string where
  "schema_dialect = ''https://json-schema.org/draft/2020-12/schema''"

definition schema_keywords :: "string list" where
  "schema_keywords =
     [CHR 0x24 # ''schema'', CHR 0x24 # ''id'', ''title'', ''description'', ''default'', ''examples'', ''deprecated'',
      ''readOnly'', ''writeOnly'', ''format'', ''type'', ''enum'', ''const'', ''properties'', ''required'',
      ''additionalProperties'', ''items'', ''minItems'', ''maxItems'', ''minLength'', ''maxLength'', ''minimum'',
      ''maximum'', ''exclusiveMinimum'', ''exclusiveMaximum'', ''multipleOf'', ''allOf'', ''anyOf'', ''oneOf'', ''not'']"

definition schema_types :: "string list" where
  "schema_types = [''object'', ''array'', ''string'', ''number'', ''integer'', ''boolean'', ''null'']"

definition keyword_ok :: "jmap \<Rightarrow> (json \<Rightarrow> bool) \<Rightarrow> string \<Rightarrow> bool" where
  "keyword_ok m P k \<longleftrightarrow> (case jget m k of None \<Rightarrow> True | Some v \<Rightarrow> P v)"

definition validate_required :: "jmap \<Rightarrow> PreparationErrorCode + unit" where
  "validate_required m =
     (case jget m ''required'' of
        None \<Rightarrow> Inr ()
      | Some v \<Rightarrow>
          rbind (ok_or (as_array v) InvalidToolDefinition) (\<lambda>vs.
            if list_ex (\<lambda>w. json_as_str w = None) vs \<or> \<not> distinct (map json_as_str vs)
            then Inl InvalidToolDefinition else Inr ()))"

fun any_repeated :: "json list \<Rightarrow> json list \<Rightarrow> bool" where
  "any_repeated seen [] = False"
| "any_repeated seen (v # vs) = (list_ex (json_eq v) seen \<or> any_repeated (v # seen) vs)"

definition validate_keyword_values :: "float_ops \<Rightarrow> jmap \<Rightarrow> PreparationErrorCode + unit" where
  "validate_keyword_values F m =
     rall [ensure (list_all (keyword_ok m (\<lambda>v. as_u64 v \<noteq> None)) [''minItems'', ''maxItems'', ''minLength'', ''maxLength''])
             InvalidToolDefinition,
           ensure (list_all (keyword_ok m (\<lambda>v. as_f64 F v \<noteq> None))
             [''minimum'', ''maximum'', ''exclusiveMinimum'', ''exclusiveMaximum'']) InvalidToolDefinition,
           ensure (keyword_ok m (\<lambda>v. case as_f64 F v of None \<Rightarrow> False | Some x \<Rightarrow> \<not> f64_less_eq x 0) ''multipleOf'')
             InvalidToolDefinition,
           ensure (keyword_ok m (\<lambda>v. case as_array v of None \<Rightarrow> False
               | Some vs \<Rightarrow> vs \<noteq> [] \<and> \<not> any_repeated [] vs) ''enum'') InvalidToolDefinition]"

text \<open>The schemas directly inside a schema, whatever the keyword.\<close>

definition inner_values :: "jmap \<Rightarrow> json set" where
  "inner_values m = snd ` set m \<union>
     \<Union> ((\<lambda>e. case snd e of JArray vs \<Rightarrow> set vs | JObject n \<Rightarrow> snd ` set n | _ \<Rightarrow> {}) ` set m)"

text \<open>
  One node of a schema, with the check of its inner schemas as an argument: the keywords, the
  keyword values, and then the inner schemas in the order of the code.
\<close>

definition schema_object :: "json option \<Rightarrow> (json \<Rightarrow> PreparationErrorCode + unit) \<Rightarrow> PreparationErrorCode + unit" where
  "schema_object v check =
     (case v of
        None \<Rightarrow> Inr ()
      | Some w \<Rightarrow> rbind (ok_or (as_object w) InvalidToolDefinition) (\<lambda>n. rcheck (check \<circ> snd) n))"

definition schema_branches :: "json option \<Rightarrow> (json \<Rightarrow> PreparationErrorCode + unit) \<Rightarrow> PreparationErrorCode + unit" where
  "schema_branches v check =
     (case v of
        None \<Rightarrow> Inr ()
      | Some w \<Rightarrow>
          (case as_array w of
             None \<Rightarrow> Inl InvalidToolDefinition
           | Some vs \<Rightarrow> if vs = [] then Inl InvalidToolDefinition else rcheck check vs))"

definition schema_node ::
  "float_ops \<Rightarrow> (json \<Rightarrow> PreparationErrorCode + unit) \<Rightarrow> jmap \<Rightarrow> PreparationErrorCode + unit" where
  "schema_node F check m =
     rall [ensure (list_all (\<lambda>e. fst e \<in> set schema_keywords) m) UnsupportedSchemaKeyword,
           ensure (keyword_ok m (\<lambda>v. json_as_str v = Some schema_dialect) (CHR 0x24 # ''schema'')) InvalidToolDefinition,
           ensure (keyword_ok m (\<lambda>v. case json_as_str v of None \<Rightarrow> False | Some k \<Rightarrow> k \<in> set schema_types) ''type'')
             InvalidToolDefinition,
           validate_required m,
           validate_keyword_values F m,
           schema_object (jget m ''properties'') check,
           (case jget m ''additionalProperties'' of
              None \<Rightarrow> Inr ()
            | Some (JObject n) \<Rightarrow> check (JObject n)
            | Some (JBool _) \<Rightarrow> Inr ()
            | Some _ \<Rightarrow> Inl InvalidToolDefinition),
           (case jget m ''items'' of None \<Rightarrow> Inr () | Some v \<Rightarrow> check v),
           schema_branches (jget m ''allOf'') check,
           schema_branches (jget m ''anyOf'') check,
           schema_branches (jget m ''oneOf'') check,
           (case jget m ''not'' of None \<Rightarrow> Inr () | Some v \<Rightarrow> check v)]"

lemma jget_inner: "jget m k = Some v \<Longrightarrow> v \<in> inner_values m"
  unfolding jget_def inner_values_def by (drule map_of_SomeD) force

lemma jget_inner_array: "jget m k = Some (JArray vs) \<Longrightarrow> v \<in> set vs \<Longrightarrow> v \<in> inner_values m"
  unfolding jget_def inner_values_def by (drule map_of_SomeD) force

lemma jget_inner_object: "jget m k = Some (JObject n) \<Longrightarrow> (l, v) \<in> set n \<Longrightarrow> v \<in> inner_values m"
  unfolding jget_def inner_values_def by (drule map_of_SomeD) force

lemma rcheck_cong: "(\<And>x. x \<in> set xs \<Longrightarrow> f x = g x) \<Longrightarrow> rcheck f xs = rcheck g xs"
  by (induction xs) auto

lemma schema_object_cong:
  "(\<And>v. v \<in> inner_values m \<Longrightarrow> f v = g v) \<Longrightarrow> schema_object (jget m k) f = schema_object (jget m k) g"
  by (cases "jget m k"; cases "the (jget m k)")
    (auto simp: schema_object_def intro!: rcheck_cong dest: jget_inner_object)

lemma schema_branches_cong:
  "(\<And>v. v \<in> inner_values m \<Longrightarrow> f v = g v) \<Longrightarrow> schema_branches (jget m k) f = schema_branches (jget m k) g"
  by (cases "jget m k"; cases "the (jget m k)")
    (auto simp: schema_branches_def intro!: rcheck_cong dest: jget_inner_array)

lemma schema_node_cong [fundef_cong]:
  assumes "F = F'" and "m = m'" and "\<And>v. v \<in> inner_values m' \<Longrightarrow> f v = g v"
  shows "schema_node F f m = schema_node F' g m'"
proof -
  have "(case jget m' ''additionalProperties'' of None \<Rightarrow> Inr () | Some (JObject n) \<Rightarrow> f (JObject n)
      | Some (JBool _) \<Rightarrow> Inr () | Some _ \<Rightarrow> Inl InvalidToolDefinition) =
    (case jget m' ''additionalProperties'' of None \<Rightarrow> Inr () | Some (JObject n) \<Rightarrow> g (JObject n)
      | Some (JBool _) \<Rightarrow> Inr () | Some _ \<Rightarrow> Inl InvalidToolDefinition)"
    using assms(3) jget_inner by (auto split: option.splits json.splits)
  moreover have "(case jget m' k of None \<Rightarrow> Inr () | Some v \<Rightarrow> f v) = (case jget m' k of None \<Rightarrow> Inr () | Some v \<Rightarrow> g v)" for k
    using assms(3) jget_inner by (auto split: option.splits)
  ultimately show ?thesis
    unfolding schema_node_def assms(1,2)
    by (simp only: schema_object_cong [OF assms(3)] schema_branches_cong [OF assms(3)])
qed


lemma size_member: "w \<in> snd ` set n \<Longrightarrow> size w < size (JObject n)"
proof -
  assume "w \<in> snd ` set n"
  then obtain k where e: "(k, w) \<in> set n"
    by auto
  have "size w \<le> size_list (size_prod (\<lambda>_. 0) size) n"
    by (rule size_list_estimation' [OF e]) simp
  then show ?thesis
    by simp
qed

lemma size_item: "w \<in> set vs \<Longrightarrow> size w < size (JArray vs)"
  using size_list_estimation' [of w vs "size w" size] by simp

lemma size_inner:
  assumes "v \<in> inner_values m"
  shows "size v < size (JObject m)"
proof -
  consider (direct) "v \<in> snd ` set m"
    | (inside) e where "e \<in> set m"
        and "v \<in> (case snd e of JArray vs \<Rightarrow> set vs | JObject n \<Rightarrow> snd ` set n | _ \<Rightarrow> {})"
    using assms unfolding inner_values_def by blast
  then show ?thesis
  proof cases
    case direct
    then show ?thesis by (rule size_member)
  next
    case inside
    have "size v < size (snd e)"
      using inside(2) size_item size_member by (cases "snd e") simp_all
    also have "size (snd e) < size (JObject m)"
      using inside(1) by (intro size_member) blast
    finally show ?thesis .
  qed
qed

function validate_schema_node :: "float_ops \<Rightarrow> json \<Rightarrow> PreparationErrorCode + unit" where
  "validate_schema_node F s =
     (case s of JObject m \<Rightarrow> schema_node F (validate_schema_node F) m | _ \<Rightarrow> Inl InvalidToolDefinition)"
  by pat_completeness auto
termination by (relation "measure (size \<circ> snd)") (auto dest: size_inner)

declare validate_schema_node.simps [simp del]

definition validate_definition :: "float_ops \<Rightarrow> json \<Rightarrow> PreparationErrorCode + unit" where
  "validate_definition F s =
     rbind (ok_or (as_object s) InvalidToolDefinition) (\<lambda>m.
       if Option.bind (jget m ''type'') json_as_str \<noteq> Some ''object'' \<or>
          Option.bind (jget m ''properties'') as_object = None \<or>
          (case jget m ''additionalProperties'' of Some (JBool _) \<Rightarrow> False | Some (JObject _) \<Rightarrow> False | _ \<Rightarrow> True)
       then Inl InvalidToolDefinition
       else validate_schema_node F s)"

subsection \<open>Failures\<close>

record SchemaFailure =
  instance_path :: string
  schema_path :: string
  sf_keyword :: string

definition failure_rank :: "SchemaFailure \<Rightarrow> string \<times> string \<times> string" where
  "failure_rank f = (instance_path f, schema_path f, sf_keyword f)"

definition replace_char :: "char \<Rightarrow> string \<Rightarrow> string \<Rightarrow> string" where
  "replace_char c t s = concat (map (\<lambda>d. if d = c then t else [d]) s)"

definition join :: "string \<Rightarrow> string \<Rightarrow> string" where
  "join base token = base @ ''/'' @ replace_char CHR ''/'' ''~1'' (replace_char CHR ''~'' ''~0'' token)"

definition failure :: "string \<Rightarrow> string \<Rightarrow> string \<Rightarrow> SchemaFailure" where
  "failure ip sp k = \<lparr>instance_path = ip, schema_path = join sp k, sf_keyword = k\<rparr>"

text \<open>\<open>gather\<close> appends the failures of checks that follow each other; a fault in one is a fault of all.\<close>

primrec gather :: "'a list option list \<Rightarrow> 'a list option" where
  "gather [] = Some []"
| "gather (r # rs) = Option.bind r (\<lambda>xs. map_option ((@) xs) (gather rs))"

definition fails :: "bool \<Rightarrow> string \<Rightarrow> string \<Rightarrow> string \<Rightarrow> SchemaFailure list option" where
  "fails b ip sp k = Some (if b then [failure ip sp k] else [])"

subsection \<open>The validator\<close>

definition matches_type :: "float_ops \<Rightarrow> json \<Rightarrow> string \<Rightarrow> bool" where
  "matches_type F v k \<longleftrightarrow>
     (if k = ''object'' then as_object v \<noteq> None
      else if k = ''array'' then as_array v \<noteq> None
      else if k = ''string'' then json_as_str v \<noteq> None
      else if k = ''number'' then (case v of JNumber _ \<Rightarrow> True | _ \<Rightarrow> False)
      else if k = ''integer'' then (case as_f64 F v of None \<Rightarrow> False | Some x \<Rightarrow> f64_equal (f64_fract F x) 0)
      else if k = ''boolean'' then is_boolean v
      else if k = ''null'' then v = JNull
      else False)"

text \<open>The bytes of a UTF-8 string that start a character.\<close>

definition chars_count :: "string \<Rightarrow> nat" where
  "chars_count s = length (filter (\<lambda>c. \<not> (0x80 \<le> (of_char c :: nat) \<and> (of_char c :: nat) < 0xC0)) s)"

definition boundary ::
  "jmap \<Rightarrow> string \<Rightarrow> u64 \<Rightarrow> (u64 \<Rightarrow> u64 \<Rightarrow> bool) \<Rightarrow> string \<Rightarrow> string \<Rightarrow> SchemaFailure list option" where
  "boundary m k actual check ip sp =
     fails (case Option.bind (jget m k) as_u64 of None \<Rightarrow> False | Some bound \<Rightarrow> \<not> check actual bound) ip sp k"

type_synonym node_check = "json \<Rightarrow> json \<Rightarrow> string \<Rightarrow> string \<Rightarrow> SchemaFailure list option"

definition validate_object :: "node_check \<Rightarrow> jmap \<Rightarrow> json \<Rightarrow> string \<Rightarrow> string \<Rightarrow> SchemaFailure list option" where
  "validate_object check m v ip sp =
     (case as_object v of
        None \<Rightarrow> Some []
      | Some vs \<Rightarrow>
          (let known = Option.bind (jget m ''properties'') as_object in
           gather
             ((case Option.bind (jget m ''required'') as_array of
                 None \<Rightarrow> []
               | Some names \<Rightarrow> map (\<lambda>n. fails (\<not> jhas vs n) ip sp ''required'') (List.map_filter json_as_str names)) @
              (case known of
                 None \<Rightarrow> []
               | Some props \<Rightarrow>
                   map (\<lambda>e. case jget vs (fst e) of
                          None \<Rightarrow> Some []
                        | Some item \<Rightarrow>
                            check (snd e) item (join ip (fst e)) (join (join sp ''properties'') (fst e))) props) @
              map (\<lambda>e. if (case known of None \<Rightarrow> False | Some props \<Rightarrow> jhas props (fst e)) then Some []
                       else
                         (case jget m ''additionalProperties'' of
                            Some (JBool b) \<Rightarrow> fails (\<not> b) (join ip (fst e)) sp ''additionalProperties''
                          | Some (JObject n) \<Rightarrow>
                              check (JObject n) (snd e) (join ip (fst e)) (join sp ''additionalProperties'')
                          | _ \<Rightarrow> Some [])) vs)))"

definition validate_array :: "node_check \<Rightarrow> jmap \<Rightarrow> json \<Rightarrow> string \<Rightarrow> string \<Rightarrow> SchemaFailure list option" where
  "validate_array check m v ip sp =
     (case as_array v of
        None \<Rightarrow> Some []
      | Some vs \<Rightarrow>
          gather
            ([boundary m ''minItems'' (of_nat (length vs)) (\<ge>) ip sp,
              boundary m ''maxItems'' (of_nat (length vs)) (\<le>) ip sp] @
             (case jget m ''items'' of
                None \<Rightarrow> []
              | Some s \<Rightarrow>
                  map (\<lambda>(i, item). check s item (join ip (decimal i)) (join sp ''items'')) (enumerate 0 vs))))"

definition validate_string :: "jmap \<Rightarrow> json \<Rightarrow> string \<Rightarrow> string \<Rightarrow> SchemaFailure list option" where
  "validate_string m v ip sp =
     (case json_as_str v of
        None \<Rightarrow> Some []
      | Some s \<Rightarrow>
          gather [boundary m ''minLength'' (of_nat (chars_count s)) (\<ge>) ip sp,
                  boundary m ''maxLength'' (of_nat (chars_count s)) (\<le>) ip sp])"

definition not_multiple :: "float_ops \<Rightarrow> u64 \<Rightarrow> u64 \<Rightarrow> bool" where
  "not_multiple F x unit =
     (let q = f64_div F x unit in
      f64_less (f64_mul F (f64_mul F f64_epsilon (f64_max (f64_abs q) f64_one)) f64_four)
        (f64_abs (f64_sub F q (f64_round F q))))"

definition number_keyword :: "float_ops \<Rightarrow> jmap \<Rightarrow> string \<Rightarrow> (u64 \<Rightarrow> bool) \<Rightarrow> bool" where
  "number_keyword F m k P \<longleftrightarrow> (case Option.bind (jget m k) (as_f64 F) of None \<Rightarrow> False | Some b \<Rightarrow> P b)"

definition validate_number :: "float_ops \<Rightarrow> jmap \<Rightarrow> json \<Rightarrow> string \<Rightarrow> string \<Rightarrow> SchemaFailure list option" where
  "validate_number F m v ip sp =
     (case as_f64 F v of
        None \<Rightarrow> Some []
      | Some x \<Rightarrow>
          gather
            [fails (number_keyword F m ''minimum'' (\<lambda>b. f64_less x b)) ip sp ''minimum'',
             fails (number_keyword F m ''maximum'' (\<lambda>b. f64_less b x)) ip sp ''maximum'',
             fails (number_keyword F m ''exclusiveMinimum'' (\<lambda>b. f64_less_eq x b)) ip sp ''exclusiveMinimum'',
             fails (number_keyword F m ''exclusiveMaximum'' (\<lambda>b. f64_less_eq b x)) ip sp ''exclusiveMaximum'',
             fails (number_keyword F m ''multipleOf'' (not_multiple F x)) ip sp ''multipleOf''])"

text \<open>The results of the branches of \<open>allOf\<close>, \<open>anyOf\<close> or \<open>oneOf\<close>, each collected on its own.\<close>

definition branch_failures ::
  "node_check \<Rightarrow> jmap \<Rightarrow> string \<Rightarrow> json \<Rightarrow> string \<Rightarrow> string \<Rightarrow> SchemaFailure list option" where
  "branch_failures check m k v ip sp =
     (case Option.bind (jget m k) as_array of
        None \<Rightarrow> Some []
      | Some branches \<Rightarrow>
          Option.bind (those (map (\<lambda>b. check b v ip (join sp k)) branches)) (\<lambda>results.
            let successes = length (filter (\<lambda>r. r = []) results) in
            if k = ''allOf'' then Some (concat results)
            else fails ((k = ''anyOf'' \<and> successes = 0) \<or> (k = ''oneOf'' \<and> successes \<noteq> 1)) ip sp k))"

definition validate_composition :: "node_check \<Rightarrow> jmap \<Rightarrow> json \<Rightarrow> string \<Rightarrow> string \<Rightarrow> SchemaFailure list option" where
  "validate_composition check m v ip sp =
     gather
       [branch_failures check m ''allOf'' v ip sp,
        branch_failures check m ''anyOf'' v ip sp,
        branch_failures check m ''oneOf'' v ip sp,
        (case jget m ''not'' of
           None \<Rightarrow> Some []
         | Some s \<Rightarrow>
             Option.bind (check s v ip (join sp ''not'')) (\<lambda>inside. fails (inside = []) ip sp ''not''))]"

definition value_node :: "float_ops \<Rightarrow> node_check \<Rightarrow> jmap \<Rightarrow> json \<Rightarrow> string \<Rightarrow> string \<Rightarrow> SchemaFailure list option" where
  "value_node F check m v ip sp =
     (if (case Option.bind (jget m ''type'') json_as_str of None \<Rightarrow> False | Some k \<Rightarrow> \<not> matches_type F v k)
      then Some [failure ip sp ''type'']
      else
        gather
          [fails (case Option.bind (jget m ''enum'') as_array of
                    None \<Rightarrow> False | Some vs \<Rightarrow> \<not> list_ex (json_eq v) vs) ip sp ''enum'',
           fails (case jget m ''const'' of None \<Rightarrow> False | Some w \<Rightarrow> \<not> json_eq v w) ip sp ''const'',
           validate_object check m v ip sp,
           validate_array check m v ip sp,
           validate_string m v ip sp,
           validate_number F m v ip sp,
           validate_composition check m v ip sp])"

lemma validate_object_cong:
  assumes "\<And>s. s \<in> inner_values m \<Longrightarrow> f s = g s"
  shows "validate_object f m v ip sp = validate_object g m v ip sp"
proof -
  have props: "Option.bind (jget m ''properties'') as_object = Some n \<Longrightarrow> (k, s) \<in> set n \<Longrightarrow> f s = g s" for n k s
    by (cases "jget m ''properties''"; cases "the (jget m ''properties'')")
      (auto intro!: assms dest: jget_inner_object)
  have extra: "jget m ''additionalProperties'' = Some (JObject n) \<Longrightarrow> f (JObject n) = g (JObject n)" for n
    by (rule assms) (rule jget_inner)
  show ?thesis
    unfolding validate_object_def Let_def
    by (cases "as_object v"; cases "Option.bind (jget m ''properties'') as_object")
      (auto simp: extra dest: props intro!: arg_cong [of _ _ gather] map_cong arg_cong2 [of _ _ _ _ "(@)"]
         cong: option.case_cong split: option.split json.split)
qed

lemma validate_array_cong:
  assumes "\<And>s. s \<in> inner_values m \<Longrightarrow> f s = g s"
  shows "validate_array f m v ip sp = validate_array g m v ip sp"
  by (cases "jget m ''items''") (simp_all add: validate_array_def assms [OF jget_inner] cong: option.case_cong)

lemma branch_failures_cong:
  assumes "\<And>s. s \<in> inner_values m \<Longrightarrow> f s = g s"
  shows "branch_failures f m k v ip sp = branch_failures g m k v ip sp"
proof (cases "jget m k")
  case (Some w)
  then show ?thesis
    using assms [OF jget_inner_array, of k]
    by (cases w) (simp_all add: branch_failures_def cong: map_cong)
qed (simp add: branch_failures_def)

lemma validate_composition_cong:
  assumes "\<And>s. s \<in> inner_values m \<Longrightarrow> f s = g s"
  shows "validate_composition f m v ip sp = validate_composition g m v ip sp"
proof -
  have "branch_failures f m k v ip sp = branch_failures g m k v ip sp" for k
    by (rule branch_failures_cong) (rule assms)
  then show ?thesis
    by (cases "jget m ''not''") (simp_all add: validate_composition_def assms [OF jget_inner])
qed

lemma value_node_cong [fundef_cong]:
  assumes "F = F'" and "m = m'" and "v = v'" and "ip = ip'" and "sp = sp'"
    and "\<And>s w i p. s \<in> inner_values m' \<Longrightarrow> f s w i p = g s w i p"
  shows "value_node F f m v ip sp = value_node F' g m' v' ip' sp'"
proof -
  have "f s = g s" if "s \<in> inner_values m'" for s
    using assms(6) [OF that] by (intro ext)
  note eqs = validate_object_cong [OF this] validate_array_cong [OF this] validate_composition_cong [OF this]
  show ?thesis
    unfolding value_node_def assms(1-5) by (simp only: eqs)
qed

text \<open>\<open>None\<close> is the panic of \<open>expect\<close> on a schema that is not an object.\<close>

function validate_node :: "float_ops \<Rightarrow> json \<Rightarrow> json \<Rightarrow> string \<Rightarrow> string \<Rightarrow> SchemaFailure list option" where
  "validate_node F s v ip sp =
     (case s of JObject m \<Rightarrow> value_node F (validate_node F) m v ip sp | _ \<Rightarrow> None)"
  by pat_completeness auto
termination by (relation "measure (\<lambda>(F, s, v, ip, sp). size s)") (auto dest: size_inner)

declare validate_node.simps [simp del]

definition validate_arguments :: "float_ops \<Rightarrow> json \<Rightarrow> json \<Rightarrow> SchemaFailure list option" where
  "validate_arguments F s v = map_option (sort_key failure_rank) (validate_node F s v [] [])"

definition validate_portable_value ::
  "float_ops \<Rightarrow> json \<Rightarrow> json \<Rightarrow> (PreparationErrorCode + SchemaFailure list) option" where
  "validate_portable_value F s v =
     (case validate_schema_node F s of
        Inl e \<Rightarrow> Some (Inl e)
      | Inr _ \<Rightarrow> map_option Inr (validate_arguments F s v))"

subsection \<open>Conformance\<close>

text \<open>
  What a schema means, keyword by keyword: a keyword that is absent says nothing, and each one that is
  present holds of the value on its own.
\<close>

definition on_keyword :: "jmap \<Rightarrow> string \<Rightarrow> (json \<Rightarrow> 'a option) \<Rightarrow> ('a \<Rightarrow> bool) \<Rightarrow> bool" where
  "on_keyword m k read P \<longleftrightarrow> (\<forall>w. jget m k = Some w \<longrightarrow> (\<forall>x. read w = Some x \<longrightarrow> P x))"

definition conforms_object :: "(json \<Rightarrow> json \<Rightarrow> bool) \<Rightarrow> jmap \<Rightarrow> jmap \<Rightarrow> bool" where
  "conforms_object sat m vs \<longleftrightarrow>
     on_keyword m ''required'' as_array (\<lambda>names. \<forall>n. JString n \<in> set names \<longrightarrow> n \<in> fst ` set vs) \<and>
     on_keyword m ''properties'' as_object (\<lambda>props. \<forall>(k, s) \<in> set props. \<forall>item. jget vs k = Some item \<longrightarrow> sat s item) \<and>
     (\<forall>(k, item) \<in> set vs.
        (\<exists>props s. jget m ''properties'' = Some (JObject props) \<and> jget props k = Some s) \<or>
        (jget m ''additionalProperties'' \<noteq> Some (JBool False) \<and>
         on_keyword m ''additionalProperties'' as_object (\<lambda>n. sat (JObject n) item)))"

definition conforms_array :: "(json \<Rightarrow> json \<Rightarrow> bool) \<Rightarrow> jmap \<Rightarrow> json list \<Rightarrow> bool" where
  "conforms_array sat m vs \<longleftrightarrow>
     on_keyword m ''minItems'' as_u64 (\<lambda>b. b \<le> of_nat (length vs)) \<and>
     on_keyword m ''maxItems'' as_u64 (\<lambda>b. of_nat (length vs) \<le> b) \<and>
     on_keyword m ''items'' Some (\<lambda>s. \<forall>v \<in> set vs. sat s v)"

definition conforms_string :: "jmap \<Rightarrow> string \<Rightarrow> bool" where
  "conforms_string m s \<longleftrightarrow>
     on_keyword m ''minLength'' as_u64 (\<lambda>b. b \<le> of_nat (chars_count s)) \<and>
     on_keyword m ''maxLength'' as_u64 (\<lambda>b. of_nat (chars_count s) \<le> b)"

definition conforms_number :: "float_ops \<Rightarrow> jmap \<Rightarrow> u64 \<Rightarrow> bool" where
  "conforms_number F m x \<longleftrightarrow>
     on_keyword m ''minimum'' (as_f64 F) (\<lambda>b. \<not> f64_less x b) \<and>
     on_keyword m ''maximum'' (as_f64 F) (\<lambda>b. \<not> f64_less b x) \<and>
     on_keyword m ''exclusiveMinimum'' (as_f64 F) (\<lambda>b. \<not> f64_less_eq x b) \<and>
     on_keyword m ''exclusiveMaximum'' (as_f64 F) (\<lambda>b. \<not> f64_less_eq b x) \<and>
     on_keyword m ''multipleOf'' (as_f64 F) (\<lambda>b. \<not> not_multiple F x b)"

definition conforms_node :: "float_ops \<Rightarrow> (json \<Rightarrow> json \<Rightarrow> bool) \<Rightarrow> jmap \<Rightarrow> json \<Rightarrow> bool" where
  "conforms_node F sat m v \<longleftrightarrow>
     on_keyword m ''type'' json_as_str (matches_type F v) \<and>
     on_keyword m ''enum'' as_array (\<lambda>vs. \<exists>w \<in> set vs. json_eq v w) \<and>
     on_keyword m ''const'' Some (json_eq v) \<and>
     (\<forall>vs. v = JObject vs \<longrightarrow> conforms_object sat m vs) \<and>
     (\<forall>vs. v = JArray vs \<longrightarrow> conforms_array sat m vs) \<and>
     (\<forall>s. v = JString s \<longrightarrow> conforms_string m s) \<and>
     (\<forall>x. as_f64 F v = Some x \<longrightarrow> conforms_number F m x) \<and>
     on_keyword m ''allOf'' as_array (\<lambda>bs. \<forall>b \<in> set bs. sat b v) \<and>
     on_keyword m ''anyOf'' as_array (\<lambda>bs. \<exists>b \<in> set bs. sat b v) \<and>
     on_keyword m ''oneOf'' as_array (\<lambda>bs. \<exists>!i. i < length bs \<and> sat (bs ! i) v) \<and>
     on_keyword m ''not'' Some (\<lambda>s. \<not> sat s v)"

lemma on_keyword_cong:
  "(\<And>w x. jget m k = Some w \<Longrightarrow> read w = Some x \<Longrightarrow> P x = Q x) \<Longrightarrow> on_keyword m k read P = on_keyword m k read Q"
  by (auto simp: on_keyword_def)

lemma as_array_eq_Some [simp]: "as_array v = Some vs \<longleftrightarrow> v = JArray vs"
  by (cases v) simp_all

lemma as_object_eq_Some [simp]: "as_object v = Some m \<longleftrightarrow> v = JObject m"
  by (cases v) simp_all

lemma json_as_str_eq_Some [simp]: "json_as_str v = Some s \<longleftrightarrow> v = JString s"
  by (cases v) simp_all

lemma conforms_object_cong:
  assumes "\<And>s w. s \<in> inner_values m \<Longrightarrow> f s w = g s w"
  shows "conforms_object f m vs = conforms_object g m vs"
proof -
  have "on_keyword m ''properties'' as_object (\<lambda>ps. \<forall>(k, s) \<in> set ps. \<forall>w. jget vs k = Some w \<longrightarrow> f s w) =
      on_keyword m ''properties'' as_object (\<lambda>ps. \<forall>(k, s) \<in> set ps. \<forall>w. jget vs k = Some w \<longrightarrow> g s w)"
    by (rule on_keyword_cong) (fastforce simp: assms dest: jget_inner_object)
  moreover have "on_keyword m ''additionalProperties'' as_object (\<lambda>n. f (JObject n) w) =
      on_keyword m ''additionalProperties'' as_object (\<lambda>n. g (JObject n) w)" for w
    by (rule on_keyword_cong) (auto dest: jget_inner assms)
  ultimately show ?thesis
    unfolding conforms_object_def by simp
qed

lemma conforms_node_cong [fundef_cong]:
  assumes "F = F'" and "m = m'" and "v = v'" and "\<And>s w. s \<in> inner_values m' \<Longrightarrow> f s w = g s w"
  shows "conforms_node F f m v = conforms_node F' g m' v'"
proof -
  have branches: "jget m' k = Some (JArray bs) \<Longrightarrow> b \<in> set bs \<Longrightarrow> f b w = g b w" for k bs b w
    by (auto dest: jget_inner_array assms(4))
  have direct: "jget m' k = Some s \<Longrightarrow> f s w = g s w" for k s w
    by (auto dest: jget_inner assms(4))
  have "on_keyword m' ''items'' Some (\<lambda>s. \<forall>w \<in> set vs. f s w) = on_keyword m' ''items'' Some (\<lambda>s. \<forall>w \<in> set vs. g s w)" for vs
    by (rule on_keyword_cong) (auto dest: direct)
  then have array: "conforms_array f m' vs = conforms_array g m' vs" for vs
    by (simp add: conforms_array_def)
  have all: "on_keyword m' k as_array (\<lambda>bs. \<forall>b \<in> set bs. f b v') = on_keyword m' k as_array (\<lambda>bs. \<forall>b \<in> set bs. g b v')" for k
    by (rule on_keyword_cong) (simp add: branches)
  have any: "on_keyword m' k as_array (\<lambda>bs. \<exists>b \<in> set bs. f b v') = on_keyword m' k as_array (\<lambda>bs. \<exists>b \<in> set bs. g b v')" for k
    by (rule on_keyword_cong) (simp add: branches)
  have one: "on_keyword m' k as_array (\<lambda>bs. \<exists>!i. i < length bs \<and> f (bs ! i) v') =
      on_keyword m' k as_array (\<lambda>bs. \<exists>!i. i < length bs \<and> g (bs ! i) v')" for k
    by (rule on_keyword_cong) (simp add: branches cong: conj_cong)
  have neg: "on_keyword m' k Some (\<lambda>s. \<not> f s v') = on_keyword m' k Some (\<lambda>s. \<not> g s v')" for k
    by (rule on_keyword_cong) (simp add: direct)
  have object: "conforms_object f m' vs = conforms_object g m' vs" for vs
    by (rule conforms_object_cong) (rule assms(4))
  show ?thesis
    unfolding assms(1-3) conforms_node_def by (simp only: object array all any one neg)
qed

function conforms :: "float_ops \<Rightarrow> json \<Rightarrow> json \<Rightarrow> bool" where
  "conforms F s v = (case s of JObject m \<Rightarrow> conforms_node F (conforms F) m v | _ \<Rightarrow> False)"
  by pat_completeness auto
termination by (relation "measure (\<lambda>(F, s, v). size s)") (auto dest: size_inner)

declare conforms.simps [simp del]

subsection \<open>The validator decides conformance\<close>

definition agrees :: "'a list option \<Rightarrow> bool \<Rightarrow> bool" where
  "agrees r b \<longleftrightarrow> (\<exists>xs. r = Some xs \<and> (xs = [] \<longleftrightarrow> b))"

lemma agrees_none: "agrees (Some []) True"
  by (simp add: agrees_def)

lemma agrees_Nil: "agrees (gather []) True"
  by (simp add: agrees_def)

lemma agrees_fails: "agrees (fails b ip sp k) (\<not> b)"
  by (simp add: agrees_def fails_def)

lemma agrees_Cons: "agrees r b \<Longrightarrow> agrees (gather rs) c \<Longrightarrow> agrees (gather (r # rs)) (b \<and> c)"
  by (auto simp: agrees_def)

lemma agrees_append: "agrees (gather rs) b \<Longrightarrow> agrees (gather rs') c \<Longrightarrow> agrees (gather (rs @ rs')) (b \<and> c)"
  by (induction rs arbitrary: b) (fastforce simp: agrees_def bind_eq_Some_conv)+

lemma agrees_map: "(\<And>x. x \<in> set xs \<Longrightarrow> agrees (f x) (P x)) \<Longrightarrow> agrees (gather (map f xs)) (\<forall>x \<in> set xs. P x)"
proof (induction xs)
  case (Cons x xs)
  then show ?case
    using agrees_Cons [of "f x" "P x" "map f xs" "\<forall>x \<in> set xs. P x"] by (simp del: gather.simps)
qed (simp add: agrees_def)

lemma agrees_eq: "agrees r b \<Longrightarrow> b = c \<Longrightarrow> agrees r c"
  by simp

lemma on_keyword_bind: "on_keyword m k read P \<longleftrightarrow> (\<forall>x. Option.bind (jget m k) read = Some x \<longrightarrow> P x)"
  by (cases "jget m k") (auto simp: on_keyword_def)

lemma agrees_keyword:
  "agrees (fails (case Option.bind (jget m k) read of None \<Rightarrow> False | Some x \<Rightarrow> \<not> P x) ip sp l) (on_keyword m k read P)"
  by (rule agrees_eq [OF agrees_fails]) (auto simp: on_keyword_bind split: option.split)

lemma agrees_boundary: "agrees (boundary m k n check ip sp) (on_keyword m k as_u64 (check n))"
  unfolding boundary_def by (rule agrees_keyword)

lemma agrees_number_keyword:
  "agrees (fails (number_keyword F m k P) ip sp l) (on_keyword m k (as_f64 F) (\<lambda>b. \<not> P b))"
  by (rule agrees_eq [OF agrees_fails]) (auto simp: number_keyword_def on_keyword_bind split: option.split)

lemma jhas_iff: "jhas m k \<longleftrightarrow> k \<in> fst ` set m"
  by (simp add: jhas_def jget_def map_of_eq_None_iff)

lemma validate_string_agrees:
  "agrees (validate_string m v ip sp) (\<forall>s. v = JString s \<longrightarrow> conforms_string m s)"
proof (cases "json_as_str v")
  case (Some s)
  have "agrees (gather [boundary m ''minLength'' (of_nat (chars_count s)) (\<ge>) ip sp,
      boundary m ''maxLength'' (of_nat (chars_count s)) (\<le>) ip sp]) (conforms_string m s)"
    by (rule agrees_eq, (rule agrees_Cons agrees_Nil agrees_boundary)+) (simp add: conforms_string_def)
  then show ?thesis
    using Some by (simp add: validate_string_def del: gather.simps)
qed (auto simp: validate_string_def agrees_none agrees_def)

lemma validate_number_agrees:
  "agrees (validate_number F m v ip sp) (\<forall>x. as_f64 F v = Some x \<longrightarrow> conforms_number F m x)"
proof (cases "as_f64 F v")
  case (Some x)
  have "agrees (validate_number F m v ip sp) (conforms_number F m x)"
    unfolding validate_number_def Some option.case
    by (rule agrees_eq, (rule agrees_Cons agrees_Nil agrees_number_keyword)+) (simp add: conforms_number_def)
  then show ?thesis
    using Some by simp
qed (simp add: validate_number_def agrees_none)

text \<open>The inner schemas that an admitted schema checks are admitted.\<close>

lemma schema_node_children:
  assumes "schema_node F chk m = Inr ()"
  shows "jget m ''properties'' = Some (JObject n) \<Longrightarrow> (k, s) \<in> set n \<Longrightarrow> chk s = Inr ()"
    and "jget m ''additionalProperties'' = Some (JObject n) \<Longrightarrow> chk (JObject n) = Inr ()"
    and "jget m ''items'' = Some s \<Longrightarrow> chk s = Inr ()"
    and "l \<in> {''allOf'', ''anyOf'', ''oneOf''} \<Longrightarrow> jget m l = Some (JArray bs) \<Longrightarrow> s \<in> set bs \<Longrightarrow> chk s = Inr ()"
    and "jget m ''not'' = Some s \<Longrightarrow> chk s = Inr ()"
proof -
  note parts = assms [unfolded schema_node_def, simplified result_simps list.pred_inject]
  show "jget m ''properties'' = Some (JObject n) \<Longrightarrow> (k, s) \<in> set n \<Longrightarrow> chk s = Inr ()"
    using parts by (auto simp: schema_object_def result_simps)
  show "jget m ''additionalProperties'' = Some (JObject n) \<Longrightarrow> chk (JObject n) = Inr ()"
    using parts by simp
  show "jget m ''items'' = Some s \<Longrightarrow> chk s = Inr ()"
    using parts by simp
  show "l \<in> {''allOf'', ''anyOf'', ''oneOf''} \<Longrightarrow> jget m l = Some (JArray bs) \<Longrightarrow> s \<in> set bs \<Longrightarrow> chk s = Inr ()"
    using parts by (auto simp: schema_branches_def result_simps split: if_splits)
  show "jget m ''not'' = Some s \<Longrightarrow> chk s = Inr ()"
    using parts by simp
qed

lemma agrees_those_all:
  "(\<And>x. x \<in> set xs \<Longrightarrow> agrees (f x) (P x)) \<Longrightarrow>
    \<exists>rs. those (map f xs) = Some rs \<and> length rs = length xs \<and> (\<forall>i < length xs. (rs ! i = []) = P (xs ! i))"
proof (induction xs)
  case (Cons x xs)
  obtain r where "f x = Some r" and "(r = []) = P x"
    using Cons.prems [of x] by (auto simp: agrees_def)
  moreover obtain rs where "those (map f xs) = Some rs" and "length rs = length xs"
    and "\<forall>i < length xs. (rs ! i = []) = P (xs ! i)"
    using Cons by auto
  ultimately show ?case
    by (intro exI [of _ "r # rs"]) (auto simp: nth_Cons split: nat.split)
qed simp

lemma one_success: "length (filter P xs) = 1 \<longleftrightarrow> (\<exists>!i. i < length xs \<and> P (xs ! i))"
  by (auto simp: length_filter_conv_card card_1_singleton_iff Ex1_def)

lemma branch_failures_agree:
  assumes "\<And>bs b. jget m k = Some (JArray bs) \<Longrightarrow> b \<in> set bs \<Longrightarrow> agrees (check b v ip (join sp k)) (sat b v)"
    and "k \<in> {''allOf'', ''anyOf'', ''oneOf''}"
  shows "agrees (branch_failures check m k v ip sp)
    (on_keyword m k as_array (\<lambda>bs.
       if k = ''allOf'' then \<forall>b \<in> set bs. sat b v
       else if k = ''anyOf'' then \<exists>b \<in> set bs. sat b v
       else \<exists>!i. i < length bs \<and> sat (bs ! i) v))"
proof (cases "Option.bind (jget m k) as_array")
  case (Some bs)
  then have key: "jget m k = Some (JArray bs)"
    by (cases "jget m k") auto
  obtain rs where rs: "those (map (\<lambda>b. check b v ip (join sp k)) bs) = Some rs" and len: "length rs = length bs"
    and ok: "\<forall>i < length bs. (rs ! i = []) = sat (bs ! i) v"
    using agrees_those_all [of bs "\<lambda>b. check b v ip (join sp k)" "\<lambda>b. sat b v"] assms(1) [OF key] by blast
  let ?n = "length (filter (\<lambda>r. r = []) rs)"
  have all: "concat rs = [] \<longleftrightarrow> (\<forall>b \<in> set bs. sat b v)"
    using ok len by (simp add: all_set_conv_all_nth)
  have none: "?n = 0 \<longleftrightarrow> \<not> (\<exists>b \<in> set bs. sat b v)"
    using ok len by (simp add: filter_empty_conv all_set_conv_all_nth)
  have one: "?n = 1 \<longleftrightarrow> (\<exists>!i. i < length bs \<and> sat (bs ! i) v)"
    using ok len by (simp only: one_success) (simp cong: conj_cong)
  have result: "branch_failures check m k v ip sp =
      (if k = ''allOf'' then Some (concat rs)
       else fails ((k = ''anyOf'' \<and> ?n = 0) \<or> (k = ''oneOf'' \<and> ?n \<noteq> 1)) ip sp k)"
    by (simp only: branch_failures_def Some option.case rs bind.bind_lunit Let_def)
  have expected: "on_keyword m k as_array P \<longleftrightarrow> P bs" for P
    by (simp add: on_keyword_def key)
  show ?thesis
    unfolding result expected none one all agrees_def fails_def using assms(2) all by auto
qed (auto simp: branch_failures_def on_keyword_bind agrees_none)

lemma validate_array_agrees:
  assumes "\<And>s w ip sp. jget m ''items'' = Some s \<Longrightarrow> agrees (check s w ip sp) (sat s w)"
  shows "agrees (validate_array check m v ip sp) (\<forall>vs. v = JArray vs \<longrightarrow> conforms_array sat m vs)"
proof (cases "as_array v")
  case (Some vs)
  let ?items = "case jget m ''items'' of None \<Rightarrow> []
    | Some s \<Rightarrow> map (\<lambda>(i, item). check s item (join ip (decimal i)) (join sp ''items'')) (enumerate 0 vs)"
  have "agrees (gather ?items) (on_keyword m ''items'' Some (\<lambda>s. \<forall>w \<in> set vs. sat s w))"
  proof (cases "jget m ''items''")
    case (Some s)
    have "agrees (gather ?items) (\<forall>e \<in> set (enumerate 0 vs). sat s (snd e))"
      unfolding Some option.case by (rule agrees_map) (clarsimp simp: assms [OF Some])
    moreover have "(\<forall>e \<in> set (enumerate 0 vs). sat s (snd e)) \<longleftrightarrow> (\<forall>w \<in> snd ` set (enumerate 0 vs). sat s w)"
      by blast
    moreover have "snd ` set (enumerate 0 vs) = set vs"
      by (metis list.set_map map_snd_enumerate)
    ultimately show ?thesis
      by (simp add: on_keyword_def Some)
  qed (simp add: on_keyword_def agrees_none)
  from agrees_append [OF agrees_Cons [OF agrees_boundary agrees_Cons [OF agrees_boundary agrees_Nil]] this]
  have "agrees (validate_array check m v ip sp) (conforms_array sat m vs)"
    unfolding validate_array_def Some option.case
    by (rule agrees_eq) (simp add: conforms_array_def)
  then show ?thesis
    using Some by simp
qed (auto simp: validate_array_def agrees_def)

lemma required_agrees:
  "agrees (gather (case Option.bind (jget m ''required'') as_array of None \<Rightarrow> []
      | Some names \<Rightarrow> map (\<lambda>n. fails (\<not> jhas vs n) ip sp ''required'') (List.map_filter json_as_str names)))
    (on_keyword m ''required'' as_array (\<lambda>names. \<forall>n. JString n \<in> set names \<longrightarrow> n \<in> fst ` set vs))"
proof (cases "Option.bind (jget m ''required'') as_array")
  case (Some names)
  have "n \<in> set (List.map_filter json_as_str names) \<longleftrightarrow> JString n \<in> set names" for n
    by (force simp: map_filter_def)
  moreover have "agrees (gather (map (\<lambda>n. fails (\<not> jhas vs n) ip sp ''required'') (List.map_filter json_as_str names)))
      (\<forall>n \<in> set (List.map_filter json_as_str names). jhas vs n)"
    by (rule agrees_map) (rule agrees_eq [OF agrees_fails], simp)
  ultimately show ?thesis
    by (simp add: Some on_keyword_bind jhas_iff Ball_def)
qed (simp add: on_keyword_bind agrees_none)

lemma properties_agree:
  assumes "\<And>n k s w ip sp. jget m ''properties'' = Some (JObject n) \<Longrightarrow> (k, s) \<in> set n \<Longrightarrow> agrees (check s w ip sp) (sat s w)"
  shows "agrees (gather (case Option.bind (jget m ''properties'') as_object of None \<Rightarrow> []
      | Some props \<Rightarrow> map (\<lambda>e. case jget vs (fst e) of None \<Rightarrow> Some []
          | Some item \<Rightarrow> check (snd e) item (join ip (fst e)) (join (join sp ''properties'') (fst e))) props))
    (on_keyword m ''properties'' as_object (\<lambda>props. \<forall>(k, s) \<in> set props. \<forall>item. jget vs k = Some item \<longrightarrow> sat s item))"
proof (cases "Option.bind (jget m ''properties'') as_object")
  case (Some props)
  then have "jget m ''properties'' = Some (JObject props)"
    by (cases "jget m ''properties''") auto
  note known = assms [OF this]
  show ?thesis
    unfolding Some option.case on_keyword_bind option.inject
    by (rule agrees_eq [OF agrees_map [where P = "\<lambda>(k, s). \<forall>item. jget vs k = Some item \<longrightarrow> sat s item"]])
      (auto simp: agrees_none intro: known split: option.split)
qed (simp add: on_keyword_bind agrees_none)

lemma additional_agrees:
  assumes "\<And>n w ip sp. jget m ''additionalProperties'' = Some (JObject n) \<Longrightarrow> agrees (check (JObject n) w ip sp) (sat (JObject n) w)"
  shows "agrees (case jget m ''additionalProperties'' of
       Some (JBool b) \<Rightarrow> fails (\<not> b) ip sp l
     | Some (JObject n) \<Rightarrow> check (JObject n) w ip sp'
     | _ \<Rightarrow> Some [])
    (jget m ''additionalProperties'' \<noteq> Some (JBool False) \<and>
     on_keyword m ''additionalProperties'' as_object (\<lambda>n. sat (JObject n) w))"
proof (cases "jget m ''additionalProperties''")
  case (Some a)
  then show ?thesis
    using assms by (cases a) (auto simp: on_keyword_def agrees_none intro: agrees_eq [OF agrees_fails])
qed (simp add: on_keyword_def agrees_none)

lemma known_iff:
  "(case Option.bind (jget m ''properties'') as_object of None \<Rightarrow> False | Some props \<Rightarrow> jhas props k) \<longleftrightarrow>
   (\<exists>props s. jget m ''properties'' = Some (JObject props) \<and> jget props k = Some s)"
  by (cases "jget m ''properties''"; cases "the (jget m ''properties'')") (auto simp: jhas_def)

lemma validate_object_agrees:
  assumes "\<And>n k s w ip sp. jget m ''properties'' = Some (JObject n) \<Longrightarrow> (k, s) \<in> set n \<Longrightarrow> agrees (check s w ip sp) (sat s w)"
    and "\<And>n w ip sp. jget m ''additionalProperties'' = Some (JObject n) \<Longrightarrow> agrees (check (JObject n) w ip sp) (sat (JObject n) w)"
  shows "agrees (validate_object check m v ip sp) (\<forall>vs. v = JObject vs \<longrightarrow> conforms_object sat m vs)"
proof (cases "as_object v")
  case (Some vs)
  let ?known = "\<lambda>k. case Option.bind (jget m ''properties'') as_object of None \<Rightarrow> False | Some props \<Rightarrow> jhas props k"
  let ?extra = "\<lambda>w. jget m ''additionalProperties'' \<noteq> Some (JBool False) \<and>
     on_keyword m ''additionalProperties'' as_object (\<lambda>n. sat (JObject n) w)"
  have "agrees (gather (map (\<lambda>e. if ?known (fst e) then Some [] else
      (case jget m ''additionalProperties'' of
         Some (JBool b) \<Rightarrow> fails (\<not> b) (join ip (fst e)) sp ''additionalProperties''
       | Some (JObject n) \<Rightarrow> check (JObject n) (snd e) (join ip (fst e)) (join sp ''additionalProperties'')
       | _ \<Rightarrow> Some [])) vs)) (\<forall>e \<in> set vs. ?known (fst e) \<or> ?extra (snd e))"
    by (rule agrees_map) (simp add: agrees_none additional_agrees [where check = check and sat = sat, OF assms(2)])
  from agrees_append [OF required_agrees agrees_append [OF properties_agree [OF assms(1)] this]]
  have "agrees (validate_object check m v ip sp) (conforms_object sat m vs)"
    unfolding validate_object_def Some option.case Let_def
    by (rule agrees_eq) (simp_all add: conforms_object_def known_iff split_beta)
  then show ?thesis
    using Some by simp
qed (auto simp: validate_object_def agrees_def)

lemma validate_composition_agrees:
  assumes "\<And>k bs b. k \<in> {''allOf'', ''anyOf'', ''oneOf''} \<Longrightarrow> jget m k = Some (JArray bs) \<Longrightarrow> b \<in> set bs \<Longrightarrow>
      agrees (check b v ip (join sp k)) (sat b v)"
    and "\<And>s. jget m ''not'' = Some s \<Longrightarrow> agrees (check s v ip (join sp ''not'')) (sat s v)"
  shows "agrees (validate_composition check m v ip sp)
    (on_keyword m ''allOf'' as_array (\<lambda>bs. \<forall>b \<in> set bs. sat b v) \<and>
     on_keyword m ''anyOf'' as_array (\<lambda>bs. \<exists>b \<in> set bs. sat b v) \<and>
     on_keyword m ''oneOf'' as_array (\<lambda>bs. \<exists>!i. i < length bs \<and> sat (bs ! i) v) \<and>
     on_keyword m ''not'' Some (\<lambda>s. \<not> sat s v))"
proof -
  have branch: "k \<in> {''allOf'', ''anyOf'', ''oneOf''} \<Longrightarrow> agrees (branch_failures check m k v ip sp)
    (on_keyword m k as_array (\<lambda>bs.
       if k = ''allOf'' then \<forall>b \<in> set bs. sat b v
       else if k = ''anyOf'' then \<exists>b \<in> set bs. sat b v
       else \<exists>!i. i < length bs \<and> sat (bs ! i) v))" for k
    by (rule branch_failures_agree) (auto intro: assms(1))
  have "agrees (case jget m ''not'' of None \<Rightarrow> Some []
      | Some s \<Rightarrow> Option.bind (check s v ip (join sp ''not'')) (\<lambda>inside. fails (inside = []) ip sp ''not''))
    (on_keyword m ''not'' Some (\<lambda>s. \<not> sat s v))"
    using assms(2) by (cases "jget m ''not''") (auto simp: on_keyword_def agrees_def fails_def)
  note all = branch [of "''allOf''", simplified] branch [of "''anyOf''", simplified] branch [of "''oneOf''", simplified] this
  show ?thesis
    unfolding validate_composition_def
    by (rule agrees_eq, (rule agrees_Cons agrees_Nil all)+) simp
qed

lemma value_node_agrees:
  assumes "schema_node F chk m = Inr ()"
    and "\<And>s w ip sp. s \<in> inner_values m \<Longrightarrow> chk s = Inr () \<Longrightarrow> agrees (check s w ip sp) (sat s w)"
  shows "agrees (value_node F check m v ip sp) (conforms_node F sat m v)"
proof -
  note child = schema_node_children [OF assms(1)]
  have parts: "agrees (validate_object check m v ip sp) (\<forall>vs. v = JObject vs \<longrightarrow> conforms_object sat m vs)"
    "agrees (validate_array check m v ip sp) (\<forall>vs. v = JArray vs \<longrightarrow> conforms_array sat m vs)"
    by ((rule validate_object_agrees validate_array_agrees;
        blast intro: assms(2) child(1-3) jget_inner jget_inner_object)+)
  have composed: "agrees (validate_composition check m v ip sp)
    (on_keyword m ''allOf'' as_array (\<lambda>bs. \<forall>b \<in> set bs. sat b v) \<and>
     on_keyword m ''anyOf'' as_array (\<lambda>bs. \<exists>b \<in> set bs. sat b v) \<and>
     on_keyword m ''oneOf'' as_array (\<lambda>bs. \<exists>!i. i < length bs \<and> sat (bs ! i) v) \<and>
     on_keyword m ''not'' Some (\<lambda>s. \<not> sat s v))"
    by (rule validate_composition_agrees; blast intro: assms(2) child(4,5) jget_inner jget_inner_array)
  let ?typed = "on_keyword m ''type'' json_as_str (matches_type F v)"
  have const: "agrees (fails (case jget m ''const'' of None \<Rightarrow> False | Some w \<Rightarrow> \<not> json_eq v w) ip sp ''const'')
      (on_keyword m ''const'' Some (json_eq v))"
    by (rule agrees_eq [OF agrees_fails]) (simp add: on_keyword_def split: option.split)
  have listed: "agrees (fails (case Option.bind (jget m ''enum'') as_array of
        None \<Rightarrow> False | Some vs \<Rightarrow> \<not> list_ex (json_eq v) vs) ip sp ''enum'')
      (on_keyword m ''enum'' as_array (\<lambda>vs. \<exists>w \<in> set vs. json_eq v w))"
    by (rule agrees_eq [OF agrees_keyword]) (simp add: list_ex_iff)
  have guard: "(case Option.bind (jget m ''type'') json_as_str of None \<Rightarrow> False | Some k \<Rightarrow> \<not> matches_type F v k) \<longleftrightarrow> \<not> ?typed"
    by (auto simp: on_keyword_bind split: option.split)
  show ?thesis
  proof (cases ?typed)
    case True
    then have typed: "\<not> \<not> ?typed"
      by simp
    show ?thesis
      unfolding value_node_def guard conforms_node_def if_not_P [OF typed]
      by (rule agrees_eq,
          (rule agrees_Cons agrees_Nil listed const parts validate_string_agrees validate_number_agrees composed)+)
        (simp add: True)
  next
    case False
    then show ?thesis
      unfolding value_node_def guard conforms_node_def by (simp add: agrees_def)
  qed
qed

lemma validate_node_agrees:
  "validate_schema_node F s = Inr () \<Longrightarrow> agrees (validate_node F s v ip sp) (conforms F s v)"
proof (induction F s arbitrary: v ip sp rule: validate_schema_node.induct)
  case (1 F s)
  then obtain m where s: "s = JObject m"
    by (cases s) (simp_all add: validate_schema_node.simps)
  have "schema_node F (validate_schema_node F) m = Inr ()"
    using 1(2) unfolding s by (simp add: validate_schema_node.simps [of F "JObject m"])
  then show ?case
    unfolding s validate_node.simps [of F "JObject m"] conforms.simps [of F "JObject m"] json.case
    by (rule value_node_agrees) (rule 1(1) [OF s])
qed

lemma sort_key_eq_Nil: "sort_key f xs = [] \<longleftrightarrow> xs = []"
  by (metis length_0_conv length_sort)

lemma validate_arguments_agrees:
  "validate_schema_node F s = Inr () \<Longrightarrow> agrees (validate_arguments F s v) (conforms F s v)"
  using validate_node_agrees [of F s v "[]" "[]"]
  by (auto simp: agrees_def validate_arguments_def sort_key_eq_Nil)

lemma validate_portable_value_iff:
  "validate_portable_value F s v = Some (Inr []) \<longleftrightarrow> validate_schema_node F s = Inr () \<and> conforms F s v"
  using validate_arguments_agrees [of F s v]
  by (auto simp: validate_portable_value_def agrees_def split: sum.split)

lemma validate_portable_value_total: "validate_portable_value F s v \<noteq> None"
  using validate_arguments_agrees [of F s v]
  by (auto simp: validate_portable_value_def agrees_def split: sum.split)

text \<open>
  C31. The portable schema validator returns on every schema and value, without a panic, and returns
  an empty list of failures exactly when the schema is in the portable subset and the value conforms
  to it, keyword by keyword.
\<close>

theorem portable_value_decides:
  "(\<exists>r. validate_portable_value F s v = Some r) \<and>
   (validate_portable_value F s v = Some (Inr []) \<longleftrightarrow> validate_schema_node F s = Inr () \<and> conforms F s v)"
  using validate_portable_value_iff validate_portable_value_total [of F s v] by auto

end
