(* ===== verification/Tool_Preparation.thy ===== *)
theory Tool_Preparation
  imports Tool_Schema
begin

section \<open>Preparing a tool call\<close>

text \<open>
  The definitions a catalogue admits and the preparation of an untrusted tool proposal
  (\<open>prepared.rs\<close>, \<open>sandbox.rs\<close>, \<open>unique_json.rs\<close>). Preparation parses the arguments without admitting a
  duplicate key, validates them against the schema of the definition, resolves the exact resources of
  the call, compares them with the policy, and binds everything in one digest. The validator's panic is
  a fault here; the constructors of a definition make it unreachable.

  The token stream of \<open>serde_json\<close>, the canonical encoder \<open>serde_jcs\<close> and SHA-256 are parameters.
\<close>

subsection \<open>Errors and external code\<close>

record PreparationError =
  pe_code :: PreparationErrorCode
  pe_failures :: "SchemaFailure list"

definition prep_error :: "PreparationErrorCode \<Rightarrow> PreparationError" where
  "prep_error c = \<lparr>pe_code = c, pe_failures = []\<rparr>"

definition prep :: "PreparationErrorCode + 'a \<Rightarrow> PreparationError + 'a" where
  "prep r = (case r of Inl c \<Rightarrow> Inl (prep_error c) | Inr x \<Rightarrow> Inr x)"

text \<open>
  What a deserializer hands to the visitor: one syntax tree, objects with their members in the order of
  the text. \<open>read_json\<close> is \<open>deserialize_any\<close> on the text; it returns the tree and the text left over.
\<close>

datatype raw_json =
    Raw_Unit
  | Raw_Bool bool
  | Raw_I64 int
  | Raw_U64 u64
  | Raw_F64 u64
  | Raw_Str string
  | Raw_Seq "raw_json list"
  | Raw_Map "(string \<times> raw_json) list"

record tool_externals =
  read_json :: "string \<Rightarrow> (raw_json \<times> string) option"
  jcs :: "json \<Rightarrow> string option"
  sha256 :: "string \<Rightarrow> string"

subsection \<open>Duplicate-free JSON\<close>

text \<open>\<open>Number::from_f64\<close> refuses infinities and NaN.\<close>

definition f64_finite :: "u64 \<Rightarrow> bool" where
  "f64_finite x \<longleftrightarrow> f64_abs x < 0x7FF0000000000000"

definition number_of_i64 :: "int \<Rightarrow> json" where
  "number_of_i64 i = JNumber (if i < 0 then NegInt i else PosInt (of_int i))"

fun unique_value :: "raw_json \<Rightarrow> json option"
  and unique_seq :: "raw_json list \<Rightarrow> json list option"
  and unique_map :: "jmap \<Rightarrow> (string \<times> raw_json) list \<Rightarrow> jmap option" where
  "unique_value Raw_Unit = Some JNull"
| "unique_value (Raw_Bool b) = Some (JBool b)"
| "unique_value (Raw_I64 i) = Some (number_of_i64 i)"
| "unique_value (Raw_U64 n) = Some (JNumber (PosInt n))"
| "unique_value (Raw_F64 x) = (if f64_finite x then Some (JNumber (Float x)) else None)"
| "unique_value (Raw_Str s) = Some (JString s)"
| "unique_value (Raw_Seq rs) = map_option JArray (unique_seq rs)"
| "unique_value (Raw_Map ms) = map_option JObject (unique_map [] ms)"
| "unique_seq [] = Some []"
| "unique_seq (r # rs) = Option.bind (unique_value r) (\<lambda>v. map_option ((#) v) (unique_seq rs))"
| "unique_map m [] = Some m"
| "unique_map m ((k, r) # ms) =
     Option.bind (unique_value r) (\<lambda>v.
       if jhas m k then None else unique_map (alist_put k v m) ms)"

definition parse_arguments :: "tool_externals \<Rightarrow> string \<Rightarrow> PreparationErrorCode + json" where
  "parse_arguments X input =
     rbind (ok_or (read_json X input) InvalidArgumentsJson) (\<lambda>(raw, rest).
     rbind (ok_or (unique_value raw) InvalidArgumentsJson) (\<lambda>v.
       if list_all (\<lambda>c. c \<in> {CHR '' '', CHR 0x0A, CHR 0x09, CHR 0x0D}) rest then Inr v else Inl InvalidArgumentsJson))"

subsection \<open>Capabilities and sandbox requirements\<close>

datatype ExecutionCapability = FilesystemRead | FilesystemWrite | Process_Capability | Network_Capability
  | BrowserObserve | BrowserAct | ComputerObserve | ComputerAct

definition capability_order :: "ExecutionCapability list" where
  "capability_order = [FilesystemRead, FilesystemWrite, Process_Capability, Network_Capability,
     BrowserObserve, BrowserAct, ComputerObserve, ComputerAct]"

fun capability_wire_name :: "ExecutionCapability \<Rightarrow> string" where
  "capability_wire_name FilesystemRead = ''filesystem_read''"
| "capability_wire_name FilesystemWrite = ''filesystem_write''"
| "capability_wire_name Process_Capability = ''process''"
| "capability_wire_name Network_Capability = ''network''"
| "capability_wire_name BrowserObserve = ''browser_observe''"
| "capability_wire_name BrowserAct = ''browser_act''"
| "capability_wire_name ComputerObserve = ''computer_observe''"
| "capability_wire_name ComputerAct = ''computer_act''"

record ExecutionRequirements =
  capabilities :: "ExecutionCapability set"
  max_duration_ms :: u64
  max_output_bytes :: u64

definition execution_requirements ::
  "ExecutionCapability list \<Rightarrow> u64 \<Rightarrow> u64 \<Rightarrow> PreparationErrorCode + ExecutionRequirements" where
  "execution_requirements cs ms bytes =
     (if ms = 0 \<or> bytes = 0 \<or> card (set cs) \<noteq> length cs then Inl InvalidToolDefinition
      else Inr \<lparr>capabilities = set cs, max_duration_ms = ms, max_output_bytes = bytes\<rparr>)"

datatype ReplayClass = ReadOnly | Idempotent | ReceiptRecoverable | NeverReplay

datatype SandboxControl = FilesystemScope | SymlinkContainment | ProcessContainment | StructuredArguments
  | EnvironmentAllowlist | NetworkOriginScope | RedirectRevalidation | BrowserSessionScope | NativeTargetScope
  | SnapshotBinding | FocusRevalidation | ScreenCaptureScope | ResourceLimits

definition control_order :: "SandboxControl list" where
  "control_order = [FilesystemScope, SymlinkContainment, ProcessContainment, StructuredArguments,
     EnvironmentAllowlist, NetworkOriginScope, RedirectRevalidation, BrowserSessionScope, NativeTargetScope,
     SnapshotBinding, FocusRevalidation, ScreenCaptureScope, ResourceLimits]"

fun control_wire_name :: "SandboxControl \<Rightarrow> string" where
  "control_wire_name FilesystemScope = ''filesystem_scope''"
| "control_wire_name SymlinkContainment = ''symlink_containment''"
| "control_wire_name ProcessContainment = ''process_containment''"
| "control_wire_name StructuredArguments = ''structured_arguments''"
| "control_wire_name EnvironmentAllowlist = ''environment_allowlist''"
| "control_wire_name NetworkOriginScope = ''network_origin_scope''"
| "control_wire_name RedirectRevalidation = ''redirect_revalidation''"
| "control_wire_name BrowserSessionScope = ''browser_session_scope''"
| "control_wire_name NativeTargetScope = ''native_target_scope''"
| "control_wire_name SnapshotBinding = ''snapshot_binding''"
| "control_wire_name FocusRevalidation = ''focus_revalidation''"
| "control_wire_name ScreenCaptureScope = ''screen_capture_scope''"
| "control_wire_name ResourceLimits = ''resource_limits''"

record SandboxRequirementsV1 =
  sr_controls :: "SandboxControl set"
  sr_max_processes :: "u32 option"
  sr_max_open_files :: u32

definition required_controls :: "ExecutionCapability set \<Rightarrow> SandboxControl set \<Rightarrow> bool" where
  "required_controls cs controls \<longleftrightarrow>
     (FilesystemRead \<in> cs \<or> FilesystemWrite \<in> cs \<longrightarrow>
        {FilesystemScope, SymlinkContainment, ResourceLimits} \<subseteq> controls) \<and>
     (Process_Capability \<in> cs \<longrightarrow>
        {ProcessContainment, StructuredArguments, EnvironmentAllowlist, ResourceLimits} \<subseteq> controls) \<and>
     (Network_Capability \<in> cs \<longrightarrow> {NetworkOriginScope, RedirectRevalidation, ResourceLimits} \<subseteq> controls) \<and>
     (BrowserObserve \<in> cs \<or> BrowserAct \<in> cs \<longrightarrow>
        {BrowserSessionScope, SnapshotBinding, ResourceLimits} \<subseteq> controls) \<and>
     (ComputerObserve \<in> cs \<or> ComputerAct \<in> cs \<longrightarrow>
        {NativeTargetScope, SnapshotBinding, ResourceLimits} \<subseteq> controls) \<and>
     (ComputerAct \<in> cs \<longrightarrow> FocusRevalidation \<in> controls)"

definition sandbox_requirements_new ::
  "ExecutionCapability set \<Rightarrow> SandboxControl list \<Rightarrow> u32 option \<Rightarrow> u32 \<Rightarrow> PreparationErrorCode + SandboxRequirementsV1" where
  "sandbox_requirements_new cs controls processes files =
     (if files \<noteq> 0 \<and> controls \<noteq> [] \<and> length controls = card (set controls) \<and>
         (Process_Capability \<in> cs) = (processes \<noteq> None) \<and> processes \<noteq> Some 0 \<and>
         required_controls cs (set controls)
      then Inr \<lparr>sr_controls = set controls, sr_max_processes = processes, sr_max_open_files = files\<rparr>
      else Inl SandboxRequirementInvalid)"

definition is_covered_by :: "SandboxRequirementsV1 \<Rightarrow> SandboxRequirementsV1 \<Rightarrow> bool" where
  "is_covered_by s executor \<longleftrightarrow>
     sr_controls s \<subseteq> sr_controls executor \<and> sr_max_open_files executor \<le> sr_max_open_files s \<and>
     (case (sr_max_processes s, sr_max_processes executor) of
        (Some requested, Some enforced) \<Rightarrow> enforced \<le> requested
      | (None, None) \<Rightarrow> True
      | _ \<Rightarrow> False)"

definition controls_in_order :: "SandboxRequirementsV1 \<Rightarrow> SandboxControl list" where
  "controls_in_order s = filter (\<lambda>c. c \<in> sr_controls s) control_order"

definition validate_for :: "SandboxRequirementsV1 \<Rightarrow> ExecutionCapability set \<Rightarrow> PreparationErrorCode + unit" where
  "validate_for s cs =
     rvoid (sandbox_requirements_new cs (controls_in_order s) (sr_max_processes s) (sr_max_open_files s))"

subsection \<open>Serialization\<close>

text \<open>\<open>json!\<close> and the derived serializers build an object in the key order of its map.\<close>

definition jobject :: "(string \<times> json) list \<Rightarrow> json" where
  "jobject ms = JObject (fold (\<lambda>(k, v). alist_put k v) ms [])"

definition jtext_list :: "string list \<Rightarrow> json" where
  "jtext_list ts = JArray (map JString ts)"

definition ju64 :: "u64 \<Rightarrow> json" where
  "ju64 n = JNumber (PosInt n)"

definition requirements_json :: "ExecutionRequirements \<Rightarrow> json" where
  "requirements_json r =
     jobject [(''capabilities'', jtext_list (map capability_wire_name (filter (\<lambda>c. c \<in> capabilities r) capability_order))),
              (''max_duration_ms'', ju64 (max_duration_ms r)),
              (''max_output_bytes'', ju64 (max_output_bytes r))]"

fun replay_wire :: "ReplayClass \<Rightarrow> string" where
  "replay_wire ReadOnly = ''read_only''"
| "replay_wire Idempotent = ''idempotent''"
| "replay_wire ReceiptRecoverable = ''receipt_recoverable''"
| "replay_wire NeverReplay = ''never_replay''"

fun namespace_wire :: "AccessNamespace \<Rightarrow> string" where
  "namespace_wire Filesystem = ''filesystem''"
| "namespace_wire Process = ''process''"
| "namespace_wire Network = ''network''"
| "namespace_wire Runtime = ''runtime''"

fun mode_wire :: "AccessMode \<Rightarrow> string" where
  "mode_wire Read = ''read''"
| "mode_wire Write = ''write''"
| "mode_wire Exclusive = ''exclusive''"

definition access_json :: "ResourceAccess \<Rightarrow> json" where
  "access_json a =
     jobject [(''namespace'', JString (namespace_wire (ra_namespace a))),
              (''resource_key'', JString (ra_resource_key a)),
              (''mode'', JString (mode_wire (ra_mode a)))]"

definition sandbox_json :: "SandboxRequirementsV1 \<Rightarrow> json" where
  "sandbox_json s =
     jobject ([(''contract'', JString ''garive.sandbox-requirements''),
               (''version'', ju64 1),
               (''controls'', jtext_list (map control_wire_name (controls_in_order s)))] @
              (case sr_max_processes s of None \<Rightarrow> [] | Some n \<Rightarrow> [(''max_processes'', ju64 (ucast n))]) @
              [(''max_open_files'', ju64 (ucast (sr_max_open_files s)))])"

definition sandbox_digest :: "tool_externals \<Rightarrow> SandboxRequirementsV1 \<Rightarrow> PreparationErrorCode + string" where
  "sandbox_digest X s = rbind (ok_or (jcs X (sandbox_json s)) NonCanonicalValue) (\<lambda>b. Inr (sha256 X b))"

subsection \<open>Definitions\<close>

record ToolAccessContract =
  tac_policy :: ToolAccessPolicyV1
  tac_resolver_revision :: string

record ToolDefinition =
  td_name :: string
  td_revision :: string
  td_description :: string
  td_input_schema :: json
  td_requirements :: ExecutionRequirements
  td_replay_class :: ReplayClass
  td_access_contract :: "ToolAccessContract option"
  td_sandbox_requirements :: "SandboxRequirementsV1 option"

definition read_only_capability :: "bool \<Rightarrow> ExecutionCapability \<Rightarrow> bool" where
  "read_only_capability v2_access_proof c \<longleftrightarrow>
     c \<in> {FilesystemRead, BrowserObserve, ComputerObserve} \<or> (v2_access_proof \<and> c = Network_Capability)"

definition new_internal ::
  "float_ops \<Rightarrow> string \<Rightarrow> string \<Rightarrow> string \<Rightarrow> json \<Rightarrow> ExecutionRequirements \<Rightarrow> ReplayClass \<Rightarrow> bool \<Rightarrow>
   PreparationErrorCode + ToolDefinition" where
  "new_internal F name revision description schema requirements replay v2_access_proof =
     (if name = [] \<or> revision = [] \<or> description = [] then Inl InvalidToolDefinition
      else
        rbind (validate_definition F schema) (\<lambda>_.
          if replay = ReadOnly \<and> (\<exists>c \<in> capabilities requirements. \<not> read_only_capability v2_access_proof c)
          then Inl InvalidToolDefinition
          else Inr \<lparr>td_name = name, td_revision = revision, td_description = description, td_input_schema = schema,
                    td_requirements = requirements, td_replay_class = replay, td_access_contract = None,
                    td_sandbox_requirements = None\<rparr>))"

definition new_v1 ::
  "float_ops \<Rightarrow> string \<Rightarrow> string \<Rightarrow> string \<Rightarrow> json \<Rightarrow> ExecutionRequirements \<Rightarrow> ReplayClass \<Rightarrow>
   PreparationErrorCode + ToolDefinition" where
  "new_v1 F name revision description schema requirements replay =
     new_internal F name revision description schema requirements replay False"

definition new_v2 ::
  "float_ops \<Rightarrow> string \<Rightarrow> string \<Rightarrow> string \<Rightarrow> json \<Rightarrow> ExecutionRequirements \<Rightarrow> ReplayClass \<Rightarrow> ToolAccessPolicyV1 \<Rightarrow> string \<Rightarrow>
   PreparationErrorCode + ToolDefinition" where
  "new_v2 F name revision description schema requirements replay policy resolver_revision =
     rbind (new_internal F name revision description schema requirements replay True) (\<lambda>d.
       if resolver_revision = [] then Inl EffectAccessInvalid
       else Inr (d\<lparr>td_access_contract := Some \<lparr>tac_policy = policy, tac_resolver_revision = resolver_revision\<rparr>\<rparr>))"

definition new_v3 ::
  "float_ops \<Rightarrow> string \<Rightarrow> string \<Rightarrow> string \<Rightarrow> json \<Rightarrow> ExecutionRequirements \<Rightarrow> ReplayClass \<Rightarrow> ToolAccessPolicyV1 \<Rightarrow> string \<Rightarrow>
   SandboxRequirementsV1 \<Rightarrow> PreparationErrorCode + ToolDefinition" where
  "new_v3 F name revision description schema requirements replay policy resolver_revision sandbox =
     rbind (validate_for sandbox (capabilities requirements)) (\<lambda>_.
     rbind (new_v2 F name revision description schema requirements replay policy resolver_revision) (\<lambda>d.
       Inr (d\<lparr>td_sandbox_requirements := Some sandbox\<rparr>)))"

definition prepared_contract_version :: "ToolDefinition \<Rightarrow> nat" where
  "prepared_contract_version d =
     (if td_sandbox_requirements d \<noteq> None then 3 else if td_access_contract d \<noteq> None then 2 else 1)"

type_synonym ToolCatalog = "(string, ToolDefinition) btmap"

text \<open>The loop of \<open>ToolCatalog::new\<close>: the first name inserted twice ends it.\<close>

definition admit_definition ::
  "ToolDefinition \<Rightarrow> PreparationErrorCode + ToolCatalog \<Rightarrow> PreparationErrorCode + ToolCatalog" where
  "admit_definition d r =
     rbind r (\<lambda>m. if bt_contains m (td_name d) then Inl InvalidToolDefinition else Inr (bt_insert (td_name d) d m))"

definition tool_catalog :: "ToolDefinition list \<Rightarrow> PreparationErrorCode + ToolCatalog" where
  "tool_catalog ds = fold admit_definition ds (Inr bt_empty)"

definition policy_entry_json :: "AccessPolicyEntry \<Rightarrow> json" where
  "policy_entry_json e =
     jobject [(''resource'', JString (ap_resource e)), (''allowed_modes'', jtext_list (map mode_wire (ap_allowed_modes e)))]"

definition policy_json :: "ToolAccessPolicyV1 \<Rightarrow> json" where
  "policy_json p =
     jobject [(''policy_revision'', JString (tp_policy_revision p)),
              (''filesystem_roots'', JArray (map policy_entry_json (tp_filesystem_roots p))),
              (''process_lanes'', JArray (map policy_entry_json (tp_process_lanes p))),
              (''network_origins'', JArray (map policy_entry_json (tp_network_origins p))),
              (''runtime_lanes'', JArray (map policy_entry_json (tp_runtime_lanes p))),
              (''max_accesses'', ju64 (of_nat (tp_max_accesses p))),
              (''max_result_bytes'', ju64 (tp_max_result_bytes p))]"

definition definition_json :: "ToolDefinition \<Rightarrow> json" where
  "definition_json d =
     jobject ([(''name'', JString (td_name d)),
               (''revision'', JString (td_revision d)),
               (''description'', JString (td_description d)),
               (''input_schema'', td_input_schema d),
               (''requirements'', requirements_json (td_requirements d)),
               (''replay_class'', JString (replay_wire (td_replay_class d)))] @
              (case td_access_contract d of
                 None \<Rightarrow> []
               | Some c \<Rightarrow> [(''access_contract'', jobject [(''policy'', policy_json (tac_policy c)),
                                                      (''resolver_revision'', JString (tac_resolver_revision c))])]) @
              (case td_sandbox_requirements d of None \<Rightarrow> [] | Some b \<Rightarrow> [(''sandbox_requirements'', sandbox_json b)]))"

definition tool_catalogue_digest :: "tool_externals \<Rightarrow> ToolDefinition list \<Rightarrow> PreparationErrorCode + string" where
  "tool_catalogue_digest X ds =
     rbind (tool_catalog ds) (\<lambda>ordered.
     rbind (ok_or (jcs X (jobject [(''contract'', JString ''garive.tool-catalogue''),
                                   (''version'', ju64 1),
                                   (''definitions'', JArray (map definition_json (bt_values ordered)))])) NonCanonicalValue)
       (\<lambda>canonical. Inr (sha256 X canonical)))"

subsection \<open>Prepared calls\<close>

record ToolIntent =
  ti_model_call_id :: string
  ti_tool_name :: string
  ti_arguments_json :: string

record PreparedToolCall =
  pc_model_call_id :: string
  pc_tool_name :: string
  pc_tool_revision :: string
  pc_normalized_arguments :: string
  pc_input_digest :: string
  pc_requirements :: ExecutionRequirements
  pc_replay_class :: ReplayClass
  pc_contract_version :: nat
  pc_access_policy_revision :: "string option"
  pc_access_resolver_revision :: "string option"
  pc_invocation_accesses :: "InvocationAccessSet option"
  pc_max_result_bytes :: "u64 option"
  pc_sandbox_requirements :: "SandboxRequirementsV1 option"
  pc_sandbox_requirements_digest :: "string option"

text \<open>The resolver a caller passes, a trait object.\<close>

record ToolAccessResolver =
  resolver_revision :: string
  resolve :: "json \<Rightarrow> PreparationErrorCode + InvocationAccessSet"

definition preimage_v1 :: "nat \<Rightarrow> ToolDefinition \<Rightarrow> json \<Rightarrow> (string \<times> json) list" where
  "preimage_v1 version d arguments =
     [(''contract'', JString ''garive.prepared-tool-call''),
      (''version'', ju64 (of_nat version)),
      (''tool_name'', JString (td_name d)),
      (''tool_revision'', JString (td_revision d)),
      (''arguments'', arguments),
      (''requirements'', requirements_json (td_requirements d)),
      (''replay_class'', JString (replay_wire (td_replay_class d)))]"

definition preimage_v2 :: "nat \<Rightarrow> ToolDefinition \<Rightarrow> json \<Rightarrow> InvocationAccessSet \<Rightarrow> ToolAccessContract \<Rightarrow> (string \<times> json) list" where
  "preimage_v2 version d arguments accesses contract =
     preimage_v1 version d arguments @
     [(''access_policy_revision'', JString (tp_policy_revision (tac_policy contract))),
      (''access_resolver_revision'', JString (tac_resolver_revision contract)),
      (''invocation_accesses'', JArray (map access_json accesses)),
      (''max_result_bytes'', ju64 (tp_max_result_bytes (tac_policy contract)))]"

definition preimage_v3 ::
  "ToolDefinition \<Rightarrow> json \<Rightarrow> InvocationAccessSet \<Rightarrow> ToolAccessContract \<Rightarrow> SandboxRequirementsV1 \<Rightarrow> string \<Rightarrow> (string \<times> json) list" where
  "preimage_v3 d arguments accesses contract sandbox digest =
     preimage_v2 3 d arguments accesses contract @
     [(''sandbox_requirements'', sandbox_json sandbox),
      (''sandbox_requirements_digest'', JString digest)]"

definition from_v1 :: "tool_externals \<Rightarrow> ToolIntent \<Rightarrow> ToolDefinition \<Rightarrow> json \<Rightarrow> PreparationErrorCode + PreparedToolCall" where
  "from_v1 X i d arguments =
     rbind (ok_or (jcs X arguments) NonCanonicalValue) (\<lambda>normalized.
     rbind (ok_or (jcs X (jobject (preimage_v1 1 d arguments))) NonCanonicalValue) (\<lambda>canonical.
       Inr \<lparr>pc_model_call_id = ti_model_call_id i, pc_tool_name = td_name d, pc_tool_revision = td_revision d,
            pc_normalized_arguments = normalized, pc_input_digest = sha256 X canonical,
            pc_requirements = td_requirements d, pc_replay_class = td_replay_class d, pc_contract_version = 1,
            pc_access_policy_revision = None, pc_access_resolver_revision = None, pc_invocation_accesses = None,
            pc_max_result_bytes = None, pc_sandbox_requirements = None, pc_sandbox_requirements_digest = None\<rparr>))"

definition from_v2 ::
  "tool_externals \<Rightarrow> ToolIntent \<Rightarrow> ToolDefinition \<Rightarrow> json \<Rightarrow> InvocationAccessSet \<Rightarrow> ToolAccessContract \<Rightarrow>
   PreparationErrorCode + PreparedToolCall" where
  "from_v2 X i d arguments accesses contract =
     rbind (ok_or (jcs X arguments) NonCanonicalValue) (\<lambda>normalized.
     rbind (ok_or (jcs X (jobject (preimage_v2 2 d arguments accesses contract))) NonCanonicalValue) (\<lambda>canonical.
       Inr \<lparr>pc_model_call_id = ti_model_call_id i, pc_tool_name = td_name d, pc_tool_revision = td_revision d,
            pc_normalized_arguments = normalized, pc_input_digest = sha256 X canonical,
            pc_requirements = td_requirements d, pc_replay_class = td_replay_class d, pc_contract_version = 2,
            pc_access_policy_revision = Some (tp_policy_revision (tac_policy contract)),
            pc_access_resolver_revision = Some (tac_resolver_revision contract),
            pc_invocation_accesses = Some accesses,
            pc_max_result_bytes = Some (tp_max_result_bytes (tac_policy contract)),
            pc_sandbox_requirements = None, pc_sandbox_requirements_digest = None\<rparr>))"

definition from_v3 ::
  "tool_externals \<Rightarrow> ToolIntent \<Rightarrow> ToolDefinition \<Rightarrow> json \<Rightarrow> InvocationAccessSet \<Rightarrow> ToolAccessContract \<Rightarrow> SandboxRequirementsV1 \<Rightarrow>
   PreparationErrorCode + PreparedToolCall" where
  "from_v3 X i d arguments accesses contract sandbox =
     rbind (ok_or (jcs X arguments) NonCanonicalValue) (\<lambda>normalized.
     rbind (sandbox_digest X sandbox) (\<lambda>digest.
     rbind (ok_or (jcs X (jobject (preimage_v3 d arguments accesses contract sandbox digest))) NonCanonicalValue) (\<lambda>canonical.
       Inr \<lparr>pc_model_call_id = ti_model_call_id i, pc_tool_name = td_name d, pc_tool_revision = td_revision d,
            pc_normalized_arguments = normalized, pc_input_digest = sha256 X canonical,
            pc_requirements = td_requirements d, pc_replay_class = td_replay_class d, pc_contract_version = 3,
            pc_access_policy_revision = Some (tp_policy_revision (tac_policy contract)),
            pc_access_resolver_revision = Some (tac_resolver_revision contract),
            pc_invocation_accesses = Some accesses,
            pc_max_result_bytes = Some (tp_max_result_bytes (tac_policy contract)),
            pc_sandbox_requirements = Some sandbox, pc_sandbox_requirements_digest = Some digest\<rparr>)))"

type_synonym 'a run_result = "(PreparationError + 'a) option"

definition validate_intent ::
  "tool_externals \<Rightarrow> float_ops \<Rightarrow> ToolCatalog \<Rightarrow> ToolIntent \<Rightarrow> (ToolDefinition \<times> json) run_result" where
  "validate_intent X F catalog i =
     (if ti_model_call_id i = [] then Some (Inl (prep_error InvalidModelCallId))
      else if ti_tool_name i = [] then Some (Inl (prep_error InvalidToolName))
      else
        (case bt_get catalog (ti_tool_name i) of
           None \<Rightarrow> Some (Inl (prep_error ToolNotAdmitted))
         | Some d \<Rightarrow>
             pbind (Some (prep (parse_arguments X (ti_arguments_json i)))) (\<lambda>arguments.
               map_option (\<lambda>failures.
                 if failures \<noteq> [] then Inl \<lparr>pe_code = ArgumentsSchemaMismatch, pe_failures = failures\<rparr>
                 else Inr (d, arguments)) (validate_arguments F (td_input_schema d) arguments))))"

definition prepare :: "tool_externals \<Rightarrow> float_ops \<Rightarrow> ToolCatalog \<Rightarrow> ToolIntent \<Rightarrow> PreparedToolCall run_result" where
  "prepare X F catalog i =
     pbind (validate_intent X F catalog i) (\<lambda>(d, arguments).
       Some (prep
         (if td_access_contract d \<noteq> None then Inl EffectAccessInvalid else from_v1 X i d arguments)))"

definition mutating :: "InvocationAccessSet \<Rightarrow> bool" where
  "mutating accesses \<longleftrightarrow> list_ex (\<lambda>a. ra_mode a \<noteq> Read) accesses"

definition requires_mutation :: "ToolDefinition \<Rightarrow> bool" where
  "requires_mutation d \<longleftrightarrow>
     (\<exists>c \<in> capabilities (td_requirements d). c \<in> {FilesystemWrite, Process_Capability, BrowserAct, ComputerAct})"

definition access_refused :: "ToolDefinition \<Rightarrow> ToolAccessContract \<Rightarrow> InvocationAccessSet \<Rightarrow> bool" where
  "access_refused d contract accesses \<longleftrightarrow>
     \<not> covers (tac_policy contract) accesses \<or>
     (td_replay_class d = ReadOnly \<and> mutating accesses) \<or>
     (td_replay_class d \<noteq> ReadOnly \<and> requires_mutation d \<and> \<not> mutating accesses)"

definition prepare_v2 ::
  "tool_externals \<Rightarrow> float_ops \<Rightarrow> ToolCatalog \<Rightarrow> ToolIntent \<Rightarrow> ToolAccessResolver \<Rightarrow> PreparedToolCall run_result" where
  "prepare_v2 X F catalog i resolver =
     pbind (validate_intent X F catalog i) (\<lambda>(d, arguments).
       Some (prep
         (if td_sandbox_requirements d \<noteq> None then Inl SandboxRequirementInvalid
          else
            rbind (ok_or (td_access_contract d) EffectAccessInvalid) (\<lambda>contract.
              if resolver_revision resolver \<noteq> tac_resolver_revision contract then Inl EffectAccessInvalid
              else
                rbind (resolve resolver arguments) (\<lambda>accesses.
                  if access_refused d contract accesses then Inl EffectAccessInvalid
                  else from_v2 X i d arguments accesses contract)))))"

definition prepare_v3 ::
  "tool_externals \<Rightarrow> float_ops \<Rightarrow> ToolCatalog \<Rightarrow> ToolIntent \<Rightarrow> ToolAccessResolver \<Rightarrow> PreparedToolCall run_result" where
  "prepare_v3 X F catalog i resolver =
     pbind (validate_intent X F catalog i) (\<lambda>(d, arguments).
       Some (prep
         (rbind (ok_or (td_access_contract d) EffectAccessInvalid) (\<lambda>contract.
          rbind (ok_or (td_sandbox_requirements d) SandboxRequirementInvalid) (\<lambda>sandbox.
            if resolver_revision resolver \<noteq> tac_resolver_revision contract then Inl EffectAccessInvalid
            else
              rbind (resolve resolver arguments) (\<lambda>accesses.
                if access_refused d contract accesses then Inl EffectAccessInvalid
                else from_v3 X i d arguments accesses contract sandbox))))))"

subsection \<open>Definitions are well formed\<close>

text \<open>The fields of a definition are private: every definition comes from one of the constructors.\<close>

definition constructed :: "float_ops \<Rightarrow> ToolDefinition \<Rightarrow> bool" where
  "constructed F d \<longleftrightarrow>
     (\<exists>name revision description schema requirements replay.
        new_v1 F name revision description schema requirements replay = Inr d \<or>
        (\<exists>policy resolver.
           new_v2 F name revision description schema requirements replay policy resolver = Inr d \<or>
           (\<exists>sandbox. new_v3 F name revision description schema requirements replay policy resolver sandbox = Inr d)))"

definition definition_ok :: "float_ops \<Rightarrow> ToolDefinition \<Rightarrow> bool" where
  "definition_ok F d \<longleftrightarrow>
     td_name d \<noteq> [] \<and>
     validate_schema_node F (td_input_schema d) = Inr () \<and>
     (td_replay_class d = ReadOnly \<longrightarrow> \<not> requires_mutation d) \<and>
     (\<forall>s. td_sandbox_requirements d = Some s \<longrightarrow>
        td_access_contract d \<noteq> None \<and>
        required_controls (capabilities (td_requirements d)) (sr_controls s) \<and>
        (Process_Capability \<in> capabilities (td_requirements d) \<longleftrightarrow> sr_max_processes s \<noteq> None))"

lemma validate_definition_node: "validate_definition F s = Inr u \<Longrightarrow> validate_schema_node F s = Inr ()"
  by (auto simp: validate_definition_def result_simps split: if_splits)

lemma new_internal_ok:
  assumes "new_internal F name revision description schema requirements replay proof = Inr d"
  shows "definition_ok F d" "td_requirements d = requirements" "td_sandbox_requirements d = None"
  using assms
  by (auto simp: new_internal_def definition_ok_def requires_mutation_def read_only_capability_def result_simps
      dest: validate_definition_node split: if_splits)

lemma new_v2_ok:
  assumes "new_v2 F name revision description schema requirements replay policy resolver = Inr d"
  shows "definition_ok F d" "td_requirements d = requirements" "td_access_contract d \<noteq> None"
proof -
  obtain b c where b: "new_internal F name revision description schema requirements replay True = Inr b"
    and d: "d = b\<lparr>td_access_contract := Some c\<rparr>"
    using assms by (auto simp: new_v2_def result_simps split: if_splits)
  show "definition_ok F d" "td_requirements d = requirements" "td_access_contract d \<noteq> None"
    using new_internal_ok [OF b] by (simp_all add: d definition_ok_def requires_mutation_def)
qed

lemma controls_in_order_set: "set (controls_in_order s) = sr_controls s"
proof -
  have "c \<in> set control_order" for c
    by (cases c) (simp_all add: control_order_def)
  then show ?thesis
    by (auto simp: controls_in_order_def)
qed

lemma validate_for_ok:
  "validate_for s cs = Inr u \<Longrightarrow>
    required_controls cs (sr_controls s) \<and> (Process_Capability \<in> cs \<longleftrightarrow> sr_max_processes s \<noteq> None)"
  by (auto simp: validate_for_def rvoid_def sandbox_requirements_new_def controls_in_order_set result_simps split: if_splits)

lemma new_v3_ok:
  assumes "new_v3 F name revision description schema requirements replay policy resolver sandbox = Inr d"
  shows "definition_ok F d"
proof -
  obtain b where b: "new_v2 F name revision description schema requirements replay policy resolver = Inr b"
    and d: "d = b\<lparr>td_sandbox_requirements := Some sandbox\<rparr>"
    and s: "validate_for sandbox (capabilities requirements) = Inr ()"
    using assms by (auto simp: new_v3_def result_simps)
  show ?thesis
    using new_v2_ok [OF b] validate_for_ok [OF s] by (simp add: d definition_ok_def requires_mutation_def)
qed

lemma constructed_ok: "constructed F d \<Longrightarrow> definition_ok F d"
  by (auto simp: constructed_def new_v1_def intro: new_internal_ok new_v2_ok new_v3_ok)

lemma tool_catalog_error: "fold admit_definition ds (Inl e) = Inl e"
  by (induction ds) (simp_all add: admit_definition_def)

lemma admit_definitions_get:
  "fold admit_definition ds (Inr m) = Inr c \<Longrightarrow>
    (bt_get c n = Some d \<longleftrightarrow> (d \<in> set ds \<and> td_name d = n) \<or> bt_get m n = Some d) \<and>
    distinct (map td_name ds) \<and> (\<forall>x \<in> set ds. bt_get m (td_name x) = None)"
proof (induction ds arbitrary: m)
  case (Cons x xs)
  have step: "admit_definition x (Inr m) =
      (if bt_contains m (td_name x) then Inl InvalidToolDefinition else Inr (bt_insert (td_name x) x m))"
    by (simp add: admit_definition_def)
  have new: "bt_get m (td_name x) = None"
    using Cons.prems by (cases "bt_get m (td_name x)") (simp_all add: step tool_catalog_error)
  then have rest: "fold admit_definition xs (Inr (bt_insert (td_name x) x m)) = Inr c"
    using Cons.prems by (simp add: step)
  from Cons.IH [OF rest] new show ?case
    by (auto split: if_splits)
qed simp

lemma tool_catalog_get:
  assumes "tool_catalog ds = Inr c"
  shows "bt_get c n = Some d \<longleftrightarrow> d \<in> set ds \<and> td_name d = n" and "distinct (map td_name ds)"
  using admit_definitions_get [of ds bt_empty c n d] assms by (simp_all add: tool_catalog_def)

subsection \<open>Preparation\<close>

lemma prep_eq_Inr [simp]: "prep r = Inr x \<longleftrightarrow> r = Inr x"
  by (cases r) (simp_all add: prep_def)

lemma validate_intent_total:
  assumes "\<And>n d. bt_get c n = Some d \<Longrightarrow> definition_ok F d"
  shows "validate_intent X F c i \<noteq> None"
proof -
  have "validate_arguments F (td_input_schema d) v \<noteq> None" if "bt_get c n = Some d" for n d v
    using validate_arguments_agrees [of F "td_input_schema d" v] assms [OF that]
    by (auto simp: definition_ok_def agrees_def)
  then show ?thesis
    unfolding validate_intent_def by (simp add: pbind_total del: not_None_eq split: option.split)
qed

lemma validate_intent_ok:
  assumes "validate_intent X F c i = Some (Inr (d, v))" and "definition_ok F d"
  shows "bt_get c (ti_tool_name i) = Some d" "parse_arguments X (ti_arguments_json i) = Inr v"
    "conforms F (td_input_schema d) v" "ti_model_call_id i \<noteq> []"
proof -
  have all: "ti_model_call_id i \<noteq> []" "bt_get c (ti_tool_name i) = Some d"
    "parse_arguments X (ti_arguments_json i) = Inr v" "validate_arguments F (td_input_schema d) v = Some []"
    using assms(1) by (auto simp: validate_intent_def pbind_eq_Some split: if_splits option.splits)
  then show "bt_get c (ti_tool_name i) = Some d" "parse_arguments X (ti_arguments_json i) = Inr v" "ti_model_call_id i \<noteq> []"
    by simp_all
  show "conforms F (td_input_schema d) v"
    using validate_arguments_agrees [of F "td_input_schema d" v] all(4) assms(2)
    by (auto simp: definition_ok_def agrees_def)
qed

text \<open>What a version 2 or 3 preparation has established when it returns a call.\<close>

definition authorized ::
  "float_ops \<Rightarrow> tool_externals \<Rightarrow> ToolAccessResolver \<Rightarrow> ToolIntent \<Rightarrow> ToolDefinition \<Rightarrow> ToolAccessContract \<Rightarrow> PreparedToolCall \<Rightarrow> bool" where
  "authorized F X r i d contract p \<longleftrightarrow>
     (\<exists>v accesses.
        parse_arguments X (ti_arguments_json i) = Inr v \<and> conforms F (td_input_schema d) v \<and>
        resolver_revision r = tac_resolver_revision contract \<and> resolve r v = Inr accesses \<and>
        pc_invocation_accesses p = Some accesses \<and> covers (tac_policy contract) accesses \<and>
        (td_replay_class d = ReadOnly \<longrightarrow> list_all (\<lambda>a. ra_mode a = Read) accesses) \<and>
        (requires_mutation d \<longrightarrow> list_ex (\<lambda>a. ra_mode a \<noteq> Read) accesses) \<and>
        pc_tool_name p = ti_tool_name i \<and> pc_tool_revision p = td_revision d \<and>
        pc_requirements p = td_requirements d \<and> pc_replay_class p = td_replay_class d \<and>
        pc_normalized_arguments p = the (jcs X v))"

lemma not_refused:
  assumes "\<not> access_refused d contract accesses" and "definition_ok F d"
  shows "covers (tac_policy contract) accesses"
    "td_replay_class d = ReadOnly \<longrightarrow> list_all (\<lambda>a. ra_mode a = Read) accesses"
    "requires_mutation d \<longrightarrow> list_ex (\<lambda>a. ra_mode a \<noteq> Read) accesses"
  using assms
  by (auto simp: access_refused_def mutating_def definition_ok_def list_ex_iff list_all_iff)

lemma from_v2_ok:
  assumes "from_v2 X i d v accesses contract = Inr p"
  shows "pc_invocation_accesses p = Some accesses" "pc_tool_name p = td_name d" "pc_tool_revision p = td_revision d"
    "pc_requirements p = td_requirements d" "pc_replay_class p = td_replay_class d"
    "pc_normalized_arguments p = the (jcs X v)" "pc_contract_version p = 2"
    "pc_max_result_bytes p = Some (tp_max_result_bytes (tac_policy contract))"
    "\<exists>b. jcs X (jobject (preimage_v2 2 d v accesses contract)) = Some b \<and> pc_input_digest p = sha256 X b"
  using assms by (auto simp: from_v2_def result_simps)

lemma from_v3_ok:
  assumes "from_v3 X i d v accesses contract sandbox = Inr p"
  shows "pc_invocation_accesses p = Some accesses" "pc_tool_name p = td_name d" "pc_tool_revision p = td_revision d"
    "pc_requirements p = td_requirements d" "pc_replay_class p = td_replay_class d"
    "pc_normalized_arguments p = the (jcs X v)" "pc_contract_version p = 3"
    "pc_sandbox_requirements p = Some sandbox"
    "\<exists>b g. sandbox_digest X sandbox = Inr g \<and> jcs X (jobject (preimage_v3 d v accesses contract sandbox g)) = Some b
       \<and> pc_input_digest p = sha256 X b"
  using assms by (auto simp: from_v3_def result_simps)

lemma prepare_v3_ok:
  assumes "prepare_v3 X F c i r = Some (Inr p)" and ok: "\<And>n d. bt_get c n = Some d \<Longrightarrow> definition_ok F d \<and> td_name d = n"
  obtains d contract sandbox where "bt_get c (ti_tool_name i) = Some d" "td_access_contract d = Some contract"
    "td_sandbox_requirements d = Some sandbox" "authorized F X r i d contract p"
    "pc_sandbox_requirements p = Some sandbox"
proof -
  obtain d v contract sandbox accesses where intent: "validate_intent X F c i = Some (Inr (d, v))"
    and parts: "td_access_contract d = Some contract" "td_sandbox_requirements d = Some sandbox"
      "resolver_revision r = tac_resolver_revision contract" "resolve r v = Inr accesses"
    and allowed: "\<not> access_refused d contract accesses" and p: "from_v3 X i d v accesses contract sandbox = Inr p"
    using assms(1) by (auto simp: prepare_v3_def pbind_eq_Some result_simps split: if_splits)
  have "bt_get c (ti_tool_name i) = Some d"
    using intent by (auto simp: validate_intent_def pbind_eq_Some split: if_splits option.splits)
  note def = ok [OF this] and found = this
  have "authorized F X r i d contract p"
    unfolding authorized_def
    using validate_intent_ok [OF intent] not_refused [OF allowed] from_v3_ok [OF p] parts def by auto
  from that [OF found parts(1,2) this from_v3_ok(8) [OF p]] show thesis .
qed

text \<open>
  C32. For a catalogue of definitions made by the constructors, every proposal, every resolver and
  each of the three contract versions, preparation returns a call or a typed error and never panics.
\<close>

theorem prepare_total:
  assumes "\<forall>d \<in> set ds. constructed F d" and "tool_catalog ds = Inr c"
  shows "prepare X F c i \<noteq> None \<and> prepare_v2 X F c i r \<noteq> None \<and> prepare_v3 X F c i r \<noteq> None"
proof -
  have "definition_ok F d" if "bt_get c n = Some d" for n d
    using assms that tool_catalog_get(1) [OF assms(2)] constructed_ok by blast
  note intent = validate_intent_total [of c F X i, OF this]
  show ?thesis
    unfolding prepare_def prepare_v2_def prepare_v3_def using intent
    by (intro conjI pbind_total) (simp_all split: prod.split)
qed

text \<open>A sample of the external code: a parser that knows one text, and a catalogue of one tool.\<close>

definition sample_floats :: float_ops where
  "sample_floats = \<lparr>f64_of_int = of_int, f64_div = (\<lambda>x y. x), f64_sub = (\<lambda>x y. x), f64_mul = (\<lambda>x y. x),
     f64_round = (\<lambda>x. x), f64_fract = (\<lambda>x. 0)\<rparr>"

definition sample_arguments :: raw_json where
  "sample_arguments = Raw_Map [(''path'', Raw_Str ''src/lib.rs''), (''max_bytes'', Raw_U64 4096)]"

definition sample_tools :: tool_externals where
  "sample_tools = \<lparr>read_json = (\<lambda>t. if t = ''arguments'' then Some (sample_arguments, []) else None),
     jcs = (\<lambda>v. Some ''canonical''), sha256 = (\<lambda>b. b)\<rparr>"

definition sample_tool_schema :: json where
  "sample_tool_schema = jobject [(''type'', JString ''object''), (''properties'', jobject []), (''additionalProperties'', JBool True)]"

theorem prepare_total_witness:
  "\<exists>d c. new_v1 sample_floats ''tool'' ''1'' ''A tool.'' sample_tool_schema \<lparr>capabilities = {}, max_duration_ms = 1, max_output_bytes = 1\<rparr> ReadOnly = Inr d \<and>
     tool_catalog [d] = Inr c \<and>
     prepare sample_tools sample_floats c \<lparr>ti_model_call_id = ''call'', ti_tool_name = ''tool'', ti_arguments_json = ''arguments''\<rparr> \<noteq> None"
proof -
  let ?r = "\<lparr>capabilities = {}, max_duration_ms = 1, max_output_bytes = 1\<rparr> :: ExecutionRequirements"
  have "validate_definition sample_floats sample_tool_schema = Inr ()"
    by code_simp
  then obtain d where d: "new_v1 sample_floats ''tool'' ''1'' ''A tool.'' sample_tool_schema ?r ReadOnly = Inr d"
    by (simp add: new_v1_def new_internal_def)
  obtain c where c: "tool_catalog [d] = Inr c"
    by (simp add: tool_catalog_def admit_definition_def)
  have "constructed sample_floats d"
    unfolding constructed_def by (intro exI disjI1) (rule d)
  then have "\<forall>x \<in> set [d]. constructed sample_floats x"
    by simp
  from prepare_total [OF this c] d c show ?thesis
    by blast
qed

end
