(* ===== verification/T1_Patch.thy ===== *)
theory T1_Patch
  imports Rust_Text
begin

section \<open>The workspace patch format\<close>

text \<open>
  The parser and the in-memory applier of \<open>t1_patch.rs\<close>. A patch lists, per target file, hunks of context,
  added and removed lines; the applier places each hunk at the only position after the previous hunk
  where its old lines occur. The main result is that a successful application rewrites exactly those
  blocks: the old content and the new content agree outside the hunks, line by line, and the hunks are
  applied in order without overlap.
\<close>

subsection \<open>Text\<close>

definition newline :: char where "newline = CHR 0x0A"

definition strip_suffix :: "string \<Rightarrow> string \<Rightarrow> string option" where
  "strip_suffix suf s = (if ends_with s suf then Some (take (length s - length suf) s) else None)"

text \<open>\<open>str::lines\<close>: a line that a newline ends loses one carriage return; an empty last line does not count.\<close>

definition str_lines :: "string \<Rightarrow> string list" where
  "str_lines s =
     (let parts = split_on newline s in
      map (\<lambda>l. case strip_suffix [CHR 0x0D] l of None \<Rightarrow> l | Some t \<Rightarrow> t) (butlast parts) @
      (if last parts = [] then [] else [last parts]))"

definition contains_str :: "string \<Rightarrow> string \<Rightarrow> bool" where
  "contains_str s p \<longleftrightarrow> list_ex (\<lambda>t. starts_with t p) (suffixes s)"

subsection \<open>Patches\<close>

datatype T1PatchError = InvalidSyntax | TargetMissing | ContextMismatch

datatype LineKind = Context | Add | Remove

record PatchLine =
  kind :: LineKind
  pl_text :: string
  no_newline :: bool

type_synonym Hunk = "PatchLine list"

record Target =
  tg_path :: string
  tg_hunks :: "Hunk list"

text \<open>The parser's state: the targets so far, the last of them open, and the hunk being read.\<close>

type_synonym patch_state = "Target list \<times> Hunk option"

definition finish_hunk :: "patch_state \<Rightarrow> T1PatchError + patch_state" where
  "finish_hunk = (\<lambda>(targets, current).
     case current of
       None \<Rightarrow> Inr (targets, None)
     | Some h \<Rightarrow>
         if h = [] \<or> \<not> list_ex (\<lambda>l. kind l \<noteq> Add) h \<or> \<not> list_ex (\<lambda>l. kind l \<noteq> Context) h then Inl InvalidSyntax
         else if targets = [] then Inl InvalidSyntax
         else Inr (butlast targets @ [(last targets)\<lparr>tg_hunks := tg_hunks (last targets) @ [h]\<rparr>], None))"

definition no_newline_text :: string where
  "no_newline_text = CHR 0x5C # '' No newline at end of file''"

definition mark_no_newline :: "patch_state \<Rightarrow> T1PatchError + patch_state" where
  "mark_no_newline = (\<lambda>(targets, current).
     case current of
       None \<Rightarrow> Inl InvalidSyntax
     | Some h \<Rightarrow>
         if h = [] then Inl InvalidSyntax
         else if no_newline (last h) then Inl InvalidSyntax
         else Inr (targets, Some (butlast h @ [(last h)\<lparr>no_newline := True\<rparr>])))"

definition line_kind :: "string \<Rightarrow> LineKind option" where
  "line_kind raw =
     (case raw of
        [] \<Rightarrow> None
      | c # _ \<Rightarrow>
          if c = CHR '' '' then Some Context else if c = CHR ''+'' then Some Add
          else if c = CHR ''-'' then Some Remove else None)"

definition push_line :: "string \<Rightarrow> patch_state \<Rightarrow> T1PatchError + patch_state" where
  "push_line raw = (\<lambda>(targets, current).
     rbind (ok_or (line_kind raw) InvalidSyntax) (\<lambda>k.
     rbind (ok_or current InvalidSyntax) (\<lambda>h.
       Inr (targets, Some (h @ [\<lparr>kind = k, pl_text = tl raw, no_newline = False\<rparr>])))))"

definition open_target :: "string \<Rightarrow> patch_state \<Rightarrow> patch_state" where
  "open_target path = (\<lambda>(targets, current). (targets @ [\<lparr>tg_path = path, tg_hunks = []\<rparr>], current))"

definition has_target :: "patch_state \<Rightarrow> string \<Rightarrow> bool" where
  "has_target st path \<longleftrightarrow> list_ex (\<lambda>t. tg_path t = path) (fst st)"

definition finish_patch :: "patch_state \<Rightarrow> T1PatchError + Target list" where
  "finish_patch st =
     rbind (finish_hunk st) (\<lambda>(targets, _).
       if targets = [] \<or> list_ex (\<lambda>t. tg_hunks t = []) targets then Inl InvalidSyntax else Inr targets)"

subsection \<open>The Garive format\<close>

definition garive_line :: "string \<Rightarrow> patch_state \<Rightarrow> T1PatchError + patch_state" where
  "garive_line raw st =
     (case strip_prefix ''*** Update File: '' raw of
        Some path \<Rightarrow>
          rbind (finish_hunk st) (\<lambda>st.
            if path = [] \<or> path = ''.'' \<or> has_target st path then Inl InvalidSyntax else Inr (open_target path st))
      | None \<Rightarrow>
          if raw = ''@@'' then
            rbind (finish_hunk st) (\<lambda>st. if fst st = [] then Inl InvalidSyntax else Inr (fst st, Some []))
          else if raw = no_newline_text then mark_no_newline st
          else push_line raw st)"

fun garive_lines :: "string list \<Rightarrow> patch_state \<Rightarrow> T1PatchError + patch_state" where
  "garive_lines [] st = Inr st"
| "garive_lines (raw # rest) st = rbind (garive_line raw st) (garive_lines rest)"

definition parse_garive_patch :: "string \<Rightarrow> T1PatchError + Target list" where
  "parse_garive_patch patch =
     rbind (ok_or
       (Option.bind (strip_prefix (''*** Begin Patch'' @ [newline]) patch) (\<lambda>t.
          case strip_suffix (newline # ''*** End Patch'') t of
            Some b \<Rightarrow> Some b
          | None \<Rightarrow> strip_suffix (newline # ''*** End Patch'' @ [newline]) t)) InvalidSyntax) (\<lambda>body.
     rbind (garive_lines (str_lines body) ([], None)) finish_patch)"

subsection \<open>Unified diffs\<close>

definition split_once :: "char \<Rightarrow> string \<Rightarrow> (string \<times> string) option" where
  "split_once c s =
     (if contains_char s c then Some (takeWhile (\<lambda>d. d \<noteq> c) s, tl (dropWhile (\<lambda>d. d \<noteq> c) s)) else None)"

definition unified_path :: "string \<Rightarrow> T1PatchError + string" where
  "unified_path header =
     (let path = (case split_once CHR 0x09 header of None \<Rightarrow> header | Some (p, _) \<Rightarrow> p) in
      rbind (ok_or (case strip_prefix ''a/'' path of Some p \<Rightarrow> Some p | None \<Rightarrow> strip_prefix ''b/'' path) InvalidSyntax) (\<lambda>p.
        if p = [] \<or> p = ''.'' \<or> p = ''/dev/null'' then Inl InvalidSyntax else Inr p))"

definition file_header :: "string \<Rightarrow> string \<Rightarrow> patch_state \<Rightarrow> T1PatchError + patch_state" where
  "file_header old_header new_header st =
     rbind (ok_or (strip_prefix ''+++ '' new_header) InvalidSyntax) (\<lambda>new_text.
     rbind (unified_path old_header) (\<lambda>old_path.
     rbind (unified_path new_text) (\<lambda>new_path.
       if old_path \<noteq> new_path \<or> has_target st new_path then Inl InvalidSyntax else Inr (open_target new_path st))))"

definition body_line :: "string \<Rightarrow> patch_state \<Rightarrow> T1PatchError + patch_state" where
  "body_line raw st =
     (if starts_with raw ''@@ '' \<and> contains_str (drop 3 raw) '' @@'' then
        rbind (finish_hunk st) (\<lambda>st. Inr (fst st, Some []))
      else if raw = no_newline_text then mark_no_newline st
      else push_line raw st)"

definition starts_file :: "string \<Rightarrow> bool" where
  "starts_file raw \<longleftrightarrow> starts_with raw ''diff --git '' \<or> starts_with raw ''--- ''"

text \<open>The two nested loops: \<open>unified_files\<close> is the outer one, \<open>unified_body\<close> reads the lines of one file.\<close>

function unified_files :: "string list \<Rightarrow> patch_state \<Rightarrow> T1PatchError + patch_state"
  and unified_body :: "string list \<Rightarrow> patch_state \<Rightarrow> T1PatchError + patch_state" where
  "unified_files [] st = Inr st"
| "unified_files (raw # rest) st =
     (if starts_with raw ''diff --git '' then rbind (finish_hunk st) (unified_files rest)
      else
        (case strip_prefix ''--- '' raw of
           None \<Rightarrow> Inl InvalidSyntax
         | Some old_header \<Rightarrow>
             rbind (finish_hunk st) (\<lambda>st.
               (case rest of
                  [] \<Rightarrow> Inl InvalidSyntax
                | new_header # body \<Rightarrow> rbind (file_header old_header new_header st) (unified_body body)))))"
| "unified_body [] st = unified_files [] st"
| "unified_body (raw # rest) st =
     (if starts_file raw then unified_files (raw # rest) st
      else rbind (body_line raw st) (unified_body rest))"
  by pat_completeness auto
termination
  by (relation "measure (\<lambda>a. case a of Inl (ls, _) \<Rightarrow> 2 * length ls | Inr (ls, _) \<Rightarrow> Suc (2 * length ls))") auto

definition parse_unified_diff :: "string \<Rightarrow> T1PatchError + Target list" where
  "parse_unified_diff patch = rbind (unified_files (str_lines patch) ([], None)) finish_patch"

definition parse :: "string \<Rightarrow> T1PatchError + Target list" where
  "parse patch =
     (if starts_with patch (''*** Begin Patch'' @ [newline]) then parse_garive_patch patch else parse_unified_diff patch)"

definition t1_patch_targets :: "string \<Rightarrow> T1PatchError + string set" where
  "t1_patch_targets patch = rbind (parse patch) (\<lambda>ts. Inr (set (map tg_path ts)))"

subsection \<open>Application\<close>

definition before_lines :: "Hunk \<Rightarrow> string list" where
  "before_lines h = map pl_text (filter (\<lambda>l. kind l \<noteq> Add) h)"

definition after_lines :: "Hunk \<Rightarrow> string list" where
  "after_lines h = map pl_text (filter (\<lambda>l. kind l \<noteq> Remove) h)"

text \<open>\<open>lines.get(start..start + n)\<close> is there only when the range is inside.\<close>

definition occurs_at :: "string list \<Rightarrow> string list \<Rightarrow> nat \<Rightarrow> bool" where
  "occurs_at ls before start \<longleftrightarrow> start + length before \<le> length ls \<and> take (length before) (drop start ls) = before"

definition positions :: "nat \<Rightarrow> string list \<Rightarrow> string list \<Rightarrow> nat list" where
  "positions cursor ls before = take 2 (filter (occurs_at ls before) [cursor ..< Suc (length ls - length before)])"

text \<open>The state of the loop over the hunks: the lines, the cursor, and whether the result ends in a newline.\<close>

definition apply_hunk ::
  "bool \<Rightarrow> bool \<Rightarrow> Hunk \<Rightarrow> string list \<times> nat \<times> bool \<Rightarrow> T1PatchError + (string list \<times> nat \<times> bool)" where
  "apply_hunk terminal_newline final_hunk h = (\<lambda>(ls, cursor, newline_left).
     let before = before_lines h in
     if before = [] then Inl InvalidSyntax
     else
       (case positions cursor ls before of
          [start] \<Rightarrow>
            rbind
              (if list_ex no_newline h then
                 (if \<not> final_hunk \<or> \<not> no_newline (last h) \<or> start + length before \<noteq> length ls then Inl InvalidSyntax
                  else if list_ex (\<lambda>l. no_newline l \<and> kind l \<noteq> Add) h \<and> terminal_newline then Inl ContextMismatch
                  else Inr False)
               else Inr newline_left) (\<lambda>newline_left.
            Inr (take start ls @ after_lines h @ drop (start + length before) ls, start + length (after_lines h),
                 newline_left))
        | _ \<Rightarrow> Inl ContextMismatch))"

fun apply_hunks ::
  "bool \<Rightarrow> Hunk list \<Rightarrow> string list \<times> nat \<times> bool \<Rightarrow> T1PatchError + (string list \<times> nat \<times> bool)" where
  "apply_hunks terminal_newline [] st = Inr st"
| "apply_hunks terminal_newline (h # hs) st =
     rbind (apply_hunk terminal_newline (hs = []) h st) (apply_hunks terminal_newline hs)"

definition content_lines :: "string \<Rightarrow> string list" where
  "content_lines current =
     (if current = [] then []
      else split_on newline (case strip_suffix [newline] current of None \<Rightarrow> current | Some t \<Rightarrow> t))"

definition apply_t1_patch :: "string \<Rightarrow> string \<Rightarrow> string \<Rightarrow> T1PatchError + string" where
  "apply_t1_patch patch path current =
     rbind (parse patch) (\<lambda>targets.
     rbind (ok_or (List.find (\<lambda>t. tg_path t = path) targets) TargetMissing) (\<lambda>target.
     rbind (apply_hunks (ends_with current [newline]) (tg_hunks target)
        (content_lines current, 0, ends_with current [newline])) (\<lambda>(ls, _, newline_left).
       Inr (join_on newline ls @ (if newline_left then [newline] else [])))))"

subsection \<open>Parsed patches are well formed\<close>

definition hunk_ok :: "Hunk \<Rightarrow> bool" where
  "hunk_ok h \<longleftrightarrow> before_lines h \<noteq> [] \<and> list_ex (\<lambda>l. kind l \<noteq> Context) h"

definition state_ok :: "patch_state \<Rightarrow> bool" where
  "state_ok st \<longleftrightarrow> distinct (map tg_path (fst st)) \<and> list_all (\<lambda>t. list_all hunk_ok (tg_hunks t)) (fst st)"

lemma hunk_ok_iff: "hunk_ok h \<longleftrightarrow> h \<noteq> [] \<and> list_ex (\<lambda>l. kind l \<noteq> Add) h \<and> list_ex (\<lambda>l. kind l \<noteq> Context) h"
  by (auto simp: hunk_ok_def before_lines_def filter_empty_conv list_ex_iff)

lemma finish_hunk_ok:
  assumes "state_ok st" and "finish_hunk st = Inr st'"
  shows "state_ok st'" and "map tg_path (fst st') = map tg_path (fst st)" and "snd st' = None"
proof -
  obtain ts cur where st: "st = (ts, cur)"
    by (cases st)
  show "state_ok st'" "map tg_path (fst st') = map tg_path (fst st)" "snd st' = None"
    using assms unfolding st
    by (cases ts rule: rev_cases; cases cur;
        auto simp: finish_hunk_def state_ok_def hunk_ok_iff split: if_splits)+
qed

lemma mark_no_newline_ok: "state_ok st \<Longrightarrow> mark_no_newline st = Inr st' \<Longrightarrow> state_ok st'"
  by (cases st) (auto simp: mark_no_newline_def state_ok_def split: option.splits if_splits)

lemma push_line_ok: "state_ok st \<Longrightarrow> push_line raw st = Inr st' \<Longrightarrow> state_ok st'"
  by (auto simp: push_line_def state_ok_def result_simps split: prod.splits)

lemma open_target_ok: "state_ok st \<Longrightarrow> \<not> has_target st path \<Longrightarrow> state_ok (open_target path st)"
  by (cases st) (auto simp: open_target_def state_ok_def has_target_def list_ex_iff)

lemma state_ok_fresh: "state_ok (ts, c) \<Longrightarrow> state_ok (ts, h)"
  by (simp add: state_ok_def)

lemma garive_line_ok: "state_ok st \<Longrightarrow> garive_line raw st = Inr st' \<Longrightarrow> state_ok st'"
  by (auto simp: garive_line_def result_simps split: option.splits if_splits
      intro: open_target_ok push_line_ok mark_no_newline_ok state_ok_fresh dest: finish_hunk_ok(1))

lemma garive_lines_ok: "state_ok st \<Longrightarrow> garive_lines ls st = Inr st' \<Longrightarrow> state_ok st'"
  by (induction ls arbitrary: st) (auto simp: result_simps dest: garive_line_ok)

lemma file_header_ok: "state_ok st \<Longrightarrow> file_header old new st = Inr st' \<Longrightarrow> state_ok st'"
  by (auto simp: file_header_def result_simps split: if_splits intro: open_target_ok)

lemma body_line_ok: "state_ok st \<Longrightarrow> body_line raw st = Inr st' \<Longrightarrow> state_ok st'"
  by (auto simp: body_line_def result_simps split: if_splits
      intro: push_line_ok mark_no_newline_ok state_ok_fresh dest: finish_hunk_ok(1))

lemma unified_ok:
  "state_ok st \<Longrightarrow> unified_files ls st = Inr st' \<Longrightarrow> state_ok st'"
  "state_ok st \<Longrightarrow> unified_body ls st = Inr st' \<Longrightarrow> state_ok st'"
proof (induction ls st and ls st rule: unified_files_unified_body.induct)
  case (2 raw rest st)
  show ?case
  proof (cases "starts_with raw ''diff --git ''")
    case True
    with 2 show ?thesis
      by (auto simp: result_simps dest: finish_hunk_ok(1))
  next
    case False
    with 2(4) obtain old mid new body opened where parts: "strip_prefix ''--- '' raw = Some old" "finish_hunk st = Inr mid"
      "rest = new # body" "file_header old new mid = Inr opened" "unified_body body opened = Inr st'"
      by (cases rest) (auto simp: result_simps split: option.splits)
    have "state_ok opened"
      using file_header_ok [OF finish_hunk_ok(1) [OF 2(3) parts(2)] parts(4)] .
    then show ?thesis
      by (rule 2(2) [OF False parts(1-4)]) (rule parts(5))
  qed
qed (auto simp: result_simps split: if_splits dest: body_line_ok)

lemma finish_patch_ok:
  assumes "state_ok st" and "finish_patch st = Inr ts"
  shows "ts \<noteq> [] \<and> distinct (map tg_path ts) \<and> list_all (\<lambda>t. tg_hunks t \<noteq> [] \<and> list_all hunk_ok (tg_hunks t)) ts"
proof -
  obtain c where "finish_hunk st = Inr (ts, c)" and "ts \<noteq> []" "\<not> list_ex (\<lambda>t. tg_hunks t = []) ts"
    using assms(2) by (auto simp: finish_patch_def result_simps split: if_splits)
  with finish_hunk_ok(1) [OF assms(1)] show ?thesis
    by (auto simp: state_ok_def list_ex_iff list_all_iff)
qed

lemma parse_ok:
  assumes "parse patch = Inr ts"
  shows "ts \<noteq> [] \<and> distinct (map tg_path ts) \<and> list_all (\<lambda>t. tg_hunks t \<noteq> [] \<and> list_all hunk_ok (tg_hunks t)) ts"
proof -
  have start: "state_ok ([], None)"
    by (simp add: state_ok_def)
  from assms obtain st where "state_ok st" and "finish_patch st = Inr ts"
    by (auto simp: parse_def parse_garive_patch_def parse_unified_diff_def result_simps split: if_splits
        dest: garive_lines_ok [OF start] unified_ok(1) [OF start])
  then show ?thesis
    by (rule finish_patch_ok)
qed

subsection \<open>Application rewrites exactly the hunks\<close>

text \<open>
  \<open>patched hs old new\<close>: the content is made of the hunks' old lines, in order and without overlap, and of
  lines between them that stay; each hunk's old lines occur once in what the earlier hunks left over.
\<close>

inductive patched :: "Hunk list \<Rightarrow> string list \<Rightarrow> string list \<Rightarrow> bool" where
  patched_none: "patched [] ls ls"
| patched_hunk: "\<lbrakk>\<forall>j. occurs_at (keep @ before_lines h @ rest) (before_lines h) j \<longleftrightarrow> j = length keep;
    patched hs rest rest'\<rbrakk> \<Longrightarrow>
    patched (h # hs) (keep @ before_lines h @ rest) (keep @ after_lines h @ rest')"

inductive_simps patched_Nil [simp]: "patched [] ls ls'"
inductive_cases patched_ConsE: "patched (h # hs) ls ls'"

lemma occurs_at_shift: "occurs_at (d @ ls) b (length d + j) \<longleftrightarrow> occurs_at ls b j"
  by (auto simp: occurs_at_def)

lemma occurs_at_split: "occurs_at ls b j \<longleftrightarrow> (\<exists>keep rest. ls = keep @ b @ rest \<and> j = length keep)"
proof
  assume "occurs_at ls b j"
  then have len: "j + length b \<le> length ls" and b: "take (length b) (drop j ls) = b"
    by (simp_all add: occurs_at_def)
  have "ls = take j ls @ b @ drop (j + length b) ls"
    by (metis append_take_drop_id b drop_drop add.commute)
  then show "\<exists>keep rest. ls = keep @ b @ rest \<and> j = length keep"
    using len by (intro exI [of _ "take j ls"] exI [of _ "drop (j + length b) ls"]) simp
qed (auto simp: occurs_at_def)

lemma singleton_filter: "take 2 (filter P xs) = [x] \<longleftrightarrow> filter P xs = [x]"
  by (cases "filter P xs"; cases "tl (filter P xs)") auto

lemma filter_upt_single:
  "filter P [m ..< n] = [x] \<longleftrightarrow> (\<forall>j. m \<le> j \<and> j < n \<and> P j \<longleftrightarrow> j = x)"
proof -
  have "filter P [m ..< n] = [x] \<longleftrightarrow> set (filter P [m ..< n]) = {x}"
  proof
    assume "set (filter P [m ..< n]) = {x}"
    then show "filter P [m ..< n] = [x]"
      using sorted_distinct_set_unique [of "filter P [m ..< n]" "[x]"] sorted_wrt_filter [of "(\<le>)" "[m ..< n]" P]
      by simp
  qed simp
  also have "\<dots> \<longleftrightarrow> (\<forall>j. m \<le> j \<and> j < n \<and> P j \<longleftrightarrow> j = x)"
    by (auto simp: set_eq_iff)
  finally show ?thesis .
qed

lemma positions_single:
  "positions (length d) (d @ ls) b = [x] \<longleftrightarrow> (\<exists>j. x = length d + j \<and> (\<forall>i. occurs_at ls b i \<longleftrightarrow> i = j))"
proof -
  have bound: "occurs_at (d @ ls) b j \<Longrightarrow> j < Suc (length (d @ ls) - length b)" for j
    by (auto simp: occurs_at_def)
  have "positions (length d) (d @ ls) b = [x] \<longleftrightarrow> (\<forall>j. length d \<le> j \<and> occurs_at (d @ ls) b j \<longleftrightarrow> j = x)"
    unfolding positions_def singleton_filter filter_upt_single using bound by blast
  also have "\<dots> \<longleftrightarrow> (\<exists>j. x = length d + j \<and> (\<forall>i. occurs_at ls b i \<longleftrightarrow> i = j))"
  proof
    assume all: "\<forall>j. length d \<le> j \<and> occurs_at (d @ ls) b j \<longleftrightarrow> j = x"
    then obtain j where x: "x = length d + j"
      using le_Suc_ex by blast
    have "occurs_at ls b i \<longleftrightarrow> i = j" for i
      using all [rule_format, of "length d + i"] by (simp add: occurs_at_shift x)
    with x show "\<exists>j. x = length d + j \<and> (\<forall>i. occurs_at ls b i \<longleftrightarrow> i = j)"
      by blast
  next
    assume "\<exists>j. x = length d + j \<and> (\<forall>i. occurs_at ls b i \<longleftrightarrow> i = j)"
    then obtain j where x: "x = length d + j" and only: "\<forall>i. occurs_at ls b i \<longleftrightarrow> i = j"
      by blast
    have "length d \<le> i \<and> occurs_at (d @ ls) b i \<longleftrightarrow> i = x" for i
      using only [rule_format, of "i - length d"] occurs_at_shift [of d ls b "i - length d"] x by auto
    then show "\<forall>j. length d \<le> j \<and> occurs_at (d @ ls) b j \<longleftrightarrow> j = x"
      by blast
  qed
  finally show ?thesis .
qed

lemma apply_hunk_splits:
  assumes "apply_hunk t f h (d @ ls, length d, nl) = Inr (ls', c, nl')"
  obtains keep rest where "ls = keep @ before_lines h @ rest" "\<forall>j. occurs_at ls (before_lines h) j \<longleftrightarrow> j = length keep"
    "ls' = (d @ keep @ after_lines h) @ rest" "c = length (d @ keep @ after_lines h)"
    "\<not> list_ex no_newline h \<Longrightarrow> nl' = nl"
proof -
  obtain start where pos: "positions (length d) (d @ ls) (before_lines h) = [start]"
    and ls': "ls' = take start (d @ ls) @ after_lines h @ drop (start + length (before_lines h)) (d @ ls)"
    and c: "c = start + length (after_lines h)" and nl: "\<not> list_ex no_newline h \<Longrightarrow> nl' = nl"
    using assms by (auto simp: apply_hunk_def Let_def result_simps split: if_splits list.splits)
  obtain j where start: "start = length d + j" and only: "\<forall>i. occurs_at ls (before_lines h) i \<longleftrightarrow> i = j"
    using pos unfolding positions_single by blast
  then obtain keep rest where split: "ls = keep @ before_lines h @ rest" "j = length keep"
    using occurs_at_split by blast
  from that [OF split(1)] only show thesis
    using nl by (simp add: ls' c start split)
qed

lemma apply_hunks_patched:
  "apply_hunks t hs (d @ ls, length d, nl) = Inr (ls', c, nl') \<Longrightarrow>
    \<exists>rest. ls' = d @ rest \<and> patched hs ls rest \<and> (\<not> list_ex (list_ex no_newline) hs \<longrightarrow> nl' = nl)"
proof (induction hs arbitrary: d ls nl)
  case (Cons h hs)
  obtain ls1 c1 nl1 where step: "apply_hunk t (hs = []) h (d @ ls, length d, nl) = Inr (ls1, c1, nl1)"
    and rest: "apply_hunks t hs (ls1, c1, nl1) = Inr (ls', c, nl')"
    using Cons.prems by (auto simp: result_simps)
  from apply_hunk_splits [OF step] obtain keep tail where ls: "ls = keep @ before_lines h @ tail"
    and only: "\<forall>j. occurs_at ls (before_lines h) j \<longleftrightarrow> j = length keep"
    and ls1: "ls1 = (d @ keep @ after_lines h) @ tail" and c1: "c1 = length (d @ keep @ after_lines h)"
    and nl1: "\<not> list_ex no_newline h \<Longrightarrow> nl1 = nl"
    by metis
  from Cons.IH [OF rest [unfolded ls1 c1]] obtain r where "ls' = (d @ keep @ after_lines h) @ r" "patched hs tail r"
    and "\<not> list_ex (list_ex no_newline) hs \<longrightarrow> nl' = nl1"
    by blast
  with patched_hunk [of keep h tail hs r] only nl1 show ?case
    by (intro exI [of _ "keep @ after_lines h @ r"]) (auto simp: ls)
qed auto

text \<open>Conversely a patch whose hunks all fit is applied, when no line carries the newline marker.\<close>

lemma patched_apply_hunks:
  "patched hs ls rest \<Longrightarrow> list_all (\<lambda>h. hunk_ok h \<and> \<not> list_ex no_newline h) hs \<Longrightarrow>
    \<exists>c. apply_hunks t hs (d @ ls, length d, nl) = Inr (d @ rest, c, nl)"
proof (induction hs ls rest arbitrary: d rule: patched.induct)
  case (patched_hunk keep h tail hs tail')
  let ?b = "before_lines h"
  have "positions (length d) (d @ keep @ ?b @ tail) ?b = [length d + length keep]"
    unfolding positions_single using patched_hunk(1) by blast
  then have step: "apply_hunk t (hs = []) h (d @ keep @ ?b @ tail, length d, nl) =
      Inr ((d @ keep @ after_lines h) @ tail, length (d @ keep @ after_lines h), nl)"
    using patched_hunk.prems by (simp add: apply_hunk_def Let_def hunk_ok_def add.assoc)
  obtain c where "apply_hunks t hs ((d @ keep @ after_lines h) @ tail, length (d @ keep @ after_lines h), nl) =
      Inr ((d @ keep @ after_lines h) @ tail', c, nl)"
    using patched_hunk.IH [of "d @ keep @ after_lines h"] patched_hunk.prems by auto
  with step show ?case
    by simp
qed simp

lemma apply_t1_patch_iff:
  assumes "parse patch = Inr ts" and "List.find (\<lambda>t. tg_path t = path) ts = Some target"
    and "\<not> list_ex (list_ex no_newline) (tg_hunks target)"
  shows "apply_t1_patch patch path current = Inr new \<longleftrightarrow>
    (\<exists>ls. patched (tg_hunks target) (content_lines current) ls \<and>
          new = join_on newline ls @ (if ends_with current [newline] then [newline] else []))"
proof -
  let ?nl = "ends_with current [newline]"
  have "target \<in> set ts"
    using assms(2) by (auto simp: find_Some_iff)
  then have ok: "list_all (\<lambda>h. hunk_ok h \<and> \<not> list_ex no_newline h) (tg_hunks target)"
    using parse_ok [OF assms(1)] assms(3) by (auto simp: list_all_iff list_ex_iff)
  have "apply_t1_patch patch path current =
      rbind (apply_hunks ?nl (tg_hunks target) ([] @ content_lines current, length ([] :: string list), ?nl))
        (\<lambda>(ls, _, left). Inr (join_on newline ls @ (if left then [newline] else [])))"
    by (simp add: apply_t1_patch_def assms(1,2))
  then show ?thesis
    using apply_hunks_patched [of ?nl "tg_hunks target" "[]" "content_lines current" ?nl]
      patched_apply_hunks [OF _ ok, of "content_lines current" _ ?nl "[]" ?nl] assms(3)
    by (auto simp: result_simps) blast+
qed

subsection \<open>The lines of the result\<close>

text \<open>No line of a parsed patch and no line of a content has a newline inside, so the lines can be read back.\<close>

definition plain_hunk :: "Hunk \<Rightarrow> bool" where
  "plain_hunk h \<longleftrightarrow> (\<forall>l \<in> set h. newline \<notin> set (pl_text l))"

definition plain_state :: "patch_state \<Rightarrow> bool" where
  "plain_state st \<longleftrightarrow> (\<forall>t \<in> set (fst st). \<forall>h \<in> set (tg_hunks t). plain_hunk h) \<and> (\<forall>h. snd st = Some h \<longrightarrow> plain_hunk h)"

lemma str_lines_plain: "l \<in> set (str_lines s) \<Longrightarrow> newline \<notin> set l"
  using split_on_parts [of _ newline s] last_in_set [of "split_on newline s"]
  by (auto simp: str_lines_def Let_def strip_suffix_def split: if_splits option.splits
      dest!: in_set_butlastD in_set_takeD)

lemma finish_hunk_plain: "plain_state st \<Longrightarrow> finish_hunk st = Inr st' \<Longrightarrow> plain_state st'"
  by (cases st; cases "fst st" rule: rev_cases)
    (auto simp: finish_hunk_def plain_state_def split: option.splits if_splits)

lemma mark_no_newline_plain: "plain_state st \<Longrightarrow> mark_no_newline st = Inr st' \<Longrightarrow> plain_state st'"
  by (cases st; cases "the (snd st)" rule: rev_cases)
    (auto simp: mark_no_newline_def plain_state_def plain_hunk_def split: option.splits if_splits)

lemma push_line_plain: "plain_state st \<Longrightarrow> newline \<notin> set raw \<Longrightarrow> push_line raw st = Inr st' \<Longrightarrow> plain_state st'"
  by (cases raw) (auto simp: push_line_def plain_state_def plain_hunk_def line_kind_def result_simps split: prod.splits)

lemma open_target_plain: "plain_state st \<Longrightarrow> plain_state (open_target path st)"
  by (cases st) (auto simp: open_target_def plain_state_def)

lemma new_hunk_plain: "plain_state st \<Longrightarrow> plain_state (fst st, Some [])"
  by (simp add: plain_state_def plain_hunk_def)

lemma garive_line_plain:
  "plain_state st \<Longrightarrow> newline \<notin> set raw \<Longrightarrow> garive_line raw st = Inr st' \<Longrightarrow> plain_state st'"
  by (auto simp: garive_line_def result_simps split: option.splits if_splits
      intro: open_target_plain push_line_plain mark_no_newline_plain new_hunk_plain [of "(a, b)" for a b, simplified]
      dest: finish_hunk_plain)

lemma garive_lines_plain:
  "plain_state st \<Longrightarrow> (\<And>l. l \<in> set ls \<Longrightarrow> newline \<notin> set l) \<Longrightarrow> garive_lines ls st = Inr st' \<Longrightarrow> plain_state st'"
proof (induction ls arbitrary: st)
  case (Cons l ls)
  then obtain mid where "garive_line l st = Inr mid" "garive_lines ls mid = Inr st'"
    by (auto simp: result_simps)
  with Cons garive_line_plain [of st l mid] show ?case
    by simp
qed simp

lemma file_header_plain: "plain_state st \<Longrightarrow> file_header old new st = Inr st' \<Longrightarrow> plain_state st'"
  by (auto simp: file_header_def result_simps split: if_splits intro: open_target_plain)

lemma body_line_plain:
  "plain_state st \<Longrightarrow> newline \<notin> set raw \<Longrightarrow> body_line raw st = Inr st' \<Longrightarrow> plain_state st'"
  by (auto simp: body_line_def result_simps split: if_splits
      intro: push_line_plain mark_no_newline_plain new_hunk_plain [of "(a, b)" for a b, simplified]
      dest: finish_hunk_plain)

lemma unified_plain:
  "plain_state st \<Longrightarrow> (\<And>l. l \<in> set ls \<Longrightarrow> newline \<notin> set l) \<Longrightarrow> unified_files ls st = Inr st' \<Longrightarrow> plain_state st'"
  "plain_state st \<Longrightarrow> (\<And>l. l \<in> set ls \<Longrightarrow> newline \<notin> set l) \<Longrightarrow> unified_body ls st = Inr st' \<Longrightarrow> plain_state st'"
proof (induction ls st and ls st rule: unified_files_unified_body.induct)
  case (2 raw rest st)
  show ?case
  proof (cases "starts_with raw ''diff --git ''")
    case True
    with 2 show ?thesis
      by (auto simp: result_simps dest: finish_hunk_plain)
  next
    case False
    with 2(5) obtain old mid new body opened where parts: "strip_prefix ''--- '' raw = Some old" "finish_hunk st = Inr mid"
      "rest = new # body" "file_header old new mid = Inr opened" "unified_body body opened = Inr st'"
      by (cases rest) (auto simp: result_simps split: option.splits)
    have "plain_state opened"
      using file_header_plain [OF finish_hunk_plain [OF 2(3) parts(2)] parts(4)] .
    then show ?thesis
      by (rule 2(2) [OF False parts(1-4)]) (simp_all add: 2(4) parts(3,5))
  qed
qed (auto simp: result_simps split: if_splits dest: body_line_plain)

lemma parse_plain:
  assumes "parse patch = Inr ts" and "t \<in> set ts" and "h \<in> set (tg_hunks t)"
  shows "plain_hunk h"
proof -
  have start: "plain_state ([], None)"
    by (simp add: plain_state_def)
  from assms(1) obtain b st c where "finish_hunk st = Inr (ts, c)"
    and "garive_lines (str_lines b) ([], None) = Inr st \<or> unified_files (str_lines b) ([], None) = Inr st"
    by (auto simp: parse_def parse_garive_patch_def parse_unified_diff_def finish_patch_def result_simps split: if_splits)
  moreover from this(2) have "plain_state st"
    using garive_lines_plain [OF start, of "str_lines b" st] unified_plain(1) [OF start, of "str_lines b" st] str_lines_plain
    by blast
  ultimately have "plain_state (ts, c)"
    using finish_hunk_plain by blast
  with assms(2,3) show ?thesis
    by (auto simp: plain_state_def)
qed

lemma content_lines_plain: "l \<in> set (content_lines s) \<Longrightarrow> newline \<notin> set l"
  by (auto simp: content_lines_def dest: split_on_parts split: if_splits)

lemma patched_plain:
  "patched hs ls ls' \<Longrightarrow> (\<forall>h \<in> set hs. plain_hunk h) \<Longrightarrow> (\<forall>l \<in> set ls. newline \<notin> set l) \<Longrightarrow>
    (\<forall>l \<in> set ls'. newline \<notin> set l)"
  by (induction hs ls ls' rule: patched.induct) (auto simp: after_lines_def plain_hunk_def)

lemma split_join: "ls \<noteq> [] \<Longrightarrow> (\<And>l. l \<in> set ls \<Longrightarrow> c \<notin> set l) \<Longrightarrow> split_on c (join_on c ls) = ls"
  by (induction c ls rule: join_on.induct) (auto simp: split_on_sep split_on_free)

lemma ends_with_last: "ends_with s [c] \<longleftrightarrow> s \<noteq> [] \<and> last s = c"
  by (cases s rule: rev_cases) (auto simp: ends_with_def)

lemma last_join: "ls \<noteq> [] \<Longrightarrow> last ls \<noteq> [] \<Longrightarrow> join_on c ls \<noteq> [] \<and> last (join_on c ls) = last (last ls)"
  by (induction c ls rule: join_on.induct) auto

definition joined :: "bool \<Rightarrow> string list \<Rightarrow> string" where
  "joined terminal ls = join_on newline ls @ (if terminal then [newline] else [])"

definition faithful_lines :: "bool \<Rightarrow> string list \<Rightarrow> bool" where
  "faithful_lines terminal ls \<longleftrightarrow> (if terminal then ls \<noteq> [] else ls = [] \<or> last ls \<noteq> [])"

lemma joined_lines:
  assumes "faithful_lines terminal ls" and plain: "\<forall>l \<in> set ls. newline \<notin> set l"
  shows "new = joined terminal ls \<longleftrightarrow> content_lines new = ls \<and> (ends_with new [newline] \<longleftrightarrow> terminal)"
proof
  assume new: "new = joined terminal ls"
  show "content_lines new = ls \<and> (ends_with new [newline] \<longleftrightarrow> terminal)"
  proof (cases "terminal \<or> ls = []")
    case True
    with assms show ?thesis
      by (auto simp: new joined_def content_lines_def strip_suffix_def ends_with_last faithful_lines_def split_join
          split: if_splits)
  next
    case False
    with assms(1) have ls: "ls \<noteq> []" "last ls \<noteq> []"
      by (auto simp: faithful_lines_def)
    then have "last (last ls) \<noteq> newline"
      using plain last_in_set by metis
    with last_join [OF ls, of newline] ls False plain show ?thesis
      by (auto simp: new joined_def content_lines_def strip_suffix_def ends_with_last split_join)
  qed
next
  assume "content_lines new = ls \<and> (ends_with new [newline] \<longleftrightarrow> terminal)"
  then show "new = joined terminal ls"
    by (cases new rule: rev_cases)
      (auto simp: joined_def content_lines_def strip_suffix_def ends_with_last join_split split: if_splits)
qed

text \<open>
  C33. When a parsed patch has a target for the path, none of its lines carries the marker for a
  missing last newline, and the patched lines are neither none at all for a content that ends in a
  newline nor end in an empty line for a content that does not, the applier returns a content if and
  only if its lines are the current lines with the old lines of the hunks replaced by the new ones,
  in order, without overlap, each at the only place where its old lines occur after the previous
  hunk, and every other line as it was, and it ends in a newline exactly when the current content
  did.
\<close>

theorem patch_application:
  assumes "parse patch = Inr ts" and "List.find (\<lambda>t. tg_path t = path) ts = Some target"
    and "\<not> list_ex (list_ex no_newline) (tg_hunks target)"
    and "\<forall>ls. patched (tg_hunks target) (content_lines current) ls \<longrightarrow>
      (if ends_with current [newline] then ls \<noteq> [] else ls = [] \<or> last ls \<noteq> [])"
  shows "apply_t1_patch patch path current = Inr new \<longleftrightarrow>
    patched (tg_hunks target) (content_lines current) (content_lines new) \<and>
    (ends_with new [newline] \<longleftrightarrow> ends_with current [newline])"
proof -
  let ?nl = "ends_with current [newline]"
  have "target \<in> set ts"
    using assms(2) by (auto simp: find_Some_iff)
  then have plain: "\<forall>h \<in> set (tg_hunks target). plain_hunk h"
    using parse_plain [OF assms(1)] by blast
  have lines: "new = joined ?nl ls \<longleftrightarrow> content_lines new = ls \<and> (ends_with new [newline] \<longleftrightarrow> ?nl)"
    if "patched (tg_hunks target) (content_lines current) ls" for ls
    using joined_lines [of ?nl ls new] patched_plain [OF that plain] content_lines_plain assms(4) that
    by (auto simp: faithful_lines_def)
  show ?thesis
    unfolding apply_t1_patch_iff [OF assms(1-3)] joined_def [symmetric] using lines by metis
qed

definition sample_patch :: string where
  "sample_patch = concat (map (\<lambda>l. l @ [newline]) [''--- a/f'', ''+++ b/f'', ''@@ -1,2 +1,2 @@'', '' keep'', ''-old'', ''+new''])"

definition sample_content :: string where
  "sample_content = concat (map (\<lambda>l. l @ [newline]) [''top'', ''keep'', ''old'', ''end''])"

definition sample_hunk :: Hunk where
  "sample_hunk = [\<lparr>kind = Context, pl_text = ''keep'', no_newline = False\<rparr>,
     \<lparr>kind = Remove, pl_text = ''old'', no_newline = False\<rparr>, \<lparr>kind = Add, pl_text = ''new'', no_newline = False\<rparr>]"

lemma sample_patched: "patched [sample_hunk] (content_lines sample_content) ls \<Longrightarrow> length ls = 4"
proof -
  assume "patched [sample_hunk] (content_lines sample_content) ls"
  then obtain keep rest where "content_lines sample_content = keep @ before_lines sample_hunk @ rest"
    "ls = keep @ after_lines sample_hunk @ rest"
    by (auto elim: patched_ConsE)
  moreover have "length (content_lines sample_content) = 4" "length (before_lines sample_hunk) = length (after_lines sample_hunk)"
    by code_simp+
  ultimately show "length ls = 4"
    by simp
qed

lemma sample_newline: "ends_with sample_content [newline]"
  by code_simp

theorem patch_application_witness:
  "content_lines (concat (map (\<lambda>l. l @ [newline]) [''top'', ''keep'', ''new'', ''end''])) = [''top'', ''keep'', ''new'', ''end''] \<and>
   patched [sample_hunk] [''top'', ''keep'', ''old'', ''end''] [''top'', ''keep'', ''new'', ''end'']"
proof -
  let ?target = "\<lparr>tg_path = ''f'', tg_hunks = [sample_hunk]\<rparr>"
  let ?new = "concat (map (\<lambda>l. l @ [newline]) [''top'', ''keep'', ''new'', ''end''])"
  have "parse sample_patch = Inr [?target]"
    by code_simp
  moreover have "List.find (\<lambda>t. tg_path t = ''f'') [?target] = Some ?target"
    by simp
  moreover have "\<not> list_ex (list_ex no_newline) (tg_hunks ?target)"
    by code_simp
  moreover have "\<forall>ls. patched (tg_hunks ?target) (content_lines sample_content) ls \<longrightarrow>
      (if ends_with sample_content [newline] then ls \<noteq> [] else ls = [] \<or> last ls \<noteq> [])"
    using sample_newline by (auto dest!: sample_patched)
  moreover have "apply_t1_patch sample_patch ''f'' sample_content = Inr ?new"
    by code_simp
  ultimately have "patched [sample_hunk] (content_lines sample_content) (content_lines ?new)"
    using patch_application [of sample_patch "[?target]" "''f''" ?target sample_content ?new] by simp
  moreover have "content_lines sample_content = [''top'', ''keep'', ''old'', ''end'']"
    "content_lines ?new = [''top'', ''keep'', ''new'', ''end'']"
    by code_simp+
  ultimately show ?thesis
    by simp
qed

subsection \<open>Edges of the format\<close>

text \<open>
  A removed line that begins with two dashes and a space reads, in the diff, like the header of the next
  file, and the parser takes it for one.
\<close>

lemma removed_dashes_rejected:
  "parse (concat (map (\<lambda>l. l @ [newline]) [''--- a/f'', ''+++ b/f'', ''@@ -1,2 +1 @@'', '' keep'', ''--- note''])) = Inl InvalidSyntax"
  by code_simp

text \<open>Removing every line of a file that ends in a newline leaves one empty line, not an empty file.\<close>

lemma removing_all_lines_leaves_one:
  "apply_t1_patch (concat (map (\<lambda>l. l @ [newline]) [''--- a/f'', ''+++ b/f'', ''@@ -1 +0,0 @@'', ''-only''])) ''f'' (''only'' @ [newline])
     = Inr [newline]"
  by code_simp

text \<open>
  A line joined at the end of a content without a final newline gives it one when the added line is empty,
  although no line of the patch carries the marker.
\<close>

lemma adding_an_empty_line_adds_a_newline:
  "apply_t1_patch (concat (map (\<lambda>l. l @ [newline]) [''--- a/f'', ''+++ b/f'', ''@@ -1 +1,2 @@'', '' x'', ''+''])) ''f'' ''x''
     = Inr (''x'' @ [newline])"
  by code_simp

end
