(* ===== verification/Builtin_Tools.thy ===== *)
theory Builtin_Tools
  imports Tool_Preparation T1_Patch
begin

section \<open>The built-in workspace and process tools\<close>

text \<open>
  The six tools of \<open>basic_tools.rs\<close>: their definitions, the resolver that derives the resources of a call
  from its arguments, and the catalogue. The locale \<open>access_resolver\<close> is the contract of a resolver, that
  its access sets are canonical; the containment of prepared calls is proved from it once and holds for
  the built-in resolver by interpretation.
\<close>

subsection \<open>The contract of a resolver\<close>

locale access_resolver =
  fixes res :: "json \<Rightarrow> PreparationErrorCode + InvocationAccessSet"
  assumes canonical: "res v = Inr accesses \<Longrightarrow>
    \<exists>xs. invocation_access_set xs = Inr accesses \<and> list_all (\<lambda>a. valid_key (ra_namespace a) (ra_resource_key a)) xs"
begin

lemma resolved_key_valid: "res v = Inr accesses \<Longrightarrow> a \<in> set accesses \<Longrightarrow> valid_key (ra_namespace a) (ra_resource_key a)"
  using canonical [of v accesses] invocation_access_set_ok(1) by (fastforce simp: list_all_iff)

lemma resolved_contained:
  assumes "res v = Inr accesses" and "covers policy accesses" and "a \<in> set accesses" and "ra_namespace a = Filesystem"
  shows "list_all plain_part (path_parts (ra_resource_key a)) \<and>
    (\<exists>root \<in> set (tp_filesystem_roots policy). ra_mode a \<in> set (ap_allowed_modes root) \<and>
       prefix (path_parts (ap_resource root)) (path_parts (ra_resource_key a)))"
proof -
  have key: "valid_key Filesystem (ra_resource_key a)"
    using resolved_key_valid [OF assms(1,3)] assms(4) by simp
  obtain root where root: "root \<in> set (tp_filesystem_roots policy)" "entry_covers root a"
    using assms(2-4) by (fastforce simp: covers_def list_all_iff list_ex_iff)
  have "prefix (path_parts (ap_resource root)) (path_parts (ra_resource_key a))"
    using entry_covers_prefix [OF root(2) assms(4) _ key] by (cases "ap_resource root = ''.''") (simp_all add: path_parts_def)
  with root filesystem_key_plain [OF key] show ?thesis
    by (auto simp: entry_covers_def list_all_iff)
qed

end

subsection \<open>The resolver\<close>

definition T1_TOOL_REVISION :: string where "T1_TOOL_REVISION = ''1''"
definition T1_ACCESS_RESOLVER_REVISION :: string where "T1_ACCESS_RESOLVER_REVISION = ''garive.t1.access.v1''"
definition T1_READ_TEXT :: string where "T1_READ_TEXT = ''garive.workspace.read_text''"
definition T1_LIST :: string where "T1_LIST = ''garive.workspace.list''"
definition T1_SEARCH_TEXT :: string where "T1_SEARCH_TEXT = ''garive.workspace.search_text''"
definition T1_WRITE_TEXT :: string where "T1_WRITE_TEXT = ''garive.workspace.write_text''"
definition T1_APPLY_PATCH :: string where "T1_APPLY_PATCH = ''garive.workspace.apply_patch''"
definition T1_PROCESS_RUN :: string where "T1_PROCESS_RUN = ''garive.process.run''"

lemmas T1_names = T1_READ_TEXT_def T1_LIST_def T1_SEARCH_TEXT_def T1_WRITE_TEXT_def T1_APPLY_PATCH_def T1_PROCESS_RUN_def

definition argument_text :: "json \<Rightarrow> string \<Rightarrow> PreparationErrorCode + string" where
  "argument_text v field =
     ok_or (Option.bind (Option.bind (as_object v) (\<lambda>m. jget m field)) json_as_str) EffectAccessInvalid"

definition one_file :: "json \<Rightarrow> AccessMode \<Rightarrow> bool \<Rightarrow> PreparationErrorCode + InvocationAccessSet" where
  "one_file arguments mode root_allowed =
     rbind (argument_text arguments ''path'') (\<lambda>path.
       if \<not> root_allowed \<and> path = ''.'' then Inl EffectAccessInvalid
       else rbind (resource_access Filesystem path mode) (\<lambda>a. invocation_access_set [a]))"

definition process_accesses :: "json \<Rightarrow> PreparationErrorCode + InvocationAccessSet" where
  "process_accesses arguments =
     rbind (argument_text arguments ''workspace_mode'') (\<lambda>m.
     rbind (if m = ''read'' then Inr Read else if m = ''write'' then Inr Write else Inl EffectAccessInvalid) (\<lambda>mode.
     rbind (argument_text arguments ''lane'') (\<lambda>lane.
     rbind (resource_access Process lane Exclusive) (\<lambda>a.
     rbind (argument_text arguments ''working_directory'') (\<lambda>directory.
     rbind (resource_access Filesystem directory mode) (\<lambda>b.
       invocation_access_set [a, b]))))))"

definition patch_targets :: "string \<Rightarrow> PreparationErrorCode + string list" where
  "patch_targets patch =
     (case t1_patch_targets patch of
        Inl _ \<Rightarrow> Inl EffectAccessInvalid
      | Inr targets \<Rightarrow>
          (let ordered = sorted_list_of_set targets in
           rbind (rcheck (\<lambda>path. rvoid (resource_access Filesystem path Write)) ordered) (\<lambda>_. Inr ordered)))"

definition hex_digest :: "string \<Rightarrow> bool" where
  "hex_digest s \<longleftrightarrow> length s = 64 \<and> list_all (\<lambda>c. is_digit c \<or> (CHR ''a'' \<le> c \<and> c \<le> CHR ''f'')) s"

fun declared_files :: "string set \<Rightarrow> json list \<Rightarrow> PreparationErrorCode + string set" where
  "declared_files declared [] = Inr declared"
| "declared_files declared (v # vs) =
     rbind (argument_text v ''path'') (\<lambda>path.
     rbind (argument_text v ''before_digest'') (\<lambda>digest.
       if path = ''.'' \<or> \<not> hex_digest digest \<or> path \<in> declared then Inl EffectAccessInvalid
       else declared_files (insert path declared) vs))"

definition patch_accesses :: "json \<Rightarrow> PreparationErrorCode + InvocationAccessSet" where
  "patch_accesses arguments =
     rbind (argument_text arguments ''patch'') (\<lambda>patch.
     rbind (patch_targets patch) (\<lambda>targets.
     rbind (ok_or (Option.bind (Option.bind (as_object arguments) (\<lambda>m. jget m ''expected_files'')) as_array)
        EffectAccessInvalid) (\<lambda>expected.
     rbind (declared_files {} expected) (\<lambda>declared.
       if set targets \<noteq> declared then Inl EffectAccessInvalid
       else
         rbind (rmap (\<lambda>path. resource_access Filesystem path Write) targets) invocation_access_set))))"

definition builtin_resolve :: "string \<Rightarrow> json \<Rightarrow> PreparationErrorCode + InvocationAccessSet" where
  "builtin_resolve tool_name arguments =
     (if tool_name = T1_READ_TEXT then one_file arguments Read False
      else if tool_name = T1_WRITE_TEXT then one_file arguments Write False
      else if tool_name = T1_LIST \<or> tool_name = T1_SEARCH_TEXT then one_file arguments Read True
      else if tool_name = T1_APPLY_PATCH then patch_accesses arguments
      else if tool_name = T1_PROCESS_RUN then process_accesses arguments
      else Inl EffectAccessInvalid)"

definition BuiltinT1Resolver :: "string \<Rightarrow> ToolAccessResolver" where
  "BuiltinT1Resolver tool_name =
     \<lparr>resolver_revision = T1_ACCESS_RESOLVER_REVISION, resolve = builtin_resolve tool_name\<rparr>"

lemma resource_access_ok:
  "resource_access ns key mode = Inr a \<longleftrightarrow> valid_key ns key \<and> a = \<lparr>ra_namespace = ns, ra_resource_key = key, ra_mode = mode\<rparr>"
  by (auto simp: resource_access_def)

lemma one_file_ok:
  "one_file v mode root = Inr s \<longleftrightarrow>
    (\<exists>path. argument_text v ''path'' = Inr path \<and> (root \<or> path \<noteq> ''.'') \<and> valid_key Filesystem path \<and>
       s = [\<lparr>ra_namespace = Filesystem, ra_resource_key = path, ra_mode = mode\<rparr>])"
  by (auto simp: one_file_def result_simps resource_access_ok invocation_access_set_def split: if_splits)

lemma patch_targets_ok:
  "patch_targets patch = Inr ts \<Longrightarrow> (\<exists>S. t1_patch_targets patch = Inr S \<and> ts = sorted_list_of_set S) \<and>
     (\<forall>p \<in> set ts. valid_key Filesystem p)"
  by (auto simp: patch_targets_def Let_def result_simps rvoid_def resource_access_ok split: sum.splits)

definition file_access :: "AccessMode \<Rightarrow> string \<Rightarrow> ResourceAccess" where
  "file_access mode path = \<lparr>ra_namespace = Filesystem, ra_resource_key = path, ra_mode = mode\<rparr>"

lemma patch_accesses_ok:
  assumes "patch_accesses v = Inr s"
  shows "\<exists>patch S. argument_text v ''patch'' = Inr patch \<and> t1_patch_targets patch = Inr S \<and>
    set s = file_access Write ` S \<and> (\<forall>p \<in> S. valid_key Filesystem p) \<and>
    invocation_access_set (map (file_access Write) (sorted_list_of_set S)) = Inr s"
proof -
  obtain patch ts accesses where patch: "argument_text v ''patch'' = Inr patch" and ts: "patch_targets patch = Inr ts"
    and acc: "list_all2 (\<lambda>p a. resource_access Filesystem p Write = Inr a) ts accesses"
    and s: "invocation_access_set accesses = Inr s"
    using assms by (auto simp: patch_accesses_def result_simps split: if_splits)
  obtain S where S: "t1_patch_targets patch = Inr S" "ts = sorted_list_of_set S" and keys: "\<forall>p \<in> set ts. valid_key Filesystem p"
    using patch_targets_ok [OF ts] by blast
  have "finite S"
    using S(1) by (auto simp: t1_patch_targets_def result_simps)
  moreover have "accesses = map (file_access Write) ts"
    using acc by (induction rule: list_all2_induct) (auto simp: resource_access_ok file_access_def)
  ultimately show ?thesis
    using patch S keys s invocation_access_set_ok(1) [OF s] by auto
qed

lemma process_accesses_ok:
  assumes "process_accesses v = Inr s"
  shows "\<exists>lane mode directory. argument_text v ''lane'' = Inr lane \<and> argument_text v ''working_directory'' = Inr directory \<and>
    mode \<in> {Read, Write} \<and> valid_key Process lane \<and> valid_key Filesystem directory \<and>
    invocation_access_set [\<lparr>ra_namespace = Process, ra_resource_key = lane, ra_mode = Exclusive\<rparr>, file_access mode directory] = Inr s"
  using assms by (auto simp: process_accesses_def result_simps resource_access_ok file_access_def split: if_splits)

interpretation builtin: access_resolver "builtin_resolve tool_name" for tool_name
proof
  fix v accesses
  assume res: "builtin_resolve tool_name v = Inr accesses"
  let ?ok = "\<exists>xs. invocation_access_set xs = Inr accesses \<and> list_all (\<lambda>a. valid_key (ra_namespace a) (ra_resource_key a)) xs"
  have "?ok" if one: "one_file v mode root = Inr accesses" for mode root
  proof -
    obtain path where "valid_key Filesystem path" "accesses = [file_access mode path]"
      using one by (auto simp: one_file_ok file_access_def simp del: valid_key.simps)
    then show ?thesis
      by (intro exI [of _ accesses]) (simp add: invocation_access_set_def file_access_def)
  qed
  moreover have "?ok" if patch: "patch_accesses v = Inr accesses"
  proof -
    obtain S where "invocation_access_set (map (file_access Write) (sorted_list_of_set S)) = Inr accesses"
      and "\<forall>p \<in> S. valid_key Filesystem p"
      using patch_accesses_ok [OF patch] by blast
    then show ?thesis
      by (cases "finite S") (auto simp: list_all_iff file_access_def intro!: exI [of _ "map (file_access Write) (sorted_list_of_set S)"])
  qed
  moreover have "?ok" if "process_accesses v = Inr accesses"
    using process_accesses_ok [OF that] by (fastforce simp: file_access_def)
  ultimately show ?ok
    using res by (auto simp: builtin_resolve_def split: if_splits)
qed

subsection \<open>The definitions\<close>

definition MAX_FILE_BYTES :: u64 where "MAX_FILE_BYTES = 1048576"
definition MAX_RESULT_BYTES :: u64 where "MAX_RESULT_BYTES = 2097152"
definition MAX_PATCH_BYTES :: u64 where "MAX_PATCH_BYTES = 1048576"
definition MAX_EXPECTED_FILES :: u64 where "MAX_EXPECTED_FILES = 128"
definition MAX_PROCESS_ARGUMENTS :: u64 where "MAX_PROCESS_ARGUMENTS = 256"
definition MAX_ARGUMENT_BYTES :: u64 where "MAX_ARGUMENT_BYTES = 32768"
definition MAX_PROCESS_DURATION_MS :: u64 where "MAX_PROCESS_DURATION_MS = 300000"
definition MAX_PROCESS_OUTPUT_BYTES :: u64 where "MAX_PROCESS_OUTPUT_BYTES = 1048576"
definition MAX_TRAVERSAL_NODES :: u64 where "MAX_TRAVERSAL_NODES = 10000"

text \<open>The shapes of the schema literals: an object that lists its members, a bounded string, a bounded integer.\<close>

definition object_schema :: "(string \<times> json) list \<Rightarrow> json" where
  "object_schema props =
     jobject [(''type'', JString ''object''), (''properties'', jobject props), (''required'', jtext_list (map fst props)),
              (''additionalProperties'', JBool False)]"

definition string_schema :: "u64 \<Rightarrow> u64 \<Rightarrow> json" where
  "string_schema lo hi = jobject [(''type'', JString ''string''), (''minLength'', ju64 lo), (''maxLength'', ju64 hi)]"

definition integer_schema :: "u64 \<Rightarrow> json" where
  "integer_schema hi = jobject [(''type'', JString ''integer''), (''minimum'', ju64 1), (''maximum'', ju64 hi)]"

definition boolean_schema :: json where
  "boolean_schema = jobject [(''type'', JString ''boolean'')]"

definition filesystem_sandbox :: "ExecutionCapability set \<Rightarrow> PreparationErrorCode + SandboxRequirementsV1" where
  "filesystem_sandbox cs =
     sandbox_requirements_new cs [FilesystemScope, SymlinkContainment, ResourceLimits] None 64"

definition file_definition ::
  "float_ops \<Rightarrow> string \<Rightarrow> string \<Rightarrow> json \<Rightarrow> ReplayClass \<Rightarrow> ExecutionCapability list \<Rightarrow> AccessMode list \<Rightarrow> string \<Rightarrow> u64 \<Rightarrow> nat \<Rightarrow>
   PreparationErrorCode + ToolDefinition" where
  "file_definition F name description schema replay cs modes policy_revision ms max_accesses =
     rbind (execution_requirements cs ms MAX_RESULT_BYTES) (\<lambda>requirements.
     rbind (access_policy_entry ''.'' modes) (\<lambda>entry.
     rbind (tool_access_policy policy_revision [entry] [] [] [] max_accesses MAX_RESULT_BYTES) (\<lambda>policy.
     rbind (filesystem_sandbox (capabilities requirements)) (\<lambda>sandbox.
       new_v3 F name T1_TOOL_REVISION description schema requirements replay policy T1_ACCESS_RESOLVER_REVISION sandbox))))"

definition read_schema :: json where
  "read_schema = object_schema [(''path'', string_schema 1 4096), (''max_bytes'', integer_schema MAX_FILE_BYTES)]"

definition list_schema :: json where
  "list_schema = object_schema [(''path'', string_schema 1 4096), (''max_entries'', integer_schema 4096),
     (''include_hidden'', boolean_schema), (''max_nodes'', integer_schema MAX_TRAVERSAL_NODES)]"

definition search_schema :: json where
  "search_schema = object_schema [(''path'', string_schema 1 4096), (''query'', string_schema 1 4096),
     (''case_sensitive'', boolean_schema), (''max_matches'', integer_schema 4096),
     (''max_file_bytes'', integer_schema MAX_FILE_BYTES), (''max_nodes'', integer_schema MAX_TRAVERSAL_NODES)]"

definition write_schema :: json where
  "write_schema = object_schema [(''path'', string_schema 1 4096),
     (''text'', jobject [(''type'', JString ''string''), (''maxLength'', ju64 MAX_FILE_BYTES)])]"

definition patch_schema :: json where
  "patch_schema = object_schema
     [(''patch'', jobject [(''type'', JString ''string''),
        (''description'', JString ''A standard unified diff with --- a/path, +++ b/path and @@ range @@ headers, or a Garive *** Begin Patch block.''),
        (''minLength'', ju64 1), (''maxLength'', ju64 MAX_PATCH_BYTES)]),
      (''expected_files'', jobject [(''type'', JString ''array''),
        (''description'', JString ''Every patched path exactly once, bound to the SHA-256 content_digest returned by read_text.''),
        (''minItems'', ju64 1), (''maxItems'', ju64 MAX_EXPECTED_FILES),
        (''items'', object_schema [(''path'', string_schema 1 4096), (''before_digest'', string_schema 64 64)])])]"

definition process_schema :: json where
  "process_schema = object_schema
     [(''lane'', string_schema 1 256),
      (''argv'', jobject [(''type'', JString ''array''), (''minItems'', ju64 1), (''maxItems'', ju64 MAX_PROCESS_ARGUMENTS),
        (''items'', string_schema 1 MAX_ARGUMENT_BYTES)]),
      (''working_directory'', string_schema 1 4096),
      (''workspace_mode'', jobject [(''type'', JString ''string''), (''enum'', jtext_list [''read'', ''write''])]),
      (''max_output_bytes'', integer_schema MAX_PROCESS_OUTPUT_BYTES),
      (''timeout_ms'', integer_schema MAX_PROCESS_DURATION_MS)]"

definition read_definition :: "float_ops \<Rightarrow> string \<Rightarrow> PreparationErrorCode + ToolDefinition" where
  "read_definition F revision = file_definition F T1_READ_TEXT ''Read one bounded UTF-8 workspace file.'' read_schema
     ReadOnly [FilesystemRead] [Read] revision 5000 1"

definition list_definition :: "float_ops \<Rightarrow> string \<Rightarrow> PreparationErrorCode + ToolDefinition" where
  "list_definition F revision = file_definition F T1_LIST ''List one workspace directory without following links.'' list_schema
     ReadOnly [FilesystemRead] [Read] revision 5000 1"

definition search_definition :: "float_ops \<Rightarrow> string \<Rightarrow> PreparationErrorCode + ToolDefinition" where
  "search_definition F revision = file_definition F T1_SEARCH_TEXT ''Search bounded workspace text for one literal query.'' search_schema
     ReadOnly [FilesystemRead] [Read] revision 30000 1"

definition write_definition :: "float_ops \<Rightarrow> string \<Rightarrow> PreparationErrorCode + ToolDefinition" where
  "write_definition F revision = file_definition F T1_WRITE_TEXT ''Create one bounded UTF-8 workspace file without overwriting.'' write_schema
     NeverReplay [FilesystemWrite] [Write] revision 5000 1"

definition patch_definition :: "float_ops \<Rightarrow> string \<Rightarrow> PreparationErrorCode + ToolDefinition" where
  "patch_definition F revision = file_definition F T1_APPLY_PATCH
     ''Apply a standard unified diff or Garive patch to existing workspace files. Every target must include its digest from read_text.''
     patch_schema ReceiptRecoverable [FilesystemRead, FilesystemWrite] [Read, Write] revision 30000 (unat MAX_EXPECTED_FILES)"

definition process_definition :: "float_ops \<Rightarrow> string \<Rightarrow> string list \<Rightarrow> PreparationErrorCode + ToolDefinition" where
  "process_definition F revision lanes =
     rbind (execution_requirements [FilesystemRead, FilesystemWrite, Process_Capability] MAX_PROCESS_DURATION_MS MAX_RESULT_BYTES)
       (\<lambda>requirements.
     rbind (rmap (\<lambda>lane. access_policy_entry lane [Exclusive]) lanes) (\<lambda>entries.
     rbind (access_policy_entry ''.'' [Read, Write]) (\<lambda>entry.
     rbind (tool_access_policy revision [entry] entries [] [] 2 MAX_RESULT_BYTES) (\<lambda>policy.
     rbind (sandbox_requirements_new (capabilities requirements)
        [FilesystemScope, SymlinkContainment, ProcessContainment, StructuredArguments, EnvironmentAllowlist, ResourceLimits]
        (Some 16) 64) (\<lambda>sandbox.
       new_v3 F T1_PROCESS_RUN T1_TOOL_REVISION ''Run one configured executable lane without shell parsing.'' process_schema
         requirements NeverReplay policy T1_ACCESS_RESOLVER_REVISION sandbox)))))"

definition builtin_definitions :: "float_ops \<Rightarrow> string \<Rightarrow> string list \<Rightarrow> PreparationErrorCode + ToolDefinition list" where
  "builtin_definitions F revision lanes =
     rbind (rmap (\<lambda>f. f revision) [read_definition F, list_definition F, search_definition F, write_definition F,
       patch_definition F, \<lambda>r. process_definition F r lanes]) (\<lambda>ds.
       Inr (sort_key td_name ds))"

definition builtin_catalogue :: "float_ops \<Rightarrow> string \<Rightarrow> string list \<Rightarrow> PreparationErrorCode + (ToolDefinition list \<times> ToolCatalog)" where
  "builtin_catalogue F revision lanes =
     rbind (builtin_definitions F revision lanes) (\<lambda>ds. rbind (tool_catalog ds) (\<lambda>c. Inr (ds, c)))"

definition builtin_prepare :: "tool_externals \<Rightarrow> float_ops \<Rightarrow> ToolCatalog \<Rightarrow> ToolIntent \<Rightarrow> PreparedToolCall run_result" where
  "builtin_prepare X F c i = prepare_v3 X F c i (BuiltinT1Resolver (ti_tool_name i))"

subsection \<open>The catalogue is admitted\<close>

text \<open>Every schema literal is in the portable subset, whatever the arithmetic of floats.\<close>

lemma builtin_schemas_admitted:
  "validate_definition F read_schema = Inr ()" "validate_definition F list_schema = Inr ()"
  "validate_definition F search_schema = Inr ()" "validate_definition F write_schema = Inr ()"
  "validate_definition F patch_schema = Inr ()" "validate_definition F process_schema = Inr ()"
  by code_simp+

definition builtin_policy :: "string \<Rightarrow> AccessMode list \<Rightarrow> AccessPolicyEntry list \<Rightarrow> nat \<Rightarrow> ToolAccessPolicyV1" where
  "builtin_policy revision modes lanes n =
     \<lparr>tp_policy_revision = revision, tp_filesystem_roots = [\<lparr>ap_resource = ''.'', ap_allowed_modes = modes\<rparr>],
      tp_process_lanes = lanes, tp_network_origins = [], tp_runtime_lanes = [], tp_max_accesses = n,
      tp_max_result_bytes = MAX_RESULT_BYTES\<rparr>"

definition builtin_definition ::
  "string \<Rightarrow> string \<Rightarrow> json \<Rightarrow> ExecutionRequirements \<Rightarrow> ReplayClass \<Rightarrow> ToolAccessPolicyV1 \<Rightarrow> SandboxRequirementsV1 \<Rightarrow> ToolDefinition" where
  "builtin_definition name description schema requirements replay policy sandbox =
     \<lparr>td_name = name, td_revision = T1_TOOL_REVISION, td_description = description, td_input_schema = schema,
      td_requirements = requirements, td_replay_class = replay,
      td_access_contract = Some \<lparr>tac_policy = policy, tac_resolver_revision = T1_ACCESS_RESOLVER_REVISION\<rparr>,
      td_sandbox_requirements = Some sandbox\<rparr>"

lemma new_v3_builtin:
  assumes "validate_definition F schema = Inr ()" and "name \<noteq> []" and "description \<noteq> []"
    and "validate_for sandbox (capabilities r) = Inr ()"
    and "replay = ReadOnly \<longrightarrow> capabilities r \<subseteq> {FilesystemRead}"
  shows "new_v3 F name T1_TOOL_REVISION description schema r replay policy T1_ACCESS_RESOLVER_REVISION sandbox =
    Inr (builtin_definition name description schema r replay policy sandbox)"
proof -
  have "new_internal F name T1_TOOL_REVISION description schema r replay True =
      Inr \<lparr>td_name = name, td_revision = T1_TOOL_REVISION, td_description = description, td_input_schema = schema,
        td_requirements = r, td_replay_class = replay, td_access_contract = None, td_sandbox_requirements = None\<rparr>"
    using assms by (auto simp: new_internal_def T1_TOOL_REVISION_def read_only_capability_def)
  with assms(4) show ?thesis
    by (simp add: new_v3_def new_v2_def builtin_definition_def T1_ACCESS_RESOLVER_REVISION_def)
qed

lemma file_definition_eq:
  assumes "validate_definition F schema = Inr ()" and "name \<noteq> []" and "description \<noteq> []"
    and "execution_requirements cs ms MAX_RESULT_BYTES = Inr r" and "access_policy_entry ''.'' modes = Inr e"
    and "n \<noteq> 0" and "filesystem_sandbox (capabilities r) = Inr b" and "validate_for b (capabilities r) = Inr ()"
    and "replay = ReadOnly \<longrightarrow> capabilities r \<subseteq> {FilesystemRead}" and "sort_key mode_rank modes = modes"
  shows "file_definition F name description schema replay cs modes revision ms n =
    (if revision = [] then Inl EffectAccessInvalid
     else Inr (builtin_definition name description schema r replay (builtin_policy revision modes [] n) b))"
proof -
  have e: "e = \<lparr>ap_resource = ''.'', ap_allowed_modes = modes\<rparr>"
    using assms(5,10) by (simp add: access_policy_entry_def Let_def split: if_splits)
  have "tool_access_policy revision [e] [] [] [] n MAX_RESULT_BYTES =
      (if revision = [] then Inl EffectAccessInvalid else Inr (builtin_policy revision modes [] n))"
    using assms(6) by (simp add: tool_access_policy_def policy_entries_def e builtin_policy_def MAX_RESULT_BYTES_def)
  then show ?thesis
    using new_v3_builtin [OF assms(1-3,8,9)] assms(4,5,7) by (simp add: file_definition_def)
qed

definition builtin_sandbox :: SandboxRequirementsV1 where
  "builtin_sandbox = \<lparr>sr_controls = {FilesystemScope, SymlinkContainment, ResourceLimits}, sr_max_processes = None, sr_max_open_files = 64\<rparr>"

definition builtin_requirements :: "ExecutionCapability set \<Rightarrow> u64 \<Rightarrow> ExecutionRequirements" where
  "builtin_requirements cs ms = \<lparr>capabilities = cs, max_duration_ms = ms, max_output_bytes = MAX_RESULT_BYTES\<rparr>"

lemma file_definition_builtin:
  assumes "validate_definition F schema = Inr ()" and "name \<noteq> []" and "description \<noteq> []"
    and "card (set cs) = length cs" and "set cs \<subseteq> {FilesystemRead, FilesystemWrite}" and "ms \<noteq> 0" and "n \<noteq> 0"
    and "modes \<in> {[Read], [Write], [Read, Write]}" and "replay = ReadOnly \<longrightarrow> set cs \<subseteq> {FilesystemRead}"
  shows "file_definition F name description schema replay cs modes revision ms n =
    (if revision = [] then Inl EffectAccessInvalid
     else Inr (builtin_definition name description schema (builtin_requirements (set cs) ms) replay
        (builtin_policy revision modes [] n) builtin_sandbox))"
proof (rule file_definition_eq [OF assms(1-3) _ _ assms(7)])
  show "execution_requirements cs ms MAX_RESULT_BYTES = Inr (builtin_requirements (set cs) ms)"
    using assms(4,6) by (simp add: execution_requirements_def builtin_requirements_def MAX_RESULT_BYTES_def)
  show "access_policy_entry ''.'' modes = Inr \<lparr>ap_resource = ''.'', ap_allowed_modes = modes\<rparr>" "sort_key mode_rank modes = modes"
    using assms(8) by (auto simp: access_policy_entry_def)
  show "filesystem_sandbox (capabilities (builtin_requirements (set cs) ms)) = Inr builtin_sandbox"
    using assms(5)
    by (auto simp: filesystem_sandbox_def sandbox_requirements_new_def required_controls_def builtin_sandbox_def
        builtin_requirements_def)
  have order: "controls_in_order builtin_sandbox = [FilesystemScope, SymlinkContainment, ResourceLimits]"
    by (simp add: controls_in_order_def control_order_def builtin_sandbox_def)
  show "validate_for builtin_sandbox (capabilities (builtin_requirements (set cs) ms)) = Inr ()"
    unfolding validate_for_def order using assms(5)
    by (auto simp: sandbox_requirements_new_def required_controls_def builtin_sandbox_def rvoid_def builtin_requirements_def)
  show "replay = ReadOnly \<longrightarrow> capabilities (builtin_requirements (set cs) ms) \<subseteq> {FilesystemRead}"
    using assms(9) by (simp add: builtin_requirements_def)
qed

lemma file_definitions:
  "read_definition F revision = (if revision = [] then Inl EffectAccessInvalid else Inr (builtin_definition T1_READ_TEXT
     ''Read one bounded UTF-8 workspace file.'' read_schema (builtin_requirements {FilesystemRead} 5000) ReadOnly
     (builtin_policy revision [Read] [] 1) builtin_sandbox))"
  "list_definition F revision = (if revision = [] then Inl EffectAccessInvalid else Inr (builtin_definition T1_LIST
     ''List one workspace directory without following links.'' list_schema (builtin_requirements {FilesystemRead} 5000) ReadOnly
     (builtin_policy revision [Read] [] 1) builtin_sandbox))"
  "search_definition F revision = (if revision = [] then Inl EffectAccessInvalid else Inr (builtin_definition T1_SEARCH_TEXT
     ''Search bounded workspace text for one literal query.'' search_schema (builtin_requirements {FilesystemRead} 30000) ReadOnly
     (builtin_policy revision [Read] [] 1) builtin_sandbox))"
  "write_definition F revision = (if revision = [] then Inl EffectAccessInvalid else Inr (builtin_definition T1_WRITE_TEXT
     ''Create one bounded UTF-8 workspace file without overwriting.'' write_schema (builtin_requirements {FilesystemWrite} 5000) NeverReplay
     (builtin_policy revision [Write] [] 1) builtin_sandbox))"
  "patch_definition F revision = (if revision = [] then Inl EffectAccessInvalid else Inr (builtin_definition T1_APPLY_PATCH
     ''Apply a standard unified diff or Garive patch to existing workspace files. Every target must include its digest from read_text.''
     patch_schema (builtin_requirements {FilesystemRead, FilesystemWrite} 30000) ReceiptRecoverable
     (builtin_policy revision [Read, Write] [] 128) builtin_sandbox))"
  unfolding read_definition_def list_definition_def search_definition_def write_definition_def patch_definition_def
  by (subst file_definition_builtin; simp add: builtin_schemas_admitted T1_names MAX_EXPECTED_FILES_def)+

definition process_sandbox :: SandboxRequirementsV1 where
  "process_sandbox = \<lparr>sr_controls = {FilesystemScope, SymlinkContainment, ProcessContainment, StructuredArguments,
     EnvironmentAllowlist, ResourceLimits}, sr_max_processes = Some 16, sr_max_open_files = 64\<rparr>"

definition lane_entry :: "string \<Rightarrow> AccessPolicyEntry" where
  "lane_entry lane = \<lparr>ap_resource = lane, ap_allowed_modes = [Exclusive]\<rparr>"

lemma lane_entry_resource [simp]: "ap_resource (lane_entry l) = l"
  by (simp add: lane_entry_def)

definition lanes_ok :: "string list \<Rightarrow> bool" where
  "lanes_ok lanes \<longleftrightarrow> list_all (valid_key Process) lanes \<and> distinct lanes"

lemma lane_entries:
  "rbind (rmap (\<lambda>lane. access_policy_entry lane [Exclusive]) lanes) (policy_entries Process) =
    (if lanes_ok lanes then Inr (sort_key ap_resource (map lane_entry lanes)) else Inl EffectAccessInvalid)"
proof (cases "[] \<in> set lanes")
  case True
  have "\<exists>e. rmap (\<lambda>lane. access_policy_entry lane [Exclusive]) lanes = Inl e \<and> e = EffectAccessInvalid"
    using True by (induction lanes) (auto simp: access_policy_entry_def)
  moreover have "\<not> lanes_ok lanes"
    using True by (auto simp: lanes_ok_def list_all_iff)
  ultimately show ?thesis
    by auto
next
  case False
  then have "rmap (\<lambda>lane. access_policy_entry lane [Exclusive]) lanes = Inr (map lane_entry lanes)"
    by (induction lanes) (auto simp: access_policy_entry_def lane_entry_def)
  moreover have "policy_entries Process (map lane_entry lanes) =
      (if lanes_ok lanes then Inr (sort_key ap_resource (map lane_entry lanes)) else Inl EffectAccessInvalid)"
  proof -
    let ?sorted = "sort_key ap_resource (map lane_entry lanes)"
    have "any_pair (\<lambda>a b. ap_resource a = ap_resource b) ?sorted \<longleftrightarrow> \<not> distinct (map ap_resource ?sorted)"
      by (rule any_pair_sorted_key) simp
    also have "distinct (map ap_resource ?sorted) \<longleftrightarrow> distinct lanes"
    proof -
      have "distinct (map ap_resource ?sorted) \<longleftrightarrow> distinct (map ap_resource (map lane_entry lanes))"
        by (simp only: distinct_map set_sort distinct_sort)
      also have "map ap_resource (map lane_entry lanes) = lanes"
        by (simp add: comp_def)
      finally show ?thesis .
    qed
    finally show ?thesis
      by (auto simp: policy_entries_def Let_def lanes_ok_def list_ex_iff list_all_iff simp del: valid_key.simps)
  qed
  ultimately show ?thesis
    by simp
qed

lemma process_definition_eq:
  "process_definition F revision lanes =
    (if revision = [] \<or> \<not> lanes_ok lanes then Inl EffectAccessInvalid
     else Inr (builtin_definition T1_PROCESS_RUN ''Run one configured executable lane without shell parsing.'' process_schema
        (builtin_requirements {FilesystemRead, FilesystemWrite, Process_Capability} MAX_PROCESS_DURATION_MS) NeverReplay
        (builtin_policy revision [Read, Write] (sort_key ap_resource (map lane_entry lanes)) 2) process_sandbox))"
proof -
  let ?cs = "{FilesystemRead, FilesystemWrite, Process_Capability}"
  let ?r = "builtin_requirements ?cs MAX_PROCESS_DURATION_MS"
  let ?e = "\<lparr>ap_resource = ''.'', ap_allowed_modes = [Read, Write]\<rparr>"
  have r: "execution_requirements [FilesystemRead, FilesystemWrite, Process_Capability] MAX_PROCESS_DURATION_MS MAX_RESULT_BYTES = Inr ?r"
    by (simp add: execution_requirements_def builtin_requirements_def MAX_RESULT_BYTES_def MAX_PROCESS_DURATION_MS_def)
  have e: "access_policy_entry ''.'' [Read, Write] = Inr ?e"
    by (simp add: access_policy_entry_def)
  have b: "sandbox_requirements_new (capabilities ?r) [FilesystemScope, SymlinkContainment, ProcessContainment,
      StructuredArguments, EnvironmentAllowlist, ResourceLimits] (Some 16) 64 = Inr process_sandbox"
    by (simp add: sandbox_requirements_new_def required_controls_def process_sandbox_def builtin_requirements_def)
  have "controls_in_order process_sandbox =
      [FilesystemScope, SymlinkContainment, ProcessContainment, StructuredArguments, EnvironmentAllowlist, ResourceLimits]"
    by (simp add: controls_in_order_def control_order_def process_sandbox_def)
  then have v: "validate_for process_sandbox (capabilities ?r) = Inr ()"
    unfolding validate_for_def using b by (simp add: process_sandbox_def rvoid_def)
  have d: "new_v3 F T1_PROCESS_RUN T1_TOOL_REVISION ''Run one configured executable lane without shell parsing.'' process_schema
      ?r NeverReplay policy T1_ACCESS_RESOLVER_REVISION process_sandbox =
    Inr (builtin_definition T1_PROCESS_RUN ''Run one configured executable lane without shell parsing.'' process_schema
      ?r NeverReplay policy process_sandbox)" for policy
    by (rule new_v3_builtin) (simp_all add: builtin_schemas_admitted T1_names v)
  have policy: "tool_access_policy revision [?e] entries [] [] 2 MAX_RESULT_BYTES =
      rbind (policy_entries Process entries) (\<lambda>ps.
        if revision = [] then Inl EffectAccessInvalid else Inr (builtin_policy revision [Read, Write] ps 2))" for entries
    by (cases "policy_entries Process entries")
      (simp_all add: tool_access_policy_def policy_entries_def [of Filesystem] policy_entries_def [of Network]
        policy_entries_def [of Runtime] builtin_policy_def MAX_RESULT_BYTES_def)
  show ?thesis
    using lane_entries [of lanes] unfolding process_definition_def r e
    by (cases "rmap (\<lambda>lane. access_policy_entry lane [Exclusive]) lanes") (auto simp: b d policy split: if_splits)
qed

lemma admit_definitions_fresh:
  "distinct (map td_name ds) \<Longrightarrow> (\<forall>d \<in> set ds. bt_get m (td_name d) = None) \<Longrightarrow>
    \<exists>c. fold admit_definition ds (Inr m) = Inr c"
proof (induction ds arbitrary: m)
  case (Cons d ds)
  then have "admit_definition d (Inr m) = Inr (bt_insert (td_name d) d m)"
    by (simp add: admit_definition_def)
  moreover have "\<forall>x \<in> set ds. td_name x \<noteq> td_name d"
    using Cons.prems(1) by (metis distinct.simps(2) image_eqI list.set_map list.simps(9))
  ultimately show ?case
    using Cons by simp
qed simp

lemma tool_catalog_exists: "distinct (map td_name ds) \<Longrightarrow> \<exists>c. tool_catalog ds = Inr c"
  unfolding tool_catalog_def by (rule admit_definitions_fresh) simp_all

lemma builtin_names_distinct:
  "distinct [T1_READ_TEXT, T1_LIST, T1_SEARCH_TEXT, T1_WRITE_TEXT, T1_APPLY_PATCH, T1_PROCESS_RUN]"
  by (simp add: T1_names)

text \<open>The definitions of the catalogue, in the order they are made.\<close>

definition builtin_list :: "string \<Rightarrow> string list \<Rightarrow> ToolDefinition list" where
  "builtin_list revision lanes =
    [builtin_definition T1_READ_TEXT ''Read one bounded UTF-8 workspace file.'' read_schema
       (builtin_requirements {FilesystemRead} 5000) ReadOnly (builtin_policy revision [Read] [] 1) builtin_sandbox,
     builtin_definition T1_LIST ''List one workspace directory without following links.'' list_schema
       (builtin_requirements {FilesystemRead} 5000) ReadOnly (builtin_policy revision [Read] [] 1) builtin_sandbox,
     builtin_definition T1_SEARCH_TEXT ''Search bounded workspace text for one literal query.'' search_schema
       (builtin_requirements {FilesystemRead} 30000) ReadOnly (builtin_policy revision [Read] [] 1) builtin_sandbox,
     builtin_definition T1_WRITE_TEXT ''Create one bounded UTF-8 workspace file without overwriting.'' write_schema
       (builtin_requirements {FilesystemWrite} 5000) NeverReplay (builtin_policy revision [Write] [] 1) builtin_sandbox,
     builtin_definition T1_APPLY_PATCH
       ''Apply a standard unified diff or Garive patch to existing workspace files. Every target must include its digest from read_text.''
       patch_schema (builtin_requirements {FilesystemRead, FilesystemWrite} 30000) ReceiptRecoverable
       (builtin_policy revision [Read, Write] [] 128) builtin_sandbox,
     builtin_definition T1_PROCESS_RUN ''Run one configured executable lane without shell parsing.'' process_schema
       (builtin_requirements {FilesystemRead, FilesystemWrite, Process_Capability} MAX_PROCESS_DURATION_MS) NeverReplay
       (builtin_policy revision [Read, Write] (sort_key ap_resource (map lane_entry lanes)) 2) process_sandbox]"

lemma builtin_names: "map td_name (builtin_list revision lanes) =
    [T1_READ_TEXT, T1_LIST, T1_SEARCH_TEXT, T1_WRITE_TEXT, T1_APPLY_PATCH, T1_PROCESS_RUN]"
  by (simp add: builtin_list_def builtin_definition_def)

lemma builtin_definitions_eq:
  "builtin_definitions F revision lanes =
    (if revision = [] \<or> \<not> lanes_ok lanes then Inl EffectAccessInvalid else Inr (sort_key td_name (builtin_list revision lanes)))"
  by (auto simp: builtin_definitions_def file_definitions process_definition_eq builtin_list_def)

lemma builtin_catalogue_ok:
  assumes "builtin_catalogue F revision lanes = Inr (ds, c)"
  shows "revision \<noteq> []" "lanes_ok lanes" "bt_get c n = Some d \<longleftrightarrow> d \<in> set (builtin_list revision lanes) \<and> td_name d = n"
    "tool_catalog ds = Inr c" "set ds = set (builtin_list revision lanes)"
proof -
  have parts: "builtin_definitions F revision lanes = Inr ds" "tool_catalog ds = Inr c"
    using assms by (auto simp: builtin_catalogue_def result_simps)
  then show "revision \<noteq> []" "lanes_ok lanes" "tool_catalog ds = Inr c" "set ds = set (builtin_list revision lanes)"
    by (auto simp: builtin_definitions_eq split: if_splits)
  with tool_catalog_get(1) [OF parts(2), of n d]
  show "bt_get c n = Some d \<longleftrightarrow> d \<in> set (builtin_list revision lanes) \<and> td_name d = n"
    by simp
qed

text \<open>
  Construction of the built-in catalogue from a policy revision and a list of process lanes
  succeeds with exactly the six tools, each under its own name, if and only if the revision is not
  empty and the lanes are valid, distinct lane names.
\<close>

lemma builtin_catalogue_exists:
  "(\<exists>ds c. builtin_catalogue F revision lanes = Inr (ds, c) \<and>
      set (bt_keys c) = {T1_READ_TEXT, T1_LIST, T1_SEARCH_TEXT, T1_WRITE_TEXT, T1_APPLY_PATCH, T1_PROCESS_RUN}) \<longleftrightarrow>
   revision \<noteq> [] \<and> lanes_ok lanes"
proof
  assume ok: "revision \<noteq> [] \<and> lanes_ok lanes"
  let ?ds = "sort_key td_name (builtin_list revision lanes)"
  have "distinct (map td_name ?ds)"
    using builtin_names_distinct [folded builtin_names [of revision lanes]]
    by (simp only: distinct_map set_sort distinct_sort)
  then obtain c where c: "tool_catalog ?ds = Inr c"
    using tool_catalog_exists by blast
  with ok have cat: "builtin_catalogue F revision lanes = Inr (?ds, c)"
    by (simp add: builtin_catalogue_def builtin_definitions_eq)
  have "k \<in> set (bt_keys c) \<longleftrightarrow> k \<in> set (map td_name (builtin_list revision lanes))" for k
    unfolding bt_keys_iff builtin_catalogue_ok(3) [OF cat] by auto
  with cat show "\<exists>ds c. builtin_catalogue F revision lanes = Inr (ds, c) \<and>
      set (bt_keys c) = {T1_READ_TEXT, T1_LIST, T1_SEARCH_TEXT, T1_WRITE_TEXT, T1_APPLY_PATCH, T1_PROCESS_RUN}"
    unfolding builtin_names by auto
qed (use builtin_catalogue_ok(1,2) in blast)

subsection \<open>What a prepared built-in call may touch\<close>

lemma builtin_list_constructed:
  assumes "builtin_definitions F revision lanes = Inr ds" and "d \<in> set ds"
  shows "definition_ok F d"
proof -
  have "validate_schema_node F (td_input_schema x) = Inr ()" if "x \<in> set (builtin_list revision lanes)" for x
    using that builtin_schemas_admitted [of F] validate_definition_node by (auto simp: builtin_list_def builtin_definition_def)
  moreover have "d \<in> set (builtin_list revision lanes)"
    using assms by (auto simp: builtin_definitions_eq split: if_splits)
  ultimately have "validate_schema_node F (td_input_schema d) = Inr ()"
    by blast
  with \<open>d \<in> set (builtin_list revision lanes)\<close> show ?thesis
    by (auto simp: builtin_list_def builtin_definition_def definition_ok_def requires_mutation_def required_controls_def
        builtin_requirements_def builtin_sandbox_def process_sandbox_def T1_names)
qed

lemma builtin_list_policy:
  assumes "d \<in> set (builtin_list revision lanes)" and "td_access_contract d = Some contract"
  shows "tp_network_origins (tac_policy contract) = []" "tp_runtime_lanes (tac_policy contract) = []"
    "e \<in> set (tp_process_lanes (tac_policy contract)) \<Longrightarrow> td_name d = T1_PROCESS_RUN \<and> e \<in> lane_entry ` set lanes"
    "td_name d \<in> {T1_READ_TEXT, T1_LIST, T1_SEARCH_TEXT} \<Longrightarrow> td_replay_class d = ReadOnly"
  using assms by (auto simp: builtin_list_def builtin_definition_def builtin_policy_def T1_names)

text \<open>
  C30. Every resource of a call that the built-in catalogue prepared is either a workspace path made
  of plain components, none of them empty, a dot, two dots or with a separator in it, or, for the
  process tool only, one of the configured lanes held exclusively; and the three reading tools only
  ever read.
\<close>

theorem builtin_prepared_contained:
  assumes "builtin_catalogue F revision lanes = Inr (ds, c)" and "builtin_prepare X F c i = Some (Inr p)"
  shows "\<exists>accesses. pc_invocation_accesses p = Some accesses \<and>
    list_all (\<lambda>a.
      (ra_namespace a = Filesystem \<and> list_all plain_part (path_parts (ra_resource_key a))) \<or>
      (ra_namespace a = Process \<and> ti_tool_name i = T1_PROCESS_RUN \<and> ra_resource_key a \<in> set lanes \<and> ra_mode a = Exclusive))
      accesses \<and>
    (ti_tool_name i \<in> {T1_READ_TEXT, T1_LIST, T1_SEARCH_TEXT} \<longrightarrow> list_all (\<lambda>a. ra_mode a = Read) accesses)"
proof -
  let ?r = "BuiltinT1Resolver (ti_tool_name i)"
  have defs: "builtin_definitions F revision lanes = Inr ds"
    using assms(1) by (auto simp: builtin_catalogue_def result_simps)
  have ok: "definition_ok F d \<and> td_name d = n" if "bt_get c n = Some d" for n d
    using that builtin_list_constructed [OF defs] builtin_catalogue_ok(3,5) [OF assms(1)] by auto
  obtain d contract sandbox where found: "bt_get c (ti_tool_name i) = Some d" and contract: "td_access_contract d = Some contract"
    and auth: "authorized F X ?r i d contract p"
    by (rule prepare_v3_ok [OF assms(2) [unfolded builtin_prepare_def] ok]) blast
  have d: "d \<in> set (builtin_list revision lanes)" "td_name d = ti_tool_name i"
    using found builtin_catalogue_ok(3) [OF assms(1)] by auto
  note policy = builtin_list_policy [OF d(1) contract, unfolded d(2)]
  obtain v accesses where acc: "pc_invocation_accesses p = Some accesses" and res: "builtin_resolve (ti_tool_name i) v = Inr accesses"
    and cov: "covers (tac_policy contract) accesses"
    and reads: "td_replay_class d = ReadOnly \<longrightarrow> list_all (\<lambda>a. ra_mode a = Read) accesses"
    using auth by (auto simp: authorized_def BuiltinT1Resolver_def)
  have "(ra_namespace a = Filesystem \<and> list_all plain_part (path_parts (ra_resource_key a))) \<or>
      (ra_namespace a = Process \<and> ti_tool_name i = T1_PROCESS_RUN \<and> ra_resource_key a \<in> set lanes \<and> ra_mode a = Exclusive)"
    if a: "a \<in> set accesses" for a
  proof (cases "ra_namespace a")
    case Filesystem
    then show ?thesis
      using builtin.resolved_contained [OF res cov a] by simp
  next
    case Process
    then obtain e where "e \<in> set (tp_process_lanes (tac_policy contract))" "entry_covers e a"
      using cov a by (fastforce simp: covers_def list_all_iff list_ex_iff)
    with policy(3) [OF this(1)] Process show ?thesis
      by (auto simp: entry_covers_def lane_entry_def)
  qed (use cov a policy(1,2) in \<open>auto simp: covers_def list_all_iff list_ex_iff\<close>)
  with acc reads policy(4) show ?thesis
    by (auto simp: list_all_iff)
qed

text \<open>A sample: a call of the reading tool, with the parser that knows its arguments.\<close>

definition sample_intent :: ToolIntent where
  "sample_intent = \<lparr>ti_model_call_id = ''call-1'', ti_tool_name = T1_READ_TEXT, ti_arguments_json = ''arguments''\<rparr>"

definition sample_catalog :: ToolCatalog where
  "sample_catalog = (case builtin_catalogue sample_floats ''7'' [''git''] of Inr (_, c) \<Rightarrow> c | _ \<Rightarrow> bt_empty)"

lemma sample_prepared:
  "map_option (map_sum id pc_invocation_accesses) (builtin_prepare sample_tools sample_floats sample_catalog sample_intent) =
     Some (Inr (Some [file_access Read ''src/lib.rs'']))"
  by code_simp

theorem builtin_prepared_contained_witness:
  "\<exists>ds c p accesses. builtin_catalogue sample_floats ''7'' [''git''] = Inr (ds, c) \<and>
     builtin_prepare sample_tools sample_floats c sample_intent = Some (Inr p) \<and>
     pc_invocation_accesses p = Some accesses \<and> accesses \<noteq> [] \<and>
     list_all (\<lambda>a. ra_namespace a = Filesystem \<and> list_all plain_part (path_parts (ra_resource_key a)) \<and> ra_mode a = Read) accesses"
proof -
  have "map_sum id (\<lambda>_. ()) (builtin_catalogue sample_floats ''7'' [''git'']) = Inr ()"
    by code_simp
  then obtain ds c where cat: "builtin_catalogue sample_floats ''7'' [''git''] = Inr (ds, c)"
    by (cases "builtin_catalogue sample_floats ''7'' [''git'']") auto
  then have "sample_catalog = c"
    by (simp add: sample_catalog_def)
  then obtain p where prep: "builtin_prepare sample_tools sample_floats c sample_intent = Some (Inr p)"
    and acc: "pc_invocation_accesses p = Some [file_access Read ''src/lib.rs'']"
    using sample_prepared
    by (cases "builtin_prepare sample_tools sample_floats c sample_intent";
        cases "the (builtin_prepare sample_tools sample_floats c sample_intent)") auto
  from builtin_prepared_contained [OF cat prep] acc have
    "list_all (\<lambda>a. ra_namespace a = Filesystem \<and> list_all plain_part (path_parts (ra_resource_key a)) \<and> ra_mode a = Read)
      [file_access Read ''src/lib.rs'']"
    by (simp add: sample_intent_def T1_names)
  with cat prep acc show ?thesis
    by (intro exI conjI) auto
qed

end
