(* ===== verification/Ledger_Types.thy ===== *)
theory Ledger_Types
  imports Json_Canonical
begin

section \<open>Ledger vocabulary\<close>

text \<open>
  The types of \<open>engine/ledger/src/types.rs\<close>: the validated identities, the fact a caller submits
  (\<open>FactDraft\<close>), the fact at its durable position (\<open>DurableFact\<close>, the same fields and the session and
  position it was assigned), the result of a commit and the error values with their stable codes.
  A fact kind is its name.
\<close>

datatype session_tag = SessionTag
datatype turn_tag = TurnTag
datatype execution_tag = ExecutionTag
datatype fact_tag = FactTag
datatype model_request_tag = ModelRequestTag
datatype tool_invocation_tag = ToolInvocationTag

type_synonym SessionId = "session_tag ident"
type_synonym TurnId = "turn_tag ident"
type_synonym ExecutionId = "execution_tag ident"
type_synonym FactId = "fact_tag ident"
type_synonym ModelRequestId = "model_request_tag ident"
type_synonym ToolInvocationId = "tool_invocation_tag ident"

datatype invalid_ledger_identity = InvalidLedgerIdentity string

definition ledger_identity :: "string \<Rightarrow> string \<Rightarrow> invalid_ledger_identity + 'tag ident" where
  "ledger_identity label s = (if s = [] then Inl (InvalidLedgerIdentity label) else Inr (Ident s))"

datatype ledger_error =
    EmptyBatch
  | ConcurrentModification
  | IdempotencyCollision
  | IncompleteReplay
  | InvalidFact
  | InvalidTransition
  | MissingReference
  | PositionOverflow
  | InvalidReadRange
  | Corruption canonical_payload_error

fun ledger_error_code :: "ledger_error \<Rightarrow> string" where
  "ledger_error_code EmptyBatch = ''empty-batch''"
| "ledger_error_code ConcurrentModification = ''concurrent-modification''"
| "ledger_error_code IdempotencyCollision = ''idempotency-collision''"
| "ledger_error_code IncompleteReplay = ''incomplete-replay''"
| "ledger_error_code InvalidFact = ''invalid-fact''"
| "ledger_error_code InvalidTransition = ''invalid-transition''"
| "ledger_error_code MissingReference = ''missing-reference''"
| "ledger_error_code PositionOverflow = ''position-overflow''"
| "ledger_error_code InvalidReadRange = ''invalid-read-range''"
| "ledger_error_code (Corruption DigestMismatch) = ''digest-mismatch''"
| "ledger_error_code (Corruption _) = ''corruption''"

definition fact_kind_new :: "string \<Rightarrow> ledger_error + string" where
  "fact_kind_new s = (if s = [] then Inl InvalidFact else Inr s)"

record fact_draft =
  fact_id :: FactId
  turn_id :: "TurnId option"
  execution_id :: "ExecutionId option"
  model_request_id :: "ModelRequestId option"
  tool_invocation_id :: "ToolInvocationId option"
  kind :: string
  schema_version :: u32
  payload :: canonical_payload
  recorded_at :: string

record durable_fact = fact_draft +
  session_id :: SessionId
  position :: u64

definition same_semantics :: "fact_draft \<Rightarrow> fact_draft \<Rightarrow> bool" where
  "same_semantics a b \<longleftrightarrow>
     fact_id a = fact_id b \<and> turn_id a = turn_id b \<and> execution_id a = execution_id b
     \<and> model_request_id a = model_request_id b \<and> tool_invocation_id a = tool_invocation_id b
     \<and> kind a = kind b \<and> schema_version a = schema_version b \<and> payload a = payload b"

definition draft_validate :: "externals \<Rightarrow> fact_draft \<Rightarrow> ledger_error + unit" where
  "draft_validate X f =
     (if schema_version f = 0 \<or> rfc3339_utc X (recorded_at f) = None then Inl InvalidFact
      else (case payload_verify X (payload f) of Inl e \<Rightarrow> Inl (Corruption e) | Inr u \<Rightarrow> Inr u))"

definition durable_verify :: "externals \<Rightarrow> durable_fact \<Rightarrow> ledger_error + unit" where
  "durable_verify X f =
     (if position f = 0 \<or> schema_version f = 0 \<or> rfc3339_utc X (recorded_at f) = None
      then Inl (Corruption InvalidJson)
      else (case payload_verify X (payload f) of Inl e \<Rightarrow> Inl (Corruption e) | Inr u \<Rightarrow> Inr u))"

definition durable_from :: "SessionId \<Rightarrow> u64 \<Rightarrow> fact_draft \<Rightarrow> durable_fact" where
  "durable_from s p d = fact_draft.extend d \<lparr>session_id = s, position = p\<rparr>"

datatype commit_disposition = Committed | Replayed

record commit_result =
  disposition :: commit_disposition
  session_version :: u64
  positions :: "u64 list"

lemma same_semantics_refl [simp]: "same_semantics a a"
  by (simp add: same_semantics_def)

lemma same_semantics_iff:
  "same_semantics a b \<longleftrightarrow> a\<lparr>recorded_at := t\<rparr> = b\<lparr>recorded_at := t\<rparr>"
  by (cases a; cases b) (auto simp: same_semantics_def)

lemma durable_from_sel [simp]:
  "fact_id (durable_from s p d) = fact_id d" "turn_id (durable_from s p d) = turn_id d"
  "execution_id (durable_from s p d) = execution_id d"
  "model_request_id (durable_from s p d) = model_request_id d"
  "tool_invocation_id (durable_from s p d) = tool_invocation_id d"
  "kind (durable_from s p d) = kind d" "schema_version (durable_from s p d) = schema_version d"
  "payload (durable_from s p d) = payload d" "recorded_at (durable_from s p d) = recorded_at d"
  "session_id (durable_from s p d) = s" "position (durable_from s p d) = p"
  by (simp_all add: durable_from_def fact_draft.extend_def)

lemma durable_from_inj [simp]:
  "durable_from s p d = durable_from s' p' d' \<longleftrightarrow> s = s' \<and> p = p' \<and> d = d'"
  by (cases d; cases d') (auto simp: durable_from_def fact_draft.extend_def)

lemma durable_from_truncate [simp]: "fact_draft.truncate (durable_from s p d) = d"
  by (cases d) (simp add: durable_from_def fact_draft.extend_def fact_draft.truncate_def)

lemma durable_verify_from:
  "draft_validate X d = Inr () \<Longrightarrow> p \<noteq> 0 \<Longrightarrow> durable_verify X (durable_from s p d) = Inr ()"
  by (auto simp: draft_validate_def durable_verify_def split: if_splits)

lemma draft_validate_eq_Inr [result_simps]:
  "draft_validate X f = Inr u \<longleftrightarrow> schema_version f \<noteq> 0 \<and> rfc3339_utc X (recorded_at f) \<noteq> None
     \<and> sha256_hex X (payload_json (payload f)) = payload_sha256 (payload f)"
  by (auto simp: draft_validate_def payload_verify_def)

end
