(* ===== verification/Fact_Values.thy ===== *)
theory Fact_Values
  imports Ledger_Types
begin

section \<open>Field checks of fact payloads\<close>

text \<open>
  The checks of \<open>engine/ledger/src/runtime_facts/values.rs\<close>, from which every payload validator is
  built. A check takes the members of a JSON object and a key and is \<open>InvalidFact\<close> where the field is
  missing or has another shape. The timestamp check, which three payload modules repeat word for
  word, is \<open>timestamp\<close>.

  The lemmas in \<open>check_simps\<close> say when each check succeeds.
\<close>

type_synonym check = "ledger_error + unit"

definition object_of :: "json \<Rightarrow> ledger_error + jmap" where
  "object_of v = ok_or (as_object v) InvalidFact"

definition fields :: "jmap \<Rightarrow> string list \<Rightarrow> string list \<Rightarrow> check" where
  "fields m required optional =
     (if list_ex (\<lambda>k. \<not> jhas m k) required
        \<or> list_ex (\<lambda>k. \<not> List.member required k \<and> \<not> List.member optional k) (map fst m)
      then Inl InvalidFact else Inr ())"

definition string_of :: "jmap \<Rightarrow> string \<Rightarrow> ledger_error + string" where
  "string_of m k = ok_or (Option.bind (jget m k) json_as_str) InvalidFact"

definition non_empty :: "jmap \<Rightarrow> string \<Rightarrow> check" where
  "non_empty m k = rbind (string_of m k) (\<lambda>s. if s = [] then Inl InvalidFact else Inr ())"

definition optional_non_empty :: "jmap \<Rightarrow> string \<Rightarrow> check" where
  "optional_non_empty m k = (if jhas m k then non_empty m k else Inr ())"

definition enumeration :: "jmap \<Rightarrow> string \<Rightarrow> string list \<Rightarrow> ledger_error + string" where
  "enumeration m k allowed = rbind (string_of m k)
     (\<lambda>found. if List.member allowed found then Inr found else Inl InvalidFact)"

definition unsigned_of :: "jmap \<Rightarrow> string \<Rightarrow> bool \<Rightarrow> check" where
  "unsigned_of m k nonzero = rbind (ok_or (Option.bind (jget m k) as_u64) InvalidFact)
     (\<lambda>found. if nonzero \<and> found = 0 then Inl InvalidFact else Inr ())"

definition optional_unsigned :: "jmap \<Rightarrow> string \<Rightarrow> check" where
  "optional_unsigned m k = (if jhas m k then unsigned_of m k False else Inr ())"

definition digest :: "jmap \<Rightarrow> string \<Rightarrow> check" where
  "digest m k = rbind (string_of m k)
     (\<lambda>found. if valid_digest found then Inr () else Inl InvalidFact)"

definition content :: "externals \<Rightarrow> jmap \<Rightarrow> string \<Rightarrow> check" where
  "content X m k =
     rbind (ok_or (jget m k) InvalidFact) (\<lambda>v.
     rbind (object_of v) (\<lambda>binding.
     rbind (fields binding [''digest''] [''inline_utf8'', ''reference'']) (\<lambda>_.
     rbind (digest binding ''digest'') (\<lambda>_.
       case (jget binding ''inline_utf8'', jget binding ''reference'') of
         (Some (JString text), None) \<Rightarrow>
           rbind (string_of binding ''digest'')
             (\<lambda>d. if sha256_hex X text = d then Inr () else Inl InvalidFact)
       | (None, Some (JString reference)) \<Rightarrow>
           (if reference \<noteq> [] then Inr () else Inl InvalidFact)
       | _ \<Rightarrow> Inl InvalidFact))))"

definition optional_content :: "externals \<Rightarrow> jmap \<Rightarrow> string \<Rightarrow> check" where
  "optional_content X m k = (if jhas m k then content X m k else Inr ())"

definition token_count :: "jmap \<Rightarrow> check" where
  "token_count m =
     (if Option.bind (jget m ''kind'') json_as_str = Some ''unknown'' then fields m [''kind''] []
      else if Option.bind (jget m ''kind'') json_as_str = Some ''known'' then
        rall [fields m [''kind'', ''value''] [], unsigned_of m ''value'' False]
      else Inl InvalidFact)"

definition usage :: "jmap \<Rightarrow> string \<Rightarrow> check" where
  "usage m k =
     rbind (ok_or (jget m k) InvalidFact) (\<lambda>v.
     rbind (object_of v) (\<lambda>u.
     rall [
       fields u [''input_tokens'', ''output_tokens'', ''source'']
         [''cache_read_tokens'', ''cache_write_tokens''],
       rcheck (\<lambda>name. case jget u name of
           None \<Rightarrow> Inr ()
         | Some count \<Rightarrow> rbind (object_of count) token_count)
         [''input_tokens'', ''output_tokens'', ''cache_read_tokens'', ''cache_write_tokens''],
       rvoid (enumeration u ''source'' [''provider_reported'', ''estimated''])]))"

definition limits :: "jmap \<Rightarrow> string \<Rightarrow> check" where
  "limits m k =
     rbind (ok_or (jget m k) InvalidFact) (\<lambda>v.
     rbind (object_of v) (\<lambda>l.
     rall [
       fields l [''max_iterations'']
         [''max_input_tokens'', ''max_output_tokens'', ''deadline_budget_ms''],
       rcheck (\<lambda>name. if jhas l name then unsigned_of l name True else Inr ())
         [''max_iterations'', ''max_input_tokens'', ''max_output_tokens'', ''deadline_budget_ms'']]))"

text \<open>\<open>value[key]\<close> on a map; it is only used on keys \<open>fields\<close> has required.\<close>

definition jat :: "jmap \<Rightarrow> string \<Rightarrow> json" where
  "jat m k = (case jget m k of None \<Rightarrow> JNull | Some v \<Rightarrow> v)"

text \<open>\<open>Option<u64>\<close> comparison: \<open>None\<close> is below every \<open>Some\<close>.\<close>

definition opt_le :: "u64 option \<Rightarrow> u64 option \<Rightarrow> bool" where
  "opt_le x y = (case x of None \<Rightarrow> True | Some a \<Rightarrow> (case y of None \<Rightarrow> False | Some b \<Rightarrow> a \<le> b))"

definition boolean_of :: "jmap \<Rightarrow> string \<Rightarrow> ledger_error + bool" where
  "boolean_of m k = ok_or (Option.bind (jget m k) as_bool) InvalidFact"

definition timestamp :: "externals \<Rightarrow> jmap \<Rightarrow> string \<Rightarrow> check" where
  "timestamp X m k = rbind (string_of m k)
     (\<lambda>raw. if rfc3339_utc X raw = Some raw then Inr () else Inl InvalidFact)"

definition identities :: "jmap \<Rightarrow> string list \<Rightarrow> check" where
  "identities m keys = rcheck (non_empty m) keys"

definition digests :: "jmap \<Rightarrow> string list \<Rightarrow> check" where
  "digests m keys = rcheck (digest m) keys"

subsection \<open>When a check succeeds\<close>

text \<open>The text at a key, and the unsigned integer at a key.\<close>

definition text_at :: "jmap \<Rightarrow> string \<Rightarrow> string option" where
  "text_at m k = Option.bind (jget m k) json_as_str"

definition u64_at :: "jmap \<Rightarrow> string \<Rightarrow> u64 option" where
  "u64_at m k = Option.bind (jget m k) as_u64"

named_theorems check_simps \<open>when a field check succeeds\<close>

lemma string_of_ok [check_simps]: "string_of m k = Inr s \<longleftrightarrow> text_at m k = Some s"
  by (simp add: string_of_def text_at_def result_simps)

lemma non_empty_ok [check_simps]:
  "non_empty m k = Inr u \<longleftrightarrow> (\<exists>s. text_at m k = Some s \<and> s \<noteq> [])"
  by (auto simp: non_empty_def result_simps string_of_ok)

lemma enumeration_ok [check_simps]:
  "enumeration m k allowed = Inr s \<longleftrightarrow> text_at m k = Some s \<and> s \<in> set allowed"
  by (auto simp: enumeration_def result_simps string_of_ok List.member_iff)

lemma digest_ok [check_simps]:
  "digest m k = Inr u \<longleftrightarrow> (\<exists>s. text_at m k = Some s \<and> valid_digest s)"
  by (auto simp: digest_def result_simps string_of_ok)

lemma unsigned_of_ok [check_simps]:
  "unsigned_of m k nz = Inr u \<longleftrightarrow> (\<exists>n. u64_at m k = Some n \<and> (nz \<longrightarrow> n \<noteq> 0))"
  by (auto simp: unsigned_of_def result_simps u64_at_def)

lemma timestamp_ok [check_simps]:
  "timestamp X m k = Inr u \<longleftrightarrow> (\<exists>s. text_at m k = Some s \<and> rfc3339_utc X s = Some s)"
  by (auto simp: timestamp_def result_simps string_of_ok)

lemma fields_ok [check_simps]:
  "fields m required optional = Inr u \<longleftrightarrow>
     set required \<subseteq> fst ` set m \<and> fst ` set m \<subseteq> set required \<union> set optional"
proof -
  have "jhas m k \<longleftrightarrow> k \<in> fst ` set m" for k
    by (simp add: jhas_def jget_def map_of_eq_None_iff)
  then show ?thesis
    by (auto simp: fields_def list_ex_iff List.member_iff)
qed

end
