(* ===== verification/Execution_Facts.thy ===== *)
theory Execution_Facts
  imports Fact_Values
begin

section \<open>Payload validators: turns, executions and model calls\<close>

text \<open>
  The payload validators of the execution families, one group of definitions per module of
  \<open>engine/ledger/src/runtime_facts\<close>: \<open>turn.rs\<close> and \<open>model.rs\<close>.
  A definition carries the name of its module and function; each is
  the list of checks its function makes, in order, and each module's \<open>validate\<close> picks the function
  by the fact kind.
\<close>

subsection \<open>Turns and executions\<close>

definition turn_effect_batch_planned :: "externals \<Rightarrow> jmap \<Rightarrow> check" where
  "turn_effect_batch_planned X m = rall [
     fields m [''plan_digest'', ''conflict_graph_digest'', ''ordered_prepared_digests'', ''steps'',
       ''max_parallel_reads'', ''max_buffered_result_bytes''] [],
     digest m ''plan_digest'',
     digest m ''conflict_graph_digest'',
     content X m ''ordered_prepared_digests'',
     content X m ''steps'',
     unsigned_of m ''max_parallel_reads'' True,
     unsigned_of m ''max_buffered_result_bytes'' True]"

definition conditional_unsigned :: "jmap \<Rightarrow> string \<Rightarrow> string \<Rightarrow> string \<Rightarrow> check" where
  "conditional_unsigned m enum_key requiring field =
     (case (Option.bind (jget m enum_key) json_as_str = Some requiring, jget m field) of
        (True, Some _) \<Rightarrow> unsigned_of m field True
      | (False, None) \<Rightarrow> Inr ()
      | _ \<Rightarrow> Inl InvalidFact)"

definition conditional_identity ::
  "jmap \<Rightarrow> string \<Rightarrow> string \<Rightarrow> string \<Rightarrow> string list \<Rightarrow> check" where
  "conditional_identity m enum_key requiring identity allowed =
     rbind (enumeration m enum_key allowed) (\<lambda>found.
       case (found = requiring, jget m identity) of
         (False, None) \<Rightarrow> Inr ()
       | (True, Some _) \<Rightarrow> non_empty m identity
       | _ \<Rightarrow> Inl InvalidFact)"

definition turn_started :: "jmap \<Rightarrow> check" where
  "turn_started m = rall [
     fields m [''command_id'', ''kind'', ''agent_instance_id'', ''definition_id'',
       ''definition_revision'', ''snapshot_digest'', ''trusted_input_digest'']
       [''prior_suspension_id'', ''expected_session_version''],
     rcheck (non_empty m)
       [''command_id'', ''agent_instance_id'', ''definition_id'', ''definition_revision''],
     digest m ''snapshot_digest'',
     digest m ''trusted_input_digest'',
     conditional_identity m ''kind'' ''continue'' ''prior_suspension_id'' [''start'', ''continue''],
     conditional_unsigned m ''kind'' ''continue'' ''expected_session_version'']"

definition turn_input :: "externals \<Rightarrow> jmap \<Rightarrow> check" where
  "turn_input X m = rall [
     fields m [''input_kind'', ''content''] [''suspension_id''],
     content X m ''content'',
     rbind (enumeration m ''input_kind''
       [''trusted_user'', ''trusted_system'', ''external_input'', ''interaction_string'',
        ''interaction_json'', ''reconciliation'', ''resource_ready'', ''delegation_result''])
       (\<lambda>k. case (List.member [''trusted_user'', ''trusted_system''] k, jget m ''suspension_id'') of
          (True, None) \<Rightarrow> Inr ()
        | (False, Some _) \<Rightarrow> non_empty m ''suspension_id''
        | _ \<Rightarrow> Inl InvalidFact)]"

definition turn_cancel :: "jmap \<Rightarrow> check" where
  "turn_cancel m = rall [
     fields m [''command_id'', ''reason'', ''requested_through_position''] [],
     non_empty m ''command_id'',
     rvoid (enumeration m ''reason'' [''user'', ''deadline'', ''shutdown'', ''operator'', ''policy'']),
     unsigned_of m ''requested_through_position'' False]"

text \<open>
  The terminal and suspension payloads of a turn and of an execution differ in how they name the
  execution and the usage; the source shares one function and a flag, and so does the model.
\<close>

definition execution_part :: "jmap \<Rightarrow> bool \<Rightarrow> check" where
  "execution_part m turn =
     (if turn then non_empty m ''execution_id'' else unsigned_of m ''completed_iterations'' False)"

definition usage_part :: "jmap \<Rightarrow> bool \<Rightarrow> check" where
  "usage_part m turn = usage m (if turn then ''cumulative_usage'' else ''usage'')"

definition turn_suspended :: "externals \<Rightarrow> jmap \<Rightarrow> bool \<Rightarrow> check" where
  "turn_suspended X m turn = rall [
     fields m
       (if turn then [''suspension_id'', ''execution_id'', ''reason'', ''continuation'', ''cumulative_usage'']
        else [''suspension_id'', ''reason'', ''continuation'', ''usage'', ''completed_iterations'']) [],
     non_empty m ''suspension_id'',
     execution_part m turn,
     rvoid (enumeration m ''reason''
       [''approval_required'', ''external_input_required'', ''operator_reconciliation'',
        ''resource_unavailable'', ''partial_output'', ''delegation_pending'']),
     content X m ''continuation'',
     usage_part m turn]"

definition turn_completed :: "externals \<Rightarrow> jmap \<Rightarrow> bool \<Rightarrow> check" where
  "turn_completed X m turn = rall [
     fields m (if turn then [''execution_id'', ''response'', ''cumulative_usage'']
               else [''response'', ''usage'', ''completed_iterations'']) [],
     execution_part m turn,
     content X m ''response'',
     usage_part m turn]"

definition turn_stopped :: "externals \<Rightarrow> jmap \<Rightarrow> bool \<Rightarrow> check" where
  "turn_stopped X m turn = rall [
     fields m (if turn then [''execution_id'', ''reason'', ''cumulative_usage'']
               else [''reason'', ''usage'', ''completed_iterations'']) [''evidence''],
     execution_part m turn,
     rvoid (enumeration m ''reason''
       [''iteration_limit'', ''token_limit'', ''deadline'', ''cancelled'', ''resource_unavailable'']),
     optional_content X m ''evidence'',
     usage_part m turn]"

definition turn_failed :: "externals \<Rightarrow> jmap \<Rightarrow> bool \<Rightarrow> check" where
  "turn_failed X m turn = rall [
     fields m (if turn then [''execution_id'', ''reason'', ''cumulative_usage'']
               else [''reason'', ''usage'', ''completed_iterations'']) [''evidence''],
     execution_part m turn,
     rvoid (enumeration m ''reason''
       [''invalid_input'', ''invalid_model_output'', ''required_capability_unavailable'',
        ''port_failure'', ''invariant_violation'', ''durability_failure'', ''corrupt_recovery_state'']),
     optional_content X m ''evidence'',
     usage_part m turn]"

definition execution_started :: "jmap \<Rightarrow> check" where
  "execution_started m = rall [
     fields m [''snapshot_digest'', ''through_position'', ''completed_iterations'', ''limits'',
       ''recovery_ordinal''] [],
     digest m ''snapshot_digest'',
     rcheck (\<lambda>k. unsigned_of m k False)
       [''through_position'', ''completed_iterations'', ''recovery_ordinal''],
     limits m ''limits'']"

definition iteration_started :: "jmap \<Rightarrow> check" where
  "iteration_started m = rall [fields m [''iteration''] [], unsigned_of m ''iteration'' True]"

definition turn_abandoned :: "jmap \<Rightarrow> check" where
  "turn_abandoned m = rall [
     fields m [''reason'', ''last_safe_position'', ''recovery_ordinal''] [],
     rvoid (enumeration m ''reason'' [''runtime_lost'']),
     unsigned_of m ''last_safe_position'' False,
     unsigned_of m ''recovery_ordinal'' True]"

definition turn_steered :: "externals \<Rightarrow> jmap \<Rightarrow> check" where
  "turn_steered X m = rall [
     fields m [''command_id'', ''steer_id'', ''session_version'', ''input''] [],
     non_empty m ''command_id'',
     non_empty m ''steer_id'',
     unsigned_of m ''session_version'' False,
     content X m ''input'']"

definition turn_validate :: "externals \<Rightarrow> string \<Rightarrow> jmap \<Rightarrow> check" where
  "turn_validate X k m =
     (if k = ''turn.started'' then turn_started m
      else if k = ''turn.input'' then turn_input X m
      else if k = ''turn.cancel_requested'' then turn_cancel m
      else if k = ''turn.suspended'' then turn_suspended X m True
      else if k = ''turn.completed'' then turn_completed X m True
      else if k = ''turn.stopped'' then turn_stopped X m True
      else if k = ''turn.failed'' then turn_failed X m True
      else if k = ''turn.steered'' then turn_steered X m
      else if k = ''execution.started'' then execution_started m
      else if k = ''execution.iteration_started'' then iteration_started m
      else if k = ''execution.abandoned'' then turn_abandoned m
      else if k = ''execution.completed'' then turn_completed X m False
      else if k = ''execution.suspended'' then turn_suspended X m False
      else if k = ''execution.stopped'' then turn_stopped X m False
      else if k = ''execution.failed'' then turn_failed X m False
      else if k = ''execution.effect_batch_planned'' then turn_effect_batch_planned X m
      else Inl InvalidFact)"

subsection \<open>Model calls\<close>

definition model_prepared :: "jmap \<Rightarrow> check" where
  "model_prepared m = rall [
     fields m [''request_digest'', ''capability_target'', ''deployment_id'',
       ''recovery_policy_revision'', ''max_attempts''] [],
     digest m ''request_digest'',
     rcheck (non_empty m) [''capability_target'', ''deployment_id'', ''recovery_policy_revision''],
     unsigned_of m ''max_attempts'' True]"

definition model_started :: "jmap \<Rightarrow> check" where
  "model_started m = rall [
     fields m [''request_digest'', ''dispatch_attempt_id''] [],
     digest m ''request_digest'',
     non_empty m ''dispatch_attempt_id'']"

definition model_completed :: "externals \<Rightarrow> jmap \<Rightarrow> check" where
  "model_completed X m = rall [
     fields m [''request_digest'', ''stop_reason'', ''items'', ''usage''] [],
     digest m ''request_digest'',
     rvoid (enumeration m ''stop_reason''
       [''end_turn'', ''tool_use'', ''stop_sequence'', ''pause_turn'', ''refusal'', ''other'']),
     content X m ''items'',
     usage m ''usage'']"

definition model_rejected :: "externals \<Rightarrow> jmap \<Rightarrow> check" where
  "model_rejected X m = rall [
     fields m [''request_digest'', ''kind''] [''evidence''],
     digest m ''request_digest'',
     rvoid (enumeration m ''kind'' [''context_overflow'', ''authentication'', ''content_policy'']),
     optional_content X m ''evidence'']"

definition model_interrupted :: "externals \<Rightarrow> jmap \<Rightarrow> check" where
  "model_interrupted X m = rall [
     fields m [''request_digest'', ''kind'', ''partial_items'', ''usage''] [],
     digest m ''request_digest'',
     rvoid (enumeration m ''kind'' [''cancelled'', ''output_limit'', ''transport'']),
     content X m ''partial_items'',
     usage m ''usage'']"

definition model_unavailable :: "jmap \<Rightarrow> check" where
  "model_unavailable m = rall [
     fields m [''request_digest'', ''kind''] [''retry_after_ms''],
     digest m ''request_digest'',
     rvoid (enumeration m ''kind'' [''rate_limited'', ''model_unavailable'', ''circuit_open'']),
     optional_unsigned m ''retry_after_ms'']"

definition model_uncertain :: "externals \<Rightarrow> jmap \<Rightarrow> check" where
  "model_uncertain X m = rall [
     fields m [''request_digest'', ''reason''] [''evidence''],
     digest m ''request_digest'',
     rvoid (enumeration m ''reason'' [''runtime_lost'', ''transport_lost'', ''provider_state_unknown'']),
     optional_content X m ''evidence'']"

definition model_validate :: "externals \<Rightarrow> string \<Rightarrow> jmap \<Rightarrow> check" where
  "model_validate X k m =
     (if k = ''model.prepared'' then model_prepared m
      else if k = ''model.started'' then model_started m
      else if k = ''model.completed'' then model_completed X m
      else if k = ''model.rejected'' then model_rejected X m
      else if k = ''model.interrupted'' then model_interrupted X m
      else if k = ''model.unavailable'' then model_unavailable m
      else if k = ''model.uncertain'' then model_uncertain X m
      else Inl InvalidFact)"

end
