(* ===== verification/Effect_Facts.thy ===== *)
theory Effect_Facts
  imports Fact_Values
begin

section \<open>Payload validators: effects and safety proofs\<close>

text \<open>
  The payload validators of \<open>effect.rs\<close> and \<open>f0.rs\<close>
  under \<open>engine/ledger/src/runtime_facts\<close>, named by module and function as in \<open>Execution_Facts\<close>.
\<close>

subsection \<open>Effects and interactions\<close>

definition prepared_contract :: "jmap \<Rightarrow> u64 \<Rightarrow> check" where
  "prepared_contract m v =
     ensure (Option.bind (jget m ''prepared_contract_version'') as_u64 = Some v) InvalidFact"

definition replay_class_of :: "jmap \<Rightarrow> check" where
  "replay_class_of m = rvoid (enumeration m ''replay_class''
     [''read_only'', ''idempotent'', ''receipt_recoverable'', ''never_replay''])"

definition effect_validate_prepared_v2 :: "externals \<Rightarrow> jmap \<Rightarrow> check" where
  "effect_validate_prepared_v2 X m = rall [
     fields m [''prepared_contract_version'', ''prepared_digest'', ''tool_name'', ''tool_revision'',
       ''replay_class'', ''model_call_id'', ''access_policy_revision'', ''access_resolver_revision'',
       ''invocation_accesses'', ''max_result_bytes''] [],
     prepared_contract m 2,
     digest m ''prepared_digest'',
     identities m [''tool_name'', ''tool_revision'', ''model_call_id'', ''access_policy_revision'',
       ''access_resolver_revision''],
     replay_class_of m,
     content X m ''invocation_accesses'',
     unsigned_of m ''max_result_bytes'' True]"

definition effect_validate_prepared_v3 :: "externals \<Rightarrow> jmap \<Rightarrow> check" where
  "effect_validate_prepared_v3 X m = rall [
     fields m [''prepared_contract_version'', ''prepared_digest'', ''tool_name'', ''tool_revision'',
       ''replay_class'', ''model_call_id'', ''arguments'', ''access_policy_revision'',
       ''access_resolver_revision'', ''invocation_accesses'', ''max_result_bytes'',
       ''sandbox_requirements'', ''sandbox_requirements_digest''] [],
     prepared_contract m 3,
     digest m ''prepared_digest'',
     content X m ''arguments'',
     identities m [''tool_name'', ''tool_revision'', ''model_call_id'', ''access_policy_revision'',
       ''access_resolver_revision''],
     replay_class_of m,
     content X m ''invocation_accesses'',
     unsigned_of m ''max_result_bytes'' True,
     content X m ''sandbox_requirements'',
     digest m ''sandbox_requirements_digest'',
     ensure (Option.bind (Option.bind (jget m ''sandbox_requirements'') as_object)
               (\<lambda>binding. jget binding ''digest'') = jget m ''sandbox_requirements_digest'')
       InvalidFact]"

definition effect_validate_authorized_v2 :: "externals \<Rightarrow> jmap \<Rightarrow> check" where
  "effect_validate_authorized_v2 X m = rall [
     fields m [''prepared_contract_version'', ''prepared_digest'', ''grant_id'',
       ''authority_revision'', ''constraints_digest'', ''granted_requirements''] [],
     prepared_contract m 3,
     digest m ''prepared_digest'',
     identities m [''grant_id'', ''authority_revision''],
     digest m ''constraints_digest'',
     content X m ''granted_requirements'']"

definition interaction_requested :: "externals \<Rightarrow> jmap \<Rightarrow> check" where
  "interaction_requested X m = rall [
     fields m [''interaction_id'', ''suspension_id'', ''prepared_digest'', ''kind'', ''prompt'',
       ''response_schema'', ''response_schema_digest'', ''expiry_code''] [''response_schema''],
     identities m [''interaction_id'', ''suspension_id''],
     digests m [''prepared_digest'', ''response_schema_digest''],
     optional_content X m ''response_schema'',
     rvoid (enumeration m ''kind'' [''approval'', ''external_input'']),
     rvoid (enumeration m ''expiry_code'' [''none'', ''turn_deadline'', ''policy_deadline'']),
     content X m ''prompt'',
     content X m ''response_schema'']"

definition interaction_resolved :: "externals \<Rightarrow> jmap \<Rightarrow> check" where
  "interaction_resolved X m = rall [
     fields m [''interaction_id'', ''suspension_id'', ''prepared_digest'', ''response''] [],
     identities m [''interaction_id'', ''suspension_id''],
     digest m ''prepared_digest'',
     content X m ''response'']"

definition interaction_cancelled :: "jmap \<Rightarrow> check" where
  "interaction_cancelled m = rall [
     fields m [''interaction_id'', ''suspension_id'', ''prepared_digest'', ''reason''] [],
     identities m [''interaction_id'', ''suspension_id''],
     digest m ''prepared_digest'',
     rvoid (enumeration m ''reason'' [''user'', ''expired'', ''turn_cancelled'', ''operator''])]"

definition preparation_rejected :: "externals \<Rightarrow> jmap \<Rightarrow> check" where
  "preparation_rejected X m = rall [
     fields m [''source_model_request_id'', ''model_call_id'', ''proposed_tool_name'', ''code'',
       ''failure_paths''] [],
     identities m [''source_model_request_id'', ''model_call_id''],
     rvoid (string_of m ''proposed_tool_name''),
     rvoid (enumeration m ''code''
       [''invalid_tool_name'', ''tool_not_admitted'', ''invalid_arguments_json'',
        ''arguments_schema_mismatch'', ''non_canonical_value'']),
     content X m ''failure_paths'']"

definition effect_prepared :: "jmap \<Rightarrow> check" where
  "effect_prepared m = rall [
     fields m [''prepared_digest'', ''tool_name'', ''tool_revision'', ''replay_class'',
       ''model_call_id''] [],
     digest m ''prepared_digest'',
     identities m [''tool_name'', ''tool_revision'', ''model_call_id''],
     replay_class_of m]"

definition effect_authorized :: "externals \<Rightarrow> jmap \<Rightarrow> check" where
  "effect_authorized X m = rall [
     fields m [''prepared_digest'', ''grant_id'', ''authority_revision'', ''granted_requirements''] [],
     digest m ''prepared_digest'',
     identities m [''grant_id'', ''authority_revision''],
     content X m ''granted_requirements'']"

definition effect_denied :: "externals \<Rightarrow> jmap \<Rightarrow> check" where
  "effect_denied X m = rall [
     fields m [''prepared_digest'', ''code''] [''safe_details''],
     digest m ''prepared_digest'',
     rvoid (enumeration m ''code'' [''authorization_denied'', ''replacement_required'']),
     optional_content X m ''safe_details'']"

definition effect_started :: "jmap \<Rightarrow> check" where
  "effect_started m = rall [
     fields m [''prepared_digest'', ''grant_id'', ''executor_id'', ''executor_revision'',
       ''dispatch_attempt_id''] [],
     digest m ''prepared_digest'',
     identities m [''grant_id'', ''executor_id'', ''executor_revision'', ''dispatch_attempt_id'']]"

definition effect_receipt :: "externals \<Rightarrow> jmap \<Rightarrow> check" where
  "effect_receipt X m = rall [
     fields m [''receipt_id'', ''prepared_digest'', ''grant_id'', ''executor_id'',
       ''executor_revision'', ''classification'', ''result_or_evidence''] [],
     digest m ''prepared_digest'',
     identities m [''receipt_id'', ''grant_id'', ''executor_id'', ''executor_revision''],
     rvoid (enumeration m ''classification'' [''completed'', ''failed'']),
     content X m ''result_or_evidence'']"

definition effect_completed :: "externals \<Rightarrow> jmap \<Rightarrow> check" where
  "effect_completed X m = rall [
     fields m [''prepared_digest'', ''receipt_id'', ''result''] [],
     digest m ''prepared_digest'',
     non_empty m ''receipt_id'',
     content X m ''result'']"

definition effect_failed :: "externals \<Rightarrow> jmap \<Rightarrow> check" where
  "effect_failed X m = rall [
     fields m [''prepared_digest'', ''code''] [''receipt_id'', ''evidence''],
     digest m ''prepared_digest'',
     optional_non_empty m ''receipt_id'',
     rvoid (enumeration m ''code'' [''timeout'', ''cancelled'', ''tool_failure'',
       ''requirement_unsupported'', ''executor_unavailable'']),
     optional_content X m ''evidence'']"

definition effect_uncertain :: "externals \<Rightarrow> jmap \<Rightarrow> check" where
  "effect_uncertain X m = rall [
     fields m [''prepared_digest'', ''reason''] [''evidence''],
     digest m ''prepared_digest'',
     rvoid (enumeration m ''reason''
       [''started_without_receipt'', ''receipt_invalid'', ''executor_state_unknown'']),
     optional_content X m ''evidence'']"

definition effect_reconciled :: "externals \<Rightarrow> jmap \<Rightarrow> check" where
  "effect_reconciled X m = rall [
     fields m [''prepared_digest'', ''decision'', ''operator_evidence'', ''observation''] [],
     digest m ''prepared_digest'',
     rvoid (enumeration m ''decision'' [''completed'', ''failed'']),
     content X m ''operator_evidence'',
     content X m ''observation'']"

definition effect_observation :: "externals \<Rightarrow> jmap \<Rightarrow> check" where
  "effect_observation X m = rall [
     fields m [''prepared_digest'', ''model_call_id'', ''observation''] [],
     digest m ''prepared_digest'',
     non_empty m ''model_call_id'',
     content X m ''observation'']"

definition effect_validate :: "externals \<Rightarrow> string \<Rightarrow> jmap \<Rightarrow> check" where
  "effect_validate X k m =
     (if k = ''interaction.requested'' then interaction_requested X m
      else if k = ''interaction.resolved'' then interaction_resolved X m
      else if k = ''interaction.cancelled'' then interaction_cancelled m
      else if k = ''tool.preparation_rejected'' then preparation_rejected X m
      else if k = ''effect.prepared'' then effect_prepared m
      else if k = ''effect.authorized'' then effect_authorized X m
      else if k = ''effect.denied'' then effect_denied X m
      else if k = ''effect.started'' then effect_started m
      else if k = ''effect.receipt'' then effect_receipt X m
      else if k = ''effect.completed'' then effect_completed X m
      else if k = ''effect.failed'' then effect_failed X m
      else if k = ''effect.uncertain'' then effect_uncertain X m
      else if k = ''effect.reconciled'' then effect_reconciled X m
      else if k = ''effect.observation'' then effect_observation X m
      else Inl InvalidFact)"

subsection \<open>Safety decisions and sandbox proofs\<close>

definition exact_code :: "jmap \<Rightarrow> string \<Rightarrow> check" where
  "exact_code m expected =
     ensure (Option.bind (jget m ''safe_code'') json_as_str = Some expected) InvalidFact"

definition safety_decided :: "jmap \<Rightarrow> check" where
  "safety_decided m = rall [
     fields m [''request_id'', ''decision_id'', ''disposition'', ''prepared_digest'', ''tool_name'',
       ''tool_revision'', ''actor_authority_reference'', ''exact_access_digest'',
       ''sandbox_requirements_digest'', ''policy_revision'']
       [''goal_reference'', ''plan_reference'', ''constraints_digest'', ''safe_code''],
     identities m [''request_id'', ''decision_id'', ''tool_name'', ''tool_revision'',
       ''actor_authority_reference'', ''policy_revision''],
     optional_non_empty m ''goal_reference'',
     optional_non_empty m ''plan_reference'',
     digests m [''prepared_digest'', ''exact_access_digest'', ''sandbox_requirements_digest''],
     rbind (enumeration m ''disposition'' [''allow'', ''deny'', ''interaction_required'']) (\<lambda>d.
       if d = ''allow'' \<and> jget m ''safe_code'' = None then digest m ''constraints_digest''
       else if d = ''deny'' \<and> jget m ''constraints_digest'' = None then exact_code m ''safety_denied''
       else if d = ''interaction_required'' \<and> jget m ''constraints_digest'' = None
         then exact_code m ''safety_interaction_required''
       else Inl InvalidFact)]"

definition sandbox_bound :: "jmap \<Rightarrow> check" where
  "sandbox_bound m = rall [
     fields m [''binding_id'', ''decision_id'', ''prepared_digest'', ''workspace_capability_id'',
       ''executor_id'', ''executor_revision'', ''policy_revision'', ''access_scope_digest'',
       ''enforcement_digest'', ''effective_limits_digest''] [],
     identities m [''binding_id'', ''decision_id'', ''workspace_capability_id'', ''executor_id'',
       ''executor_revision'', ''policy_revision''],
     digests m [''prepared_digest'', ''access_scope_digest'', ''enforcement_digest'',
       ''effective_limits_digest'']]"

definition sandbox_preflighted :: "jmap \<Rightarrow> check" where
  "sandbox_preflighted m = rall [
     fields m [''preflight_id'', ''binding_id'', ''decision_id'', ''prepared_digest'', ''grant_id'',
       ''executor_id'', ''executor_revision'', ''dispatch_attempt_id''] [],
     identities m [''preflight_id'', ''binding_id'', ''decision_id'', ''grant_id'', ''executor_id'',
       ''executor_revision'', ''dispatch_attempt_id''],
     digest m ''prepared_digest'']"

definition f0_validate :: "string \<Rightarrow> jmap \<Rightarrow> check" where
  "f0_validate k m =
     (if k = ''safety.decided'' then safety_decided m
      else if k = ''sandbox.bound'' then sandbox_bound m
      else if k = ''sandbox.preflighted'' then sandbox_preflighted m
      else Inl InvalidFact)"

end
