(* ===== verification/Schedule_Facts.thy ===== *)
theory Schedule_Facts
  imports Fact_Values
begin

section \<open>Payload validators: artifacts, delegations, schedules\<close>

text \<open>
  The payload validators of \<open>artifact.rs\<close>, \<open>delegation.rs\<close> and \<open>scheduler.rs\<close> under
  \<open>engine/ledger/src/runtime_facts\<close>, named by module and function as in \<open>Execution_Facts\<close>.
\<close>

subsection \<open>Artifacts\<close>

definition artifact_validate :: "string \<Rightarrow> jmap \<Rightarrow> check" where
  "artifact_validate k m =
     (if k \<noteq> ''artifact.committed'' then Inl InvalidFact
      else rall [
        fields m [''artifact_id'', ''revision'', ''receipt_id'', ''display_name'', ''kind'',
          ''mime_type'', ''byte_size'', ''content_digest'', ''verification'', ''preview'',
          ''workspace_id'', ''revealable'', ''exportable''] [],
        rcheck (non_empty m)
          [''artifact_id'', ''receipt_id'', ''display_name'', ''mime_type'', ''workspace_id''],
        unsigned_of m ''revision'' True,
        unsigned_of m ''byte_size'' False,
        digest m ''content_digest'',
        rvoid (enumeration m ''kind'' [''text'', ''file'']),
        rvoid (enumeration m ''verification'' [''not_run'', ''passed'', ''failed'', ''partial'']),
        rvoid (enumeration m ''preview'' [''unavailable'', ''text'']),
        rcheck (\<lambda>key. ensure (case jget m key of None \<Rightarrow> False | Some v \<Rightarrow> is_boolean v) InvalidFact)
          [''revealable'', ''exportable'']])"

subsection \<open>Delegations\<close>

definition delegation_failures :: "string list" where
  "delegation_failures =
     [''invalid_delegation'', ''child_not_found'', ''child_revision_mismatch'', ''authority_denied'',
      ''budget_exhausted'', ''budget_overflow'', ''depth_exceeded'', ''concurrency_exceeded'',
      ''result_schema_mismatch'', ''delegation_conflict'', ''child_state_corrupt'',
      ''durability_failure'', ''corrupt_delegation_state'']"

definition same_binding_digest :: "jmap \<Rightarrow> string \<Rightarrow> string \<Rightarrow> check" where
  "same_binding_digest m binding asserted =
     ensure (jindex (jat m binding) ''digest'' = jat m asserted) InvalidFact"

definition delegation_requested :: "externals \<Rightarrow> jmap \<Rightarrow> check" where
  "delegation_requested X m = rall [
     fields m [''delegation_id'', ''parent_agent_instance_id'', ''intent'', ''intent_digest'',
       ''through_position''] [],
     non_empty m ''delegation_id'',
     non_empty m ''parent_agent_instance_id'',
     content X m ''intent'',
     digest m ''intent_digest'',
     unsigned_of m ''through_position'' False,
     same_binding_digest m ''intent'' ''intent_digest'']"

definition budget_fields :: "string list" where
  "budget_fields =
     [''max_child_turns'', ''max_child_executions'', ''max_iterations'', ''max_input_tokens'',
      ''max_output_tokens'', ''deadline_budget_ms'', ''max_depth'', ''max_objective_bytes'',
      ''max_input_evidence'', ''max_result_schema_bytes'', ''max_result_bytes'',
      ''max_result_evidence'']"

definition delegation_budget :: "jmap \<Rightarrow> check" where
  "delegation_budget m = rall [
     fields m budget_fields [],
     rcheck (\<lambda>k. unsigned_of m k True) budget_fields,
     ensure (as_u64 (jat m ''max_child_turns'') = Some 1) InvalidFact]"

definition delegation_authorized :: "jmap \<Rightarrow> check" where
  "delegation_authorized m = rall [
     fields m [''delegation_id'', ''grant_id'', ''intent_digest'', ''reserved_budget'',
       ''authority_revision''] [],
     rcheck (non_empty m) [''delegation_id'', ''grant_id'', ''authority_revision''],
     digest m ''intent_digest'',
     rbind (ok_or (jget m ''reserved_budget'') InvalidFact) (\<lambda>v.
       rbind (object_of v) delegation_budget)]"

definition delegation_denied :: "jmap \<Rightarrow> check" where
  "delegation_denied m = rall [
     fields m [''delegation_id'', ''intent_digest'', ''code''] [],
     non_empty m ''delegation_id'',
     digest m ''intent_digest'',
     rvoid (enumeration m ''code'' delegation_failures)]"

definition delegation_child_started :: "jmap \<Rightarrow> check" where
  "delegation_child_started m = rall [
     fields m [''delegation_id'', ''grant_id'', ''suspension_id'', ''child_agent_instance_id'',
       ''child_turn_id'', ''child_snapshot_digest''] [],
     rcheck (non_empty m) [''delegation_id'', ''grant_id'', ''suspension_id'',
       ''child_agent_instance_id'', ''child_turn_id''],
     digest m ''child_snapshot_digest'']"

definition delegation_child_terminal :: "externals \<Rightarrow> jmap \<Rightarrow> check" where
  "delegation_child_terminal X m = rall [
     fields m [''delegation_id'', ''grant_id'', ''result_id'', ''suspension_id'',
       ''child_agent_instance_id'', ''child_turn_id'', ''result'', ''result_digest''] [],
     rcheck (non_empty m) [''delegation_id'', ''grant_id'', ''result_id'', ''suspension_id'',
       ''child_agent_instance_id'', ''child_turn_id''],
     content X m ''result'',
     digest m ''result_digest'',
     same_binding_digest m ''result'' ''result_digest'']"

definition delegation_observed :: "jmap \<Rightarrow> check" where
  "delegation_observed m = rall [
     fields m [''delegation_id'', ''grant_id'', ''result_id'', ''suspension_id'', ''result_digest''] [],
     rcheck (non_empty m) [''delegation_id'', ''grant_id'', ''result_id'', ''suspension_id''],
     digest m ''result_digest'']"

definition delegation_validate :: "externals \<Rightarrow> string \<Rightarrow> jmap \<Rightarrow> check" where
  "delegation_validate X k m =
     (if k = ''delegation.requested'' then delegation_requested X m
      else if k = ''delegation.authorized'' then delegation_authorized m
      else if k = ''delegation.denied'' then delegation_denied m
      else if k = ''delegation.child_started'' then delegation_child_started m
      else if k = ''delegation.child_terminal'' then delegation_child_terminal X m
      else if k = ''delegation.observed'' then delegation_observed m
      else Inl InvalidFact)"

subsection \<open>Schedules\<close>

definition schedule_exhausted :: "jmap \<Rightarrow> check" where
  "schedule_exhausted m = rall [
     fields m [''schedule_id'', ''revision_id'', ''last_handled_ordinal''] [],
     non_empty m ''schedule_id'',
     non_empty m ''revision_id'',
     unsigned_of m ''last_handled_ordinal'' True]"

definition schedule_created :: "externals \<Rightarrow> jmap \<Rightarrow> check" where
  "schedule_created X m = rall [
     fields m [''command_id'', ''schedule_id'', ''revision_id'', ''intent'', ''intent_digest''] [],
     rcheck (non_empty m) [''command_id'', ''schedule_id'', ''revision_id''],
     content X m ''intent'',
     digest m ''intent_digest'',
     ensure (jat m ''intent_digest'' = jindex (jat m ''intent'') ''digest'') InvalidFact]"

definition schedule_claimed :: "externals \<Rightarrow> jmap \<Rightarrow> check" where
  "schedule_claimed X m = rall [
     fields m [''schedule_id'', ''revision_id'', ''occurrence_id'', ''ordinal'', ''due_at_utc'',
       ''lease_id'', ''lease_epoch'', ''through_position''] [],
     rcheck (non_empty m) [''schedule_id'', ''revision_id'', ''occurrence_id'', ''lease_id''],
     unsigned_of m ''ordinal'' True,
     timestamp X m ''due_at_utc'',
     unsigned_of m ''lease_epoch'' True,
     unsigned_of m ''through_position'' False]"

definition schedule_fired :: "jmap \<Rightarrow> check" where
  "schedule_fired m = rall [
     fields m [''schedule_id'', ''revision_id'', ''occurrence_id'', ''ordinal'',
       ''runtime_command_id'', ''disposition'', ''committed_position''] [],
     rcheck (non_empty m) [''schedule_id'', ''revision_id'', ''occurrence_id'', ''runtime_command_id''],
     unsigned_of m ''ordinal'' True,
     rvoid (enumeration m ''disposition'' [''committed'', ''replayed'']),
     unsigned_of m ''committed_position'' True]"

definition schedule_skipped :: "externals \<Rightarrow> jmap \<Rightarrow> check" where
  "schedule_skipped X m = rall [
     fields m [''schedule_id'', ''revision_id'', ''first_ordinal'', ''last_ordinal'',
       ''first_due_at_utc'', ''last_due_at_utc'', ''observed_at_utc''] [],
     rcheck (non_empty m) [''schedule_id'', ''revision_id''],
     unsigned_of m ''first_ordinal'' True,
     unsigned_of m ''last_ordinal'' True,
     ensure (opt_le (as_u64 (jat m ''first_ordinal'')) (as_u64 (jat m ''last_ordinal''))) InvalidFact,
     rcheck (timestamp X m) [''first_due_at_utc'', ''last_due_at_utc'', ''observed_at_utc'']]"

definition schedule_cancelled :: "jmap \<Rightarrow> check" where
  "schedule_cancelled m = rall [
     fields m [''command_id'', ''schedule_id'', ''expected_revision_id'', ''reason''] [],
     rcheck (non_empty m) [''command_id'', ''schedule_id'', ''expected_revision_id''],
     rvoid (enumeration m ''reason'' [''user'', ''operator'', ''policy'', ''superseded''])]"

definition schedule_failed :: "jmap \<Rightarrow> check" where
  "schedule_failed m = rall [
     fields m [''schedule_id'', ''revision_id'', ''reason''] [''occurrence_id'', ''ordinal''],
     non_empty m ''schedule_id'',
     non_empty m ''revision_id'',
     ensure (jhas m ''occurrence_id'' = jhas m ''ordinal'') InvalidFact,
     (if jhas m ''occurrence_id''
      then rall [non_empty m ''occurrence_id'', unsigned_of m ''ordinal'' True] else Inr ()),
     rvoid (enumeration m ''reason''
       [''invalid_schedule'', ''schedule_not_found'', ''revision_conflict'',
        ''subject_not_resumable'', ''authority_denied'', ''clock_invalid'', ''occurrence_overflow'',
        ''misfire_limit_exceeded'', ''lease_lost'', ''dispatch_conflict'', ''durability_failure'',
        ''corrupt_schedule_state''])]"

definition schedule_validate :: "externals \<Rightarrow> string \<Rightarrow> jmap \<Rightarrow> check" where
  "schedule_validate X k m =
     (if k = ''schedule.created'' then schedule_created X m
      else if k = ''schedule.claimed'' then schedule_claimed X m
      else if k = ''schedule.fired'' then schedule_fired m
      else if k = ''schedule.skipped'' then schedule_skipped X m
      else if k = ''schedule.cancelled'' then schedule_cancelled m
      else if k = ''schedule.failed'' then schedule_failed m
      else if k = ''schedule.exhausted'' then schedule_exhausted m
      else Inl InvalidFact)"

end
