(* ===== verification/Domain_Facts.thy ===== *)
theory Domain_Facts
  imports Fact_Values
begin

section \<open>Payload validators: knowledge, skills, workspaces, goals\<close>

text \<open>
  The payload validators of \<open>knowledge.rs\<close>, \<open>skill.rs\<close>, \<open>workspace.rs\<close> and \<open>goal.rs\<close>
  under \<open>engine/ledger/src/runtime_facts\<close>, named by module and function as in
  \<open>Execution_Facts\<close>. A loop that carries state (the entry identities and the byte total of a workspace
  selection) is a recursion with that state as arguments.
\<close>

subsection \<open>Knowledge\<close>

definition knowledge_dispatched :: "jmap \<Rightarrow> check" where
  "knowledge_dispatched m = rall [
     fields m [''request_id'', ''request_digest'', ''dispatch_attempt_id''] [],
     non_empty m ''request_id'',
     digest m ''request_digest'',
     non_empty m ''dispatch_attempt_id'']"

definition knowledge_requested :: "externals \<Rightarrow> jmap \<Rightarrow> check" where
  "knowledge_requested X m = rall [
     fields m [''request_id'', ''source_id'', ''source_revision'', ''request_digest'', ''mode'',
       ''query'', ''filters'', ''through_position'', ''max_chunks'', ''max_total_bytes'',
       ''deadline_budget_ms'', ''freshness_kind''] [''exact_snapshot_digest''],
     rcheck (non_empty m) [''request_id'', ''source_id'', ''source_revision''],
     digest m ''request_digest'',
     rvoid (enumeration m ''mode'' [''keyword'', ''semantic'', ''structured'']),
     content X m ''query'',
     content X m ''filters'',
     unsigned_of m ''through_position'' False,
     rcheck (\<lambda>k. unsigned_of m k True) [''max_chunks'', ''max_total_bytes'', ''deadline_budget_ms''],
     rbind (enumeration m ''freshness_kind'' [''cached_allowed'', ''revalidate'', ''exact_snapshot''])
       (\<lambda>freshness.
         if (freshness = ''exact_snapshot'') \<noteq> jhas m ''exact_snapshot_digest'' then Inl InvalidFact
         else if freshness = ''exact_snapshot'' then digest m ''exact_snapshot_digest''
         else Inr ())]"

definition knowledge_evidence :: "externals \<Rightarrow> jmap \<Rightarrow> check" where
  "knowledge_evidence X m = rall [
     fields m [''evidence_id'', ''content'', ''content_byte_length'', ''citation_kind'',
       ''citation_locator'', ''citation_content_digest'', ''retrieved_at_utc'', ''freshness'',
       ''trust_class'', ''rank_basis_points'']
       [''source_snapshot_digest'', ''citation_title'', ''canonical_uri''],
     non_empty m ''evidence_id'',
     (if jhas m ''source_snapshot_digest'' then digest m ''source_snapshot_digest'' else Inr ()),
     content X m ''content'',
     unsigned_of m ''content_byte_length'' True,
     rbind (object_of (jat m ''content'')) (\<lambda>binding. rall [
       (case Option.bind (jget binding ''inline_utf8'') json_as_str of
          None \<Rightarrow> Inr ()
        | Some text \<Rightarrow> ensure (as_u64 (jat m ''content_byte_length'') = Some (of_nat (length text)))
                         InvalidFact),
       rvoid (enumeration m ''citation_kind''
         [''uri_fragment'', ''document_offset'', ''record_key'', ''opaque_locator'']),
       non_empty m ''citation_locator'',
       optional_non_empty m ''citation_title'',
       optional_non_empty m ''canonical_uri'',
       digest m ''citation_content_digest'',
       ensure (jat m ''citation_content_digest'' = jat binding ''digest'') InvalidFact]),
     timestamp X m ''retrieved_at_utc'',
     rvoid (enumeration m ''freshness'' [''fresh'', ''cached'', ''stale'']),
     rvoid (enumeration m ''trust_class'' [''curated'', ''first_party'', ''third_party'', ''untrusted'']),
     unsigned_of m ''rank_basis_points'' False,
     ensure (case as_u64 (jat m ''rank_basis_points'') of None \<Rightarrow> False | Some rank \<Rightarrow> rank \<le> 10000)
       InvalidFact]"

definition knowledge_completed :: "externals \<Rightarrow> jmap \<Rightarrow> check" where
  "knowledge_completed X m = rall [
     fields m [''request_id'', ''request_digest'', ''evidence'', ''truncated''] [],
     non_empty m ''request_id'',
     digest m ''request_digest'',
     rbind (ok_or (Option.bind (jget m ''evidence'') as_array) InvalidFact)
       (rcheck (\<lambda>item. rbind (object_of item) (knowledge_evidence X))),
     rvoid (boolean_of m ''truncated'')]"

definition knowledge_failed :: "jmap \<Rightarrow> check" where
  "knowledge_failed m = rall [
     fields m [''request_id'', ''request_digest'', ''phase'', ''reason'', ''ambiguous'']
       [''retry_after_ms''],
     non_empty m ''request_id'',
     digest m ''request_digest'',
     rbind (enumeration m ''phase'' [''pre_dispatch'', ''dispatched'', ''response_validation'']) (\<lambda>phase.
     rbind (enumeration m ''reason''
       [''invalid_query'', ''source_not_found'', ''source_revision_mismatch'', ''source_denied'',
        ''filter_unsupported'', ''freshness_unavailable'', ''connector_unavailable'',
        ''connector_rejected'', ''retrieval_uncertain'', ''citation_invalid'',
        ''content_digest_mismatch'', ''limit_exceeded'', ''durability_failure'',
        ''corrupt_knowledge_state'']) (\<lambda>reason.
     rbind (boolean_of m ''ambiguous'') (\<lambda>ambiguous.
       ensure (ambiguous = (phase = ''dispatched'' \<and> reason = ''retrieval_uncertain'')) InvalidFact))),
     (if jhas m ''retry_after_ms'' then unsigned_of m ''retry_after_ms'' True else Inr ())]"

definition knowledge_validate :: "externals \<Rightarrow> string \<Rightarrow> jmap \<Rightarrow> check" where
  "knowledge_validate X k m =
     (if k = ''knowledge.requested'' then knowledge_requested X m
      else if k = ''knowledge.dispatched'' then knowledge_dispatched m
      else if k = ''knowledge.completed'' then knowledge_completed X m
      else if k = ''knowledge.failed'' then knowledge_failed m
      else Inl InvalidFact)"

subsection \<open>Skills\<close>

definition skill_entry :: "string \<Rightarrow> json \<Rightarrow> check" where
  "skill_entry mode v = rbind (object_of v) (\<lambda>skill. rall [
     fields skill [''skill_id'', ''skill_revision'', ''definition_digest'', ''instruction_digest'',
       ''reason''] [],
     non_empty skill ''skill_id'',
     non_empty skill ''skill_revision'',
     digest skill ''definition_digest'',
     digest skill ''instruction_digest'',
     rbind (enumeration skill ''reason'' [''explicit'', ''tag_match'']) (\<lambda>reason.
       ensure ((mode = ''explicit'') = (reason = ''explicit'')) InvalidFact)])"

definition skill_validate :: "string \<Rightarrow> jmap \<Rightarrow> check" where
  "skill_validate k m =
     (if k \<noteq> ''skill.activated'' then Inl InvalidFact
      else rall [
        fields m [''activation_id'', ''request_digest'', ''mode'', ''through_position'', ''skills'',
          ''truncated''] [],
        non_empty m ''activation_id'',
        digest m ''request_digest'',
        rbind (enumeration m ''mode'' [''explicit'', ''tagged'']) (\<lambda>mode.
        rbind (unsigned_of m ''through_position'' False) (\<lambda>_.
        rbind (ok_or (Option.bind (jget m ''skills'') as_array) InvalidFact) (\<lambda>skills.
        rbind (rcheck (skill_entry mode) skills) (\<lambda>_.
        rbind (boolean_of m ''truncated'') (\<lambda>truncated.
          ensure (\<not> (mode = ''explicit'' \<and> (length skills \<noteq> 1 \<or> truncated))) InvalidFact)))))])"

subsection \<open>Workspaces\<close>

definition MAX_CONTEXT_ENTRIES :: nat where
  "MAX_CONTEXT_ENTRIES = 8"

definition MAX_CONTEXT_BYTES :: nat where
  "MAX_CONTEXT_BYTES = 60 * 1024"

definition MAX_PUBLIC_TEXT_BYTES :: nat where
  "MAX_PUBLIC_TEXT_BYTES = 128"

definition bounded_text :: "jmap \<Rightarrow> string \<Rightarrow> check" where
  "bounded_text m k = rall [
     non_empty m k,
     rbind (string_of m k) (\<lambda>s. ensure (\<not> length s > MAX_PUBLIC_TEXT_BYTES) InvalidFact)]"

definition workspace_detached :: "jmap \<Rightarrow> check" where
  "workspace_detached m = rall [
     fields m [''command_id'', ''workspace_id'', ''grant_revision'', ''outcome''] [],
     bounded_text m ''command_id'',
     bounded_text m ''workspace_id'',
     unsigned_of m ''grant_revision'' True,
     rvoid (enumeration m ''outcome'' [''detached'', ''already_detached''])]"

text \<open>The loop over the entries: the identities seen and the bytes counted so far.\<close>

fun context_entries :: "externals \<Rightarrow> string set \<Rightarrow> nat \<Rightarrow> json list \<Rightarrow> check" where
  "context_entries X seen bytes [] = Inr ()"
| "context_entries X seen bytes (v # vs) =
     rbind (object_of v) (\<lambda>entry.
     rbind (rall [
       fields entry [''entry_id'', ''display_name'', ''kind'', ''content''] [],
       bounded_text entry ''entry_id'',
       bounded_text entry ''display_name'',
       rvoid (enumeration entry ''kind'' [''text'']),
       content X entry ''content'']) (\<lambda>_.
     rbind (string_of entry ''entry_id'') (\<lambda>i.
     if i \<in> seen then Inl InvalidFact else
     rbind (ok_or (jget entry ''content'') InvalidFact) (\<lambda>c.
     rbind (object_of c) (\<lambda>body.
     rbind (string_of body ''inline_utf8'') (\<lambda>text.
       if bytes + length text \<le> MAX_CONTEXT_BYTES
       then context_entries X (insert i seen) (bytes + length text) vs
       else Inl InvalidFact))))))"

definition workspace_context_selected :: "externals \<Rightarrow> jmap \<Rightarrow> check" where
  "workspace_context_selected X m = rall [
     fields m [''command_id'', ''workspace_id'', ''grant_revision'', ''entries''] [],
     bounded_text m ''command_id'',
     bounded_text m ''workspace_id'',
     unsigned_of m ''grant_revision'' True,
     rbind (ok_or (Option.bind (jget m ''entries'') as_array) InvalidFact) (\<lambda>items.
       if items \<noteq> [] \<and> length items \<le> MAX_CONTEXT_ENTRIES
       then context_entries X {} 0 items else Inl InvalidFact)]"

definition workspace_attached :: "jmap \<Rightarrow> check" where
  "workspace_attached m = rall [
     fields m [''command_id'', ''workspace_id'', ''display_name'', ''grant_revision'', ''access''] [],
     non_empty m ''command_id'',
     non_empty m ''workspace_id'',
     non_empty m ''display_name'',
     unsigned_of m ''grant_revision'' True,
     rvoid (enumeration m ''access'' [''enumerate'', ''read_write''])]"

definition workspace_validate :: "externals \<Rightarrow> string \<Rightarrow> jmap \<Rightarrow> check" where
  "workspace_validate X k m =
     (if k = ''workspace.attached'' then workspace_attached m
      else if k = ''workspace.detached'' then workspace_detached m
      else if k = ''workspace.context_selected'' then workspace_context_selected X m
      else Inl InvalidFact)"

subsection \<open>Goals\<close>

definition goal_common :: "jmap \<Rightarrow> check" where
  "goal_common m = rall [
     non_empty m ''command_id'', non_empty m ''goal_id'', unsigned_of m ''revision'' True]"

definition goal_created :: "externals \<Rightarrow> jmap \<Rightarrow> check" where
  "goal_created X m = rall [
     fields m [''command_id'', ''goal_id'', ''revision'', ''definition_digest'', ''definition'',
       ''actor_reference''] [],
     goal_common m,
     ensure (Option.bind (jget m ''revision'') as_u64 = Some 1) InvalidFact,
     digest m ''definition_digest'',
     content X m ''definition'',
     non_empty m ''actor_reference'']"

text \<open>A field that counts one up from another: the comparison of \<open>checked_add\<close> with the stated one.\<close>

definition succ_field :: "jmap \<Rightarrow> string \<Rightarrow> string \<Rightarrow> check" where
  "succ_field m previous following =
     ensure (Option.bind (Option.bind (jget m previous) as_u64) (\<lambda>n. checked_add n 1)
             = Option.bind (jget m following) as_u64) InvalidFact"

definition goal_revised :: "externals \<Rightarrow> jmap \<Rightarrow> check" where
  "goal_revised X m = rall [
     fields m [''command_id'', ''goal_id'', ''previous_revision'', ''revision'',
       ''previous_definition_digest'', ''definition_digest'', ''definition'',
       ''replacement_reason'', ''actor_reference''] [],
     goal_common m,
     unsigned_of m ''previous_revision'' True,
     succ_field m ''previous_revision'' ''revision'',
     digest m ''previous_definition_digest'',
     digest m ''definition_digest'',
     content X m ''definition'',
     non_empty m ''replacement_reason'',
     non_empty m ''actor_reference'']"

definition goal_activated :: "jmap \<Rightarrow> check" where
  "goal_activated m = rall [
     fields m [''command_id'', ''goal_id'', ''revision'', ''attempt_number'', ''actor_reference'']
       [''plan_reference''],
     goal_common m,
     unsigned_of m ''attempt_number'' True,
     optional_non_empty m ''plan_reference'',
     non_empty m ''actor_reference'']"

definition goal_suspended :: "jmap \<Rightarrow> check" where
  "goal_suspended m = rall [
     fields m [''command_id'', ''goal_id'', ''revision'', ''reason'', ''actor_reference'']
       [''suspension_reference''],
     goal_common m,
     non_empty m ''reason'',
     optional_non_empty m ''suspension_reference'',
     non_empty m ''actor_reference'']"

definition goal_succeeded :: "externals \<Rightarrow> jmap \<Rightarrow> check" where
  "goal_succeeded X m = rall [
     fields m [''command_id'', ''goal_id'', ''revision'', ''evidence'', ''actor_reference''] [],
     goal_common m,
     content X m ''evidence'',
     non_empty m ''actor_reference'']"

definition goal_failed :: "externals \<Rightarrow> jmap \<Rightarrow> check" where
  "goal_failed X m = rall [
     fields m [''command_id'', ''goal_id'', ''revision'', ''code'', ''actor_reference'']
       [''evidence''],
     goal_common m,
     non_empty m ''code'',
     optional_content X m ''evidence'',
     non_empty m ''actor_reference'']"

definition goal_cancelled :: "jmap \<Rightarrow> check" where
  "goal_cancelled m = rall [
     fields m [''command_id'', ''goal_id'', ''revision'', ''reason'', ''actor_reference''] [],
     goal_common m,
     non_empty m ''reason'',
     non_empty m ''actor_reference'']"

definition goal_fact_validate :: "externals \<Rightarrow> string \<Rightarrow> jmap \<Rightarrow> check" where
  "goal_fact_validate X k m =
     (if k = ''goal.created'' then goal_created X m
      else if k = ''goal.revised'' then goal_revised X m
      else if k = ''goal.activated'' then goal_activated m
      else if k = ''goal.suspended'' then goal_suspended m
      else if k = ''goal.succeeded'' then goal_succeeded X m
      else if k = ''goal.failed'' then goal_failed X m
      else if k = ''goal.cancelled'' then goal_cancelled m
      else Inl InvalidFact)"

end
