(* ===== verification/Plan_Facts.thy ===== *)
theory Plan_Facts
  imports Domain_Facts
begin

section \<open>Payload validators: plans and plan steps\<close>

text \<open>
  The payload validators of \<open>plan.rs\<close> and \<open>plan_step.rs\<close> under \<open>engine/ledger/src/runtime_facts\<close>, named
  by module and function as in \<open>Execution_Facts\<close>.
\<close>

definition plan_base_fields :: "string list" where
  "plan_base_fields = [''command_id'', ''plan_id'', ''plan_revision'']"

definition plan_base :: "jmap \<Rightarrow> check" where
  "plan_base m = rall [
     non_empty m ''command_id'', non_empty m ''plan_id'', unsigned_of m ''plan_revision'' True]"

definition plan_mutation :: "jmap \<Rightarrow> check" where
  "plan_mutation m = rall [
     plan_base m,
     unsigned_of m ''previous_state_version'' True,
     unsigned_of m ''state_version'' True,
     succ_field m ''previous_state_version'' ''state_version'']"

definition mutation_with :: "jmap \<Rightarrow> string list \<Rightarrow> string list \<Rightarrow> check" where
  "mutation_with m additional optional = rall [
     fields m (plan_base_fields @ [''previous_state_version'', ''state_version''] @ additional) optional,
     plan_mutation m]"

definition plan_continuation :: "jmap \<Rightarrow> check" where
  "plan_continuation m = rall [
     rvoid (enumeration m ''continuation_kind'' [''interaction'', ''policy'', ''reconciliation'']),
     non_empty m ''continuation_reference'']"

text \<open>Whether some item is no text, is empty, or repeats one seen before.\<close>

fun bad_step_ids :: "string set \<Rightarrow> json list \<Rightarrow> bool" where
  "bad_step_ids unique [] = False"
| "bad_step_ids unique (v # vs) =
     (case json_as_str v of
        None \<Rightarrow> True
      | Some s \<Rightarrow> s = [] \<or> s \<in> unique \<or> bad_step_ids (insert s unique) vs)"

definition replan_admitted :: "externals \<Rightarrow> jmap \<Rightarrow> check" where
  "replan_admitted X m = rall [
     fields m [''command_id'', ''source_plan_id'', ''source_plan_revision'',
       ''source_plan_definition_digest'', ''goal_id'', ''goal_revision'', ''goal_definition_digest'',
       ''failed_step_ids'', ''policy_reference'', ''expected_session_version'',
       ''through_position'', ''decision_evidence''] [],
     rcheck (non_empty m) [''command_id'', ''source_plan_id'', ''goal_id'', ''policy_reference''],
     unsigned_of m ''source_plan_revision'' True,
     unsigned_of m ''goal_revision'' True,
     unsigned_of m ''expected_session_version'' True,
     unsigned_of m ''through_position'' False,
     digest m ''source_plan_definition_digest'',
     digest m ''goal_definition_digest'',
     content X m ''decision_evidence'',
     rbind (ok_or (Option.bind (jget m ''failed_step_ids'') as_array) InvalidFact) (\<lambda>failed.
       if failed = [] \<or> bad_step_ids {} failed then Inl InvalidFact else Inr ())]"

definition replan_source_values :: "jmap \<Rightarrow> check" where
  "replan_source_values m = rall [
     non_empty m ''admission_fact_id'',
     non_empty m ''source_plan_id'',
     unsigned_of m ''source_plan_revision'' True,
     digest m ''source_plan_definition_digest'']"

definition proposal_result_bound_values :: "jmap \<Rightarrow> check" where
  "proposal_result_bound_values m = rall [
     rcheck (non_empty m) [''command_id'', ''goal_id'', ''request_fact_id'', ''planner_turn_id'',
       ''planner_execution_id'', ''terminal_fact_id''],
     unsigned_of m ''goal_revision'' True,
     rcheck (digest m) [''goal_definition_digest'', ''terminal_payload_digest'', ''result_digest'']]"

definition proposal_requested_values :: "jmap \<Rightarrow> check" where
  "proposal_requested_values m = rall [
     rcheck (non_empty m) [''command_id'', ''goal_id'', ''proposer_reference'', ''turn_id'',
       ''execution_id''],
     unsigned_of m ''goal_revision'' True,
     unsigned_of m ''expected_session_version'' True,
     unsigned_of m ''through_position'' False,
     rcheck (digest m) [''goal_definition_digest'', ''request_digest'', ''output_schema_digest'']]"

definition proposal_result_bound :: "jmap \<Rightarrow> check" where
  "proposal_result_bound m = rall [
     fields m [''command_id'', ''goal_id'', ''goal_revision'', ''goal_definition_digest'',
       ''request_fact_id'', ''planner_turn_id'', ''planner_execution_id'', ''terminal_fact_id'',
       ''terminal_payload_digest'', ''result_digest''] [],
     rcheck (non_empty m) [''command_id'', ''goal_id'', ''request_fact_id'', ''planner_turn_id'',
       ''planner_execution_id'', ''terminal_fact_id''],
     unsigned_of m ''goal_revision'' True,
     rcheck (digest m) [''goal_definition_digest'', ''terminal_payload_digest'', ''result_digest'']]"

definition replan_proposal_result_bound :: "jmap \<Rightarrow> check" where
  "replan_proposal_result_bound m = rall [
     fields m [''command_id'', ''goal_id'', ''goal_revision'', ''goal_definition_digest'',
       ''admission_fact_id'', ''source_plan_id'', ''source_plan_revision'',
       ''source_plan_definition_digest'', ''request_fact_id'', ''planner_turn_id'',
       ''planner_execution_id'', ''terminal_fact_id'', ''terminal_payload_digest'',
       ''result_digest''] [],
     proposal_result_bound_values m,
     replan_source_values m]"

definition proposal_requested :: "jmap \<Rightarrow> check" where
  "proposal_requested m = rall [
     fields m [''command_id'', ''goal_id'', ''goal_revision'', ''goal_definition_digest'',
       ''expected_session_version'', ''through_position'', ''proposer_reference'',
       ''request_digest'', ''output_schema_digest'', ''turn_id'', ''execution_id''] [],
     rcheck (non_empty m) [''command_id'', ''goal_id'', ''proposer_reference'', ''turn_id'',
       ''execution_id''],
     unsigned_of m ''goal_revision'' True,
     unsigned_of m ''expected_session_version'' True,
     unsigned_of m ''through_position'' False,
     rcheck (digest m) [''goal_definition_digest'', ''request_digest'', ''output_schema_digest'']]"

definition replan_proposal_requested :: "jmap \<Rightarrow> check" where
  "replan_proposal_requested m = rall [
     fields m [''command_id'', ''goal_id'', ''goal_revision'', ''goal_definition_digest'',
       ''admission_fact_id'', ''source_plan_id'', ''source_plan_revision'',
       ''source_plan_definition_digest'', ''expected_session_version'', ''through_position'',
       ''proposer_reference'', ''request_digest'', ''output_schema_digest'', ''turn_id'',
       ''execution_id''] [],
     proposal_requested_values m,
     replan_source_values m]"

definition plan_proposed :: "externals \<Rightarrow> jmap \<Rightarrow> check" where
  "plan_proposed X m = rall [
     fields m [''command_id'', ''plan_id'', ''plan_revision'', ''state_version'', ''plan_digest'',
       ''definition'', ''goal_id'', ''goal_revision'', ''goal_definition_digest'',
       ''agent_snapshot_digest'', ''tool_catalogue_digest'', ''safety_policy_revision'',
       ''proposer_reference''] [],
     plan_base m,
     ensure (Option.bind (jget m ''state_version'') as_u64 = Some 1) InvalidFact,
     rcheck (digest m) [''plan_digest'', ''goal_definition_digest'', ''agent_snapshot_digest'',
       ''tool_catalogue_digest''],
     content X m ''definition'',
     non_empty m ''goal_id'',
     unsigned_of m ''goal_revision'' True,
     non_empty m ''safety_policy_revision'',
     non_empty m ''proposer_reference'']"

definition plan_adopted :: "externals \<Rightarrow> jmap \<Rightarrow> check" where
  "plan_adopted X m = rall [
     fields m [''command_id'', ''plan_id'', ''plan_revision'', ''previous_state_version'',
       ''state_version'', ''expected_goal_revision'', ''actor_reference'', ''policy_reference'',
       ''carry_forward_evidence''] [''expected_prior_plan_revision''],
     plan_mutation m,
     unsigned_of m ''expected_goal_revision'' True,
     optional_unsigned m ''expected_prior_plan_revision'',
     ensure (jget m ''expected_prior_plan_revision'' \<noteq> Some (JNumber (PosInt 0))) InvalidFact,
     non_empty m ''actor_reference'',
     non_empty m ''policy_reference'',
     content X m ''carry_forward_evidence'']"

definition plan_rejected :: "jmap \<Rightarrow> check" where
  "plan_rejected m = rall [
     mutation_with m [''actor_reference'', ''policy_reference'', ''reason''] [],
     non_empty m ''actor_reference'',
     non_empty m ''policy_reference'',
     non_empty m ''reason'']"

definition plan_superseded :: "externals \<Rightarrow> jmap \<Rightarrow> check" where
  "plan_superseded X m = rall [
     mutation_with m [''replacement_plan_id'', ''replacement_plan_revision'',
       ''replacement_plan_digest'', ''unresolved_work''] [],
     non_empty m ''replacement_plan_id'',
     unsigned_of m ''replacement_plan_revision'' True,
     digest m ''replacement_plan_digest'',
     content X m ''unresolved_work'']"

definition plan_suspended :: "jmap \<Rightarrow> check" where
  "plan_suspended m = rall [
     mutation_with m [''continuation_kind'', ''continuation_reference''] [],
     plan_continuation m]"

definition plan_resumed :: "jmap \<Rightarrow> check" where
  "plan_resumed m = rall [
     mutation_with m [''resolved_continuation_reference''] [],
     non_empty m ''resolved_continuation_reference'']"

definition plan_completed :: "externals \<Rightarrow> jmap \<Rightarrow> check" where
  "plan_completed X m = rall [
     mutation_with m [''reduction_evidence''] [],
     content X m ''reduction_evidence'']"

definition plan_failed :: "externals \<Rightarrow> jmap \<Rightarrow> check" where
  "plan_failed X m = rall [
     mutation_with m [''reason''] [''evidence''],
     non_empty m ''reason'',
     optional_content X m ''evidence'']"

subsection \<open>Plan steps\<close>

definition step_claimed :: "jmap \<Rightarrow> check" where
  "step_claimed m = rall [
     mutation_with m [''step_id'', ''step_digest'', ''claim_id'', ''worker_reference'',
       ''lease_epoch'', ''clock_revision'', ''claimed_at_tick'', ''expires_at_tick''] [],
     non_empty m ''step_id'',
     digest m ''step_digest'',
     non_empty m ''claim_id'',
     non_empty m ''worker_reference'',
     unsigned_of m ''lease_epoch'' True,
     non_empty m ''clock_revision'',
     unsigned_of m ''claimed_at_tick'' False,
     unsigned_of m ''expires_at_tick'' False,
     ensure (\<not> opt_le (Option.bind (jget m ''expires_at_tick'') as_u64)
                      (Option.bind (jget m ''claimed_at_tick'') as_u64)) InvalidFact]"

definition step_claim_expired :: "jmap \<Rightarrow> check" where
  "step_claim_expired m = rall [
     mutation_with m [''step_id'', ''claim_id'', ''lease_epoch'', ''clock_revision'',
       ''observed_at_tick''] [],
     non_empty m ''step_id'',
     non_empty m ''claim_id'',
     unsigned_of m ''lease_epoch'' True,
     non_empty m ''clock_revision'',
     unsigned_of m ''observed_at_tick'' False]"

definition step_started :: "jmap \<Rightarrow> check" where
  "step_started m = rall [
     mutation_with m [''step_id'', ''step_digest'', ''claim_id'', ''lease_epoch'',
       ''clock_revision'', ''observed_at_tick'', ''attempt_id'', ''execution_id'',
       ''execution_snapshot_digest''] [],
     non_empty m ''step_id'',
     digest m ''step_digest'',
     non_empty m ''claim_id'',
     unsigned_of m ''lease_epoch'' True,
     non_empty m ''clock_revision'',
     unsigned_of m ''observed_at_tick'' False,
     non_empty m ''attempt_id'',
     non_empty m ''execution_id'',
     digest m ''execution_snapshot_digest'']"

definition terminal_attempt :: "jmap \<Rightarrow> check" where
  "terminal_attempt m = rall [
     non_empty m ''step_id'', non_empty m ''attempt_id'', non_empty m ''execution_id'']"

definition step_completed :: "externals \<Rightarrow> jmap \<Rightarrow> check" where
  "step_completed X m = rall [
     mutation_with m [''step_id'', ''attempt_id'', ''execution_id'', ''result_digest'',
       ''step_evidence'', ''criterion_evidence''] [],
     terminal_attempt m,
     digest m ''result_digest'',
     content X m ''step_evidence'',
     content X m ''criterion_evidence'']"

definition step_failed :: "externals \<Rightarrow> jmap \<Rightarrow> check" where
  "step_failed X m = rall [
     mutation_with m [''step_id'', ''attempt_id'', ''execution_id'', ''reason'', ''retry_posture'']
       [''evidence''],
     terminal_attempt m,
     non_empty m ''reason'',
     rvoid (enumeration m ''retry_posture'' [''retry'', ''suspend'', ''replan'', ''fail'']),
     optional_content X m ''evidence'']"

definition step_suspended :: "jmap \<Rightarrow> check" where
  "step_suspended m = rall [
     mutation_with m [''step_id'', ''attempt_id'', ''execution_id'', ''continuation_kind'',
       ''continuation_reference''] [],
     terminal_attempt m,
     plan_continuation m]"

definition step_resumed :: "jmap \<Rightarrow> check" where
  "step_resumed m = rall [
     mutation_with m [''step_id'', ''attempt_id'', ''prior_execution_id'', ''execution_id'',
       ''resolved_continuation_reference''] [],
     rcheck (non_empty m) [''step_id'', ''attempt_id'', ''prior_execution_id'', ''execution_id''],
     non_empty m ''resolved_continuation_reference'']"

definition plan_step_validate :: "externals \<Rightarrow> string \<Rightarrow> jmap \<Rightarrow> check" where
  "plan_step_validate X k m =
     (if k = ''plan.step.claimed'' then step_claimed m
      else if k = ''plan.step.claim_expired'' then step_claim_expired m
      else if k = ''plan.step.started'' then step_started m
      else if k = ''plan.step.completed'' then step_completed X m
      else if k = ''plan.step.failed'' then step_failed X m
      else if k = ''plan.step.suspended'' then step_suspended m
      else if k = ''plan.step.resumed'' then step_resumed m
      else Inl InvalidFact)"

definition plan_fact_validate :: "externals \<Rightarrow> string \<Rightarrow> jmap \<Rightarrow> check" where
  "plan_fact_validate X k m =
     (if k = ''plan.proposal.requested'' then proposal_requested m
      else if k = ''plan.proposal.result_bound'' then proposal_result_bound m
      else if k = ''plan.replan.admitted'' then replan_admitted X m
      else if k = ''plan.replan.proposal.requested'' then replan_proposal_requested m
      else if k = ''plan.replan.proposal.result_bound'' then replan_proposal_result_bound m
      else if k = ''plan.proposed'' then plan_proposed X m
      else if k = ''plan.adopted'' then plan_adopted X m
      else if k = ''plan.rejected'' then plan_rejected m
      else if k = ''plan.superseded'' then plan_superseded X m
      else if k = ''plan.suspended'' then plan_suspended m
      else if k = ''plan.resumed'' then plan_resumed m
      else if k = ''plan.completed'' then plan_completed X m
      else if k = ''plan.failed'' then plan_failed X m
      else if starts_with k ''plan.step.'' then plan_step_validate X k m
      else Inl InvalidFact)"

end
