(* ===== verification/Memory_Facts.thy ===== *)
theory Memory_Facts
  imports Fact_Values
begin

section \<open>Payload validators: memory\<close>

text \<open>
  The payload validators of \<open>engine/ledger/src/runtime_facts/memory.rs\<close>, named by function as in
  \<open>Execution_Facts\<close>. The loops that carry state are recursions: the order of erasure targets
  (\<open>erasure_targets\<close>), the target identities and the completeness of an erasure (\<open>erasure_results\<close>), and
  the byte total of a recall (\<open>recall_items\<close>).
\<close>

definition memory_kinds :: "string list" where
  "memory_kinds = [''preference'', ''constraint'', ''decision'', ''learned_fact'', ''summary'']"

definition memory_sensitivities :: "string list" where
  "memory_sensitivities = [''ordinary'', ''restricted'']"

definition memory_types :: "string list" where
  "memory_types = [''semantic'', ''episodic'', ''lesson'', ''procedural'']"

definition memory_authorities :: "string list" where
  "memory_authorities = [''user_declared'', ''agent_learned'', ''organisation_published'']"

definition memory_states :: "string list" where
  "memory_states = [''candidate'', ''active'', ''cold'', ''archived'', ''promoted'']"

definition memory_control_scopes :: "string list" where
  "memory_control_scopes = [''session'', ''agent_instance'', ''user'', ''project'', ''platform'']"

subsection \<open>Shared parts\<close>

definition fact_reference :: "jmap \<Rightarrow> check" where
  "fact_reference m = rall [
     fields m [''session_id'', ''position'', ''fact_id'', ''payload_digest''] [],
     non_empty m ''session_id'',
     unsigned_of m ''position'' True,
     non_empty m ''fact_id'',
     digest m ''payload_digest'']"

definition fact_reference_at :: "jmap \<Rightarrow> string \<Rightarrow> check" where
  "fact_reference_at m k =
     rbind (ok_or (jget m k) InvalidFact) (\<lambda>v. rbind (object_of v) fact_reference)"

definition memory_scope :: "jmap \<Rightarrow> string \<Rightarrow> check" where
  "memory_scope m k =
     rbind (ok_or (jget m k) InvalidFact) (\<lambda>v.
     rbind (object_of v) (\<lambda>scope.
       case Option.bind (jget scope ''kind'') json_as_str of
         None \<Rightarrow> Inl InvalidFact
       | Some s \<Rightarrow>
           if s = ''namespace'' then fields scope [''kind''] []
           else if s = ''session'' \<or> s = ''agent_instance'' then
             rall [fields scope [''kind'', ''owner_id''] [], non_empty scope ''owner_id'']
           else Inl InvalidFact))"

definition memory_evidence :: "jmap \<Rightarrow> string \<Rightarrow> check" where
  "memory_evidence m k =
     rbind (ok_or (Option.bind (jget m k) as_array) InvalidFact) (\<lambda>items.
       if items = [] then Inl InvalidFact
       else rcheck (\<lambda>v. rbind (object_of v) (\<lambda>item. rall [
         fields item [''session_id'', ''position'', ''fact_id'', ''payload_digest''] [],
         non_empty item ''session_id'',
         unsigned_of item ''position'' True,
         non_empty item ''fact_id'',
         digest item ''payload_digest''])) items)"

definition basis_points :: "jmap \<Rightarrow> string \<Rightarrow> check" where
  "basis_points m k = rall [
     unsigned_of m k False,
     ensure (case as_u64 (jat m k) of None \<Rightarrow> False | Some points \<Rightarrow> points \<le> 10000) InvalidFact]"

definition optional_timestamp :: "externals \<Rightarrow> jmap \<Rightarrow> string \<Rightarrow> check" where
  "optional_timestamp X m k = (if jhas m k then timestamp X m k else Inr ())"

text \<open>A field that must be a digest exactly when a condition holds, and absent otherwise.\<close>

definition digest_iff :: "bool \<Rightarrow> jmap \<Rightarrow> string \<Rightarrow> check" where
  "digest_iff b m k =
     (if b \<noteq> jhas m k then Inl InvalidFact else if b then digest m k else Inr ())"

subsection \<open>Revisions, candidates, maintenance\<close>

definition revision_classified :: "jmap \<Rightarrow> check" where
  "revision_classified m = rall [
     fields m [''classification_id'', ''namespace_id'', ''record_id'', ''revision_id'',
       ''memory_type'', ''authority'', ''lifecycle'', ''scope'', ''scope_owner_id'',
       ''policy_revision'', ''source_commit'']
       [''aggregation_policy_digest'', ''authority_receipt_digest''],
     rcheck (non_empty m) [''classification_id'', ''namespace_id'', ''record_id'', ''revision_id'',
       ''scope_owner_id'', ''policy_revision''],
     rvoid (enumeration m ''memory_type'' memory_types),
     rbind (enumeration m ''authority'' memory_authorities) (\<lambda>authority.
     rbind (enumeration m ''lifecycle'' [''candidate'', ''active'']) (\<lambda>_.
     rbind (enumeration m ''scope'' memory_control_scopes) (\<lambda>scope. rall [
       fact_reference_at m ''source_commit'',
       digest_iff (authority \<noteq> ''agent_learned'') m ''authority_receipt_digest'',
       digest_iff (scope = ''platform'') m ''aggregation_policy_digest''])))]"

definition memory_candidate :: "jmap \<Rightarrow> check" where
  "memory_candidate m = rall [
     fields m [''candidate_id'', ''namespace_id'', ''extractor_revision'', ''source'',
       ''intent_kind'', ''intent_digest''] [],
     rcheck (non_empty m) [''candidate_id'', ''namespace_id'', ''extractor_revision''],
     rvoid (enumeration m ''source'' [''explicit_user_command'', ''session_end'', ''exit_summary'',
       ''scheduled_distillation'']),
     rvoid (enumeration m ''intent_kind'' [''learn'', ''forget'']),
     digest m ''intent_digest'']"

definition maintenance_decision :: "jmap \<Rightarrow> check" where
  "maintenance_decision m = rall [
     fields m [''decision_id'', ''candidate_id'', ''namespace_id'', ''decision_kind'',
       ''decision_digest''] [],
     rcheck (non_empty m) [''decision_id'', ''candidate_id'', ''namespace_id''],
     rvoid (enumeration m ''decision_kind'' [''add'', ''update'', ''delete'', ''noop'']),
     digest m ''decision_digest'']"

definition distillation_checkpoint :: "jmap \<Rightarrow> check" where
  "distillation_checkpoint m = rall [
     fields m [''checkpoint_id'', ''namespace_id'', ''extractor_revision'', ''session_id'',
       ''through_position'', ''batch_digest''] [],
     rcheck (non_empty m) [''checkpoint_id'', ''namespace_id'', ''extractor_revision'', ''session_id''],
     unsigned_of m ''through_position'' True,
     digest m ''batch_digest'']"

definition memory_audit :: "jmap \<Rightarrow> check" where
  "memory_audit m = rall [
     fields m [''audit_id'', ''namespace_id'', ''through_position'', ''policy_digest'',
       ''inventory_digest'', ''report_digest'', ''action_count'', ''truncated''] [],
     rcheck (non_empty m) [''audit_id'', ''namespace_id''],
     unsigned_of m ''through_position'' True,
     rcheck (digest m) [''policy_digest'', ''inventory_digest'', ''report_digest''],
     unsigned_of m ''action_count'' False,
     rvoid (boolean_of m ''truncated'')]"

definition promotion_request :: "jmap \<Rightarrow> check" where
  "promotion_request m = rall [
     fields m [''request_id'', ''namespace_id'', ''record_id'', ''revision_id'', ''memory_type'',
       ''policy_revision'', ''knowledge_proposal_id'', ''evidence_digest''] [],
     rcheck (non_empty m) [''request_id'', ''namespace_id'', ''record_id'', ''revision_id'',
       ''policy_revision'', ''knowledge_proposal_id''],
     rvoid (enumeration m ''memory_type'' memory_types),
     digest m ''evidence_digest'']"

definition promotion_receipt :: "jmap \<Rightarrow> check" where
  "promotion_receipt m = rall [
     fields m [''request_id'', ''namespace_id'', ''record_id'', ''revision_id'',
       ''knowledge_proposal_id'', ''knowledge_record_id'', ''knowledge_revision_id'',
       ''receipt_digest''] [],
     rcheck (non_empty m) [''request_id'', ''namespace_id'', ''record_id'', ''revision_id'',
       ''knowledge_proposal_id'', ''knowledge_record_id'', ''knowledge_revision_id''],
     digest m ''receipt_digest'']"

subsection \<open>Erasure\<close>

definition erasure_order :: "string \<Rightarrow> nat" where
  "erasure_order k = (if k = ''primary_store'' then 0 else if k = ''projection'' then 1
                      else if k = ''cache'' then 2 else 3)"

fun erasure_targets :: "(nat \<times> string) option \<Rightarrow> json list \<Rightarrow> check" where
  "erasure_targets prior [] = Inr ()"
| "erasure_targets prior (v # vs) =
     rbind (object_of v) (\<lambda>target.
     rbind (rall [fields target [''target_id'', ''kind''] [], non_empty target ''target_id'']) (\<lambda>_.
     rbind (enumeration target ''kind'' [''primary_store'', ''projection'', ''cache'', ''backup''])
       (\<lambda>k.
     rbind (string_of target ''target_id'') (\<lambda>i.
       if (case prior of
             None \<Rightarrow> False
           | Some (prior_order, prior_id) \<Rightarrow>
               erasure_order k < prior_order \<or> erasure_order k = prior_order \<and> i \<le> prior_id)
       then Inl InvalidFact
       else erasure_targets (Some (erasure_order k, i)) vs))))"

definition at_most_64 :: "jmap \<Rightarrow> string \<Rightarrow> ledger_error + json list" where
  "at_most_64 m k = rbind (ok_or (Option.bind (jget m k) as_array) InvalidFact)
     (\<lambda>items. if items \<noteq> [] \<and> length items \<le> 64 then Inr items else Inl InvalidFact)"

definition erasure_request :: "jmap \<Rightarrow> check" where
  "erasure_request m = rall [
     fields m [''request_id'', ''namespace_id'', ''record_id'', ''revision_id'', ''tombstone_fact'',
       ''policy_revision'', ''targets''] [],
     rcheck (non_empty m) [''request_id'', ''namespace_id'', ''record_id'', ''revision_id'',
       ''policy_revision''],
     fact_reference_at m ''tombstone_fact'',
     rbind (at_most_64 m ''targets'') (erasure_targets None)]"

text \<open>The loop returns whether every target was erased or not present.\<close>

fun erasure_results :: "u64 \<Rightarrow> string set \<Rightarrow> bool \<Rightarrow> json list \<Rightarrow> ledger_error + bool" where
  "erasure_results attempted targets complete [] = Inr complete"
| "erasure_results attempted targets complete (v # vs) =
     rbind (object_of v) (\<lambda>result.
     rbind (rall [
       fields result [''target_id'', ''status'', ''receipt_digest''] [''not_before_position''],
       non_empty result ''target_id'']) (\<lambda>_.
     rbind (string_of result ''target_id'') (\<lambda>i.
     if i \<in> targets then Inl InvalidFact else
     rbind (enumeration result ''status''
       [''erased'', ''not_present'', ''pending_backup_retention'', ''pending_retry'']) (\<lambda>status.
     rbind (rall [
       digest result ''receipt_digest'',
       ensure ((status = ''pending_backup_retention'') = jhas result ''not_before_position'') InvalidFact,
       (if status = ''pending_backup_retention'' then rall [
          unsigned_of result ''not_before_position'' True,
          ensure (case as_u64 (jat result ''not_before_position'') of
                    None \<Rightarrow> False | Some n \<Rightarrow> \<not> n \<le> attempted) InvalidFact]
        else Inr ())]) (\<lambda>_.
       erasure_results attempted (insert i targets)
         (complete \<and> (status = ''erased'' \<or> status = ''not_present'')) vs)))))"

definition erasure_receipt :: "jmap \<Rightarrow> check" where
  "erasure_receipt m = rall [
     fields m [''request_id'', ''namespace_id'', ''record_id'', ''revision_id'', ''attempt_id'',
       ''attempted_at_position'', ''results'', ''disposition''] [],
     rcheck (non_empty m) [''request_id'', ''namespace_id'', ''record_id'', ''revision_id'',
       ''attempt_id''],
     unsigned_of m ''attempted_at_position'' True,
     rbind (ok_or (as_u64 (jat m ''attempted_at_position'')) InvalidFact) (\<lambda>attempted.
     rbind (at_most_64 m ''results'') (\<lambda>results.
     rbind (erasure_results attempted {} True results) (\<lambda>complete.
     rbind (enumeration m ''disposition'' [''complete'', ''partial'']) (\<lambda>d.
       ensure ((d = ''complete'') = complete) InvalidFact))))]"

subsection \<open>Recall\<close>

definition recall_item :: "string \<Rightarrow> bool \<Rightarrow> jmap \<Rightarrow> check" where
  "recall_item product exploring item = rall [
     fields item [''record_id'', ''revision_id'', ''memory_type'', ''role'', ''authority'', ''state'',
       ''safe_label'', ''content_digest'', ''content_byte_length'', ''evidence_count'',
       ''relevance_basis_points'', ''recency_basis_points'', ''importance_basis_points'',
       ''selection_kind''] [''draw_hex''],
     rcheck (non_empty item) [''record_id'', ''revision_id'', ''safe_label''],
     ensure (case json_as_str (jat item ''safe_label'') of
               None \<Rightarrow> False | Some text \<Rightarrow> \<not> length text > 256) InvalidFact,
     rvoid (enumeration item ''memory_type'' memory_types),
     rvoid (enumeration item ''role'' memory_kinds),
     rvoid (enumeration item ''authority'' memory_authorities),
     rbind (enumeration item ''state'' memory_states) (\<lambda>state.
       ensure (\<not> (state = ''promoted'' \<or> product = ''menu'' \<and> state = ''archived'')) InvalidFact),
     digest item ''content_digest'',
     unsigned_of item ''content_byte_length'' True,
     unsigned_of item ''evidence_count'' True,
     rcheck (basis_points item)
       [''relevance_basis_points'', ''recency_basis_points'', ''importance_basis_points''],
     rbind (enumeration item ''selection_kind'' [''ranked'', ''explored'']) (\<lambda>selection.
       ensure (\<not> ((selection = ''explored'') \<noteq> jhas item ''draw_hex''
                   \<or> selection = ''explored'' \<and> \<not> exploring)) InvalidFact),
     (case Option.bind (jget item ''draw_hex'') json_as_str of
        None \<Rightarrow> Inr ()
      | Some draw \<Rightarrow> ensure (\<not> (length draw \<noteq> 16 \<or> \<not> list_all lower_hex draw)) InvalidFact)]"

fun recall_items :: "string \<Rightarrow> bool \<Rightarrow> u64 \<Rightarrow> json list \<Rightarrow> ledger_error + u64" where
  "recall_items product exploring bytes [] = Inr bytes"
| "recall_items product exploring bytes (v # vs) =
     rbind (object_of v) (\<lambda>item.
     rbind (recall_item product exploring item) (\<lambda>_.
     rbind (ok_or (as_u64 (jat item ''content_byte_length'')) InvalidFact) (\<lambda>n.
     rbind (ok_or (checked_add bytes n) InvalidFact) (\<lambda>sum.
       recall_items product exploring sum vs))))"

definition recall_exploration :: "jmap \<Rightarrow> check" where
  "recall_exploration e = rall [
     fields e [''algorithm_revision'', ''seed'', ''slots''] [],
     rbind (enumeration e ''algorithm_revision'' [''hash-explore-v1''])
       (\<lambda>a. ensure (\<not> a \<noteq> ''hash-explore-v1'') InvalidFact),
     unsigned_of e ''seed'' False,
     unsigned_of e ''slots'' True]"

definition memory_recall :: "jmap \<Rightarrow> check" where
  "memory_recall m = rall [
     fields m [''selection_id'', ''request_digest'', ''namespace_id'', ''product'',
       ''selection_policy_revision'', ''through_position'', ''max_items'', ''max_total_bytes'',
       ''items'', ''truncated''] [''exploration''],
     rcheck (non_empty m) [''selection_id'', ''namespace_id'', ''selection_policy_revision''],
     digest m ''request_digest'',
     rbind (enumeration m ''product'' [''menu'', ''detail'']) (\<lambda>product. rall [
       unsigned_of m ''through_position'' False,
       unsigned_of m ''max_items'' True,
       unsigned_of m ''max_total_bytes'' True,
       (case jget m ''exploration'' of
          None \<Rightarrow> Inr ()
        | Some v \<Rightarrow> rbind (object_of v) recall_exploration),
       rbind (ok_or (Option.bind (jget m ''items'') as_array) InvalidFact) (\<lambda>items.
       rbind (ok_or (as_u64 (jat m ''max_items'')) InvalidFact) (\<lambda>max_items.
       if length items > unat max_items then Inl InvalidFact else
       rbind (recall_items product (jhas m ''exploration'') 0 items) (\<lambda>bytes.
       rbind (ok_or (as_u64 (jat m ''max_total_bytes'')) InvalidFact) (\<lambda>max_bytes.
         ensure (\<not> bytes > max_bytes) InvalidFact))))]),
     rvoid (boolean_of m ''truncated'')]"

subsection \<open>Obligations, observations, lifecycle\<close>

definition memory_obligation :: "jmap \<Rightarrow> check" where
  "memory_obligation m = rall [
     fields m [''obligation_id'', ''namespace_id'', ''record_id'', ''revision_id'', ''recall_fact'',
       ''selection_id'', ''application_fact'', ''expected_outcome_digest'',
       ''application_scope_digest'', ''attribution_policy_revision'', ''expires_at_position''] [],
     rcheck (non_empty m) [''obligation_id'', ''namespace_id'', ''record_id'', ''revision_id'',
       ''selection_id'', ''attribution_policy_revision''],
     fact_reference_at m ''recall_fact'',
     fact_reference_at m ''application_fact'',
     digest m ''expected_outcome_digest'',
     digest m ''application_scope_digest'',
     unsigned_of m ''expires_at_position'' True]"

definition observation_verdict :: "jmap \<Rightarrow> check" where
  "observation_verdict v =
     (case Option.bind (jget v ''kind'') json_as_str of
        None \<Rightarrow> Inl InvalidFact
      | Some s \<Rightarrow>
          if s = ''verified'' then fields v [''kind''] []
          else if s = ''neutral'' then
            rall [fields v [''kind'', ''safe_reason''] [], non_empty v ''safe_reason'']
          else if s = ''falsified'' then rall [
            fields v [''kind'', ''in_scope''] [''observed_scope_digest''],
            rbind (boolean_of v ''in_scope'') (\<lambda>in_scope.
              if in_scope = jhas v ''observed_scope_digest'' then Inl InvalidFact
              else if \<not> in_scope then digest v ''observed_scope_digest'' else Inr ())]
          else Inl InvalidFact)"

definition memory_observation :: "jmap \<Rightarrow> check" where
  "memory_observation m = rall [
     fields m [''observation_id'', ''obligation_id'', ''namespace_id'', ''position'',
       ''verifier_revision'', ''evidence'', ''verdict''] [],
     rcheck (non_empty m) [''observation_id'', ''obligation_id'', ''namespace_id'',
       ''verifier_revision''],
     unsigned_of m ''position'' True,
     rbind (ok_or (as_array (jat m ''evidence'')) InvalidFact) (\<lambda>items.
       if items = [] then Inl InvalidFact
       else rcheck (\<lambda>v. rbind (object_of v) (\<lambda>entry. rall [
         fields entry [''kind'', ''fact''] [],
         rvoid (enumeration entry ''kind'' [''tool_result'', ''test_result'', ''effect_receipt'',
           ''user_correction'', ''deterministic_verifier'']),
         fact_reference_at entry ''fact''])) items),
     rbind (ok_or (jget m ''verdict'') InvalidFact) (\<lambda>v.
       rbind (object_of v) observation_verdict)]"

definition memory_lifecycle :: "jmap \<Rightarrow> check" where
  "memory_lifecycle m = rall [
     fields m [''transition_id'', ''namespace_id'', ''record_id'', ''revision_id'', ''from_state'',
       ''to_state'', ''verified'', ''falsified'', ''neutral'', ''last_observed_position'',
       ''cause_kind'', ''cause_id''] [''promoted_knowledge_receipt_digest''],
     rcheck (non_empty m) [''transition_id'', ''namespace_id'', ''record_id'', ''revision_id'',
       ''cause_id''],
     rvoid (enumeration m ''from_state'' memory_states),
     rbind (enumeration m ''to_state'' memory_states) (\<lambda>state. rall [
       rcheck (\<lambda>k. unsigned_of m k False) [''verified'', ''falsified'', ''neutral''],
       unsigned_of m ''last_observed_position'' True,
       rvoid (enumeration m ''cause_kind'' [''observation'', ''maintenance'', ''promotion'',
         ''toolchain_changed'']),
       digest_iff (state = ''promoted'') m ''promoted_knowledge_receipt_digest''])]"

subsection \<open>Records and retrieval\<close>

definition memory_proposal :: "externals \<Rightarrow> jmap \<Rightarrow> check" where
  "memory_proposal X m = rall [
     fields m [''proposal_id'', ''namespace_id'', ''scope'', ''kind'', ''content'', ''evidence'',
       ''sensitivity'', ''confidence_basis_points''] [''expected_active_revision_id''],
     non_empty m ''proposal_id'',
     non_empty m ''namespace_id'',
     memory_scope m ''scope'',
     rvoid (enumeration m ''kind'' memory_kinds),
     content X m ''content'',
     memory_evidence m ''evidence'',
     rvoid (enumeration m ''sensitivity'' memory_sensitivities),
     basis_points m ''confidence_basis_points'',
     optional_non_empty m ''expected_active_revision_id'']"

definition memory_committed :: "externals \<Rightarrow> jmap \<Rightarrow> check" where
  "memory_committed X m = rall [
     fields m [''proposal_id'', ''record_id'', ''revision_id'', ''namespace_id'', ''scope'', ''kind'',
       ''content'', ''evidence'', ''sensitivity'', ''confidence_basis_points'',
       ''valid_from_position'', ''retention_policy_digest'']
       [''expires_at_utc'', ''supersedes_revision_id''],
     rcheck (non_empty m) [''proposal_id'', ''record_id'', ''revision_id'', ''namespace_id''],
     memory_scope m ''scope'',
     rvoid (enumeration m ''kind'' memory_kinds),
     content X m ''content'',
     memory_evidence m ''evidence'',
     rvoid (enumeration m ''sensitivity'' memory_sensitivities),
     basis_points m ''confidence_basis_points'',
     unsigned_of m ''valid_from_position'' True,
     digest m ''retention_policy_digest'',
     optional_non_empty m ''supersedes_revision_id'',
     optional_timestamp X m ''expires_at_utc'']"

definition memory_rejected :: "jmap \<Rightarrow> check" where
  "memory_rejected m = rall [
     fields m [''proposal_id'', ''reason''] [],
     non_empty m ''proposal_id'',
     rvoid (enumeration m ''reason'' [''namespace_denied'', ''evidence_not_found'',
       ''evidence_mismatch'', ''revision_conflict'', ''retention_rejected'', ''sensitivity_denied'',
       ''limit_exceeded'', ''unsupported''])]"

definition memory_superseded :: "jmap \<Rightarrow> check" where
  "memory_superseded m = rall [
     fields m [''record_id'', ''old_revision_id'', ''new_revision_id'', ''proposal_id''] [],
     rcheck (non_empty m) [''record_id'', ''old_revision_id'', ''new_revision_id'', ''proposal_id''],
     ensure (jat m ''old_revision_id'' \<noteq> jat m ''new_revision_id'') InvalidFact]"

definition memory_tombstoned :: "jmap \<Rightarrow> check" where
  "memory_tombstoned m = rall [
     fields m [''command_id'', ''namespace_id'', ''record_id'', ''revision_id'', ''reason''] [],
     rcheck (non_empty m) [''command_id'', ''namespace_id'', ''record_id'', ''revision_id''],
     rvoid (enumeration m ''reason'' [''expired'', ''superseded'', ''user_request'', ''policy'',
       ''corrupt_source''])]"

definition retrieval_match :: "externals \<Rightarrow> bool \<Rightarrow> jmap \<Rightarrow> check" where
  "retrieval_match X restricted item = rall [
     fields item [''record_id'', ''revision_id'', ''content'', ''content_byte_length'', ''evidence'',
       ''relevance_basis_points'', ''sensitivity''] [],
     non_empty item ''record_id'',
     non_empty item ''revision_id'',
     content X item ''content'',
     unsigned_of item ''content_byte_length'' True,
     rbind (object_of (jat item ''content'')) (\<lambda>binding.
       case Option.bind (jget binding ''inline_utf8'') json_as_str of
         None \<Rightarrow> Inr ()
       | Some text \<Rightarrow> ensure (as_u64 (jat item ''content_byte_length'') = Some (of_nat (length text)))
                        InvalidFact),
     memory_evidence item ''evidence'',
     basis_points item ''relevance_basis_points'',
     rbind (enumeration item ''sensitivity'' memory_sensitivities) (\<lambda>s.
       ensure (\<not> (s = ''restricted'' \<and> \<not> restricted)) InvalidFact)]"

definition memory_retrieval :: "externals \<Rightarrow> jmap \<Rightarrow> check" where
  "memory_retrieval X m = rall [
     fields m [''query_id'', ''query_digest'', ''namespace_id'', ''retriever_revision'',
       ''through_position'', ''as_of_utc'', ''max_results'', ''max_total_bytes'',
       ''include_restricted'', ''matches'', ''truncated''] [''restricted_grant_digest''],
     rcheck (non_empty m) [''query_id'', ''namespace_id'', ''retriever_revision''],
     digest m ''query_digest'',
     unsigned_of m ''through_position'' False,
     timestamp X m ''as_of_utc'',
     unsigned_of m ''max_results'' True,
     unsigned_of m ''max_total_bytes'' True,
     rbind (boolean_of m ''include_restricted'') (\<lambda>restricted. rall [
       digest_iff restricted m ''restricted_grant_digest'',
       rbind (ok_or (Option.bind (jget m ''matches'') as_array) InvalidFact)
         (rcheck (\<lambda>v. rbind (object_of v) (retrieval_match X restricted)))]),
     rvoid (boolean_of m ''truncated'')]"

definition memory_validate :: "externals \<Rightarrow> string \<Rightarrow> jmap \<Rightarrow> check" where
  "memory_validate X k m =
     (if k = ''memory.proposed'' then memory_proposal X m
      else if k = ''memory.committed'' then memory_committed X m
      else if k = ''memory.revision_classified'' then revision_classified m
      else if k = ''memory.rejected'' then memory_rejected m
      else if k = ''memory.superseded'' then memory_superseded m
      else if k = ''memory.tombstoned'' then memory_tombstoned m
      else if k = ''memory.retrieval_recorded'' then memory_retrieval X m
      else if k = ''memory.recall_recorded'' then memory_recall m
      else if k = ''memory.obligation_opened'' then memory_obligation m
      else if k = ''memory.observation_recorded'' then memory_observation m
      else if k = ''memory.lifecycle_transitioned'' then memory_lifecycle m
      else if k = ''memory.candidate_recorded'' then memory_candidate m
      else if k = ''memory.maintenance_decided'' then maintenance_decision m
      else if k = ''memory.distillation_checkpointed'' then distillation_checkpoint m
      else if k = ''memory.audit_recorded'' then memory_audit m
      else if k = ''memory.promotion_requested'' then promotion_request m
      else if k = ''memory.promotion_recorded'' then promotion_receipt m
      else if k = ''memory.erasure_requested'' then erasure_request m
      else if k = ''memory.erasure_recorded'' then erasure_receipt m
      else Inl InvalidFact)"

end
