(* ===== verification/Runtime_Facts.thy ===== *)
theory Runtime_Facts
  imports Execution_Facts Effect_Facts Schedule_Facts Plan_Facts Memory_Facts
begin

section \<open>Admission of runtime facts\<close>

text \<open>
  \<open>validate_runtime_fact\<close> of \<open>engine/ledger/src/runtime_facts/mod.rs\<close>: a fact of a known family and
  schema version must carry exactly the identities its family requires and a payload its module
  accepts; a fact of an unknown family or another schema version is opaque.
\<close>

datatype runtime_fact_disposition = AppliedV1 | AppliedV2 | AppliedV3 | Opaque

definition memory_session_scoped :: "string \<Rightarrow> bool" where
  "memory_session_scoped k \<longleftrightarrow> List.member
     [''memory.tombstoned'', ''memory.revision_classified'', ''memory.observation_recorded'',
      ''memory.lifecycle_transitioned'', ''memory.candidate_recorded'', ''memory.maintenance_decided'',
      ''memory.distillation_checkpointed'', ''memory.audit_recorded'', ''memory.promotion_requested'',
      ''memory.promotion_recorded'', ''memory.erasure_requested'', ''memory.erasure_recorded''] k"

definition execution_family :: "string \<Rightarrow> bool" where
  "execution_family k \<longleftrightarrow> starts_with k ''execution.''"
definition model_family :: "string \<Rightarrow> bool" where
  "model_family k \<longleftrightarrow> starts_with k ''model.''"
definition effect_family :: "string \<Rightarrow> bool" where
  "effect_family k \<longleftrightarrow> starts_with k ''effect.'' \<or> starts_with k ''interaction.''"
definition f0_family :: "string \<Rightarrow> bool" where
  "f0_family k \<longleftrightarrow> starts_with k ''safety.'' \<or> starts_with k ''sandbox.''"
definition skill_family :: "string \<Rightarrow> bool" where
  "skill_family k \<longleftrightarrow> starts_with k ''skill.''"
definition memory_family :: "string \<Rightarrow> bool" where
  "memory_family k \<longleftrightarrow> starts_with k ''memory.''"
definition knowledge_family :: "string \<Rightarrow> bool" where
  "knowledge_family k \<longleftrightarrow> starts_with k ''knowledge.''"
definition scheduler_family :: "string \<Rightarrow> bool" where
  "scheduler_family k \<longleftrightarrow> starts_with k ''schedule.''"
definition delegation_family :: "string \<Rightarrow> bool" where
  "delegation_family k \<longleftrightarrow> starts_with k ''delegation.''"
definition workspace_family :: "string \<Rightarrow> bool" where
  "workspace_family k \<longleftrightarrow> starts_with k ''workspace.''"
definition artifact_family :: "string \<Rightarrow> bool" where
  "artifact_family k \<longleftrightarrow> starts_with k ''artifact.''"
definition goal_family :: "string \<Rightarrow> bool" where
  "goal_family k \<longleftrightarrow> starts_with k ''goal.''"
definition plan_family :: "string \<Rightarrow> bool" where
  "plan_family k \<longleftrightarrow> starts_with k ''plan.''"
definition rejection :: "string \<Rightarrow> bool" where
  "rejection k \<longleftrightarrow> k = ''tool.preparation_rejected''"

definition known_family :: "string \<Rightarrow> bool" where
  "known_family k \<longleftrightarrow> starts_with k ''turn.'' \<or> execution_family k \<or> model_family k
     \<or> effect_family k \<or> f0_family k \<or> skill_family k \<or> memory_family k \<or> knowledge_family k
     \<or> scheduler_family k \<or> delegation_family k \<or> workspace_family k \<or> artifact_family k
     \<or> goal_family k \<or> plan_family k \<or> rejection k"

definition effect_prepared_v2 :: "fact_draft \<Rightarrow> bool" where
  "effect_prepared_v2 f \<longleftrightarrow> kind f = ''effect.prepared'' \<and> schema_version f = 2"
definition effect_prepared_v3 :: "fact_draft \<Rightarrow> bool" where
  "effect_prepared_v3 f \<longleftrightarrow> kind f = ''effect.prepared'' \<and> schema_version f = 3"
definition effect_authorized_v2 :: "fact_draft \<Rightarrow> bool" where
  "effect_authorized_v2 f \<longleftrightarrow> kind f = ''effect.authorized'' \<and> schema_version f = 2"

text \<open>Which identities the envelope of a fact of each family carries.\<close>

definition envelope_ok :: "fact_draft \<Rightarrow> bool" where
  "envelope_ok f \<longleftrightarrow> (let k = kind f in
     (turn_id f \<noteq> None) = (\<not> (memory_session_scoped k \<or> scheduler_family k \<or> workspace_family k
        \<or> goal_family k \<or> plan_family k))
     \<and> (execution_id f \<noteq> None) = (execution_family k \<or> model_family k \<or> effect_family k
        \<or> f0_family k \<or> skill_family k \<or> rejection k \<or> memory_family k \<and> \<not> memory_session_scoped k
        \<or> knowledge_family k \<or> delegation_family k \<or> artifact_family k)
     \<and> (model_request_id f \<noteq> None) = (model_family k \<or> rejection k)
     \<and> (tool_invocation_id f \<noteq> None) = (effect_family k \<or> f0_family k \<or> artifact_family k))"

definition validate_payload :: "externals \<Rightarrow> fact_draft \<Rightarrow> jmap \<Rightarrow> check" where
  "validate_payload X f m = (let k = kind f in
     if artifact_family k then artifact_validate k m
     else if goal_family k then goal_fact_validate X k m
     else if plan_family k then plan_fact_validate X k m
     else if workspace_family k then workspace_validate X k m
     else if effect_prepared_v2 f then effect_validate_prepared_v2 X m
     else if effect_prepared_v3 f then effect_validate_prepared_v3 X m
     else if effect_authorized_v2 f then effect_validate_authorized_v2 X m
     else if f0_family k then f0_validate k m
     else if delegation_family k then delegation_validate X k m
     else if scheduler_family k then schedule_validate X k m
     else if knowledge_family k then knowledge_validate X k m
     else if memory_family k then memory_validate X k m
     else if skill_family k then skill_validate k m
     else if effect_family k \<or> rejection k then effect_validate X k m
     else if model_family k then model_validate X k m
     else turn_validate X k m)"

definition validate_runtime_fact ::
  "externals \<Rightarrow> fact_draft \<Rightarrow> ledger_error + runtime_fact_disposition" where
  "validate_runtime_fact X f =
     (if \<not> known_family (kind f) then Inr Opaque
      else if schema_version f \<noteq> 1 \<and> \<not> effect_prepared_v2 f \<and> \<not> effect_prepared_v3 f
              \<and> \<not> effect_authorized_v2 f then Inr Opaque
      else if \<not> envelope_ok f then Inl InvalidFact
      else rbind (ok_or (from_str X (payload_json (payload f))) InvalidFact) (\<lambda>v.
           rbind (object_of v) (\<lambda>m.
           rbind (validate_payload X f m) (\<lambda>_.
             Inr (if effect_prepared_v2 f \<or> effect_authorized_v2 f then AppliedV2
                  else if effect_prepared_v3 f then AppliedV3
                  else AppliedV1)))))"

end
