(* ===== verification/Ledger_Projection.thy ===== *)
theory Ledger_Projection
  imports Runtime_Facts
begin

section \<open>The session projection\<close>

text \<open>
  \<open>SessionProjection\<close> of \<open>engine/ledger/src/projection.rs\<close>: the state a session's facts add up to, and
  \<open>apply\<close>, which admits one more fact or refuses it. Every handler is a definition of the same name;
  it returns the new projection or the error. A handler that fails leaves changes behind only in
  the copy its caller throws away, so the failing projection is not part of the result.

  A condition of the source that reads payload fields inside a chain of \<open>||\<close> stops at the first
  disjunct that holds, before the later fields are read; \<open>refuse_any\<close> is that chain, so the model
  returns the same error as the code. \<open>value["key"]\<close> on a payload map panics where the key is
  missing; the one place an unvalidated payload can reach it is \<open>plan_effect_batch\<close>, where the model
  returns \<open>InvalidFact\<close>.
\<close>

subsection \<open>State\<close>

datatype turn_state = TurnOpen | TurnSuspended | TurnCompleted | TurnStopped | TurnFailed

datatype execution_state =
  ExecActive | ExecAbandoned | ExecCompleted | ExecSuspended | ExecStopped | ExecFailed

datatype invocation_state =
    Prepared | Authorized | Started | Receipt | Completed | Rejected | Interrupted | Unavailable
  | Failed | Denied | Uncertain | Reconciled | Observed

record interaction_record =
  ia_execution :: ExecutionId
  ia_tool :: ToolInvocationId
  ia_suspension_id :: string
  ia_prepared_digest :: string
  ia_terminal :: bool

record knowledge_record =
  kn_execution :: ExecutionId
  kn_request_digest :: string
  kn_dispatch_attempts :: "string set"
  kn_terminal :: bool

record effect_batch_record =
  eb_tools :: "ToolInvocationId list"
  eb_next_start :: nat

datatype safety_decision_state = Allow | Deny | InteractionRequired

record sandbox_proof_record =
  sp_binding_id :: string
  sp_executor_id :: string
  sp_executor_revision :: string
  sp_grant_id :: "string option"
  sp_dispatch_attempt_id :: "string option"

record f0_record =
  f0_decision_id :: string
  f0_disposition :: safety_decision_state
  f0_prepared_digest :: string
  f0_policy_revision :: string
  f0_constraints_digest :: "string option"
  f0_sandbox :: "sandbox_proof_record option"

datatype schedule_state = SchedActive | Superseding | SchedCancelled | SchedFailed | Exhausted

record schedule_claim =
  cl_occurrence_id :: string
  cl_ordinal :: u64
  cl_due_at_utc :: string
  cl_lease_epoch :: u64

record schedule_record =
  sc_revision_id :: string
  sc_intent_digest :: string
  sc_last_handled_ordinal :: u64
  sc_pending_claim :: "schedule_claim option"
  sc_state :: schedule_state

datatype delegation_state =
  DelRequested | DelAuthorized | DelDenied | DelStarted | DelTerminal | DelObserved

record delegation_record =
  dl_parent_turn :: TurnId
  dl_parent_execution :: ExecutionId
  dl_intent_digest :: string
  dl_grant_id :: "string option"
  dl_suspension_id :: "string option"
  dl_child_turn :: "TurnId option"
  dl_result_id :: "string option"
  dl_result_digest :: "string option"
  dl_input_admitted :: bool
  dl_state :: delegation_state

record session_projection =
  opened :: bool
  closed :: bool
  turns :: "(TurnId, turn_state) btmap"
  executions :: "(ExecutionId, TurnId \<times> execution_state) btmap"
  execution_iterations :: "(ExecutionId, u64) btmap"
  models :: "(ModelRequestId, ExecutionId \<times> invocation_state) btmap"
  model_digests :: "(ModelRequestId, string) btmap"
  tools :: "(ToolInvocationId, ExecutionId \<times> invocation_state) btmap"
  tool_digests :: "(ToolInvocationId, string) btmap"
  tool_revisions :: "(ToolInvocationId, string \<times> string) btmap"
  tool_access_digests :: "(ToolInvocationId, string) btmap"
  tool_sandbox_digests :: "(ToolInvocationId, string) btmap"
  artifacts :: "(string \<times> u64) set"
  tool_contract_versions :: "(ToolInvocationId, u32) btmap"
  tool_result_bytes :: "(ToolInvocationId, u64) btmap"
  tool_batch_plans :: "(ToolInvocationId, string) btmap"
  effect_batches :: "(string, effect_batch_record) btmap"
  f0 :: "(ToolInvocationId, f0_record) btmap"
  tool_grants :: "(ToolInvocationId, string) btmap"
  tool_receipts :: "(ToolInvocationId, string) btmap"
  tool_executors :: "(ToolInvocationId, string \<times> string) btmap"
  tool_reconciled_observations :: "(ToolInvocationId, json) btmap"
  suspensions :: "(TurnId, string) btmap"
  interactions :: "(string, interaction_record) btmap"
  knowledge :: "(string, knowledge_record) btmap"
  schedules :: "(string, schedule_record) btmap"
  turn_agents :: "(TurnId, string \<times> string) btmap"
  delegations :: "(string, delegation_record) btmap"
  turns_started_in_commit :: "TurnId set"
  turns_suspended_in_commit :: "TurnId set"
  turns_terminal_in_commit :: "TurnId set"
  tools_completed_in_commit :: "ToolInvocationId set"

type_synonym handler = "externals \<Rightarrow> fact_draft \<Rightarrow> session_projection \<Rightarrow> ledger_error + session_projection"

definition default_projection :: session_projection where
  "default_projection = \<lparr>
     opened = False, closed = False, turns = bt_empty, executions = bt_empty,
     execution_iterations = bt_empty, models = bt_empty, model_digests = bt_empty,
     tools = bt_empty, tool_digests = bt_empty, tool_revisions = bt_empty,
     tool_access_digests = bt_empty, tool_sandbox_digests = bt_empty, artifacts = {},
     tool_contract_versions = bt_empty, tool_result_bytes = bt_empty, tool_batch_plans = bt_empty,
     effect_batches = bt_empty, f0 = bt_empty, tool_grants = bt_empty, tool_receipts = bt_empty,
     tool_executors = bt_empty, tool_reconciled_observations = bt_empty, suspensions = bt_empty,
     interactions = bt_empty, knowledge = bt_empty, schedules = bt_empty, turn_agents = bt_empty,
     delegations = bt_empty, turns_started_in_commit = {}, turns_suspended_in_commit = {},
     turns_terminal_in_commit = {}, tools_completed_in_commit = {}\<rparr>"

subsection \<open>Reading a fact\<close>

definition required :: "'a option \<Rightarrow> ledger_error + 'a" where
  "required x = ok_or x MissingReference"

definition payload_of :: "externals \<Rightarrow> fact_draft \<Rightarrow> ledger_error + jmap" where
  "payload_of X f = rbind (ok_or (from_str X (payload_json (payload f))) InvalidFact)
     (\<lambda>v. ok_or (as_object v) InvalidFact)"

definition payload_text :: "jmap \<Rightarrow> string \<Rightarrow> ledger_error + string" where
  "payload_text m k = ok_or (Option.bind (jget m k) json_as_str) InvalidFact"

definition payload_unsigned :: "jmap \<Rightarrow> string \<Rightarrow> ledger_error + u64" where
  "payload_unsigned m k = ok_or (Option.bind (jget m k) as_u64) InvalidFact"

text \<open>\<open>TurnId::try_from\<close> and \<open>ExecutionId::try_from\<close> on a payload field, with the error mapped.\<close>

definition identity_of :: "string \<Rightarrow> ledger_error + 'tag ident" where
  "identity_of s = (case ledger_identity [] s of Inl _ \<Rightarrow> Inl InvalidFact | Inr i \<Rightarrow> Inr i)"

definition content_value :: "externals \<Rightarrow> jmap \<Rightarrow> string \<Rightarrow> ledger_error + json" where
  "content_value X m k =
     rbind (ok_or (Option.bind (jget m k) as_object) InvalidFact) (\<lambda>binding.
     rbind (payload_text binding ''inline_utf8'') (\<lambda>j.
     rbind (payload_text binding ''digest'') (\<lambda>d.
       case from_canonical_parts X j d of
         Inl _ \<Rightarrow> Inl InvalidFact
       | Inr canonical \<Rightarrow> ok_or (from_str X (payload_json canonical)) InvalidFact)))"

definition content_digest :: "jmap \<Rightarrow> string \<Rightarrow> ledger_error + string" where
  "content_digest m k =
     rbind (ok_or (Option.bind (jget m k) as_object) InvalidFact) (\<lambda>b. payload_text b ''digest'')"

text \<open>A chain of \<open>||\<close> whose truth is \<open>InvalidTransition\<close>; \<open>text_ne m k x\<close> is \<open>x != text(m, k)?\<close>.\<close>

primrec refuse_any :: "(ledger_error + bool) list \<Rightarrow> check" where
  "refuse_any [] = Inr ()"
| "refuse_any (c # cs) = rbind c (\<lambda>b. if b then Inl InvalidTransition else refuse_any cs)"

definition text_ne :: "jmap \<Rightarrow> string \<Rightarrow> string option \<Rightarrow> ledger_error + bool" where
  "text_ne m k x = rbind (payload_text m k) (\<lambda>s. Inr (x \<noteq> Some s))"

definition ident_ne :: "'a option \<Rightarrow> 'a \<Rightarrow> ledger_error + bool" where
  "ident_ne i x = rbind (required i) (\<lambda>y. Inr (x \<noteq> y))"

subsection \<open>Queries the handlers share\<close>

definition require_open_turn :: "TurnId \<Rightarrow> session_projection \<Rightarrow> check" where
  "require_open_turn t p =
     (if bt_get (turns p) t = Some TurnOpen then Inr () else Inl InvalidTransition)"

definition require_non_terminal_turn :: "TurnId \<Rightarrow> session_projection \<Rightarrow> check" where
  "require_non_terminal_turn t p = (case bt_get (turns p) t of
      None \<Rightarrow> Inl MissingReference
    | Some st \<Rightarrow> if st = TurnOpen \<or> st = TurnSuspended then Inr () else Inl InvalidTransition)"

definition require_active_execution :: "fact_draft \<Rightarrow> session_projection \<Rightarrow> check" where
  "require_active_execution f p =
     rbind (required (execution_id f)) (\<lambda>e.
     rbind (required (turn_id f)) (\<lambda>t.
       case bt_get (executions p) e of
         None \<Rightarrow> Inl MissingReference
       | Some (owned_turn, st) \<Rightarrow>
           if st = ExecActive \<and> owned_turn = t then Inr () else Inl InvalidTransition))"

definition require_suspended_execution :: "fact_draft \<Rightarrow> session_projection \<Rightarrow> check" where
  "require_suspended_execution f p =
     rbind (required (turn_id f)) (\<lambda>t.
     rbind (required (execution_id f)) (\<lambda>e.
       if bt_get (turns p) t = Some TurnSuspended
          \<and> bt_get (executions p) e = Some (t, ExecSuspended)
       then Inr () else Inl InvalidTransition))"

definition recovery_pending :: "ExecutionId option \<Rightarrow> ExecutionId \<times> invocation_state \<Rightarrow> bool" where
  "recovery_pending e v \<longleftrightarrow>
     (case e of None \<Rightarrow> True | Some expected \<Rightarrow> fst v = expected) \<and> snd v \<in> {Started, Receipt}"

definition has_recovery_pending_invocation :: "ExecutionId option \<Rightarrow> session_projection \<Rightarrow> bool" where
  "has_recovery_pending_invocation e p \<longleftrightarrow>
     list_ex (recovery_pending e) (bt_values (models p))
     \<or> list_ex (recovery_pending e) (bt_values (tools p))"

definition has_pending_knowledge :: "ExecutionId \<Rightarrow> session_projection \<Rightarrow> bool" where
  "has_pending_knowledge e p \<longleftrightarrow>
     list_ex (\<lambda>v. kn_execution v = e \<and> \<not> kn_terminal v) (bt_values (knowledge p))"

definition has_pending_interaction :: "ExecutionId \<Rightarrow> session_projection \<Rightarrow> bool" where
  "has_pending_interaction e p \<longleftrightarrow>
     list_ex (\<lambda>v. ia_execution v = e \<and> \<not> ia_terminal v) (bt_values (interactions p))"

definition has_pending_interaction_for_turn :: "TurnId \<Rightarrow> session_projection \<Rightarrow> bool" where
  "has_pending_interaction_for_turn t p \<longleftrightarrow>
     list_ex (\<lambda>v. \<not> ia_terminal v
       \<and> (case bt_get (executions p) (ia_execution v) of
            None \<Rightarrow> False | Some (owner, _) \<Rightarrow> owner = t)) (bt_values (interactions p))"

definition delegation_continuation_ready ::
  "TurnId \<Rightarrow> string option \<Rightarrow> session_projection \<Rightarrow> bool" where
  "delegation_continuation_ready t suspension p \<longleftrightarrow>
     (let matching = filter (\<lambda>d. dl_parent_turn d = t \<and> dl_suspension_id d = suspension)
                       (bt_values (delegations p))
      in matching = [] \<or> list_all (\<lambda>d. dl_state d = DelObserved \<and> dl_input_admitted d) matching)"

definition recoverable_turns :: "session_projection \<Rightarrow> TurnId list" where
  "recoverable_turns p =
     map fst (filter (\<lambda>(_, st). st = TurnOpen \<or> st = TurnSuspended) (bt_entries (turns p)))"

definition uncertain_model_requests :: "session_projection \<Rightarrow> ModelRequestId list" where
  "uncertain_model_requests p =
     map fst (filter (\<lambda>(_, _, st). st = Started) (bt_entries (models p)))"

definition uncertain_tool_invocations :: "session_projection \<Rightarrow> ToolInvocationId list" where
  "uncertain_tool_invocations p =
     map fst (filter (\<lambda>(_, _, st). st = Started) (bt_entries (tools p)))"

subsection \<open>Sessions, turns and executions\<close>

definition delegation_resolved :: "delegation_record \<Rightarrow> bool" where
  "delegation_resolved d \<longleftrightarrow> dl_state d = DelDenied \<or> dl_state d = DelObserved"

definition close_session :: "session_projection \<Rightarrow> ledger_error + session_projection" where
  "close_session p =
     (if list_ex (\<lambda>st. st = TurnOpen \<or> st = TurnSuspended) (bt_values (turns p))
         \<or> list_ex (\<lambda>v. snd v = ExecActive) (bt_values (executions p))
         \<or> has_recovery_pending_invocation None p
         \<or> list_ex (\<lambda>v. sc_state v = SchedActive) (bt_values (schedules p))
         \<or> list_ex (\<lambda>d. \<not> delegation_resolved d) (bt_values (delegations p))
      then Inl InvalidTransition
      else Inr (p\<lparr>closed := True\<rparr>))"

definition start_turn :: handler where
  "start_turn X f p =
     rbind (required (turn_id f)) (\<lambda>t.
     rbind (payload_of X f) (\<lambda>m.
     rbind (payload_text m ''kind'') (\<lambda>k.
     let prior = Option.bind (jget m ''prior_suspension_id'') json_as_str;
         valid = (case bt_get (turns p) t of
             None \<Rightarrow> k = ''start'' \<and> prior = None
           | Some TurnSuspended \<Rightarrow>
               k = ''continue'' \<and> bt_get (suspensions p) t = prior
               \<and> \<not> has_pending_interaction_for_turn t p
               \<and> delegation_continuation_ready t prior p
           | _ \<Rightarrow> False)
     in if \<not> valid then Inl InvalidTransition
        else let q = p\<lparr>turns := bt_insert t TurnOpen (turns p)\<rparr>
          in rbind (if k = ''start''
              then rbind (payload_text m ''agent_instance_id'') (\<lambda>a.
                   rbind (payload_text m ''snapshot_digest'') (\<lambda>d.
                     Inr (q\<lparr>turn_agents := bt_insert t (a, d) (turn_agents q),
                            turns_started_in_commit := insert t (turns_started_in_commit q)\<rparr>)))
              else Inr q)
            (\<lambda>r. Inr (r\<lparr>suspensions := bt_remove t (suspensions r)\<rparr>)))))"

definition transition_turn ::
  "TurnId \<Rightarrow> turn_state \<Rightarrow> session_projection \<Rightarrow> ledger_error + session_projection" where
  "transition_turn t next p =
     rbind (ok_or (bt_get (turns p) t) MissingReference) (\<lambda>current.
     let valid = (case next of
           TurnSuspended \<Rightarrow> current = TurnOpen
         | TurnCompleted \<Rightarrow> current = TurnOpen
         | TurnStopped \<Rightarrow> current = TurnOpen \<or> current = TurnSuspended
         | TurnFailed \<Rightarrow> current = TurnOpen \<or> current = TurnSuspended
         | TurnOpen \<Rightarrow> False)
     in if \<not> valid then Inl InvalidTransition
        else if list_ex (\<lambda>v. fst v = t \<and> snd v = ExecActive) (bt_values (executions p))
          then Inl InvalidTransition
        else if next \<noteq> TurnSuspended \<and> has_pending_interaction_for_turn t p
          then Inl InvalidTransition
        else Inr (p\<lparr>turns := bt_insert t next (turns p)\<rparr>))"

definition suspend_turn :: handler where
  "suspend_turn X f p =
     rbind (required (turn_id f)) (\<lambda>t.
     rbind (payload_of X f) (\<lambda>m.
     rbind (payload_text m ''execution_id'') (\<lambda>es.
     rbind (identity_of es) (\<lambda>e.
     if bt_get (executions p) e \<noteq> Some (t, ExecSuspended) then Inl InvalidTransition else
     rbind (transition_turn t TurnSuspended p) (\<lambda>q.
     rbind (payload_text m ''suspension_id'') (\<lambda>s.
     let r = q\<lparr>suspensions := bt_insert t s (suspensions q)\<rparr> in
     rbind (payload_text m ''reason'') (\<lambda>reason.
       Inr (if reason = ''delegation_pending''
            then r\<lparr>turns_suspended_in_commit := insert t (turns_suspended_in_commit r)\<rparr>
            else r))))))))"

fun terminal_execution_state :: "turn_state \<Rightarrow> execution_state option" where
  "terminal_execution_state TurnCompleted = Some ExecCompleted"
| "terminal_execution_state TurnStopped = Some ExecStopped"
| "terminal_execution_state TurnFailed = Some ExecFailed"
| "terminal_execution_state _ = None"

definition terminal_turn :: "turn_state \<Rightarrow> handler" where
  "terminal_turn next X f p =
     rbind (required (turn_id f)) (\<lambda>t.
     rbind (payload_of X f) (\<lambda>m.
     rbind (payload_text m ''execution_id'') (\<lambda>es.
     rbind (identity_of es) (\<lambda>e.
     rbind (ok_or (terminal_execution_state next) InvalidTransition) (\<lambda>expected.
     let actual = bt_get (executions p) e;
         suspended_close = ((next = TurnStopped \<or> next = TurnFailed)
           \<and> bt_get (turns p) t = Some TurnSuspended \<and> actual = Some (t, ExecSuspended))
     in if actual \<noteq> Some (t, expected) \<and> \<not> suspended_close then Inl InvalidTransition
        else rbind (transition_turn t next p) (\<lambda>q.
          Inr (q\<lparr>turns_terminal_in_commit := insert t (turns_terminal_in_commit q)\<rparr>)))))))"

text \<open>
  The first delegation, in key order, that waits for the input of this turn; \<open>values_mut().find\<close>.
\<close>

definition awaiting_delegation ::
  "TurnId \<Rightarrow> string \<Rightarrow> string \<Rightarrow> session_projection \<Rightarrow> (string \<times> delegation_record) option" where
  "awaiting_delegation t suspension d p =
     find (\<lambda>(_, v). dl_parent_turn v = t \<and> dl_state v = DelObserved
             \<and> dl_suspension_id v = Some suspension \<and> dl_result_digest v = Some d)
       (bt_entries (delegations p))"

definition admit_turn_input :: handler where
  "admit_turn_input X f p =
     rbind (required (turn_id f)) (\<lambda>t.
     rbind (payload_of X f) (\<lambda>m.
     rbind (payload_text m ''input_kind'') (\<lambda>k.
     if k = ''delegation_result'' then
       rbind (payload_text m ''suspension_id'') (\<lambda>suspension.
       rbind (content_digest m ''content'') (\<lambda>d.
       rbind (ok_or (awaiting_delegation t suspension d p) InvalidTransition) (\<lambda>(i, v).
         Inr (p\<lparr>delegations := bt_insert i (v\<lparr>dl_input_admitted := True\<rparr>) (delegations p)\<rparr>))))
     else if k \<noteq> ''trusted_user'' \<and> k \<noteq> ''trusted_system'' then
       (if bt_get (turns p) t = Some TurnSuspended
           \<and> bt_get (suspensions p) t = Option.bind (jget m ''suspension_id'') json_as_str
        then Inr p else Inl InvalidTransition)
     else rbind (require_open_turn t p) (\<lambda>_. Inr p))))"

definition admit_turn_steered :: handler where
  "admit_turn_steered X f p =
     rbind (required (turn_id f)) (\<lambda>t.
       case bt_get (turns p) t of
         Some TurnOpen \<Rightarrow> Inr p
       | Some _ \<Rightarrow> Inl InvalidTransition
       | None \<Rightarrow> Inl MissingReference)"

definition request_cancel :: handler where
  "request_cancel X f p =
     rbind (required (turn_id f)) (\<lambda>t. rbind (require_non_terminal_turn t p) (\<lambda>_. Inr p))"

definition start_execution :: handler where
  "start_execution X f p =
     rbind (required (turn_id f)) (\<lambda>t.
     rbind (require_open_turn t p) (\<lambda>_.
     rbind (required (execution_id f)) (\<lambda>e.
     if bt_contains (executions p) e then Inl InvalidTransition else
     rbind (payload_of X f) (\<lambda>m.
     rbind (payload_unsigned m ''completed_iterations'') (\<lambda>n.
       Inr (p\<lparr>executions := bt_insert e (t, ExecActive) (executions p),
              execution_iterations := bt_insert e n (execution_iterations p)\<rparr>))))))"

definition start_iteration :: handler where
  "start_iteration X f p =
     rbind (require_active_execution f p) (\<lambda>_.
     rbind (required (execution_id f)) (\<lambda>e.
     rbind (payload_of X f) (\<lambda>m.
     rbind (payload_unsigned m ''iteration'') (\<lambda>iteration.
     rbind (ok_or (bt_get (execution_iterations p) e) MissingReference) (\<lambda>current.
       if checked_add current 1 \<noteq> Some iteration then Inl InvalidTransition
       else Inr (p\<lparr>execution_iterations := bt_insert e iteration (execution_iterations p)\<rparr>))))))"

definition transition_execution :: "execution_state \<Rightarrow> handler" where
  "transition_execution next X f p =
     rbind (required (execution_id f)) (\<lambda>e.
     rbind (required (turn_id f)) (\<lambda>t.
     rbind (ok_or (bt_get (executions p) e) MissingReference) (\<lambda>(owned_turn, st).
     if owned_turn \<noteq> t \<or> st \<noteq> ExecActive then Inl InvalidTransition
     else if has_recovery_pending_invocation (Some e) p \<or> has_pending_knowledge e p
             \<or> (next \<noteq> ExecSuspended \<and> has_pending_interaction e p) then Inl InvalidTransition
     else Inr (p\<lparr>executions := bt_insert e (owned_turn, next) (executions p)\<rparr>))))"

subsection \<open>Model calls\<close>

definition prepare_model :: handler where
  "prepare_model X f p =
     rbind (require_active_execution f p) (\<lambda>_.
     rbind (required (model_request_id f)) (\<lambda>r.
     rbind (required (execution_id f)) (\<lambda>e.
     if bt_contains (models p) r then Inl InvalidTransition else
     rbind (payload_of X f) (\<lambda>m.
     rbind (payload_text m ''request_digest'') (\<lambda>d.
       Inr (p\<lparr>models := bt_insert r (e, Prepared) (models p),
              model_digests := bt_insert r d (model_digests p)\<rparr>))))))"

definition model_edge :: "invocation_state \<Rightarrow> invocation_state \<Rightarrow> bool" where
  "model_edge st next \<longleftrightarrow>
     st = Prepared \<and> next = Started \<or> st = Started \<and> next \<noteq> Prepared \<and> next \<noteq> Started"

definition transition_model :: "invocation_state \<Rightarrow> handler" where
  "transition_model next X f p =
     rbind (require_active_execution f p) (\<lambda>_.
     rbind (required (model_request_id f)) (\<lambda>r.
     rbind (required (execution_id f)) (\<lambda>e.
     rbind (ok_or (bt_get (models p) r) MissingReference) (\<lambda>(owner, st).
     if owner \<noteq> e then Inl InvalidTransition else
     rbind (payload_of X f) (\<lambda>m.
     rbind (payload_text m ''request_digest'') (\<lambda>d.
       if bt_get (model_digests p) r \<noteq> Some d then Inl InvalidTransition
       else if \<not> model_edge st next then Inl InvalidTransition
       else Inr (p\<lparr>models := bt_insert r (owner, next) (models p)\<rparr>)))))))"

end
