(* ===== verification/Effect_Projection.thy ===== *)
theory Effect_Projection
  imports Ledger_Projection
begin

section \<open>The session projection: effects\<close>

text \<open>
  The handlers of \<open>engine/ledger/src/projection.rs\<close> for tool invocations: preparation, the planned
  batches of contract version 2, the safety decision and sandbox proof of contract version 3, the
  lifecycle from authorization to receipt and observation, artifacts and interactions.
\<close>

subsection \<open>Preparation and batch planning\<close>

definition prepare_tool :: handler where
  "prepare_tool X f p =
     rbind (require_active_execution f p) (\<lambda>_.
     rbind (required (tool_invocation_id f)) (\<lambda>t.
     rbind (required (execution_id f)) (\<lambda>e.
     if bt_contains (tools p) t then Inl InvalidTransition else
     rbind (payload_of X f) (\<lambda>m.
     rbind (payload_text m ''prepared_digest'') (\<lambda>d.
     rbind (payload_text m ''tool_name'') (\<lambda>name.
     rbind (payload_text m ''tool_revision'') (\<lambda>revision.
     let q = p\<lparr>tools := bt_insert t (e, Prepared) (tools p),
               tool_digests := bt_insert t d (tool_digests p),
               tool_revisions := bt_insert t (name, revision) (tool_revisions p),
               tool_contract_versions := bt_insert t (schema_version f) (tool_contract_versions p)\<rparr>
     in if schema_version f = 2 \<or> schema_version f = 3 then
          rbind (ok_or (Option.bind (jget m ''max_result_bytes'') as_u64) InvalidFact) (\<lambda>n.
          let r = q\<lparr>tool_result_bytes := bt_insert t n (tool_result_bytes q)\<rparr>
          in if schema_version f = 3 then
               rbind (content_digest m ''invocation_accesses'') (\<lambda>access.
               rbind (payload_text m ''sandbox_requirements_digest'') (\<lambda>sandbox.
                 Inr (r\<lparr>tool_access_digests := bt_insert t access (tool_access_digests r),
                        tool_sandbox_digests := bt_insert t sandbox (tool_sandbox_digests r)\<rparr>)))
             else Inr r)
        else Inr q)))))))"

text \<open>The loop over a parallel group: the result bytes so far, and the indexes in order.\<close>

fun batch_group ::
  "ToolInvocationId list \<Rightarrow> (ToolInvocationId, u64) btmap \<Rightarrow> u64 \<Rightarrow> json list \<Rightarrow> ledger_error + (u64 \<times> nat list)" where
  "batch_group ts result_bytes bytes [] = Inr (bytes, [])"
| "batch_group ts result_bytes bytes (v # vs) =
     rbind (ok_or (as_u64 v) InvalidFact) (\<lambda>i.
     rbind (ok_or (if unat i < length ts then Some (ts ! unat i) else None) InvalidTransition) (\<lambda>t.
     rbind (ok_or (bt_get result_bytes t) InvalidTransition) (\<lambda>n.
     rbind (ok_or (checked_add bytes n) InvalidTransition) (\<lambda>sum.
     rbind (batch_group ts result_bytes sum vs) (\<lambda>(b, is). Inr (b, unat i # is))))))"

definition batch_step ::
  "ToolInvocationId list \<Rightarrow> (ToolInvocationId, u64) btmap \<Rightarrow> u64 \<Rightarrow> u64 \<Rightarrow> json \<Rightarrow> ledger_error + nat list" where
  "batch_step ts result_bytes max_parallel max_buffered v =
     rbind (ok_or (as_object v) InvalidFact) (\<lambda>step.
     rbind (payload_text step ''kind'') (\<lambda>k.
     if k = ''sequential_step'' \<and> length step = 2 then
       rbind (ok_or (Option.bind (jget step ''intent_index'') as_u64) InvalidFact)
         (\<lambda>i. Inr [unat i])
     else if k = ''parallel_read_group'' \<and> length step = 2 then
       rbind (ok_or (Option.bind (jget step ''intent_indexes'') as_array) InvalidFact) (\<lambda>group.
       if group = [] \<or> length group > unat max_parallel then Inl InvalidTransition else
       rbind (batch_group ts result_bytes 0 group) (\<lambda>(bytes, is).
         if bytes > max_buffered then Inl InvalidTransition else Inr is))
     else Inl InvalidFact))"

primrec batch_indexes :: "(json \<Rightarrow> ledger_error + nat list) \<Rightarrow> json list \<Rightarrow> ledger_error + nat list" where
  "batch_indexes step [] = Inr []"
| "batch_indexes step (v # vs) =
     rbind (step v) (\<lambda>is. rbind (batch_indexes step vs) (\<lambda>js. Inr (is @ js)))"

definition validate_batch_steps ::
  "json \<Rightarrow> ToolInvocationId list \<Rightarrow> (ToolInvocationId, u64) btmap \<Rightarrow> u64 \<Rightarrow> u64 \<Rightarrow> check" where
  "validate_batch_steps v ts result_bytes max_parallel max_buffered =
     rbind (ok_or (as_array v) InvalidFact) (\<lambda>steps.
     rbind (batch_indexes (batch_step ts result_bytes max_parallel max_buffered) steps) (\<lambda>indexes.
       if indexes \<noteq> [0..<length ts] then Inl InvalidTransition else Inr ()))"

definition batch_candidate ::
  "ExecutionId \<Rightarrow> string \<Rightarrow> session_projection \<Rightarrow> ToolInvocationId \<times> ExecutionId \<times> invocation_state \<Rightarrow> bool" where
  "batch_candidate e d p = (\<lambda>(t, owner, st).
     owner = e \<and> st = Authorized \<and> bt_get (tool_contract_versions p) t = Some 2
     \<and> bt_get (tool_digests p) t = Some d \<and> \<not> bt_contains (tool_batch_plans p) t)"

primrec batch_tools ::
  "ExecutionId \<Rightarrow> session_projection \<Rightarrow> json list \<Rightarrow> ledger_error + ToolInvocationId list" where
  "batch_tools e p [] = Inr []"
| "batch_tools e p (v # vs) =
     rbind (ok_or (json_as_str v) InvalidFact) (\<lambda>d.
       case filter (batch_candidate e d p) (bt_entries (tools p)) of
         [c] \<Rightarrow> rbind (batch_tools e p vs) (\<lambda>ts. Inr (fst c # ts))
       | _ \<Rightarrow> Inl InvalidTransition)"

definition plan_effect_batch :: handler where
  "plan_effect_batch X f p =
     rbind (require_active_execution f p) (\<lambda>_.
     rbind (required (execution_id f)) (\<lambda>e.
     rbind (payload_of X f) (\<lambda>m.
     rbind (payload_text m ''plan_digest'') (\<lambda>plan.
     if bt_contains (effect_batches p) plan then Inl InvalidTransition else
     rbind (content_value X m ''ordered_prepared_digests'') (\<lambda>v.
     rbind (ok_or (as_array v) InvalidFact) (\<lambda>ds.
     if ds = [] then Inl InvalidTransition else
     rbind (batch_tools e p ds) (\<lambda>ts.
     if \<not> distinct ts then Inl InvalidTransition else
     rbind (content_value X m ''steps'') (\<lambda>steps.
     rbind (ok_or (as_u64 (jat m ''max_parallel_reads'')) InvalidFact) (\<lambda>max_parallel.
     rbind (ok_or (as_u64 (jat m ''max_buffered_result_bytes'')) InvalidFact) (\<lambda>max_buffered.
     rbind (validate_batch_steps steps ts (tool_result_bytes p) max_parallel max_buffered) (\<lambda>_.
       Inr (p\<lparr>tool_batch_plans := fold (\<lambda>t. bt_insert t plan) ts (tool_batch_plans p),
              effect_batches :=
                bt_insert plan \<lparr>eb_tools = ts, eb_next_start = 0\<rparr> (effect_batches p)\<rparr>))))))))))))"

subsection \<open>Interactions\<close>

definition request_interaction :: handler where
  "request_interaction X f p =
     rbind (require_active_execution f p) (\<lambda>_.
     rbind (required (tool_invocation_id f)) (\<lambda>t.
     rbind (required (execution_id f)) (\<lambda>e.
     if \<not> (case bt_get (tools p) t of
             Some (owner, st) \<Rightarrow> (st = Prepared \<or> st = Authorized) \<and> owner = e | None \<Rightarrow> False)
       then Inl InvalidTransition
     else if bt_get (tool_contract_versions p) t = Some 3
             \<and> map_option f0_disposition (bt_get (f0 p) t) \<noteq> Some InteractionRequired
       then Inl InvalidTransition
     else
     rbind (payload_of X f) (\<lambda>m.
     rbind (payload_text m ''interaction_id'') (\<lambda>i.
     rbind (payload_text m ''prepared_digest'') (\<lambda>d.
     if bt_get (tool_digests p) t \<noteq> Some d \<or> bt_contains (interactions p) i
       then Inl InvalidTransition else
     rbind (payload_text m ''suspension_id'') (\<lambda>s.
       Inr (p\<lparr>interactions := bt_insert i
              \<lparr>ia_execution = e, ia_tool = t, ia_suspension_id = s, ia_prepared_digest = d,
               ia_terminal = False\<rparr> (interactions p)\<rparr>))))))))"

definition finish_interaction :: handler where
  "finish_interaction X f p =
     rbind (required (execution_id f)) (\<lambda>e.
     rbind (required (tool_invocation_id f)) (\<lambda>t.
     rbind (payload_of X f) (\<lambda>m.
     rbind (payload_text m ''interaction_id'') (\<lambda>i.
     rbind (ok_or (bt_get (interactions p) i) MissingReference) (\<lambda>v.
     rbind (refuse_any [
       Inr (ia_terminal v),
       Inr (ia_execution v \<noteq> e),
       Inr (ia_tool v \<noteq> t),
       text_ne m ''suspension_id'' (Some (ia_suspension_id v)),
       text_ne m ''prepared_digest'' (Some (ia_prepared_digest v))]) (\<lambda>_.
       Inr (p\<lparr>interactions := bt_insert i (v\<lparr>ia_terminal := True\<rparr>) (interactions p)\<rparr>)))))))"

subsection \<open>The tool lifecycle\<close>

definition tool_edge :: "invocation_state \<Rightarrow> invocation_state \<Rightarrow> bool" where
  "tool_edge st next \<longleftrightarrow> (st, next) \<in>
     {(Prepared, Authorized), (Prepared, Started), (Prepared, Denied), (Authorized, Started),
      (Authorized, Denied), (Authorized, Failed), (Started, Receipt), (Started, Failed),
      (Started, Uncertain), (Receipt, Completed), (Receipt, Failed)}"

text \<open>The further condition of a tool prepared under contract version 3.\<close>

definition v3_edge ::
  "session_projection \<Rightarrow> ToolInvocationId \<Rightarrow> fact_draft \<Rightarrow> invocation_state \<Rightarrow> invocation_state \<Rightarrow> bool" where
  "v3_edge p t f st next \<longleftrightarrow> (case next of
      Authorized \<Rightarrow> st = Prepared \<and> schema_version f = 2
    | Started \<Rightarrow> st = Authorized
    | Denied \<Rightarrow> (case bt_get (f0 p) t of None \<Rightarrow> False | Some r \<Rightarrow> f0_disposition r \<noteq> Allow)
    | _ \<Rightarrow> True)"

definition validate_effect_binding ::
  "ToolInvocationId \<Rightarrow> invocation_state \<Rightarrow> invocation_state \<Rightarrow> jmap \<Rightarrow> session_projection
     \<Rightarrow> ledger_error + session_projection" where
  "validate_effect_binding t current next m p = (case next of
      Authorized \<Rightarrow>
        rbind (if bt_get (tool_contract_versions p) t = Some 3 then
                 rbind (ok_or (bt_get (f0 p) t) InvalidTransition) (\<lambda>r.
                   refuse_any [
                     Inr (f0_disposition r \<noteq> Allow),
                     text_ne m ''prepared_digest'' (Some (f0_prepared_digest r)),
                     text_ne m ''authority_revision'' (Some (f0_policy_revision r)),
                     text_ne m ''constraints_digest'' (f0_constraints_digest r)])
               else Inr ()) (\<lambda>_.
        rbind (payload_text m ''grant_id'') (\<lambda>g.
          Inr (p\<lparr>tool_grants := bt_insert t g (tool_grants p)\<rparr>)))
    | Started \<Rightarrow>
        rbind (payload_text m ''grant_id'') (\<lambda>g.
        if (case bt_get (tool_grants p) t of None \<Rightarrow> False | Some v \<Rightarrow> v \<noteq> g)
          then Inl InvalidTransition else
        rbind (if bt_get (tool_contract_versions p) t = Some 3 then
                 rbind (payload_text m ''executor_id'') (\<lambda>ei.
                 rbind (payload_text m ''executor_revision'') (\<lambda>er.
                 rbind (payload_text m ''dispatch_attempt_id'') (\<lambda>da.
                   case Option.bind (bt_get (f0 p) t) f0_sandbox of
                     None \<Rightarrow> Inl InvalidTransition
                   | Some proof_record \<Rightarrow>
                       if sp_grant_id proof_record = Some g \<and> sp_executor_id proof_record = ei
                          \<and> sp_executor_revision proof_record = er
                          \<and> sp_dispatch_attempt_id proof_record = Some da
                       then Inr () else Inl InvalidTransition)))
               else Inr ()) (\<lambda>_.
        rbind (payload_text m ''executor_id'') (\<lambda>ei.
        rbind (payload_text m ''executor_revision'') (\<lambda>er.
          Inr (p\<lparr>tool_grants := bt_insert t g (tool_grants p),
                 tool_executors := bt_insert t (ei, er) (tool_executors p)\<rparr>)))))
    | Receipt \<Rightarrow>
        rbind (refuse_any [
          text_ne m ''grant_id'' (bt_get (tool_grants p) t),
          rbind (payload_text m ''executor_id'') (\<lambda>ei.
          rbind (payload_text m ''executor_revision'') (\<lambda>er.
            Inr (bt_get (tool_executors p) t \<noteq> Some (ei, er))))]) (\<lambda>_.
        rbind (payload_text m ''receipt_id'') (\<lambda>r.
          Inr (p\<lparr>tool_receipts := bt_insert t r (tool_receipts p)\<rparr>)))
    | Completed \<Rightarrow>
        rbind (refuse_any [text_ne m ''receipt_id'' (bt_get (tool_receipts p) t)]) (\<lambda>_. Inr p)
    | Failed \<Rightarrow>
        (if current = Receipt
            \<and> bt_get (tool_receipts p) t \<noteq> Option.bind (jget m ''receipt_id'') json_as_str
         then Inl InvalidTransition else Inr p)
    | _ \<Rightarrow> Inr p)"

text \<open>The batch a tool of contract version 2 belongs to, and whether its turn to start has come.\<close>

definition planned_batch ::
  "session_projection \<Rightarrow> ToolInvocationId \<Rightarrow> (string \<times> effect_batch_record) option" where
  "planned_batch p t = Option.bind (bt_get (tool_batch_plans p) t)
     (\<lambda>d. map_option (\<lambda>b. (d, b)) (bt_get (effect_batches p) d))"

definition next_in_batch :: "effect_batch_record \<Rightarrow> ToolInvocationId \<Rightarrow> bool" where
  "next_in_batch b t \<longleftrightarrow> eb_next_start b < length (eb_tools b) \<and> eb_tools b ! eb_next_start b = t"

definition starts_in_batch :: "session_projection \<Rightarrow> ToolInvocationId \<Rightarrow> invocation_state \<Rightarrow> bool" where
  "starts_in_batch p t next \<longleftrightarrow> next = Started \<and> bt_get (tool_contract_versions p) t = Some 2"

definition advance_batch :: "ToolInvocationId \<Rightarrow> session_projection \<Rightarrow> session_projection" where
  "advance_batch t p = (case planned_batch p t of
      None \<Rightarrow> p
    | Some (d, b) \<Rightarrow> p\<lparr>effect_batches :=
        bt_insert d (b\<lparr>eb_next_start := eb_next_start b + 1\<rparr>) (effect_batches p)\<rparr>)"

definition transition_tool :: "invocation_state \<Rightarrow> handler" where
  "transition_tool next X f p =
     rbind (require_active_execution f p) (\<lambda>_.
     rbind (required (tool_invocation_id f)) (\<lambda>t.
     rbind (required (execution_id f)) (\<lambda>e.
     rbind (payload_of X f) (\<lambda>m.
     rbind (payload_text m ''prepared_digest'') (\<lambda>d.
     if bt_get (tool_digests p) t \<noteq> Some d then Inl InvalidTransition else
     rbind (ok_or (bt_get (tools p) t) MissingReference) (\<lambda>(owner, current).
     if owner \<noteq> e then Inl InvalidTransition
     else if \<not> (tool_edge current next
                \<and> (bt_get (tool_contract_versions p) t = Some 3 \<longrightarrow> v3_edge p t f current next))
       then Inl InvalidTransition
     else if starts_in_batch p t next
             \<and> (case planned_batch p t of None \<Rightarrow> True | Some (_, b) \<Rightarrow> \<not> next_in_batch b t)
       then Inl InvalidTransition
     else rbind (validate_effect_binding t current next m p) (\<lambda>q.
       let r = q\<lparr>tools := bt_insert t (owner, next) (tools q)\<rparr>;
           s = (if next = Completed
                then r\<lparr>tools_completed_in_commit := insert t (tools_completed_in_commit r)\<rparr> else r)
       in Inr (if starts_in_batch p t next then advance_batch t s else s))))))))"

definition commit_artifact :: handler where
  "commit_artifact X f p =
     rbind (require_active_execution f p) (\<lambda>_.
     rbind (required (tool_invocation_id f)) (\<lambda>t.
     rbind (required (execution_id f)) (\<lambda>e.
     if t \<notin> tools_completed_in_commit p \<or> bt_get (tools p) t \<noteq> Some (e, Completed)
       then Inl InvalidTransition else
     rbind (payload_of X f) (\<lambda>m.
     rbind (payload_text m ''receipt_id'') (\<lambda>r.
     if bt_get (tool_receipts p) t \<noteq> Some r then Inl InvalidTransition else
     rbind (payload_text m ''artifact_id'') (\<lambda>a.
     rbind (payload_unsigned m ''revision'') (\<lambda>n.
       if (a, n) \<in> artifacts p then Inl InvalidTransition
       else Inr (p\<lparr>artifacts := insert (a, n) (artifacts p)\<rparr>))))))))"

subsection \<open>Safety decisions and sandbox proofs\<close>

definition decide_safety :: handler where
  "decide_safety X f p =
     rbind (require_active_execution f p) (\<lambda>_.
     rbind (required (tool_invocation_id f)) (\<lambda>t.
     rbind (required (execution_id f)) (\<lambda>e.
     if bt_get (tool_contract_versions p) t \<noteq> Some 3
        \<or> bt_get (tools p) t \<noteq> Some (e, Prepared)
        \<or> bt_contains (f0 p) t then Inl InvalidTransition else
     rbind (payload_of X f) (\<lambda>m.
     rbind (refuse_any [
       text_ne m ''prepared_digest'' (bt_get (tool_digests p) t),
       rbind (payload_text m ''tool_name'') (\<lambda>name.
       rbind (payload_text m ''tool_revision'') (\<lambda>revision.
         Inr (bt_get (tool_revisions p) t \<noteq> Some (name, revision)))),
       text_ne m ''exact_access_digest'' (bt_get (tool_access_digests p) t),
       text_ne m ''sandbox_requirements_digest'' (bt_get (tool_sandbox_digests p) t)]) (\<lambda>_.
     rbind (payload_text m ''disposition'') (\<lambda>d.
     rbind (if d = ''allow'' then Inr Allow
            else if d = ''deny'' then Inr Deny
            else if d = ''interaction_required'' then Inr InteractionRequired
            else Inl InvalidFact) (\<lambda>disp.
     rbind (payload_text m ''decision_id'') (\<lambda>di.
     rbind (payload_text m ''prepared_digest'') (\<lambda>pd.
     rbind (payload_text m ''policy_revision'') (\<lambda>pr.
       Inr (p\<lparr>f0 := bt_insert t
              \<lparr>f0_decision_id = di, f0_disposition = disp, f0_prepared_digest = pd,
               f0_policy_revision = pr,
               f0_constraints_digest = Option.bind (jget m ''constraints_digest'') json_as_str,
               f0_sandbox = None\<rparr> (f0 p)\<rparr>)))))))))))"

definition bind_sandbox :: handler where
  "bind_sandbox X f p =
     rbind (require_active_execution f p) (\<lambda>_.
     rbind (required (tool_invocation_id f)) (\<lambda>t.
     rbind (payload_of X f) (\<lambda>m.
     rbind (ok_or (bt_get (f0 p) t) InvalidTransition) (\<lambda>r.
     rbind (refuse_any [
       Inr (f0_disposition r \<noteq> Allow),
       Inr (f0_sandbox r \<noteq> None),
       Inr (map_option snd (bt_get (tools p) t) \<noteq> Some Authorized),
       text_ne m ''decision_id'' (Some (f0_decision_id r)),
       text_ne m ''prepared_digest'' (Some (f0_prepared_digest r)),
       text_ne m ''policy_revision'' (Some (f0_policy_revision r))]) (\<lambda>_.
     rbind (payload_text m ''binding_id'') (\<lambda>bi.
     rbind (payload_text m ''executor_id'') (\<lambda>ei.
     rbind (payload_text m ''executor_revision'') (\<lambda>er.
       Inr (p\<lparr>f0 := bt_insert t (r\<lparr>f0_sandbox := Some
              \<lparr>sp_binding_id = bi, sp_executor_id = ei, sp_executor_revision = er,
               sp_grant_id = None, sp_dispatch_attempt_id = None\<rparr>\<rparr>) (f0 p)\<rparr>)))))))))"

definition preflight_sandbox :: handler where
  "preflight_sandbox X f p =
     rbind (require_active_execution f p) (\<lambda>_.
     rbind (required (tool_invocation_id f)) (\<lambda>t.
     rbind (payload_of X f) (\<lambda>m.
     rbind (ok_or (bt_get (f0 p) t) InvalidTransition) (\<lambda>r.
     rbind (ok_or (f0_sandbox r) InvalidTransition) (\<lambda>sp.
     rbind (payload_text m ''grant_id'') (\<lambda>g.
     rbind (refuse_any [
       Inr (sp_grant_id sp \<noteq> None),
       text_ne m ''decision_id'' (Some (f0_decision_id r)),
       text_ne m ''prepared_digest'' (Some (f0_prepared_digest r)),
       text_ne m ''binding_id'' (Some (sp_binding_id sp)),
       text_ne m ''executor_id'' (Some (sp_executor_id sp)),
       text_ne m ''executor_revision'' (Some (sp_executor_revision sp)),
       Inr (bt_get (tool_grants p) t \<noteq> Some g)]) (\<lambda>_.
     rbind (payload_text m ''dispatch_attempt_id'') (\<lambda>da.
       Inr (p\<lparr>f0 := bt_insert t (r\<lparr>f0_sandbox := Some
              (sp\<lparr>sp_grant_id := Some g, sp_dispatch_attempt_id := Some da\<rparr>)\<rparr>) (f0 p)\<rparr>)))))))))"

subsection \<open>Observation, reconciliation and rejection\<close>

definition observe_tool :: handler where
  "observe_tool X f p =
     rbind (required (tool_invocation_id f)) (\<lambda>t.
     rbind (required (execution_id f)) (\<lambda>e.
     rbind (payload_of X f) (\<lambda>m.
     rbind (ok_or (bt_get (tools p) t) MissingReference) (\<lambda>(owner, st).
     if owner \<noteq> e \<or> st \<notin> {Completed, Failed, Denied, Reconciled} then Inl InvalidTransition else
     rbind (if st = Reconciled then
              rbind (require_suspended_execution f p) (\<lambda>_.
                if bt_get (tool_reconciled_observations p) t \<noteq> jget m ''observation''
                then Inl InvalidTransition else Inr ())
            else require_active_execution f p) (\<lambda>_.
     rbind (payload_text m ''prepared_digest'') (\<lambda>d.
       if bt_get (tool_digests p) t \<noteq> Some d then Inl InvalidTransition
       else Inr (p\<lparr>tools := bt_insert t (owner, Observed) (tools p)\<rparr>)))))))"

definition reconcile_tool :: handler where
  "reconcile_tool X f p =
     rbind (require_suspended_execution f p) (\<lambda>_.
     rbind (required (tool_invocation_id f)) (\<lambda>t.
     rbind (required (execution_id f)) (\<lambda>e.
     rbind (payload_of X f) (\<lambda>m.
     rbind (refuse_any [
       text_ne m ''prepared_digest'' (bt_get (tool_digests p) t),
       Inr (bt_get (tools p) t \<noteq> Some (e, Uncertain))]) (\<lambda>_.
     rbind (ok_or (jget m ''observation'') InvalidFact) (\<lambda>v.
       Inr (p\<lparr>tools := bt_insert t (e, Reconciled) (tools p),
              tool_reconciled_observations :=
                bt_insert t v (tool_reconciled_observations p)\<rparr>)))))))"

definition reject_tool_preparation :: handler where
  "reject_tool_preparation X f p =
     rbind (require_active_execution f p) (\<lambda>_.
     if tool_invocation_id f \<noteq> None then Inl InvalidTransition else
     rbind (required (model_request_id f)) (\<lambda>r.
     rbind (required (execution_id f)) (\<lambda>e.
     rbind (payload_of X f) (\<lambda>m.
     rbind (payload_text m ''source_model_request_id'') (\<lambda>s.
     if s \<noteq> as_str r then Inl InvalidTransition else
       case bt_get (models p) r of
         None \<Rightarrow> Inl MissingReference
       | Some (owner, st) \<Rightarrow>
           if st = Completed \<and> owner = e then Inr p else Inl InvalidTransition)))))"

subsection \<open>Knowledge requests\<close>

definition request_knowledge :: handler where
  "request_knowledge X f p =
     rbind (require_active_execution f p) (\<lambda>_.
     rbind (required (execution_id f)) (\<lambda>e.
     rbind (payload_of X f) (\<lambda>m.
     rbind (payload_text m ''request_id'') (\<lambda>r.
     rbind (payload_text m ''request_digest'') (\<lambda>d.
       if bt_contains (knowledge p) r then Inl InvalidTransition
       else Inr (p\<lparr>knowledge := bt_insert r
              \<lparr>kn_execution = e, kn_request_digest = d, kn_dispatch_attempts = {},
               kn_terminal = False\<rparr> (knowledge p)\<rparr>))))))"

definition dispatch_knowledge :: handler where
  "dispatch_knowledge X f p =
     rbind (require_active_execution f p) (\<lambda>_.
     rbind (required (execution_id f)) (\<lambda>e.
     rbind (payload_of X f) (\<lambda>m.
     rbind (payload_text m ''request_id'') (\<lambda>i.
     rbind (ok_or (bt_get (knowledge p) i) InvalidTransition) (\<lambda>r.
     rbind (payload_text m ''dispatch_attempt_id'') (\<lambda>attempt.
     rbind (refuse_any [
       Inr (kn_execution r \<noteq> e),
       Inr (kn_terminal r),
       text_ne m ''request_digest'' (Some (kn_request_digest r)),
       Inr (attempt \<in> kn_dispatch_attempts r)]) (\<lambda>_.
       Inr (p\<lparr>knowledge := bt_insert i
              (r\<lparr>kn_dispatch_attempts := insert attempt (kn_dispatch_attempts r)\<rparr>)
              (knowledge p)\<rparr>))))))))"

definition terminal_knowledge :: handler where
  "terminal_knowledge X f p =
     rbind (require_active_execution f p) (\<lambda>_.
     rbind (required (execution_id f)) (\<lambda>e.
     rbind (payload_of X f) (\<lambda>m.
     rbind (payload_text m ''request_id'') (\<lambda>i.
     rbind (ok_or (bt_get (knowledge p) i) InvalidTransition) (\<lambda>r.
     let dispatched = (kn_dispatch_attempts r \<noteq> {}) in
     rbind (if kind f = ''knowledge.completed'' then Inr dispatched
            else rbind (payload_text m ''phase'') (\<lambda>ph.
              Inr (if ph = ''pre_dispatch'' then \<not> dispatched
                   else if ph = ''dispatched'' \<or> ph = ''response_validation'' then dispatched
                   else False))) (\<lambda>valid_phase.
     rbind (refuse_any [
       Inr (kn_execution r \<noteq> e),
       Inr (kn_terminal r),
       text_ne m ''request_digest'' (Some (kn_request_digest r)),
       Inr (\<not> valid_phase)]) (\<lambda>_.
       Inr (p\<lparr>knowledge := bt_insert i (r\<lparr>kn_terminal := True\<rparr>) (knowledge p)\<rparr>))))))))"

end
