(* ===== verification/Effect_Batch.thy ===== *)
theory Effect_Batch
  imports Tool_Preparation Effect_Projection
begin

section \<open>The effect batch planner\<close>

text \<open>
  The planner of \<open>batch.rs\<close>: the conflict graph of the prepared calls of one model turn, and the greedy split of
  the calls into sequential steps and groups of reads that may run together. The results are that the
  index arithmetic of the flattened upper triangle is exact, that a plan has every call once and in order,
  that a parallel group only holds non-conflicting reads within every bound, and that the ledger's own
  validation accepts the steps of every plan the planner makes.
\<close>

subsection \<open>Limits, steps and intents\<close>

datatype EffectBatchErrorCode = BatchAccessInvalid | EffectBatchBoundExceeded

record EffectBatchLimitsV1 =
  max_intents :: nat
  max_accesses_per_intent :: nat
  max_total_accesses :: nat
  max_parallel_reads :: nat
  max_buffered_result_bytes :: u64

definition effect_batch_limits ::
  "nat \<Rightarrow> nat \<Rightarrow> nat \<Rightarrow> nat \<Rightarrow> u64 \<Rightarrow> EffectBatchErrorCode + EffectBatchLimitsV1" where
  "effect_batch_limits intents accesses total_accesses reads bytes =
     (if intents = 0 \<or> accesses = 0 \<or> total_accesses = 0 \<or> reads = 0 \<or> bytes = 0 then Inl EffectBatchBoundExceeded
      else Inr \<lparr>max_intents = intents, max_accesses_per_intent = accesses, max_total_accesses = total_accesses,
                max_parallel_reads = reads, max_buffered_result_bytes = bytes\<rparr>)"

datatype EffectBatchStep = SequentialStep nat | ParallelReadGroup "nat list"

record EffectBatchIntent =
  bi_prepared :: PreparedToolCall
  bi_suspension_boundary :: bool

record EffectBatchPlanV1 =
  ordered_prepared_digests :: "string list"
  conflict_graph_bytes :: "nat list"
  conflict_graph_digest :: string
  bp_steps :: "EffectBatchStep list"
  bp_plan_digest :: string

subsection \<open>Conflicts\<close>

definition accesses_conflict :: "ResourceAccess \<Rightarrow> ResourceAccess \<Rightarrow> bool" where
  "accesses_conflict l r \<longleftrightarrow>
     ra_namespace l = ra_namespace r \<and>
     (ra_mode l = Exclusive \<or> ra_mode r = Exclusive \<or>
      (ra_resource_key l = ra_resource_key r \<and> (ra_mode l = Write \<or> ra_mode r = Write)))"

text \<open>The planner unwraps the access set only after it has refused every call without one.\<close>

definition intent_accesses :: "EffectBatchIntent \<Rightarrow> InvocationAccessSet" where
  "intent_accesses i = (case pc_invocation_accesses (bi_prepared i) of None \<Rightarrow> [] | Some s \<Rightarrow> s)"

definition intents_conflict :: "EffectBatchIntent \<Rightarrow> EffectBatchIntent \<Rightarrow> bool" where
  "intents_conflict l r \<longleftrightarrow> list_ex (\<lambda>a. list_ex (accesses_conflict a) (intent_accesses r)) (intent_accesses l)"

definition conflict_row :: "EffectBatchIntent list \<Rightarrow> nat \<Rightarrow> nat list" where
  "conflict_row is left =
     map (\<lambda>right. if intents_conflict (is ! left) (is ! right) then 1 else 0) [Suc left ..< length is]"

definition conflict_graph :: "EffectBatchIntent list \<Rightarrow> nat list" where
  "conflict_graph is = concat (map (conflict_row is) [0 ..< length is])"

definition graph_edge :: "nat list \<Rightarrow> nat \<Rightarrow> nat \<Rightarrow> nat \<Rightarrow> bool" where
  "graph_edge graph count left right \<longleftrightarrow>
     graph ! (left * (2 * count - left - 1) div 2 + (right - left - 1)) = 1"

subsection \<open>The planner\<close>

definition usize_add :: "nat \<Rightarrow> nat \<Rightarrow> nat option" where
  "usize_add a b = (if a + b < 2 ^ 64 then Some (a + b) else None)"

fun count_accesses :: "EffectBatchLimitsV1 \<Rightarrow> nat \<Rightarrow> EffectBatchIntent list \<Rightarrow> EffectBatchErrorCode + nat" where
  "count_accesses lim n [] = Inr n"
| "count_accesses lim n (i # is) =
     rbind (ok_or (pc_invocation_accesses (bi_prepared i)) BatchAccessInvalid) (\<lambda>accesses.
       if pc_contract_version (bi_prepared i) \<noteq> 2 \<or> accesses = [] then Inl BatchAccessInvalid
       else if length accesses > max_accesses_per_intent lim then Inl EffectBatchBoundExceeded
       else rbind (ok_or (usize_add n (length accesses)) EffectBatchBoundExceeded) (\<lambda>n. count_accesses lim n is))"

record group_state =
  gs_steps :: "EffectBatchStep list"
  gs_group :: "nat list"
  gs_accesses :: nat
  gs_bytes :: u64

definition flush_group :: "group_state \<Rightarrow> group_state" where
  "flush_group s =
     (if gs_group s \<noteq> [] then s\<lparr>gs_steps := gs_steps s @ [ParallelReadGroup (gs_group s)], gs_group := []\<rparr> else s)"

definition reads_freely :: "EffectBatchIntent \<Rightarrow> bool" where
  "reads_freely i \<longleftrightarrow> pc_replay_class (bi_prepared i) = ReadOnly \<and> \<not> bi_suspension_boundary i"

definition plan_intent ::
  "EffectBatchLimitsV1 \<Rightarrow> nat list \<Rightarrow> nat \<Rightarrow> nat \<Rightarrow> EffectBatchIntent \<Rightarrow> group_state \<Rightarrow> EffectBatchErrorCode + group_state" where
  "plan_intent lim graph count index i s =
     rbind (ok_or (pc_invocation_accesses (bi_prepared i)) BatchAccessInvalid) (\<lambda>accesses.
     rbind (ok_or (pc_max_result_bytes (bi_prepared i)) BatchAccessInvalid) (\<lambda>bytes.
     let conflicts = list_ex (\<lambda>m. graph_edge graph count m index) (gs_group s);
         next_accesses = gs_accesses s + length accesses in
     rbind (ok_or (checked_add (gs_bytes s) bytes) EffectBatchBoundExceeded) (\<lambda>next_bytes.
       if reads_freely i \<and> \<not> conflicts \<and> length (gs_group s) < max_parallel_reads lim \<and>
          next_accesses \<le> max_total_accesses lim \<and> next_bytes \<le> max_buffered_result_bytes lim
       then Inr (s\<lparr>gs_group := gs_group s @ [index], gs_accesses := next_accesses, gs_bytes := next_bytes\<rparr>)
       else
         (let f = (flush_group s)\<lparr>gs_accesses := 0, gs_bytes := 0\<rparr> in
          if reads_freely i then
            (if bytes > max_buffered_result_bytes lim then Inl EffectBatchBoundExceeded
             else Inr (f\<lparr>gs_group := [index], gs_accesses := length accesses, gs_bytes := bytes\<rparr>))
          else Inr (f\<lparr>gs_steps := gs_steps f @ [SequentialStep index]\<rparr>)))))"

fun plan_loop ::
  "EffectBatchLimitsV1 \<Rightarrow> nat list \<Rightarrow> nat \<Rightarrow> nat \<Rightarrow> EffectBatchIntent list \<Rightarrow> group_state \<Rightarrow> EffectBatchErrorCode + group_state" where
  "plan_loop lim graph count index [] s = Inr s"
| "plan_loop lim graph count index (i # is) s =
     rbind (plan_intent lim graph count index i s) (plan_loop lim graph count (Suc index) is)"

definition plan_steps :: "EffectBatchLimitsV1 \<Rightarrow> EffectBatchIntent list \<Rightarrow> EffectBatchErrorCode + EffectBatchStep list" where
  "plan_steps lim is =
     rbind (plan_loop lim (conflict_graph is) (length is) 0 is
        \<lparr>gs_steps = [], gs_group = [], gs_accesses = 0, gs_bytes = 0\<rparr>) (\<lambda>s. Inr (gs_steps (flush_group s)))"

definition step_json :: "EffectBatchStep \<Rightarrow> json" where
  "step_json st =
     (case st of
        SequentialStep i \<Rightarrow> jobject [(''kind'', JString ''sequential_step''), (''intent_index'', ju64 (of_nat i))]
      | ParallelReadGroup g \<Rightarrow>
          jobject [(''kind'', JString ''parallel_read_group''), (''intent_indexes'', JArray (map (\<lambda>i. ju64 (of_nat i)) g))])"

definition steps_json :: "EffectBatchStep list \<Rightarrow> json" where
  "steps_json steps = JArray (map step_json steps)"

definition plan_effect_batch_intents ::
  "tool_externals \<Rightarrow> EffectBatchIntent list \<Rightarrow> EffectBatchLimitsV1 \<Rightarrow> EffectBatchErrorCode + EffectBatchPlanV1" where
  "plan_effect_batch_intents X is lim =
     (if is = [] \<or> length is > max_intents lim then Inl EffectBatchBoundExceeded
      else
        rbind (count_accesses lim 0 is) (\<lambda>total_accesses.
        if total_accesses > max_total_accesses lim then Inl EffectBatchBoundExceeded
        else
          rbind (plan_steps lim is) (\<lambda>steps.
          let graph = conflict_graph is;
              digests = map (\<lambda>i. pc_input_digest (bi_prepared i)) is;
              graph_digest = sha256 X (map char_of graph) in
          rbind (ok_or (jcs X (jobject [(''schema_version'', ju64 1), (''prepared_contract_version'', ju64 2),
             (''ordered_prepared_digests'', jtext_list digests), (''conflict_graph_digest'', JString graph_digest),
             (''steps'', steps_json steps)])) BatchAccessInvalid) (\<lambda>canonical.
            Inr \<lparr>ordered_prepared_digests = digests, conflict_graph_bytes = graph, conflict_graph_digest = graph_digest,
                 bp_steps = steps, bp_plan_digest = sha256 X canonical\<rparr>))))"

definition plan_effect_batch_calls ::
  "tool_externals \<Rightarrow> PreparedToolCall list \<Rightarrow> EffectBatchLimitsV1 \<Rightarrow> EffectBatchErrorCode + EffectBatchPlanV1" where
  "plan_effect_batch_calls X calls lim =
     plan_effect_batch_intents X (map (\<lambda>c. \<lparr>bi_prepared = c, bi_suspension_boundary = False\<rparr>) calls) lim"

subsection \<open>The flattened triangle\<close>

lemma length_rows:
  "left \<le> n \<Longrightarrow> sum_list (map (\<lambda>k. n - Suc k) [0 ..< left]) = left * (2 * n - left - 1) div 2"
proof (induction left)
  case (Suc left)
  have "even (left * (2 * n - left - 1))"
    using Suc.prems by (cases "even left") simp_all
  then have "2 * (left * (2 * n - left - 1) div 2) = left * (2 * n - left - 1)"
    by simp
  moreover have "Suc left * (2 * n - Suc left - 1) = left * (2 * n - left - 1) + 2 * (n - Suc left)"
  proof -
    obtain d where "n = Suc left + d"
      using Suc.prems le_Suc_ex by blast
    then show ?thesis
      by (simp add: algebra_simps)
  qed
  ultimately show ?case
    using Suc by simp
qed simp

lemma nth_concat_rows:
  assumes "i < length xss" and "j < length (xss ! i)"
  shows "concat xss ! (sum_list (map length (take i xss)) + j) = xss ! i ! j"
  using assms
proof (induction xss arbitrary: i)
  case (Cons xs xss)
  then show ?case
    by (cases i) (simp_all add: nth_append add.assoc)
qed simp

lemma graph_edge_exact:
  assumes "left < right" and "right < length is"
  shows "graph_edge (conflict_graph is) (length is) left right \<longleftrightarrow> intents_conflict (is ! left) (is ! right)"
proof -
  let ?rows = "map (conflict_row is) [0 ..< length is]"
  have "map length (take left ?rows) = map (\<lambda>k. length is - Suc k) [0 ..< left]"
    using assms by (simp add: take_map conflict_row_def comp_def)
  then have offset: "sum_list (map length (take left ?rows)) = left * (2 * length is - left - 1) div 2"
    using length_rows [of left "length is"] assms by simp
  have "conflict_graph is ! (left * (2 * length is - left - 1) div 2 + (right - left - 1)) = ?rows ! left ! (right - left - 1)"
    unfolding conflict_graph_def offset [symmetric] using assms by (intro nth_concat_rows) (simp_all add: conflict_row_def)
  also have "\<dots> = (if intents_conflict (is ! left) (is ! right) then 1 else 0)"
    using assms by (simp add: conflict_row_def)
  finally show ?thesis
    by (simp add: graph_edge_def)
qed

subsection \<open>Plans are complete, ordered and within bounds\<close>

fun step_indexes :: "EffectBatchStep \<Rightarrow> nat list" where
  "step_indexes (SequentialStep i) = [i]"
| "step_indexes (ParallelReadGroup g) = g"

definition intent_bytes :: "EffectBatchIntent \<Rightarrow> nat" where
  "intent_bytes i = (case pc_max_result_bytes (bi_prepared i) of None \<Rightarrow> 0 | Some n \<Rightarrow> unat n)"

definition group_ok :: "EffectBatchLimitsV1 \<Rightarrow> EffectBatchIntent list \<Rightarrow> nat list \<Rightarrow> bool" where
  "group_ok lim is g \<longleftrightarrow>
     g \<noteq> [] \<and> list_all (\<lambda>i. reads_freely (is ! i)) g \<and>
     sorted_wrt (\<lambda>l r. \<not> intents_conflict (is ! l) (is ! r)) g \<and>
     length g \<le> max_parallel_reads lim \<and>
     sum_list (map (\<lambda>i. length (intent_accesses (is ! i))) g) \<le> max_total_accesses lim \<and>
     sum_list (map (\<lambda>i. intent_bytes (is ! i)) g) \<le> unat (max_buffered_result_bytes lim)"

definition batch_step_ok :: "EffectBatchLimitsV1 \<Rightarrow> EffectBatchIntent list \<Rightarrow> EffectBatchStep \<Rightarrow> bool" where
  "batch_step_ok lim is st \<longleftrightarrow> (case st of SequentialStep i \<Rightarrow> \<not> reads_freely (is ! i) | ParallelReadGroup g \<Rightarrow> group_ok lim is g)"

definition batch_inv :: "EffectBatchLimitsV1 \<Rightarrow> EffectBatchIntent list \<Rightarrow> nat \<Rightarrow> group_state \<Rightarrow> bool" where
  "batch_inv lim is k s \<longleftrightarrow>
     concat (map step_indexes (gs_steps s)) @ gs_group s = [0 ..< k] \<and>
     list_all (batch_step_ok lim is) (gs_steps s) \<and>
     (gs_group s \<noteq> [] \<longrightarrow> group_ok lim is (gs_group s)) \<and>
     gs_accesses s = sum_list (map (\<lambda>i. length (intent_accesses (is ! i))) (gs_group s)) \<and>
     unat (gs_bytes s) = sum_list (map (\<lambda>i. intent_bytes (is ! i)) (gs_group s))"

lemma flush_group_inv:
  assumes "batch_inv lim is k s"
  shows "batch_inv lim is k ((flush_group s)\<lparr>gs_accesses := 0, gs_bytes := 0\<rparr>)" "gs_group (flush_group s) = []"
  using assms by (auto simp: batch_inv_def flush_group_def batch_step_ok_def)

lemma group_indexes_below: "batch_inv lim is k s \<Longrightarrow> m \<in> set (gs_group s) \<Longrightarrow> m < k"
  unfolding batch_inv_def by (metis UnCI atLeastLessThan_iff set_append set_upt)

lemma group_ok_snoc:
  assumes "group_ok lim is g \<or> g = []" and "reads_freely (is ! k)"
    and "\<And>m. m \<in> set g \<Longrightarrow> \<not> intents_conflict (is ! m) (is ! k)" and "length g < max_parallel_reads lim"
    and "sum_list (map (\<lambda>i. length (intent_accesses (is ! i))) g) + length (intent_accesses (is ! k)) \<le> max_total_accesses lim"
    and "sum_list (map (\<lambda>i. intent_bytes (is ! i)) g) + intent_bytes (is ! k) \<le> unat (max_buffered_result_bytes lim)"
  shows "group_ok lim is (g @ [k])"
  using assms by (auto simp: group_ok_def sorted_wrt_append)

lemma plan_intent_inv:
  assumes inv: "batch_inv lim is k s" and k: "k < length is" and lim: "max_parallel_reads lim \<noteq> 0"
    and small: "length (intent_accesses (is ! k)) \<le> max_total_accesses lim"
    and step: "plan_intent lim (conflict_graph is) (length is) k (is ! k) s = Inr t"
  shows "batch_inv lim is (Suc k) t"
proof -
  let ?i = "is ! k"
  obtain accesses bytes next_bytes where acc: "pc_invocation_accesses (bi_prepared ?i) = Some accesses"
    and bytes: "pc_max_result_bytes (bi_prepared ?i) = Some bytes" and add: "checked_add (gs_bytes s) bytes = Some next_bytes"
    using step by (auto simp: plan_intent_def Let_def result_simps split: if_splits)
  let ?join = "reads_freely ?i \<and> \<not> list_ex (\<lambda>m. graph_edge (conflict_graph is) (length is) m k) (gs_group s) \<and>
    length (gs_group s) < max_parallel_reads lim \<and> gs_accesses s + length accesses \<le> max_total_accesses lim \<and>
    next_bytes \<le> max_buffered_result_bytes lim"
  let ?f = "(flush_group s)\<lparr>gs_accesses := 0, gs_bytes := 0\<rparr>"
  have i: "intent_accesses ?i = accesses" "intent_bytes ?i = unat bytes"
    by (simp_all add: intent_accesses_def intent_bytes_def acc bytes)
  show ?thesis
  proof (cases ?join)
    case True
    then have t: "t = s\<lparr>gs_group := gs_group s @ [k], gs_accesses := gs_accesses s + length accesses, gs_bytes := next_bytes\<rparr>"
      using step by (simp add: plan_intent_def Let_def acc bytes add)
    have free: "\<not> intents_conflict (is ! m) ?i" if "m \<in> set (gs_group s)" for m
      using True that graph_edge_exact [OF group_indexes_below [OF inv that] k] by (auto simp: list_ex_iff)
    have sums: "unat (gs_bytes s) + unat bytes \<le> unat (max_buffered_result_bytes lim)"
      using True unat_checked_add [OF add] by (simp add: word_le_nat_alt)
    have "group_ok lim is (gs_group s @ [k])"
      using True inv free sums i by (intro group_ok_snoc) (auto simp: batch_inv_def)
    with inv unat_checked_add [OF add] i show ?thesis
      by (simp add: t batch_inv_def flip: append_assoc)
  next
    case False
    note flushed = flush_group_inv [OF inv]
    show ?thesis
    proof (cases "reads_freely ?i")
      case True
      then have t: "t = ?f\<lparr>gs_group := [k], gs_accesses := length accesses, gs_bytes := bytes\<rparr>"
        and le: "bytes \<le> max_buffered_result_bytes lim"
        using step False by (auto simp: plan_intent_def Let_def acc bytes add split: if_splits)
      have "group_ok lim is ([] @ [k])"
        using True le lim small i by (intro group_ok_snoc) (auto simp: word_le_nat_alt)
      with flushed i show ?thesis
        by (simp add: t batch_inv_def)
    next
      case seq: False
      then have "t = ?f\<lparr>gs_steps := gs_steps ?f @ [SequentialStep k]\<rparr>"
        using step False by (auto simp: plan_intent_def Let_def acc bytes add split: if_splits)
      with flushed seq show ?thesis
        by (simp add: batch_inv_def batch_step_ok_def)
    qed
  qed
qed

lemma count_accesses_ok:
  "count_accesses lim n is = Inr total_accesses \<Longrightarrow>
    total_accesses = n + sum_list (map (\<lambda>i. length (intent_accesses i)) is) \<and>
    list_all (\<lambda>i. pc_contract_version (bi_prepared i) = 2 \<and> intent_accesses i \<noteq> []) is"
proof (induction "is" arbitrary: n)
  case (Cons i "is")
  then obtain accesses where acc: "pc_invocation_accesses (bi_prepared i) = Some accesses" "accesses \<noteq> []"
    and "pc_contract_version (bi_prepared i) = 2" and "count_accesses lim (n + length accesses) is = Inr total_accesses"
    by (auto simp: result_simps usize_add_def split: if_splits)
  moreover have "intent_accesses i = accesses"
    by (simp add: intent_accesses_def acc)
  ultimately show ?case
    using Cons.IH [of "n + length accesses"] by simp
qed simp

lemma plan_loop_inv:
  assumes "max_parallel_reads lim \<noteq> 0" and "\<forall>i \<in> set is. length (intent_accesses i) \<le> max_total_accesses lim"
  shows "plan_loop lim (conflict_graph is) (length is) k (drop k is) s = Inr t \<Longrightarrow> batch_inv lim is k s \<Longrightarrow> k \<le> length is \<Longrightarrow>
    batch_inv lim is (length is) t"
proof (induction "length is - k" arbitrary: k s)
  case (Suc n)
  then have k: "k < length is"
    by simp
  then obtain u where "plan_intent lim (conflict_graph is) (length is) k (is ! k) s = Inr u"
    and "plan_loop lim (conflict_graph is) (length is) (Suc k) (drop (Suc k) is) u = Inr t"
    using Suc.prems(1) by (auto simp: Cons_nth_drop_Suc [symmetric] result_simps)
  with Suc k plan_intent_inv [OF Suc.prems(2) k assms(1)] assms(2) Suc.hyps(1) [of "Suc k" u] show ?case
    by simp
qed simp

lemma plan_steps_ok:
  assumes "max_parallel_reads lim \<noteq> 0" and "\<forall>i \<in> set is. length (intent_accesses i) \<le> max_total_accesses lim"
    and "plan_steps lim is = Inr steps"
  shows "concat (map step_indexes steps) = [0 ..< length is] \<and> list_all (batch_step_ok lim is) steps"
proof -
  let ?s = "\<lparr>gs_steps = [], gs_group = [], gs_accesses = 0, gs_bytes = 0\<rparr> :: group_state"
  obtain t where t: "plan_loop lim (conflict_graph is) (length is) 0 (drop 0 is) ?s = Inr t" and steps: "steps = gs_steps (flush_group t)"
    using assms(3) by (auto simp: plan_steps_def result_simps)
  have "batch_inv lim is (length is) t"
    by (rule plan_loop_inv [OF assms(1,2) t]) (simp_all add: batch_inv_def)
  from flush_group_inv [OF this] show ?thesis
    by (simp add: steps batch_inv_def)
qed

lemma plan_effect_batch_ok:
  assumes "plan_effect_batch_intents X is lim = Inr plan" and "max_parallel_reads lim \<noteq> 0"
  shows "concat (map step_indexes (bp_steps plan)) = [0 ..< length is]" "list_all (batch_step_ok lim is) (bp_steps plan)"
    "list_all (\<lambda>i. pc_contract_version (bi_prepared i) = 2 \<and> intent_accesses i \<noteq> []) is"
proof -
  obtain n where n: "count_accesses lim 0 is = Inr n" "n \<le> max_total_accesses lim" and steps: "plan_steps lim is = Inr (bp_steps plan)"
    using assms(1) by (auto simp: plan_effect_batch_intents_def Let_def result_simps split: if_splits)
  have "length (intent_accesses i) \<le> max_total_accesses lim" if "i \<in> set is" for i
    using n count_accesses_ok [OF n(1)] member_le_sum_list [of "length (intent_accesses i)" "map (\<lambda>i. length (intent_accesses i)) is"] that
    by simp
  with plan_steps_ok [OF assms(2) _ steps] count_accesses_ok [OF n(1)]
  show "concat (map step_indexes (bp_steps plan)) = [0 ..< length is]" "list_all (batch_step_ok lim is) (bp_steps plan)"
    "list_all (\<lambda>i. pc_contract_version (bi_prepared i) = 2 \<and> intent_accesses i \<noteq> []) is"
    by auto
qed

text \<open>
  C28. For limits made by their constructor, the indexes of the steps of a batch plan, read in
  order, are those of the proposals; every parallel group holds reads without a suspension boundary,
  no two of which conflict, within the limits on group size, on resources and on buffered result
  bytes; and every other proposal is a sequential step.
\<close>

theorem plan_batch_sound:
  assumes "effect_batch_limits n a r g b = Inr lim" and "plan_effect_batch_intents X is lim = Inr plan"
  shows "concat (map step_indexes (bp_steps plan)) = [0 ..< length is] \<and> list_all (batch_step_ok lim is) (bp_steps plan)"
proof -
  have "max_parallel_reads lim \<noteq> 0"
    using assms(1) by (auto simp: effect_batch_limits_def split: if_splits)
  from plan_effect_batch_ok [OF assms(2) this] show ?thesis
    by simp
qed

subsection \<open>The ledger accepts planned batches\<close>

lemma jobject_two:
  "k < l \<Longrightarrow> jobject [(l, v), (k, w)] = JObject [(k, w), (l, v)]" for k l :: string
  by (simp add: jobject_def)

lemma batch_group_planned:
  assumes "\<And>i. i \<in> set g \<Longrightarrow> i < length ts \<and> i < 2 ^ 64 \<and> bt_get result_bytes (ts ! i) = Some (b i)"
    and "unat bytes + sum_list (map (\<lambda>i. unat (b i)) g) \<le> unat limit"
  shows "\<exists>sum. batch_group ts result_bytes bytes (map (\<lambda>i. ju64 (of_nat i)) g) = Inr (sum, g) \<and> sum \<le> limit"
  using assms
proof (induction g arbitrary: bytes)
  case Nil
  then show ?case
    by (simp add: word_le_nat_alt)
next
  case (Cons i g)
  have i: "i < length ts" "unat (of_nat i :: u64) = i" "bt_get result_bytes (ts ! i) = Some (b i)"
    using Cons.prems(1) [of i] by (simp_all add: unsigned_of_nat take_bit_nat_eq_self)
  have "unat bytes + unat (b i) < 2 ^ 64"
    using Cons.prems(2) unsigned_less [of limit, where ?'a = nat] by simp
  then have add: "checked_add bytes (b i) = Some (bytes + b i)"
    by (simp add: checked_add_def)
  then obtain sum where "batch_group ts result_bytes (bytes + b i) (map (\<lambda>i. ju64 (of_nat i)) g) = Inr (sum, g)" "sum \<le> limit"
    using Cons.IH [of "bytes + b i"] Cons.prems unat_checked_add [OF add] by auto
  with i add show ?case
    by (simp add: ju64_def)
qed

lemma plan_loop_bytes:
  "plan_loop lim graph count k is s = Inr t \<Longrightarrow> i \<in> set is \<Longrightarrow> pc_max_result_bytes (bi_prepared i) \<noteq> None"
  by (induction lim graph count k "is" s rule: plan_loop.induct)
    (auto simp: result_simps plan_intent_def Let_def)

lemma batch_step_planned:
  assumes ok: "batch_step_ok lim is st" and below: "\<forall>i \<in> set (step_indexes st). i < length is"
    and size: "length ts = length is" "length is < 2 ^ 64" "max_parallel_reads lim < 2 ^ 64"
    and bytes: "\<forall>i < length is. \<exists>n. pc_max_result_bytes (bi_prepared (is ! i)) = Some n \<and> bt_get result_bytes (ts ! i) = Some n"
  shows "batch_step ts result_bytes (of_nat (max_parallel_reads lim)) (max_buffered_result_bytes lim) (step_json st) =
    Inr (step_indexes st)"
proof (cases st)
  case (SequentialStep i)
  then have "unat (of_nat i :: u64) = i"
    using below size by (simp add: unsigned_of_nat take_bit_nat_eq_self)
  then show ?thesis
    by (simp add: SequentialStep step_json_def jobject_def batch_step_def payload_text_def jget_def ju64_def)
next
  case (ParallelReadGroup g)
  let ?b = "\<lambda>i. the (pc_max_result_bytes (bi_prepared (is ! i)))"
  have g: "group_ok lim is g" "\<forall>i \<in> set g. i < length is"
    using ok below ParallelReadGroup by (simp_all add: batch_step_ok_def)
  have "intent_bytes (is ! i) = unat (?b i)" if "i \<in> set g" for i
    using bytes g(2) that by (fastforce simp: intent_bytes_def)
  then have "map (\<lambda>i. unat (?b i)) g = map (\<lambda>i. intent_bytes (is ! i)) g"
    by simp
  then have "sum_list (map (\<lambda>i. unat (?b i)) g) = sum_list (map (\<lambda>i. intent_bytes (is ! i)) g)"
    by (rule arg_cong)
  moreover have "sum_list (map (\<lambda>i. intent_bytes (is ! i)) g) \<le> unat (max_buffered_result_bytes lim)"
    using g(1) by (simp add: group_ok_def)
  ultimately have fits: "unat (0 :: u64) + sum_list (map (\<lambda>i. unat (?b i)) g) \<le> unat (max_buffered_result_bytes lim)"
    by simp
  have "\<exists>sum. batch_group ts result_bytes 0 (map (\<lambda>i. ju64 (of_nat i)) g) = Inr (sum, g) \<and> sum \<le> max_buffered_result_bytes lim"
  proof (rule batch_group_planned [OF _ fits])
    fix i
    assume "i \<in> set g"
    then show "i < length ts \<and> i < 2 ^ 64 \<and> bt_get result_bytes (ts ! i) = Some (?b i)"
      using g(2) size bytes by fastforce
  qed
  moreover have "unat (of_nat (max_parallel_reads lim) :: u64) = max_parallel_reads lim"
    using size(3) by (simp add: unsigned_of_nat take_bit_nat_eq_self)
  ultimately show ?thesis
    using g(1)
    by (auto simp: ParallelReadGroup step_json_def jobject_def batch_step_def payload_text_def jget_def group_ok_def result_simps)
qed

lemma batch_indexes_ok:
  "list_all (\<lambda>v. step (f v) = Inr (g v)) vs \<Longrightarrow> batch_indexes step (map f vs) = Inr (concat (map g vs))"
  by (induction vs) simp_all

text \<open>
  C29. The validation of a planned batch in the ledger accepts the steps of every plan the planner
  makes, with the limits of the planner, for tools whose result bytes are those of the planned calls
  and for counts that fit the size type of the machine.
\<close>

theorem ledger_accepts_planned_batch:
  assumes "effect_batch_limits n a r g b = Inr lim" and "plan_effect_batch_intents X is lim = Inr plan"
    and "length ts = length is" and "length is < 2 ^ 64" and "max_parallel_reads lim < 2 ^ 64"
    and "\<forall>i < length is. bt_get result_bytes (ts ! i) = pc_max_result_bytes (bi_prepared (is ! i))"
  shows "validate_batch_steps (steps_json (bp_steps plan)) ts result_bytes (of_nat (max_parallel_reads lim))
    (max_buffered_result_bytes lim) = Inr ()"
proof -
  have "max_parallel_reads lim \<noteq> 0"
    using assms(1) by (auto simp: effect_batch_limits_def split: if_splits)
  note ok = plan_effect_batch_ok [OF assms(2) this]
  obtain s t where "plan_loop lim (conflict_graph is) (length is) 0 is s = Inr t"
    using assms(2) by (auto simp: plan_effect_batch_intents_def plan_steps_def Let_def result_simps split: if_splits)
  from plan_loop_bytes [OF this] have bytes: "\<forall>i < length is. \<exists>n. pc_max_result_bytes (bi_prepared (is ! i)) = Some n \<and>
      bt_get result_bytes (ts ! i) = Some n"
    using assms(6) by (auto dest: nth_mem)
  have "batch_step ts result_bytes (of_nat (max_parallel_reads lim)) (max_buffered_result_bytes lim) (step_json st) = Inr (step_indexes st)"
    if st: "st \<in> set (bp_steps plan)" for st
  proof (rule batch_step_planned [OF _ _ assms(3-5) bytes])
    show "batch_step_ok lim is st"
      using ok(2) st by (simp add: list_all_iff)
    have "set (step_indexes st) \<subseteq> set (concat (map step_indexes (bp_steps plan)))"
      using st by auto
    then show "\<forall>i \<in> set (step_indexes st). i < length is"
      unfolding ok(1) by auto
  qed
  then have "batch_indexes (batch_step ts result_bytes (of_nat (max_parallel_reads lim)) (max_buffered_result_bytes lim))
      (map step_json (bp_steps plan)) = Inr (concat (map step_indexes (bp_steps plan)))"
    by (intro batch_indexes_ok) (simp add: list_all_iff)
  then show ?thesis
    using ok(1) assms(3) by (simp add: validate_batch_steps_def steps_json_def)
qed

text \<open>A sample: two reads of different files and a write of the second one.\<close>

definition sample_batch_call :: "string \<Rightarrow> ReplayClass \<Rightarrow> string \<Rightarrow> AccessMode \<Rightarrow> EffectBatchIntent" where
  "sample_batch_call d replay path mode =
     \<lparr>bi_prepared = \<lparr>pc_model_call_id = d, pc_tool_name = ''tool'', pc_tool_revision = ''1'', pc_normalized_arguments = [],
        pc_input_digest = d, pc_requirements = \<lparr>capabilities = {}, max_duration_ms = 1, max_output_bytes = 1\<rparr>,
        pc_replay_class = replay, pc_contract_version = 2, pc_access_policy_revision = Some ''1'',
        pc_access_resolver_revision = Some ''1'',
        pc_invocation_accesses = Some [\<lparr>ra_namespace = Filesystem, ra_resource_key = path, ra_mode = mode\<rparr>],
        pc_max_result_bytes = Some 10, pc_sandbox_requirements = None, pc_sandbox_requirements_digest = None\<rparr>,
      bi_suspension_boundary = False\<rparr>"

definition sample_intents :: "EffectBatchIntent list" where
  "sample_intents = [sample_batch_call ''d0'' ReadOnly ''a'' Read, sample_batch_call ''d1'' ReadOnly ''b'' Read,
     sample_batch_call ''d2'' NeverReplay ''b'' Write]"

definition sample_limits :: EffectBatchLimitsV1 where
  "sample_limits = \<lparr>max_intents = 8, max_accesses_per_intent = 4, max_total_accesses = 16, max_parallel_reads = 4,
     max_buffered_result_bytes = 100\<rparr>"

lemma sample_limits_ok: "effect_batch_limits 8 4 16 4 100 = Inr sample_limits"
  by (simp add: effect_batch_limits_def sample_limits_def)

lemma sample_intents_planned:
  "\<exists>plan. plan_effect_batch_intents sample_tools sample_intents sample_limits = Inr plan \<and>
     bp_steps plan = [ParallelReadGroup [0, 1], SequentialStep 2]"
proof -
  have graph: "conflict_graph sample_intents = [0, 0, 1]"
    by code_simp
  have edges: "\<not> graph_edge [0, 0, Suc 0] (Suc (Suc (Suc 0))) 0 (Suc 0)" "\<not> graph_edge [0, 0, Suc 0] (Suc (Suc (Suc 0))) 0 (Suc (Suc 0))"
    "graph_edge [0, 0, Suc 0] (Suc (Suc (Suc 0))) (Suc 0) (Suc (Suc 0))"
    by code_simp+
  have "plan_steps sample_limits sample_intents = Inr [ParallelReadGroup [0, 1], SequentialStep 2]"
    unfolding plan_steps_def graph
    by (simp add: sample_intents_def sample_batch_call_def sample_limits_def plan_intent_def checked_add_def
        reads_freely_def flush_group_def Let_def edges)
  moreover have "count_accesses sample_limits 0 sample_intents = Inr 3"
    by (simp add: sample_intents_def sample_batch_call_def sample_limits_def usize_add_def)
  ultimately show ?thesis
    by (simp add: plan_effect_batch_intents_def Let_def sample_tools_def)
      (simp add: sample_intents_def sample_limits_def)
qed

theorem plan_batch_sound_witness:
  "\<exists>plan. plan_effect_batch_intents sample_tools sample_intents sample_limits = Inr plan \<and>
     concat (map step_indexes (bp_steps plan)) = [0, 1, 2] \<and>
     list_all (batch_step_ok sample_limits sample_intents) (bp_steps plan)"
proof -
  obtain plan where plan: "plan_effect_batch_intents sample_tools sample_intents sample_limits = Inr plan"
    using sample_intents_planned by blast
  from plan_batch_sound [OF sample_limits_ok plan] plan show ?thesis
    by (intro exI [of _ plan]) (simp add: sample_intents_def upt_rec)
qed

definition sample_batch_tools :: "ToolInvocationId list" where
  "sample_batch_tools = [Ident ''t0'', Ident ''t1'', Ident ''t2'']"

definition sample_result_bytes :: "(ToolInvocationId, u64) btmap" where
  "sample_result_bytes = bt_collect (map (\<lambda>t. (t, 10)) sample_batch_tools)"

theorem ledger_accepts_planned_batch_witness:
  "\<exists>plan. plan_effect_batch_intents sample_tools sample_intents sample_limits = Inr plan \<and>
     validate_batch_steps (steps_json (bp_steps plan)) sample_batch_tools sample_result_bytes 4 100 = Inr ()"
proof -
  obtain plan where plan: "plan_effect_batch_intents sample_tools sample_intents sample_limits = Inr plan"
    using sample_intents_planned by blast
  have "list_all (\<lambda>i. bt_get sample_result_bytes (sample_batch_tools ! i) = pc_max_result_bytes (bi_prepared (sample_intents ! i))) [0, 1, 2]"
    by code_simp
  then have "\<forall>i < length sample_intents. bt_get sample_result_bytes (sample_batch_tools ! i) =
      pc_max_result_bytes (bi_prepared (sample_intents ! i))"
    by (simp add: sample_intents_def less_Suc_eq numeral_3_eq_3 numeral_2_eq_2)
  from ledger_accepts_planned_batch [OF sample_limits_ok plan _ _ _ this] plan show ?thesis
    by (intro exI [of _ plan]) (simp add: sample_intents_def sample_batch_tools_def sample_limits_def)
qed

end
