(* ===== verification/Governed_Effect.thy ===== *)
theory Governed_Effect
  imports Tool_Preparation
begin

section \<open>One governed invocation\<close>

text \<open>
  The reducer of \<open>governed_reducer.rs\<close> for one prepared call: authorization, human interaction, execution and
  recovery, with the values of \<open>governed_types.rs\<close> and \<open>governed_outcome.rs\<close>. It carries no I/O: each durable fact
  gives the next action. The results are about whole traces of facts: the reducer never panics, it asks for at most
  one dispatch and only of a grant bound to the exact call and no wider than it, and it reports success only on a
  receipt for that grant after the dispatch was started.

  The compact encoder of \<open>serde_json\<close> is a parameter, by the size of its output.
\<close>

subsection \<open>Identities, grants and receipts\<close>

datatype InvalidGovernanceValue = InvalidGovernanceValue string

definition governed_identity :: "string \<Rightarrow> string \<Rightarrow> InvalidGovernanceValue + string" where
  "governed_identity label v = (if v = [] then Inl (InvalidGovernanceValue label) else Inr v)"

definition required_text :: "string \<Rightarrow> string \<Rightarrow> InvalidGovernanceValue + unit" where
  "required_text v label = (if v = [] then Inl (InvalidGovernanceValue label) else Inr ())"

record InvocationGrant =
  ig_grant_id :: string
  ig_invocation_id :: string
  ig_prepared_digest :: string
  ig_tool_name :: string
  ig_tool_revision :: string
  ig_granted_requirements :: ExecutionRequirements
  ig_constraints_digest :: string
  ig_authority_revision :: string

definition invocation_grant :: "InvocationGrant \<Rightarrow> InvalidGovernanceValue + InvocationGrant" where
  "invocation_grant g =
     rbind (rall [required_text (ig_prepared_digest g) ''prepared digest'',
                  required_text (ig_tool_name g) ''tool name'',
                  required_text (ig_tool_revision g) ''tool revision'',
                  required_text (ig_constraints_digest g) ''constraints digest'',
                  required_text (ig_authority_revision g) ''authority revision'']) (\<lambda>_. Inr g)"

datatype InteractionKind = Approval | ExternalInput

record InteractionRequest =
  ir_interaction_id :: string
  ir_invocation_id :: string
  ir_prepared_digest :: string
  ir_kind :: InteractionKind
  ir_prompt :: json
  ir_response_schema :: json
  ir_expiry_policy :: string

definition non_empty_text :: "json option \<Rightarrow> bool" where
  "non_empty_text v \<longleftrightarrow> (case Option.bind v json_as_str of None \<Rightarrow> False | Some t \<Rightarrow> t \<noteq> [])"

definition prompt_ok :: "jmap \<Rightarrow> bool" where
  "prompt_ok prompt \<longleftrightarrow>
     3 \<le> length prompt \<and> length prompt \<le> 5 \<and>
     Option.bind (jget prompt ''schema_version'') as_u64 = Some 1 \<and>
     non_empty_text (jget prompt ''title_key'') \<and> non_empty_text (jget prompt ''action_label_key'') \<and>
     list_all (\<lambda>k. jget prompt k \<noteq> None \<longrightarrow> non_empty_text (jget prompt k)) [''message_text'', ''cancel_label_key''] \<and>
     list_all (\<lambda>e. fst e \<in> {''schema_version'', ''title_key'', ''message_text'', ''action_label_key'', ''cancel_label_key''}) prompt"

definition interaction_validate :: "InteractionRequest \<Rightarrow> InvalidGovernanceValue + unit" where
  "interaction_validate r =
     rbind (required_text (ir_prepared_digest r) ''prepared digest'') (\<lambda>_.
     rbind (required_text (ir_expiry_policy r) ''expiry policy'') (\<lambda>_.
     rbind (ok_or (as_object (ir_prompt r)) (InvalidGovernanceValue ''interaction prompt'')) (\<lambda>prompt.
       if prompt_ok prompt then Inr () else Inl (InvalidGovernanceValue ''interaction prompt''))))"

datatype InteractionResolution =
    Interaction_Resolved (res_interaction_id: string) (res_invocation_id: string) (res_prepared_digest: string) json
  | Interaction_Cancelled (res_interaction_id: string) (res_invocation_id: string) (res_prepared_digest: string)

datatype TerminalClassification = Terminal_Completed | Terminal_Failed

record EffectReceipt =
  er_receipt_id :: string
  er_invocation_id :: string
  er_prepared_digest :: string
  er_grant_id :: string
  er_executor_id :: string
  er_executor_revision :: string
  er_terminal_classification :: TerminalClassification
  er_result_digest :: string

definition receipt_validate :: "EffectReceipt \<Rightarrow> InvalidGovernanceValue + unit" where
  "receipt_validate r =
     rall [required_text (er_prepared_digest r) ''prepared digest'',
           required_text (er_executor_id r) ''executor identity'',
           required_text (er_executor_revision r) ''executor revision'',
           required_text (er_result_digest r) ''result digest'']"

subsection \<open>Facts, observations and actions\<close>

datatype ExecutionFact =
    Fact_Started string
  | Fact_Completed "EffectReceipt option" json bool
  | Fact_Failed "EffectReceipt option" string "string option" "json option"
  | Fact_Uncertain string
  | Fact_Unsupported string

datatype ObservationOutcome =
    Succeeded json bool
  | Rejected string "string option"
  | Execution_Failed string "string option" "json option"

record GovernedObservation =
  go_invocation_id :: string
  go_prepared_digest :: string
  go_model_call_id :: string
  go_tool_name :: string
  go_outcome :: ObservationOutcome

definition optional_envelope :: "(string \<times> json) list \<Rightarrow> string \<Rightarrow> json option \<Rightarrow> (string \<times> json) list" where
  "optional_envelope m k item = (case item of None \<Rightarrow> m | Some v \<Rightarrow> m @ [(k, v)])"

definition model_envelope :: "GovernedObservation \<Rightarrow> json" where
  "model_envelope o' =
     (case go_outcome o' of
        Succeeded content truncated \<Rightarrow>
          jobject [(''status'', JString ''succeeded''), (''content'', content), (''truncated'', JBool truncated)]
      | Rejected code details \<Rightarrow>
          jobject (optional_envelope [(''status'', JString ''rejected''), (''code'', JString code)] ''details''
            (map_option JString details))
      | Execution_Failed code details part \<Rightarrow>
          jobject (optional_envelope
            (optional_envelope [(''status'', JString ''failed''), (''code'', JString code)] ''details'' (map_option JString details))
            ''partial'' part))"

datatype GovernedFailureCode = GrantMismatch | RequirementUnsupported | InvocationConflict | InteractionConflict
  | CorruptRecoveryState | InvalidModelOutput

datatype SuspensionRequirement = Suspend_Interaction InteractionRequest | OperatorReconciliation string

datatype GovernedAction =
    Authorize
  | Dispatch InvocationGrant
  | Observation GovernedObservation
  | Suspend SuspensionRequirement
  | Fail GovernedFailureCode
  | NoAction

record PreparationRejectedFeedback =
  pr_model_call_id :: string
  pr_proposed_tool_name :: string
  pr_code :: PreparationErrorCode
  pr_failure_paths :: "string list"

datatype ToolFeedback = PreparationRejected PreparationRejectedFeedback | Governed GovernedObservation

datatype GovernedToolResult =
    Result_Observation ToolFeedback
  | Result_Suspend SuspensionRequirement
  | Result_Fail GovernedFailureCode

definition reduce_preparation_failure :: "ToolIntent \<Rightarrow> PreparationError \<Rightarrow> GovernedToolResult" where
  "reduce_preparation_failure i e =
     (if ti_model_call_id i = [] then Result_Fail InvalidModelOutput
      else
        Result_Observation (PreparationRejected
          \<lparr>pr_model_call_id = ti_model_call_id i, pr_proposed_tool_name = ti_tool_name i, pr_code = pe_code e,
           pr_failure_paths = map instance_path (pe_failures e)\<rparr>))"

subsection \<open>The reducer\<close>

datatype AuthorizationVerdict =
    Approve InvocationGrant
  | Deny string "string option"
  | ReplacementRequired
  | InteractionRequired InteractionRequest

datatype ReducerState =
    RS_Prepared
  | RS_AwaitingInteraction InteractionRequest
  | RS_Authorized InvocationGrant
  | RS_Started InvocationGrant
  | RS_Denied
  | RS_Replaced
  | RS_Completed
  | RS_Failed
  | RS_Uncertain

record GovernedEffect =
  ge_invocation_id :: string
  ge_prepared :: PreparedToolCall
  ge_state :: ReducerState
  ge_last_interaction_resolution :: "InteractionResolution option"

definition governed_effect :: "string \<Rightarrow> PreparedToolCall \<Rightarrow> GovernedEffect \<times> GovernedAction" where
  "governed_effect invocation prepared =
     (\<lparr>ge_invocation_id = invocation, ge_prepared = prepared, ge_state = RS_Prepared,
       ge_last_interaction_resolution = None\<rparr>, Authorize)"

datatype EffectState = ES_Prepared | ES_Denied | ES_Replaced | ES_AwaitingInteraction | ES_Authorized | ES_Started
  | ES_Completed | ES_Failed | ES_Uncertain

definition effect_state :: "GovernedEffect \<Rightarrow> EffectState" where
  "effect_state e =
     (case ge_state e of
        RS_Prepared \<Rightarrow> ES_Prepared
      | RS_AwaitingInteraction _ \<Rightarrow> ES_AwaitingInteraction
      | RS_Authorized _ \<Rightarrow> ES_Authorized
      | RS_Started _ \<Rightarrow> ES_Started
      | RS_Denied \<Rightarrow> ES_Denied
      | RS_Replaced \<Rightarrow> ES_Replaced
      | RS_Completed \<Rightarrow> ES_Completed
      | RS_Failed \<Rightarrow> ES_Failed
      | RS_Uncertain \<Rightarrow> ES_Uncertain)"

definition effect_fail :: "GovernedFailureCode \<Rightarrow> GovernedEffect \<Rightarrow> GovernedEffect \<times> GovernedAction" where
  "effect_fail code e = (e\<lparr>ge_state := RS_Failed\<rparr>, Fail code)"

definition observation :: "GovernedEffect \<Rightarrow> ObservationOutcome \<Rightarrow> GovernedAction" where
  "observation e outcome =
     Observation \<lparr>go_invocation_id = ge_invocation_id e, go_prepared_digest = pc_input_digest (ge_prepared e),
       go_model_call_id = pc_model_call_id (ge_prepared e), go_tool_name = pc_tool_name (ge_prepared e), go_outcome = outcome\<rparr>"

definition grant_binds :: "GovernedEffect \<Rightarrow> InvocationGrant \<Rightarrow> bool" where
  "grant_binds e g \<longleftrightarrow>
     ig_invocation_id g = ge_invocation_id e \<and>
     ig_prepared_digest g = pc_input_digest (ge_prepared e) \<and>
     ig_tool_name g = pc_tool_name (ge_prepared e) \<and>
     ig_tool_revision g = pc_tool_revision (ge_prepared e) \<and>
     max_duration_ms (ig_granted_requirements g) \<le> max_duration_ms (pc_requirements (ge_prepared e)) \<and>
     max_output_bytes (ig_granted_requirements g) \<le> max_output_bytes (pc_requirements (ge_prepared e)) \<and>
     capabilities (ig_granted_requirements g) \<subseteq> capabilities (pc_requirements (ge_prepared e))"

definition receipt_binds :: "GovernedEffect \<Rightarrow> EffectReceipt \<Rightarrow> InvocationGrant \<Rightarrow> TerminalClassification \<Rightarrow> bool" where
  "receipt_binds e r g final \<longleftrightarrow>
     receipt_validate r = Inr () \<and>
     er_invocation_id r = ge_invocation_id e \<and>
     er_prepared_digest r = pc_input_digest (ge_prepared e) \<and>
     er_grant_id r = ig_grant_id g \<and>
     er_terminal_classification r = final"

definition apply_authorization ::
  "float_ops \<Rightarrow> AuthorizationVerdict \<Rightarrow> GovernedEffect \<Rightarrow> GovernedEffect \<times> GovernedAction" where
  "apply_authorization F verdict e =
     (case (ge_state e, verdict) of
        (RS_Authorized existing, Approve candidate) \<Rightarrow>
          if existing = candidate then (e, NoAction) else effect_fail InvocationConflict e
      | (state, _) \<Rightarrow>
          if state \<noteq> RS_Prepared then effect_fail InvocationConflict e
          else
            (case verdict of
               Approve grant \<Rightarrow>
                 if \<not> grant_binds e grant then effect_fail GrantMismatch e
                 else (e\<lparr>ge_state := RS_Authorized grant\<rparr>, Dispatch grant)
             | Deny code details \<Rightarrow>
                 if code = [] then effect_fail InvocationConflict e
                 else (e\<lparr>ge_state := RS_Denied\<rparr>, observation e (Rejected code details))
             | ReplacementRequired \<Rightarrow>
                 (e\<lparr>ge_state := RS_Replaced\<rparr>, observation e (Rejected ''replacement_required'' None))
             | InteractionRequired request \<Rightarrow>
                 if interaction_validate request \<noteq> Inr () \<or>
                    validate_schema_node F (ir_response_schema request) \<noteq> Inr () \<or>
                    ir_invocation_id request \<noteq> ge_invocation_id e \<or>
                    ir_prepared_digest request \<noteq> pc_input_digest (ge_prepared e)
                 then effect_fail InteractionConflict e
                 else (e\<lparr>ge_state := RS_AwaitingInteraction request, ge_last_interaction_resolution := None\<rparr>,
                       Suspend (Suspend_Interaction request))))"

text \<open>\<open>None\<close> is the validator's panic, on a response schema that is not in the portable subset.\<close>

definition resolution_matches :: "float_ops \<Rightarrow> InteractionRequest \<Rightarrow> InteractionResolution \<Rightarrow> bool option" where
  "resolution_matches F request r =
     (if res_interaction_id r = ir_interaction_id request \<and> res_invocation_id r = ir_invocation_id request \<and>
         res_prepared_digest r = ir_prepared_digest request
      then
        (case r of
           Interaction_Resolved _ _ _ response \<Rightarrow>
             map_option (\<lambda>failures. failures = []) (validate_arguments F (ir_response_schema request) response)
         | Interaction_Cancelled _ _ _ \<Rightarrow> Some True)
      else Some False)"

definition apply_interaction ::
  "float_ops \<Rightarrow> InteractionResolution \<Rightarrow> GovernedEffect \<Rightarrow> (GovernedEffect \<times> GovernedAction) option" where
  "apply_interaction F r e =
     (case ge_last_interaction_resolution e of
        Some existing \<Rightarrow> Some (if existing = r then (e, NoAction) else effect_fail InteractionConflict e)
      | None \<Rightarrow>
          (case ge_state e of
             RS_AwaitingInteraction request \<Rightarrow>
               map_option (\<lambda>ok.
                 if \<not> ok then effect_fail InteractionConflict e
                 else
                   (case r of
                      Interaction_Resolved _ _ _ _ \<Rightarrow>
                        (e\<lparr>ge_last_interaction_resolution := Some r, ge_state := RS_Prepared\<rparr>, Authorize)
                    | Interaction_Cancelled _ _ _ \<Rightarrow>
                        (e\<lparr>ge_last_interaction_resolution := Some r, ge_state := RS_Denied\<rparr>,
                         observation e (Rejected ''interaction_cancelled'' None))))
                 (resolution_matches F request r)
           | _ \<Rightarrow> Some (effect_fail InteractionConflict e)))"

definition fits :: "(json \<Rightarrow> nat option) \<Rightarrow> InvocationGrant \<Rightarrow> json \<Rightarrow> bool" where
  "fits encoded g v \<longleftrightarrow>
     (case encoded v of None \<Rightarrow> False | Some n \<Rightarrow> n \<le> unat (max_output_bytes (ig_granted_requirements g)))"

definition apply_execution ::
  "(json \<Rightarrow> nat option) \<Rightarrow> ExecutionFact \<Rightarrow> GovernedEffect \<Rightarrow> GovernedEffect \<times> GovernedAction" where
  "apply_execution encoded f e =
     (case (ge_state e, f) of
        (RS_Authorized grant, Fact_Started _) \<Rightarrow> (e\<lparr>ge_state := RS_Started grant\<rparr>, NoAction)
      | (RS_Authorized _, Fact_Unsupported requirement) \<Rightarrow>
          if requirement = [] then effect_fail CorruptRecoveryState e else effect_fail RequirementUnsupported e
      | (RS_Started grant, Fact_Completed receipt content truncated) \<Rightarrow>
          (case receipt of
             None \<Rightarrow> effect_fail CorruptRecoveryState e
           | Some r \<Rightarrow>
               if \<not> receipt_binds e r grant Terminal_Completed \<or> \<not> fits encoded grant content
               then effect_fail CorruptRecoveryState e
               else (e\<lparr>ge_state := RS_Completed\<rparr>, observation e (Succeeded content truncated)))
      | (RS_Started grant, Fact_Failed receipt code details part) \<Rightarrow>
          (case receipt of
             None \<Rightarrow> effect_fail CorruptRecoveryState e
           | Some r \<Rightarrow>
               if code = [] \<or> \<not> receipt_binds e r grant Terminal_Failed \<or>
                  (case part of None \<Rightarrow> False | Some v \<Rightarrow> \<not> fits encoded grant v)
               then effect_fail CorruptRecoveryState e
               else (e\<lparr>ge_state := RS_Failed\<rparr>, observation e (Execution_Failed code details part)))
      | (RS_Started _, Fact_Uncertain evidence) \<Rightarrow>
          if evidence = [] then effect_fail CorruptRecoveryState e
          else (e\<lparr>ge_state := RS_Uncertain\<rparr>, Suspend (OperatorReconciliation evidence))
      | _ \<Rightarrow> effect_fail InvocationConflict e)"

datatype RecoveryPosition = At_Authorized | StartedNoReceipt | ReceiptNoResult | At_Terminal

datatype RecoveryDecision = RevalidateGrant | RetrySameInvocation | RecoverExecutorReceipt | ReconstructFromReceipt
  | ReturnTerminal | ReconcileOperator

definition recover_effect :: "RecoveryPosition \<Rightarrow> ReplayClass \<Rightarrow> bool \<Rightarrow> RecoveryDecision" where
  "recover_effect position replay_class executor_proves_replay =
     (case position of
        At_Authorized \<Rightarrow> RevalidateGrant
      | ReceiptNoResult \<Rightarrow> ReconstructFromReceipt
      | At_Terminal \<Rightarrow> ReturnTerminal
      | StartedNoReceipt \<Rightarrow>
          if replay_class = ReceiptRecoverable \<and> executor_proves_replay then RecoverExecutorReceipt
          else if (replay_class = ReadOnly \<or> replay_class = Idempotent) \<and> executor_proves_replay then RetrySameInvocation
          else ReconcileOperator)"

subsection \<open>Traces\<close>

text \<open>A durable fact of any kind, and the reducer's answer to it.\<close>

datatype effect_event =
    Authorized_By AuthorizationVerdict
  | Interaction_Done InteractionResolution
  | Executed ExecutionFact

definition effect_step ::
  "float_ops \<Rightarrow> (json \<Rightarrow> nat option) \<Rightarrow> effect_event \<Rightarrow> GovernedEffect \<Rightarrow> (GovernedEffect \<times> GovernedAction) option" where
  "effect_step F encoded ev e =
     (case ev of
        Authorized_By v \<Rightarrow> Some (apply_authorization F v e)
      | Interaction_Done r \<Rightarrow> apply_interaction F r e
      | Executed f \<Rightarrow> Some (apply_execution encoded f e))"

inductive effect_trace ::
  "float_ops \<Rightarrow> (json \<Rightarrow> nat option) \<Rightarrow> string \<Rightarrow> PreparedToolCall \<Rightarrow> effect_event list \<Rightarrow> GovernedAction list \<Rightarrow> GovernedEffect \<Rightarrow> bool"
  for F encoded invocation prepared where
  trace_new: "governed_effect invocation prepared = (e, a) \<Longrightarrow> effect_trace F encoded invocation prepared [] [] e"
| trace_step: "\<lbrakk>effect_trace F encoded invocation prepared evs acts e; effect_step F encoded ev e = Some (e', a)\<rbrakk> \<Longrightarrow>
    effect_trace F encoded invocation prepared (evs @ [ev]) (acts @ [a]) e'"

text \<open>How far an invocation is: before a grant, granted, dispatched, over.\<close>

fun effect_phase :: "ReducerState \<Rightarrow> nat" where
  "effect_phase RS_Prepared = 0"
| "effect_phase (RS_AwaitingInteraction _) = 0"
| "effect_phase (RS_Authorized _) = 1"
| "effect_phase (RS_Started _) = 2"
| "effect_phase _ = 3"

fun is_dispatch :: "GovernedAction \<Rightarrow> bool" where
  "is_dispatch (Dispatch _) = True"
| "is_dispatch _ = False"

fun is_observation :: "GovernedAction \<Rightarrow> bool" where
  "is_observation (Observation _) = True"
| "is_observation _ = False"

lemmas effect_simps = effect_step_def apply_authorization_def apply_interaction_def apply_execution_def effect_fail_def
  observation_def

lemma effect_step_identity:
  assumes "effect_step F encoded ev e = Some (e', a)"
  shows "ge_invocation_id e' = ge_invocation_id e" "ge_prepared e' = ge_prepared e"
  using assms
  by (auto simp: effect_simps split: effect_event.splits ReducerState.splits AuthorizationVerdict.splits
      ExecutionFact.splits InteractionResolution.splits option.splits if_splits)

text \<open>One step, as far as the phases and the actions that matter go.\<close>

lemma effect_step_phase:
  assumes "effect_step F encoded ev e = Some (e', a)"
  shows "effect_phase (ge_state e) \<le> effect_phase (ge_state e')"
    and "a = Dispatch g \<Longrightarrow> effect_phase (ge_state e) = 0 \<and> ge_state e' = RS_Authorized g \<and> grant_binds e g"
    and "is_observation a \<Longrightarrow> effect_phase (ge_state e) < 3 \<and> effect_phase (ge_state e') = 3"
    and "ge_state e' = RS_Authorized g \<Longrightarrow> ge_state e = RS_Authorized g \<or> a = Dispatch g"
    and "ge_state e' = RS_Started g \<Longrightarrow> ge_state e = RS_Started g \<or> (ge_state e = RS_Authorized g \<and> (\<exists>d. ev = Executed (Fact_Started d)))"
  using assms
  by (auto simp: effect_simps split: effect_event.splits ReducerState.splits AuthorizationVerdict.splits
      ExecutionFact.splits InteractionResolution.splits option.splits if_splits)

lemma effect_step_success:
  assumes "effect_step F encoded ev e = Some (e', Observation obs)" and "go_outcome obs = Succeeded content truncated"
  shows "\<exists>g r. ge_state e = RS_Started g \<and> ev = Executed (Fact_Completed (Some r) content truncated) \<and>
    receipt_binds e r g Terminal_Completed \<and> fits encoded g content"
  using assms
  by (auto simp: effect_simps split: effect_event.splits ReducerState.splits AuthorizationVerdict.splits
      ExecutionFact.splits InteractionResolution.splits option.splits if_splits)

lemma trace_identity:
  "effect_trace F encoded invocation prepared evs acts e \<Longrightarrow> ge_invocation_id e = invocation \<and> ge_prepared e = prepared"
  by (induction rule: effect_trace.induct) (auto simp: governed_effect_def dest: effect_step_identity)

lemma trace_length: "effect_trace F encoded invocation prepared evs acts e \<Longrightarrow> length acts = length evs"
  by (induction rule: effect_trace.induct) auto

text \<open>An awaited response has a schema of the portable subset, so the validator does not panic on it.\<close>

lemma trace_awaiting:
  "effect_trace F encoded invocation prepared evs acts e \<Longrightarrow> ge_state e = RS_AwaitingInteraction r \<Longrightarrow>
    validate_schema_node F (ir_response_schema r) = Inr ()"
proof (induction arbitrary: r rule: effect_trace.induct)
  case (trace_step evs acts e ev e' a)
  then show ?case
    by (auto simp: effect_simps split: effect_event.splits ReducerState.splits AuthorizationVerdict.splits
        ExecutionFact.splits InteractionResolution.splits option.splits if_splits)
qed (auto simp: governed_effect_def)

lemma resolution_matches_total:
  "validate_schema_node F (ir_response_schema request) = Inr () \<Longrightarrow> resolution_matches F request r \<noteq> None"
  using validate_arguments_agrees [of F "ir_response_schema request"]
  by (cases r) (auto simp: resolution_matches_def agrees_def)

lemma trace_total:
  assumes "effect_trace F encoded invocation prepared evs acts e"
  shows "effect_step F encoded ev e \<noteq> None"
  using resolution_matches_total [OF trace_awaiting [OF assms]]
  by (simp add: effect_step_def apply_interaction_def del: not_None_eq split: effect_event.split ReducerState.split option.split)

lemma trace_dispatches:
  "effect_trace F encoded invocation prepared evs acts e \<Longrightarrow>
    length (filter is_dispatch acts) \<le> (if effect_phase (ge_state e) = 0 then 0 else 1) \<and>
    length (filter is_observation acts) \<le> (if effect_phase (ge_state e) < 3 then 0 else 1)"
proof (induction rule: effect_trace.induct)
  case (trace_step evs acts e ev e' a)
  note step = effect_step_phase [OF trace_step.hyps(2)]
  show ?case
    using trace_step.IH step(1) step(2) step(3) by (cases a) (auto split: if_splits)
qed (simp add: governed_effect_def)

lemma trace_granted:
  "effect_trace F encoded invocation prepared evs acts e \<Longrightarrow>
    (ge_state e = RS_Authorized g \<longrightarrow> Dispatch g \<in> set acts) \<and>
    (ge_state e = RS_Started g \<longrightarrow> Dispatch g \<in> set acts \<and> (\<exists>d. Executed (Fact_Started d) \<in> set evs))"
proof (induction rule: effect_trace.induct)
  case (trace_step evs acts e ev e' a)
  then show ?case
    using effect_step_phase(4,5) [OF trace_step.hyps(2), of g] by auto
qed (simp add: governed_effect_def)

lemma trace_bound:
  "effect_trace F encoded invocation prepared evs acts e \<Longrightarrow> Dispatch g \<in> set acts \<Longrightarrow> grant_binds e g"
proof (induction rule: effect_trace.induct)
  case (trace_step evs acts e ev e' a)
  have "grant_binds e g"
    using trace_step effect_step_phase(2) [OF trace_step.hyps(2), of g] by auto
  then show ?case
    using effect_step_identity [OF trace_step.hyps(2)] by (simp add: grant_binds_def)
qed simp

text \<open>
  C26. Along every sequence of durable facts the reducer of a governed invocation returns an action
  without a panic, asks for a dispatch at most once and gives the model at most one observation, and
  a grant it dispatches is for this invocation, this prepared call and this tool revision, with no
  capability and no limit beyond those of the call.
\<close>

theorem governed_dispatch_bound:
  assumes "effect_trace F encoded invocation prepared evs acts e"
  shows "effect_step F encoded ev e \<noteq> None \<and> length (filter is_dispatch acts) \<le> 1 \<and> length (filter is_observation acts) \<le> 1 \<and>
    (\<forall>g. Dispatch g \<in> set acts \<longrightarrow>
       ig_invocation_id g = invocation \<and> ig_prepared_digest g = pc_input_digest prepared \<and>
       ig_tool_name g = pc_tool_name prepared \<and> ig_tool_revision g = pc_tool_revision prepared \<and>
       capabilities (ig_granted_requirements g) \<subseteq> capabilities (pc_requirements prepared) \<and>
       max_duration_ms (ig_granted_requirements g) \<le> max_duration_ms (pc_requirements prepared) \<and>
       max_output_bytes (ig_granted_requirements g) \<le> max_output_bytes (pc_requirements prepared))"
  using trace_total [OF assms] trace_dispatches [OF assms] trace_bound [OF assms] trace_identity [OF assms]
  by (auto simp: grant_binds_def split: if_splits)

text \<open>
  C27. When the answer of the reducer to a fact is the observation that the tool succeeded, a grant
  was dispatched before, the dispatch was started, and the fact carries a complete receipt for this
  invocation, this prepared call and that grant, with a content within the granted output limit.
\<close>

theorem governed_success_evidence:
  assumes "effect_trace F encoded invocation prepared evs acts e"
    and "effect_step F encoded ev e = Some (e', Observation obs)" and "go_outcome obs = Succeeded content truncated"
  shows "\<exists>g r d. Dispatch g \<in> set acts \<and> Executed (Fact_Started d) \<in> set evs \<and>
    ev = Executed (Fact_Completed (Some r) content truncated) \<and> receipt_validate r = Inr () \<and>
    er_invocation_id r = invocation \<and> er_prepared_digest r = pc_input_digest prepared \<and> er_grant_id r = ig_grant_id g \<and>
    er_terminal_classification r = Terminal_Completed \<and> fits encoded g content"
proof -
  obtain g r where "ge_state e = RS_Started g" "ev = Executed (Fact_Completed (Some r) content truncated)"
    "receipt_binds e r g Terminal_Completed" "fits encoded g content"
    using effect_step_success [OF assms(2,3)] by blast
  with trace_granted [OF assms(1), of g] trace_identity [OF assms(1)] show ?thesis
    by (auto simp: receipt_binds_def)
qed

text \<open>A declaration alone never replays: a started effect without a receipt is retried only on the executor's proof.\<close>

lemma recovery_needs_proof:
  "recover_effect StartedNoReceipt replay proved \<in> {RetrySameInvocation, RecoverExecutorReceipt} \<longleftrightarrow>
    proved \<and> replay \<noteq> NeverReplay"
  by (cases replay) (simp_all add: recover_effect_def)

text \<open>A completed invocation is not final: any further fact that is not its own last interaction makes it failed.\<close>

lemma completed_becomes_failed:
  "ge_state e = RS_Completed \<Longrightarrow> effect_step F encoded (Executed f) e = Some (e\<lparr>ge_state := RS_Failed\<rparr>, Fail InvocationConflict)"
  by (simp add: effect_step_def apply_execution_def effect_fail_def)

subsection \<open>A sample invocation\<close>

definition sample_call :: PreparedToolCall where
  "sample_call = \<lparr>pc_model_call_id = ''call-1'', pc_tool_name = ''tool'', pc_tool_revision = ''1'', pc_normalized_arguments = ''{}'',
     pc_input_digest = ''d1'', pc_requirements = \<lparr>capabilities = {FilesystemRead}, max_duration_ms = 5000, max_output_bytes = 100\<rparr>,
     pc_replay_class = ReadOnly, pc_contract_version = 1, pc_access_policy_revision = None, pc_access_resolver_revision = None,
     pc_invocation_accesses = None, pc_max_result_bytes = None, pc_sandbox_requirements = None,
     pc_sandbox_requirements_digest = None\<rparr>"

definition sample_effect_grant :: InvocationGrant where
  "sample_effect_grant = \<lparr>ig_grant_id = ''grant-1'', ig_invocation_id = ''invocation-1'', ig_prepared_digest = ''d1'',
     ig_tool_name = ''tool'', ig_tool_revision = ''1'',
     ig_granted_requirements = \<lparr>capabilities = {FilesystemRead}, max_duration_ms = 1000, max_output_bytes = 50\<rparr>,
     ig_constraints_digest = ''c'', ig_authority_revision = ''7''\<rparr>"

definition sample_effect_receipt :: EffectReceipt where
  "sample_effect_receipt = \<lparr>er_receipt_id = ''receipt-1'', er_invocation_id = ''invocation-1'', er_prepared_digest = ''d1'',
     er_grant_id = ''grant-1'', er_executor_id = ''executor'', er_executor_revision = ''1'',
     er_terminal_classification = Terminal_Completed, er_result_digest = ''r''\<rparr>"

definition sample_events :: "effect_event list" where
  "sample_events = [Authorized_By (Approve sample_effect_grant), Executed (Fact_Started ''attempt-1'')]"

definition sample_effect :: "ReducerState \<Rightarrow> GovernedEffect" where
  "sample_effect st = \<lparr>ge_invocation_id = ''invocation-1'', ge_prepared = sample_call, ge_state = st, ge_last_interaction_resolution = None\<rparr>"

lemmas sample_effect_simps = sample_effect_def sample_call_def sample_effect_grant_def sample_effect_receipt_def sample_events_def

lemma sample_effect_trace:
  "effect_trace sample_floats (\<lambda>_. Some 4) ''invocation-1'' sample_call sample_events [Dispatch sample_effect_grant, NoAction]
     (sample_effect (RS_Started sample_effect_grant))"
proof -
  have "effect_trace sample_floats (\<lambda>_. Some 4) ''invocation-1'' sample_call [] [] (sample_effect RS_Prepared)"
    by (rule trace_new) (simp add: governed_effect_def sample_effect_def)
  moreover have "effect_step sample_floats (\<lambda>_. Some 4) (Authorized_By (Approve sample_effect_grant)) (sample_effect RS_Prepared) =
      Some (sample_effect (RS_Authorized sample_effect_grant), Dispatch sample_effect_grant)"
    by (simp add: effect_step_def apply_authorization_def grant_binds_def sample_effect_simps)
  moreover have "effect_step sample_floats (\<lambda>_. Some 4) (Executed (Fact_Started ''attempt-1'')) (sample_effect (RS_Authorized sample_effect_grant)) =
      Some (sample_effect (RS_Started sample_effect_grant), NoAction)"
    by (simp add: effect_step_def apply_execution_def sample_effect_def)
  ultimately have "effect_trace sample_floats (\<lambda>_. Some 4) ''invocation-1'' sample_call
      (([] @ [Authorized_By (Approve sample_effect_grant)]) @ [Executed (Fact_Started ''attempt-1'')])
      (([] @ [Dispatch sample_effect_grant]) @ [NoAction]) (sample_effect (RS_Started sample_effect_grant))"
    by (blast intro: trace_step)
  then show ?thesis
    by (simp add: sample_events_def)
qed

theorem governed_dispatch_bound_witness:
  "length (filter is_dispatch [Dispatch sample_effect_grant, NoAction]) \<le> 1 \<and>
   capabilities (ig_granted_requirements sample_effect_grant) \<subseteq> capabilities (pc_requirements sample_call)"
  using governed_dispatch_bound [OF sample_effect_trace, of "Executed (Fact_Started ''attempt-2'')"] by simp

theorem governed_success_evidence_witness:
  "\<exists>g r d. Dispatch g \<in> set [Dispatch sample_effect_grant, NoAction] \<and> Executed (Fact_Started d) \<in> set sample_events \<and>
     Executed (Fact_Completed (Some sample_effect_receipt) JNull False) = Executed (Fact_Completed (Some r) JNull False) \<and>
     er_grant_id r = ig_grant_id g"
proof -
  have "effect_step sample_floats (\<lambda>_. Some 4) (Executed (Fact_Completed (Some sample_effect_receipt) JNull False))
      (sample_effect (RS_Started sample_effect_grant)) =
    Some (sample_effect RS_Completed, Observation \<lparr>go_invocation_id = ''invocation-1'', go_prepared_digest = ''d1'',
      go_model_call_id = ''call-1'', go_tool_name = ''tool'', go_outcome = Succeeded JNull False\<rparr>)"
    by (simp add: effect_step_def apply_execution_def receipt_binds_def receipt_validate_def required_text_def fits_def
        observation_def sample_effect_simps)
  from governed_success_evidence [OF sample_effect_trace this] show ?thesis
    by fastforce
qed

end
