(* ===== verification/Plan_Definition.thy ===== *)
theory Plan_Definition
  imports Garive_Prelude
begin

section \<open>Plan definitions\<close>

text \<open>
  The \<open>plan\<close> crate's immutable part: the constructors of \<open>lib.rs\<close> that validate capability references,
  bounds, steps and whole definitions, the digests over a definition and over one step, the check of
  \<open>topology.rs\<close> that the dependencies have no cycle, and the exact decoder of \<open>decode.rs\<close>. A \<open>BTreeSet\<close>
  is a set. The canonical JSON printer (\<open>serde_jcs\<close>), the JSON reader derived by \<open>serde\<close> and SHA-256
  are parameters.

  The main results: the topology check, which peels off ready steps round by round, accepts a list of
  steps exactly when the dependency relation is acyclic; a definition that was admitted is well formed
  in every respect; and the decoder accepts a text only when it is the canonical text of what it returns,
  and reads back every definition it would admit.
\<close>

subsection \<open>Identities and errors\<close>

typedecl plan_tag
typedecl plan_step_tag

type_synonym PlanId = "plan_tag ident"
type_synonym PlanStepId = "plan_step_tag ident"

datatype PlanErrorCode = PlanInvalid | PlanCycle | PlanTransitionInvalid | StepNotReady | PlanBoundExceeded

definition plan_identity :: "string \<Rightarrow> PlanErrorCode + 'tag ident" where
  "plan_identity s = (if s = [] then Inl PlanInvalid else Inr (Ident s))"

subsection \<open>Capability references, bounds and steps\<close>

record PlanCapabilityReference =
  pc_name :: string
  pc_exact_revision :: string

definition plan_capability :: "string \<Rightarrow> string \<Rightarrow> PlanErrorCode + PlanCapabilityReference" where
  "plan_capability n r =
     (if n = [] \<or> r = [] then Inl PlanInvalid
      else Inr \<lparr>pc_name = n, pc_exact_revision = r\<rparr>)"

record PlanBoundsV1 =
  pb_max_steps :: u32
  pb_max_parallel_ready :: u32
  pb_max_total_attempts :: u32
  pb_token_budget :: "u64 option"
  pb_duration_budget_ms :: "u64 option"

definition plan_bounds :: "u32 \<Rightarrow> u32 \<Rightarrow> u32 \<Rightarrow> u64 option \<Rightarrow> u64 option \<Rightarrow> PlanErrorCode + PlanBoundsV1" where
  "plan_bounds steps par attempts tokens duration =
     (if steps = 0 \<or> par = 0 \<or> par > steps \<or> attempts = 0 \<or> tokens = Some 0 \<or> duration = Some 0
      then Inl PlanInvalid
      else Inr \<lparr>pb_max_steps = steps, pb_max_parallel_ready = par, pb_max_total_attempts = attempts,
                pb_token_budget = tokens, pb_duration_budget_ms = duration\<rparr>)"

record PlanStepV1 =
  ps_step_id :: PlanStepId
  ps_objective :: string
  ps_depends_on :: "PlanStepId set"
  ps_completion_criteria :: "string set"
  ps_required_capabilities :: "PlanCapabilityReference set"
  ps_input_bindings :: "string set"
  ps_max_attempts :: u32

text \<open>The collections of a step are given as sequences, and a repeated element is refused.\<close>

definition unique_set :: "'a list \<Rightarrow> PlanErrorCode + 'a set" where
  "unique_set xs = (if card (set xs) = length xs then Inr (set xs) else Inl PlanInvalid)"

definition unique_non_empty :: "string list \<Rightarrow> PlanErrorCode + string set" where
  "unique_non_empty xs =
     (if list_ex (\<lambda>x. x = []) xs \<or> length xs \<noteq> card (set xs) then Inl PlanInvalid else Inr (set xs))"

definition unique_digests :: "string list \<Rightarrow> PlanErrorCode + string set" where
  "unique_digests xs =
     (if list_ex (\<lambda>x. \<not> valid_digest x) xs \<or> length xs \<noteq> card (set xs) then Inl PlanInvalid
      else Inr (set xs))"

definition plan_step ::
  "PlanStepId \<Rightarrow> string \<Rightarrow> PlanStepId list \<Rightarrow> string list \<Rightarrow> PlanCapabilityReference list \<Rightarrow>
   string list \<Rightarrow> u32 \<Rightarrow> PlanErrorCode + PlanStepV1" where
  "plan_step i objective depends_on criteria capabilities inputs attempts =
     rbind (unique_set depends_on) (\<lambda>deps.
     rbind (unique_non_empty criteria) (\<lambda>crit.
     rbind (unique_set capabilities) (\<lambda>caps.
     rbind (unique_digests inputs) (\<lambda>ins.
       if objective = [] \<or> crit = {} \<or> attempts = 0 \<or> i \<in> deps then Inl PlanInvalid
       else Inr \<lparr>ps_step_id = i, ps_objective = objective, ps_depends_on = deps,
                 ps_completion_criteria = crit, ps_required_capabilities = caps,
                 ps_input_bindings = ins, ps_max_attempts = attempts\<rparr>))))"

subsection \<open>The topology check\<close>

text \<open>
  The steps still in \<open>remaining\<close> whose dependencies are all \<open>completed\<close>, in declaration order; one round
  of the loop moves them from \<open>remaining\<close> to \<open>completed\<close>, and the loop ends when no step is ready.
\<close>

definition topo_ready ::
  "PlanStepV1 list \<Rightarrow> (PlanStepId, PlanStepId set) btmap \<Rightarrow> PlanStepId set \<Rightarrow> PlanStepId list" where
  "topo_ready steps remaining completed =
     map ps_step_id (filter (\<lambda>s. case bt_get remaining (ps_step_id s) of
         None \<Rightarrow> False | Some deps \<Rightarrow> deps \<subseteq> completed) steps)"

definition topo_round ::
  "PlanStepId list \<Rightarrow> (PlanStepId, PlanStepId set) btmap \<times> PlanStepId set \<Rightarrow>
   (PlanStepId, PlanStepId set) btmap \<times> PlanStepId set" where
  "topo_round ready = fold (\<lambda>i (remaining, completed). (bt_remove i remaining, insert i completed)) ready"

lemma topo_round_eq: "topo_round is (r, c) = (fold bt_remove is r, set is \<union> c)"
  by (induction "is" arbitrary: r c) (auto simp: topo_round_def)

lemma get_fold_remove: "bt_get (fold bt_remove is m) k = (if k \<in> set is then None else bt_get m k)"
  by (induction "is" arbitrary: m) auto

definition bt_size :: "('k::linorder, 'v) btmap \<Rightarrow> nat" where
  "bt_size m = card (dom (bt_get m))"

lemma finite_dom_bt [simp]: "finite (dom (bt_get m))"
  by (rule bt.finite_dom)

lemma topo_ready_iff:
  "i \<in> set (topo_ready steps r c) \<longleftrightarrow>
   (\<exists>deps. bt_get r i = Some deps \<and> deps \<subseteq> c) \<and> i \<in> ps_step_id ` set steps"
  by (auto simp: topo_ready_def split: option.splits)

lemma bt_size_round:
  assumes "topo_ready steps r c \<noteq> []"
  shows "bt_size (fst (topo_round (topo_ready steps r c) (r, c))) < bt_size r"
proof -
  obtain i where i: "i \<in> set (topo_ready steps r c)"
    using assms by (cases "topo_ready steps r c") auto
  have "dom (bt_get (fold bt_remove (topo_ready steps r c) r)) = dom (bt_get r) - set (topo_ready steps r c)"
    by (auto simp: get_fold_remove split: if_splits)
  moreover have "i \<in> dom (bt_get r)"
    using i by (auto simp: topo_ready_iff)
  ultimately have "dom (bt_get (fold bt_remove (topo_ready steps r c) r)) \<subset> dom (bt_get r)"
    using i by auto
  then show ?thesis
    by (simp add: topo_round_eq bt_size_def psubset_card_mono)
qed

function topo_loop ::
  "PlanStepV1 list \<Rightarrow> (PlanStepId, PlanStepId set) btmap \<Rightarrow> PlanStepId set \<Rightarrow>
   (PlanStepId, PlanStepId set) btmap" where
  "topo_loop steps remaining completed =
     (let ready = topo_ready steps remaining completed in
      if ready = [] then remaining
      else topo_loop steps (fst (topo_round ready (remaining, completed)))
                           (snd (topo_round ready (remaining, completed))))"
  by pat_completeness auto
termination
  by (relation "measure (\<lambda>(_, r, _). bt_size r)") (use bt_size_round in \<open>auto simp: case_prod_beta\<close>)

declare topo_loop.simps [simp del]

definition collect_steps :: "(PlanStepV1 \<Rightarrow> 'v) \<Rightarrow> PlanStepV1 list \<Rightarrow> (PlanStepId, 'v) btmap" where
  "collect_steps f steps = fold (\<lambda>s. bt_insert (ps_step_id s) (f s)) steps bt_empty"

definition validate_acyclic :: "PlanStepV1 list \<Rightarrow> PlanErrorCode + unit" where
  "validate_acyclic steps =
     (if bt_entries (topo_loop steps (collect_steps ps_depends_on steps) {}) = [] then Inr ()
      else Inl PlanCycle)"

subsection \<open>Definitions\<close>

record PlanDefinitionV1 =
  pd_contract :: string
  pd_version :: nat
  pd_plan_id :: PlanId
  pd_plan_revision :: u64
  pd_goal_id :: string
  pd_goal_revision :: u64
  pd_goal_definition_digest :: string
  pd_agent_snapshot_digest :: string
  pd_tool_catalogue_digest :: string
  pd_safety_policy_revision :: string
  pd_steps :: "PlanStepV1 list"
  pd_bounds :: PlanBoundsV1

definition plan_definition_contract :: string where
  "plan_definition_contract = ''garive.plan-definition''"

definition plan_contract_version :: nat where
  "plan_contract_version = 1"

definition plan_validate ::
  "string set \<Rightarrow> string set \<Rightarrow> PlanCapabilityReference set \<Rightarrow> PlanDefinitionV1 \<Rightarrow> PlanErrorCode + unit" where
  "plan_validate required satisfied available d =
     (let ids = set (map ps_step_id (pd_steps d));
          covered = \<Union> (set (map ps_completion_criteria (pd_steps d))) \<union> satisfied in
      if pd_plan_revision d = 0
       \<or> pd_goal_id d = []
       \<or> pd_goal_revision d = 0
       \<or> \<not> valid_digest (pd_goal_definition_digest d)
       \<or> \<not> valid_digest (pd_agent_snapshot_digest d)
       \<or> \<not> valid_digest (pd_tool_catalogue_digest d)
       \<or> pd_safety_policy_revision d = []
       \<or> pd_steps d = []
       \<or> length (pd_steps d) > unat (pb_max_steps (pd_bounds d))
       \<or> card ids \<noteq> length (pd_steps d)
       \<or> list_ex (\<lambda>s. \<not> ps_depends_on s \<subseteq> ids) (pd_steps d)
       \<or> list_ex (\<lambda>s. \<not> ps_completion_criteria s \<subseteq> required) (pd_steps d)
       \<or> list_ex (\<lambda>s. \<not> ps_required_capabilities s \<subseteq> available) (pd_steps d)
       \<or> required = {}
       \<or> \<not> satisfied \<subseteq> required
       \<or> \<not> required \<subseteq> covered
      then Inl PlanInvalid
      else validate_acyclic (pd_steps d))"

definition plan_definition ::
  "PlanId \<Rightarrow> u64 \<Rightarrow> string \<Rightarrow> u64 \<Rightarrow> string \<Rightarrow> string \<Rightarrow> string \<Rightarrow> string \<Rightarrow> PlanStepV1 list \<Rightarrow> PlanBoundsV1 \<Rightarrow>
   string set \<Rightarrow> string set \<Rightarrow> PlanCapabilityReference set \<Rightarrow> PlanErrorCode + PlanDefinitionV1" where
  "plan_definition i revision goal goal_rev goal_digest agent_digest tool_digest policy steps bounds
     required satisfied available =
     (let d = \<lparr>pd_contract = plan_definition_contract, pd_version = plan_contract_version,
               pd_plan_id = i, pd_plan_revision = revision, pd_goal_id = goal, pd_goal_revision = goal_rev,
               pd_goal_definition_digest = goal_digest, pd_agent_snapshot_digest = agent_digest,
               pd_tool_catalogue_digest = tool_digest, pd_safety_policy_revision = policy,
               pd_steps = steps, pd_bounds = bounds\<rparr> in
      rbind (plan_validate required satisfied available d) (\<lambda>_. Inr d))"

definition find_step :: "PlanDefinitionV1 \<Rightarrow> PlanStepId \<Rightarrow> PlanStepV1 option" where
  "find_step d i = find (\<lambda>s. ps_step_id s = i) (pd_steps d)"

subsection \<open>Digests\<close>

definition plan_canonical_json :: "(PlanDefinitionV1 \<Rightarrow> string option) \<Rightarrow> PlanDefinitionV1 \<Rightarrow> PlanErrorCode + string" where
  "plan_canonical_json jcs d = ok_or (jcs d) PlanInvalid"

definition plan_digest ::
  "(string \<Rightarrow> string) \<Rightarrow> (PlanDefinitionV1 \<Rightarrow> string option) \<Rightarrow> PlanDefinitionV1 \<Rightarrow> PlanErrorCode + string" where
  "plan_digest sha jcs d = rbind (plan_canonical_json jcs d) (\<lambda>text. Inr (sha text))"

record StepDigestDocument =
  sd_contract :: string
  sd_version :: nat
  sd_plan_id :: PlanId
  sd_goal_id :: string
  sd_goal_revision :: u64
  sd_goal_definition_digest :: string
  sd_agent_snapshot_digest :: string
  sd_tool_catalogue_digest :: string
  sd_safety_policy_revision :: string
  sd_step :: PlanStepV1

definition plan_step_document :: "PlanDefinitionV1 \<Rightarrow> PlanStepV1 \<Rightarrow> StepDigestDocument" where
  "plan_step_document d s =
     \<lparr>sd_contract = ''garive.plan-step'', sd_version = 1, sd_plan_id = pd_plan_id d,
      sd_goal_id = pd_goal_id d, sd_goal_revision = pd_goal_revision d,
      sd_goal_definition_digest = pd_goal_definition_digest d,
      sd_agent_snapshot_digest = pd_agent_snapshot_digest d,
      sd_tool_catalogue_digest = pd_tool_catalogue_digest d,
      sd_safety_policy_revision = pd_safety_policy_revision d, sd_step = s\<rparr>"

definition plan_step_digest ::
  "(string \<Rightarrow> string) \<Rightarrow> (StepDigestDocument \<Rightarrow> string option) \<Rightarrow> PlanDefinitionV1 \<Rightarrow> PlanStepId \<Rightarrow>
   PlanErrorCode + string" where
  "plan_step_digest sha jcs d i =
     rbind (ok_or (find_step d i) PlanInvalid) (\<lambda>s.
     rbind (ok_or (jcs (plan_step_document d s)) PlanInvalid) (\<lambda>bytes. Inr (sha bytes)))"

subsection \<open>The exact decoder\<close>

record RawCapability =
  rc_name :: string
  rc_exact_revision :: string

record RawPlanStep =
  rs_step_id :: string
  rs_objective :: string
  rs_depends_on :: "string list"
  rs_completion_criteria :: "string list"
  rs_required_capabilities :: "RawCapability list"
  rs_input_bindings :: "string list"
  rs_max_attempts :: u32

record RawPlanBounds =
  rb_max_steps :: u32
  rb_max_parallel_ready :: u32
  rb_max_total_attempts :: u32
  rb_token_budget :: "u64 option"
  rb_duration_budget_ms :: "u64 option"

record RawPlanDefinition =
  rd_contract :: string
  rd_version :: nat
  rd_plan_id :: string
  rd_plan_revision :: u64
  rd_goal_id :: string
  rd_goal_revision :: u64
  rd_goal_definition_digest :: string
  rd_agent_snapshot_digest :: string
  rd_tool_catalogue_digest :: string
  rd_safety_policy_revision :: string
  rd_steps :: "RawPlanStep list"
  rd_bounds :: RawPlanBounds

definition build_capability :: "RawCapability \<Rightarrow> PlanErrorCode + PlanCapabilityReference" where
  "build_capability c = plan_capability (rc_name c) (rc_exact_revision c)"

definition build_step :: "RawPlanStep \<Rightarrow> PlanErrorCode + PlanStepV1" where
  "build_step r =
     rbind (plan_identity (rs_step_id r)) (\<lambda>i.
     rbind (rmap plan_identity (rs_depends_on r)) (\<lambda>deps.
     rbind (rmap build_capability (rs_required_capabilities r)) (\<lambda>caps.
       plan_step i (rs_objective r) deps (rs_completion_criteria r) caps (rs_input_bindings r)
         (rs_max_attempts r))))"

definition plan_from_canonical_json ::
  "(string \<Rightarrow> RawPlanDefinition option) \<Rightarrow> (PlanDefinitionV1 \<Rightarrow> string option) \<Rightarrow> string \<Rightarrow>
   string set \<Rightarrow> string set \<Rightarrow> PlanCapabilityReference set \<Rightarrow> PlanErrorCode + PlanDefinitionV1" where
  "plan_from_canonical_json parse jcs json required satisfied available =
     rbind (ok_or (parse json) PlanInvalid) (\<lambda>raw.
     if rd_contract raw \<noteq> plan_definition_contract \<or> rd_version raw \<noteq> plan_contract_version
     then Inl PlanInvalid
     else
     rbind (plan_bounds (rb_max_steps (rd_bounds raw)) (rb_max_parallel_ready (rd_bounds raw))
              (rb_max_total_attempts (rd_bounds raw)) (rb_token_budget (rd_bounds raw))
              (rb_duration_budget_ms (rd_bounds raw))) (\<lambda>bounds.
     rbind (rmap build_step (rd_steps raw)) (\<lambda>steps.
     rbind (plan_identity (rd_plan_id raw)) (\<lambda>i.
     rbind (plan_definition i (rd_plan_revision raw) (rd_goal_id raw) (rd_goal_revision raw)
              (rd_goal_definition_digest raw) (rd_agent_snapshot_digest raw)
              (rd_tool_catalogue_digest raw) (rd_safety_policy_revision raw) steps bounds
              required satisfied available) (\<lambda>d.
     rbind (plan_canonical_json jcs d) (\<lambda>text.
       if text \<noteq> json then Inl PlanInvalid else Inr d))))))"

subsection \<open>The topology check decides acyclicity\<close>

definition declared :: "PlanStepV1 list \<Rightarrow> PlanStepId set" where
  "declared steps = ps_step_id ` set steps"

definition dependencies :: "PlanStepV1 list \<Rightarrow> (PlanStepId \<times> PlanStepId) set" where
  "dependencies steps = {(d, ps_step_id s) | d s. s \<in> set steps \<and> d \<in> ps_depends_on s}"

text \<open>What the rest of the validation guarantees the topology check: distinct steps, and dependencies on declared steps.\<close>

definition well_declared :: "PlanStepV1 list \<Rightarrow> bool" where
  "well_declared steps \<longleftrightarrow>
     distinct (map ps_step_id steps) \<and> (\<forall>s \<in> set steps. ps_depends_on s \<subseteq> declared steps)"

lemma collect_fold_other:
  "i \<notin> declared steps \<Longrightarrow> bt_get (fold (\<lambda>s. bt_insert (ps_step_id s) (f s)) steps m) i = bt_get m i"
  by (induction steps arbitrary: m) (auto simp: declared_def)

lemma collect_fold_step:
  "distinct (map ps_step_id steps) \<Longrightarrow> s \<in> set steps \<Longrightarrow>
   bt_get (fold (\<lambda>s. bt_insert (ps_step_id s) (f s)) steps m) (ps_step_id s) = Some (f s)"
  for s :: PlanStepV1
proof (induction steps arbitrary: m)
  case (Cons t ts)
  show ?case
  proof (cases "s = t")
    case True
    with Cons.prems have "ps_step_id s \<notin> declared ts"
      by (auto simp: declared_def)
    with True show ?thesis
      by (simp add: collect_fold_other)
  qed (use Cons in auto)
qed simp

lemma step_unique:
  "distinct (map ps_step_id steps) \<Longrightarrow> s \<in> set steps \<Longrightarrow> t \<in> set steps \<Longrightarrow>
   ps_step_id s = ps_step_id t \<Longrightarrow> s = t"
  for s t :: PlanStepV1
  by (auto simp: distinct_map dest: inj_onD)

lemma collect_get:
  assumes "distinct (map ps_step_id steps)"
  shows "bt_get (collect_steps f steps) i = Some v \<longleftrightarrow> (\<exists>s \<in> set steps. ps_step_id s = i \<and> f s = v)"
proof (cases "i \<in> declared steps")
  case True
  then obtain s where s: "s \<in> set steps" "i = ps_step_id s"
    by (auto simp: declared_def)
  then have "bt_get (collect_steps f steps) i = Some (f s)"
    using assms by (simp add: collect_steps_def collect_fold_step)
  moreover have "t = s" if "t \<in> set steps" "ps_step_id t = i" for t
    using that s step_unique [OF assms] by blast
  ultimately show ?thesis
    using s by (metis option.inject)
next
  case False
  then show ?thesis
    by (auto simp: collect_steps_def collect_fold_other declared_def)
qed

text \<open>
  The invariant of the loop: every declared step is either completed or remains with its declared
  dependencies, and every completed step is founded, that is, no infinite chain of dependencies leads
  to it.
\<close>

definition topo_inv ::
  "PlanStepV1 list \<Rightarrow> (PlanStepId, PlanStepId set) btmap \<Rightarrow> PlanStepId set \<Rightarrow> bool" where
  "topo_inv steps r c \<longleftrightarrow>
     (\<forall>i deps. bt_get r i = Some deps \<longleftrightarrow>
        i \<notin> c \<and> (\<exists>s \<in> set steps. ps_step_id s = i \<and> ps_depends_on s = deps)) \<and>
     c \<subseteq> Wellfounded.acc (dependencies steps) \<and> c \<subseteq> declared steps"

lemma topo_inv_remaining:
  assumes "topo_inv steps r c" and "i \<in> declared steps" and "i \<notin> c"
  shows "\<exists>deps. bt_get r i = Some deps"
proof -
  obtain s where "s \<in> set steps" "ps_step_id s = i"
    using assms(2) by (auto simp: declared_def)
  with assms(1,3) have "bt_get r i = Some (ps_depends_on s)"
    unfolding topo_inv_def by blast
  then show ?thesis ..
qed

lemma topo_inv_start: "distinct (map ps_step_id steps) \<Longrightarrow> topo_inv steps (collect_steps ps_depends_on steps) {}"
  by (simp add: topo_inv_def collect_get)

lemma topo_ready_founded:
  assumes "distinct (map ps_step_id steps)" and "topo_inv steps r c" and "i \<in> set (topo_ready steps r c)"
  shows "i \<in> Wellfounded.acc (dependencies steps)"
proof (rule accI)
  fix d assume "(d, i) \<in> dependencies steps"
  then obtain s where s: "s \<in> set steps" "ps_step_id s = i" "d \<in> ps_depends_on s"
    by (auto simp: dependencies_def)
  obtain deps t where "deps \<subseteq> c" "t \<in> set steps" "ps_step_id t = i" "ps_depends_on t = deps"
    using assms(2,3) by (auto simp: topo_ready_iff topo_inv_def)
  with s step_unique [OF assms(1)] have "d \<in> c"
    by blast
  with assms(2) show "d \<in> Wellfounded.acc (dependencies steps)"
    by (auto simp: topo_inv_def)
qed

lemma topo_inv_round:
  assumes "distinct (map ps_step_id steps)" and "topo_inv steps r c"
  defines "ready \<equiv> topo_ready steps r c"
  shows "topo_inv steps (fst (topo_round ready (r, c))) (snd (topo_round ready (r, c)))"
  using assms(2) topo_ready_founded [OF assms(1,2)]
  by (auto simp: topo_inv_def topo_round_eq get_fold_remove ready_def declared_def topo_ready_iff)

lemma topo_loop_end:
  assumes "distinct (map ps_step_id steps)" and "topo_inv steps r c"
  shows "\<exists>c'. topo_inv steps (topo_loop steps r c) c' \<and> topo_ready steps (topo_loop steps r c) c' = []"
  using assms
proof (induction steps r c rule: topo_loop.induct)
  case (1 steps r c)
  show ?case
  proof (cases "topo_ready steps r c = []")
    case True
    then show ?thesis
      using 1 by (subst (1 2) topo_loop.simps) (auto simp: Let_def)
  next
    case False
    then have step: "topo_loop steps r c =
        topo_loop steps (fst (topo_round (topo_ready steps r c) (r, c)))
          (snd (topo_round (topo_ready steps r c) (r, c)))"
      by (subst topo_loop.simps) (simp add: Let_def)
    show ?thesis
      unfolding step using 1 False topo_inv_round by blast
  qed
qed

lemma finite_dependencies:
  assumes "well_declared steps"
  shows "finite (dependencies steps)"
proof (rule finite_subset)
  show "dependencies steps \<subseteq> declared steps \<times> declared steps"
    using assms by (auto simp: dependencies_def well_declared_def declared_def)
  show "finite (declared steps \<times> declared steps)"
    by (simp add: declared_def)
qed

lemma topo_empty_wf:
  assumes "well_declared steps" and "topo_inv steps r c" and "bt_entries r = []"
  shows "wf (dependencies steps)"
proof (rule acc_wfI, rule allI)
  fix x
  have "declared steps \<subseteq> c"
    using topo_inv_remaining [OF assms(2)] assms(3) by (auto simp: bt.get_entries)
  then have "i \<in> Wellfounded.acc (dependencies steps)" if "i \<in> declared steps" for i
    using that assms(2) by (auto simp: topo_inv_def)
  moreover have "x \<in> Wellfounded.acc (dependencies steps)" if "x \<notin> declared steps"
    by (rule accI) (use that in \<open>auto simp: dependencies_def declared_def\<close>)
  ultimately show "x \<in> Wellfounded.acc (dependencies steps)"
    by blast
qed

lemma topo_stuck_empty:
  assumes "well_declared steps" and "topo_inv steps r c" and "topo_ready steps r c = []"
    and "wf (dependencies steps)"
  shows "bt_entries r = []"
proof (rule ccontr)
  assume "bt_entries r \<noteq> []"
  then obtain k where "k \<in> dom (bt_get r)"
    by (cases "bt_entries r") (auto simp: bt.get_entries)
  then obtain m where m: "m \<in> dom (bt_get r)" "\<And>d. (d, m) \<in> dependencies steps \<Longrightarrow> d \<notin> dom (bt_get r)"
    using assms(4) wfE_min [of "dependencies steps" k "dom (bt_get r)"] by metis
  from m(1) obtain deps where deps: "bt_get r m = Some deps"
    by auto
  then obtain s where s: "s \<in> set steps" "ps_step_id s = m" "bt_get r m = Some (ps_depends_on s)"
    using assms(2) unfolding topo_inv_def by metis
  have "ps_depends_on s \<subseteq> c"
  proof
    fix d assume d: "d \<in> ps_depends_on s"
    then have "d \<notin> dom (bt_get r)"
      using m(2) s by (auto simp: dependencies_def)
    moreover have "d \<in> declared steps"
      using assms(1) s(1) d by (auto simp: well_declared_def)
    ultimately show "d \<in> c"
      using topo_inv_remaining [OF assms(2)] by blast
  qed
  with s have "m \<in> set (topo_ready steps r c)"
    by (auto simp: topo_ready_iff)
  with assms(3) show False
    by simp
qed

lemma validate_acyclic_iff:
  assumes "well_declared steps"
  shows "validate_acyclic steps = (if acyclic (dependencies steps) then Inr () else Inl PlanCycle)"
proof -
  let ?r = "topo_loop steps (collect_steps ps_depends_on steps) {}"
  obtain c where c: "topo_inv steps ?r c" "topo_ready steps ?r c = []"
    using assms topo_loop_end topo_inv_start by (metis well_declared_def)
  have "acyclic (dependencies steps) \<longleftrightarrow> wf (dependencies steps)"
    using finite_acyclic_wf wf_acyclic finite_dependencies [OF assms] by blast
  also have "\<dots> \<longleftrightarrow> bt_entries ?r = []"
    using topo_empty_wf topo_stuck_empty assms c by blast
  finally show ?thesis
    by (simp add: validate_acyclic_def)
qed

subsection \<open>What an admitted definition is\<close>

definition step_ok :: "PlanStepV1 \<Rightarrow> bool" where
  "step_ok s \<longleftrightarrow> finite (ps_depends_on s) \<and> ps_objective s \<noteq> [] \<and> ps_max_attempts s \<noteq> 0 \<and>
     ps_step_id s \<notin> ps_depends_on s \<and> ps_completion_criteria s \<noteq> {} \<and> [] \<notin> ps_completion_criteria s \<and>
     (\<forall>x \<in> ps_input_bindings s. valid_digest x)"

definition bounds_ok :: "PlanBoundsV1 \<Rightarrow> bool" where
  "bounds_ok b \<longleftrightarrow> pb_max_parallel_ready b \<noteq> 0 \<and> pb_max_parallel_ready b \<le> pb_max_steps b \<and>
     pb_max_total_attempts b \<noteq> 0 \<and> pb_token_budget b \<noteq> Some 0 \<and> pb_duration_budget_ms b \<noteq> Some 0"

definition graph_ok :: "PlanStepV1 list \<Rightarrow> bool" where
  "graph_ok steps \<longleftrightarrow> steps \<noteq> [] \<and> well_declared steps \<and> acyclic (dependencies steps)"

definition header_ok :: "PlanDefinitionV1 \<Rightarrow> bool" where
  "header_ok d \<longleftrightarrow> pd_contract d = plan_definition_contract \<and> pd_version d = plan_contract_version \<and>
     pd_plan_revision d \<noteq> 0 \<and> pd_goal_id d \<noteq> [] \<and> pd_goal_revision d \<noteq> 0 \<and>
     valid_digest (pd_goal_definition_digest d) \<and> valid_digest (pd_agent_snapshot_digest d) \<and>
     valid_digest (pd_tool_catalogue_digest d) \<and> pd_safety_policy_revision d \<noteq> []"

definition coverage_ok ::
  "string set \<Rightarrow> string set \<Rightarrow> PlanCapabilityReference set \<Rightarrow> PlanStepV1 list \<Rightarrow> bool" where
  "coverage_ok required satisfied available steps \<longleftrightarrow>
     required \<noteq> {} \<and> \<Union> (ps_completion_criteria ` set steps) \<union> satisfied = required \<and>
     \<Union> (ps_required_capabilities ` set steps) \<subseteq> available"

lemma unique_iff:
  "unique_set xs = Inr A \<longleftrightarrow> distinct xs \<and> A = set xs"
  "unique_non_empty ys = Inr B \<longleftrightarrow> distinct ys \<and> B = set ys \<and> [] \<notin> set ys"
  "unique_digests ys = Inr B \<longleftrightarrow> distinct ys \<and> B = set ys \<and> (\<forall>y \<in> set ys. valid_digest y)"
  by (auto simp: unique_set_def unique_non_empty_def unique_digests_def list_ex_iff distinct_card
      intro: card_distinct sym)

lemma plan_step_iff:
  "plan_step i objective deps criteria caps inputs attempts = Inr s \<longleftrightarrow>
   step_ok s \<and> distinct deps \<and> distinct criteria \<and> distinct caps \<and> distinct inputs \<and>
   s = \<lparr>ps_step_id = i, ps_objective = objective, ps_depends_on = set deps,
        ps_completion_criteria = set criteria, ps_required_capabilities = set caps,
        ps_input_bindings = set inputs, ps_max_attempts = attempts\<rparr>"
  by (auto simp: plan_step_def rbind_eq_Inr unique_iff step_ok_def)

lemma plan_bounds_iff:
  "plan_bounds steps par attempts tokens duration = Inr b \<longleftrightarrow>
   bounds_ok b \<and> b = \<lparr>pb_max_steps = steps, pb_max_parallel_ready = par,
     pb_max_total_attempts = attempts, pb_token_budget = tokens, pb_duration_budget_ms = duration\<rparr>"
  by (auto simp: plan_bounds_def bounds_ok_def)

lemma validate_steps_iff:
  "card (set (map ps_step_id steps)) = length steps \<and> list_all (\<lambda>s. ps_depends_on s \<subseteq> set (map ps_step_id steps)) steps \<longleftrightarrow>
   well_declared steps" for steps :: "PlanStepV1 list"
proof -
  have "card (set (map ps_step_id steps)) = length steps \<longleftrightarrow> distinct (map ps_step_id steps)"
    using card_distinct [of "map ps_step_id steps"] distinct_card [of "map ps_step_id steps"] by auto
  then show ?thesis
    by (auto simp: well_declared_def declared_def list_all_iff)
qed

lemma plan_validate_iff:
  "plan_validate required satisfied available d = Inr () \<longleftrightarrow>
   pd_plan_revision d \<noteq> 0 \<and> pd_goal_id d \<noteq> [] \<and> pd_goal_revision d \<noteq> 0 \<and>
   valid_digest (pd_goal_definition_digest d) \<and> valid_digest (pd_agent_snapshot_digest d) \<and>
   valid_digest (pd_tool_catalogue_digest d) \<and> pd_safety_policy_revision d \<noteq> [] \<and>
   length (pd_steps d) \<le> unat (pb_max_steps (pd_bounds d)) \<and> graph_ok (pd_steps d) \<and>
   coverage_ok required satisfied available (pd_steps d)"
proof -
  have "plan_validate required satisfied available d = Inr () \<longleftrightarrow>
    pd_plan_revision d \<noteq> 0 \<and> pd_goal_id d \<noteq> [] \<and> pd_goal_revision d \<noteq> 0 \<and>
    valid_digest (pd_goal_definition_digest d) \<and> valid_digest (pd_agent_snapshot_digest d) \<and>
    valid_digest (pd_tool_catalogue_digest d) \<and> pd_safety_policy_revision d \<noteq> [] \<and>
    length (pd_steps d) \<le> unat (pb_max_steps (pd_bounds d)) \<and> pd_steps d \<noteq> [] \<and>
    well_declared (pd_steps d) \<and> coverage_ok required satisfied available (pd_steps d) \<and>
    validate_acyclic (pd_steps d) = Inr ()"
    unfolding validate_steps_iff [symmetric] plan_validate_def Let_def coverage_ok_def
    by (auto simp: list_ex_iff list_all_iff)
  then show ?thesis
    using validate_acyclic_iff [of "pd_steps d"] by (auto simp: graph_ok_def split: if_splits)
qed

text \<open>The whole contract of an admitted definition, which its constructors leave no way around.\<close>

definition plan_ok ::
  "string set \<Rightarrow> string set \<Rightarrow> PlanCapabilityReference set \<Rightarrow> PlanDefinitionV1 \<Rightarrow> bool" where
  "plan_ok required satisfied available d \<longleftrightarrow>
     header_ok d \<and> bounds_ok (pd_bounds d) \<and> (\<forall>s \<in> set (pd_steps d). step_ok s) \<and>
     length (pd_steps d) \<le> unat (pb_max_steps (pd_bounds d)) \<and> graph_ok (pd_steps d) \<and>
     coverage_ok required satisfied available (pd_steps d)"

lemma plan_definition_iff:
  "plan_definition i revision goal goal_rev goal_digest agent_digest tool_digest policy steps bounds
     required satisfied available = Inr d \<and> bounds_ok bounds \<and> (\<forall>s \<in> set steps. step_ok s) \<longleftrightarrow>
   plan_ok required satisfied available d \<and> pd_plan_id d = i \<and> pd_plan_revision d = revision \<and>
   pd_goal_id d = goal \<and> pd_goal_revision d = goal_rev \<and> pd_goal_definition_digest d = goal_digest \<and>
   pd_agent_snapshot_digest d = agent_digest \<and> pd_tool_catalogue_digest d = tool_digest \<and>
   pd_safety_policy_revision d = policy \<and> pd_steps d = steps \<and> pd_bounds d = bounds"
  by (cases d) (auto simp: plan_definition_def Let_def rbind_eq_Inr plan_validate_iff plan_ok_def header_ok_def)

subsection \<open>The decoder is exact\<close>

text \<open>
  A raw document describes a definition when it has the same content, with every set written as a
  sequence without repetitions.
\<close>

definition raw_capability :: "PlanCapabilityReference \<Rightarrow> RawCapability" where
  "raw_capability c = \<lparr>rc_name = pc_name c, rc_exact_revision = pc_exact_revision c\<rparr>"

definition describes_step :: "RawPlanStep \<Rightarrow> PlanStepV1 \<Rightarrow> bool" where
  "describes_step r s \<longleftrightarrow>
     rs_step_id r = as_str (ps_step_id s) \<and> rs_objective r = ps_objective s \<and>
     rs_max_attempts r = ps_max_attempts s \<and>
     distinct (rs_depends_on r) \<and> set (rs_depends_on r) = as_str ` ps_depends_on s \<and>
     distinct (rs_completion_criteria r) \<and> set (rs_completion_criteria r) = ps_completion_criteria s \<and>
     distinct (rs_required_capabilities r) \<and>
     set (rs_required_capabilities r) = raw_capability ` ps_required_capabilities s \<and>
     distinct (rs_input_bindings r) \<and> set (rs_input_bindings r) = ps_input_bindings s"

definition describes :: "RawPlanDefinition \<Rightarrow> PlanDefinitionV1 \<Rightarrow> bool" where
  "describes raw d \<longleftrightarrow>
     rd_contract raw = pd_contract d \<and> rd_version raw = pd_version d \<and>
     rd_plan_id raw = as_str (pd_plan_id d) \<and> rd_plan_revision raw = pd_plan_revision d \<and>
     rd_goal_id raw = pd_goal_id d \<and> rd_goal_revision raw = pd_goal_revision d \<and>
     rd_goal_definition_digest raw = pd_goal_definition_digest d \<and>
     rd_agent_snapshot_digest raw = pd_agent_snapshot_digest d \<and>
     rd_tool_catalogue_digest raw = pd_tool_catalogue_digest d \<and>
     rd_safety_policy_revision raw = pd_safety_policy_revision d \<and>
     list_all2 describes_step (rd_steps raw) (pd_steps d) \<and>
     rd_bounds raw = \<lparr>rb_max_steps = pb_max_steps (pd_bounds d),
       rb_max_parallel_ready = pb_max_parallel_ready (pd_bounds d),
       rb_max_total_attempts = pb_max_total_attempts (pd_bounds d),
       rb_token_budget = pb_token_budget (pd_bounds d),
       rb_duration_budget_ms = pb_duration_budget_ms (pd_bounds d)\<rparr>"

text \<open>What the identity and capability constructors guarantee of every name in a definition.\<close>

definition capability_named :: "PlanCapabilityReference \<Rightarrow> bool" where
  "capability_named c \<longleftrightarrow> pc_name c \<noteq> [] \<and> pc_exact_revision c \<noteq> []"

definition step_named :: "PlanStepV1 \<Rightarrow> bool" where
  "step_named s \<longleftrightarrow> as_str (ps_step_id s) \<noteq> [] \<and> (\<forall>i \<in> ps_depends_on s. as_str i \<noteq> []) \<and>
     (\<forall>c \<in> ps_required_capabilities s. capability_named c)"

definition plan_named :: "PlanDefinitionV1 \<Rightarrow> bool" where
  "plan_named d \<longleftrightarrow> as_str (pd_plan_id d) \<noteq> [] \<and> (\<forall>s \<in> set (pd_steps d). step_named s)"

lemma plan_identity_iff: "plan_identity s = Inr i \<longleftrightarrow> as_str i \<noteq> [] \<and> s = as_str i"
  by (cases i) (auto simp: plan_identity_def)

lemma build_capability_iff:
  "build_capability r = Inr c \<longleftrightarrow> capability_named c \<and> r = raw_capability c"
  by (cases c; cases r) (auto simp: capability_named_def build_capability_def plan_capability_def raw_capability_def)

lemma inj_raw_capability: "inj raw_capability"
  by (rule injI) (auto simp: raw_capability_def)

lemma build_step_iff: "build_step r = Inr s \<longleftrightarrow> step_ok s \<and> step_named s \<and> describes_step r s"
proof
  assume "build_step r = Inr s"
  then obtain i deps caps where "plan_identity (rs_step_id r) = Inr i"
    "rmap plan_identity (rs_depends_on r) = Inr deps"
    "rmap build_capability (rs_required_capabilities r) = Inr caps"
    "plan_step i (rs_objective r) deps (rs_completion_criteria r) caps (rs_input_bindings r)
       (rs_max_attempts r) = Inr s"
    by (auto simp: build_step_def rbind_eq_Inr)
  then show "step_ok s \<and> step_named s \<and> describes_step r s"
    by (auto simp: rmap_eq_Inr plan_identity_iff build_capability_iff list_all2_map_eq plan_step_iff
        step_named_def describes_step_def distinct_map
        intro: inj_on_subset [OF inj_as_str] inj_on_subset [OF inj_raw_capability])
next
  assume s: "step_ok s \<and> step_named s \<and> describes_step r s"
  then obtain deps where deps: "rs_depends_on r = map as_str deps" "distinct deps" "set deps = ps_depends_on s"
    unfolding describes_step_def using list_of_image [OF inj_as_str] by metis
  from s obtain caps where caps: "rs_required_capabilities r = map raw_capability caps" "distinct caps"
    "set caps = ps_required_capabilities s"
    unfolding describes_step_def using list_of_image [OF inj_raw_capability] by metis
  have "rmap plan_identity (rs_depends_on r) = Inr deps" "rmap build_capability (rs_required_capabilities r) = Inr caps"
    using s deps caps by (auto simp: rmap_eq_Inr plan_identity_iff build_capability_iff list_all2_map_eq step_named_def)
  moreover have "plan_identity (rs_step_id r) = Inr (ps_step_id s)"
    using s by (simp add: plan_identity_iff step_named_def describes_step_def)
  ultimately show "build_step r = Inr s"
    using s deps caps by (simp add: build_step_def plan_step_iff describes_step_def)
qed

lemma build_steps_iff:
  "rmap build_step rs = Inr steps \<longleftrightarrow>
   (\<forall>s \<in> set steps. step_ok s \<and> step_named s) \<and> list_all2 describes_step rs steps"
  by (induction steps arbitrary: rs) (auto simp: rmap_eq_Inr build_step_iff list_all2_Cons2)

lemma plan_from_canonical_json_sound:
  assumes "plan_from_canonical_json parse jcs json required satisfied available = Inr d"
  shows "(\<exists>raw. parse json = Some raw \<and> describes raw d) \<and>
    plan_ok required satisfied available d \<and> plan_named d \<and> jcs d = Some json"
proof -
  from assms obtain raw bounds steps i where raw: "parse json = Some raw"
    "rd_contract raw = plan_definition_contract" "rd_version raw = plan_contract_version"
    "plan_bounds (rb_max_steps (rd_bounds raw)) (rb_max_parallel_ready (rd_bounds raw))
       (rb_max_total_attempts (rd_bounds raw)) (rb_token_budget (rd_bounds raw))
       (rb_duration_budget_ms (rd_bounds raw)) = Inr bounds"
    "rmap build_step (rd_steps raw) = Inr steps" "plan_identity (rd_plan_id raw) = Inr i"
    and d: "plan_definition i (rd_plan_revision raw) (rd_goal_id raw) (rd_goal_revision raw)
      (rd_goal_definition_digest raw) (rd_agent_snapshot_digest raw) (rd_tool_catalogue_digest raw)
      (rd_safety_policy_revision raw) steps bounds required satisfied available = Inr d"
    and canon: "jcs d = Some json"
    by (auto simp: plan_from_canonical_json_def plan_canonical_json_def result_simps)
  have steps: "(\<forall>s \<in> set steps. step_ok s \<and> step_named s) \<and> list_all2 describes_step (rd_steps raw) steps"
    using raw(5) by (simp add: build_steps_iff)
  have bounds: "bounds_ok bounds"
    using raw(4) unfolding plan_bounds_iff by blast
  note ok = plan_definition_iff [THEN iffD1, OF conjI, OF d conjI, OF bounds]
  show ?thesis
    using raw steps ok canon
    by (auto simp: describes_def plan_named_def plan_identity_iff plan_bounds_iff plan_ok_def header_ok_def)
qed

lemma plan_from_canonical_json_complete:
  assumes raw: "parse json = Some raw" "describes raw d"
    and r: "plan_ok required satisfied available d" "plan_named d" "jcs d = Some json"
  shows "plan_from_canonical_json parse jcs json required satisfied available = Inr d"
proof -
  have "plan_definition (pd_plan_id d) (pd_plan_revision d) (pd_goal_id d) (pd_goal_revision d)
     (pd_goal_definition_digest d) (pd_agent_snapshot_digest d) (pd_tool_catalogue_digest d)
     (pd_safety_policy_revision d) (pd_steps d) (pd_bounds d) required satisfied available = Inr d"
    using r plan_definition_iff by blast
  moreover have "rmap build_step (rd_steps raw) = Inr (pd_steps d)"
    using r raw(2) by (simp add: build_steps_iff describes_def plan_ok_def plan_named_def)
  moreover have "plan_identity (rd_plan_id raw) = Inr (pd_plan_id d)"
    using r raw(2) by (simp add: plan_identity_iff describes_def plan_named_def)
  moreover have "plan_bounds (pb_max_steps (pd_bounds d)) (pb_max_parallel_ready (pd_bounds d))
      (pb_max_total_attempts (pd_bounds d)) (pb_token_budget (pd_bounds d))
      (pb_duration_budget_ms (pd_bounds d)) = Inr (pd_bounds d)"
    using r by (simp add: plan_bounds_iff plan_ok_def)
  ultimately show ?thesis
    using r raw
    by (simp add: plan_from_canonical_json_def plan_canonical_json_def describes_def plan_ok_def header_ok_def)
qed

end
