(* ===== verification/Plan_Lifecycle.thy ===== *)
theory Plan_Lifecycle
  imports Plan_Definition
begin

section \<open>Plan progress\<close>

text \<open>
  The pure reducer of \<open>lifecycle.rs\<close>: a snapshot of one plan revision and the transitions on it. The
  snapshot indexes the progress map by the declared steps, which panics if an entry is missing; that
  is a fault of its own here, \<open>PlanPanic\<close>, and it is shown not to happen.

  Every transition that succeeds is one of four kinds of edit (the relation \<open>plan_edit\<close>): the plan
  state moves, one step moves, a claimed step starts, or completed steps are carried forward; some are
  followed by a refresh that makes pending steps ready. The invariants are proved over these edits.
\<close>

subsection \<open>Snapshots\<close>

datatype PlanState = Proposed | Adopted | Running | Suspended | Completed | Failed | Superseded | Rejected

datatype StepState = Pending | Ready | Claimed | Running | Suspended | Completed | Failed

definition plan_is_terminal :: "PlanState \<Rightarrow> bool" where
  "plan_is_terminal s \<longleftrightarrow>
     s \<in> {PlanState.Completed, PlanState.Failed, PlanState.Superseded, PlanState.Rejected}"

record StepProgress =
  sp_state :: StepState
  sp_attempts :: u32

datatype PlanTransition =
    Adopt
  | AdoptWithCarryForward "PlanStepId set"
  | Reject
  | Suspend
  | Resume
  | Supersede
  | Fail
  | Complete bool
  | Claim PlanStepId
  | ExpireClaim PlanStepId
  | Start PlanStepId
  | CompleteStep PlanStepId
  | SuspendStep PlanStepId
  | ResumeStep PlanStepId
  | FailStep PlanStepId
  | RetryStep PlanStepId

record PlanSnapshot =
  sn_definition :: PlanDefinitionV1
  sn_state :: PlanState
  sn_steps :: "(PlanStepId, StepProgress) btmap"
  sn_total_attempts :: u32

datatype plan_fault = PlanError PlanErrorCode | PlanPanic

definition plan_snapshot :: "PlanDefinitionV1 \<Rightarrow> PlanSnapshot" where
  "plan_snapshot d =
     \<lparr>sn_definition = d, sn_state = Proposed,
      sn_steps = collect_steps (\<lambda>_. \<lparr>sp_state = Pending, sp_attempts = 0\<rparr>) (pd_steps d),
      sn_total_attempts = 0\<rparr>"

definition ready_steps :: "PlanSnapshot \<Rightarrow> plan_fault + PlanStepId list" where
  "ready_steps p =
     rbind (rmap (\<lambda>s. rbind (ok_or (bt_get (sn_steps p) (ps_step_id s)) PlanPanic)
                   (\<lambda>pr. Inr (ps_step_id s, sp_state pr = Ready))) (pd_steps (sn_definition p)))
       (\<lambda>flags. Inr (map fst (filter snd flags)))"

subsection \<open>Helpers of the reducer\<close>

definition require_state :: "PlanSnapshot \<Rightarrow> PlanStepId \<Rightarrow> StepState \<Rightarrow> plan_fault + StepProgress" where
  "require_state p i st =
     (case bt_get (sn_steps p) i of
        None \<Rightarrow> Inl (PlanError PlanTransitionInvalid)
      | Some pr \<Rightarrow> if sp_state pr = st then Inr pr else Inl (PlanError PlanTransitionInvalid))"

definition set_progress :: "PlanStepId \<Rightarrow> StepProgress \<Rightarrow> PlanSnapshot \<Rightarrow> PlanSnapshot" where
  "set_progress i pr p = p\<lparr>sn_steps := bt_insert i pr (sn_steps p)\<rparr>"

text \<open>\<open>next.require_state(&step_id, from)?.state = to\<close>\<close>

definition move_step :: "PlanStepId \<Rightarrow> StepState \<Rightarrow> StepState \<Rightarrow> PlanSnapshot \<Rightarrow> plan_fault + PlanSnapshot" where
  "move_step i from to p =
     rbind (require_state p i from) (\<lambda>pr. Inr (set_progress i (pr\<lparr>sp_state := to\<rparr>) p))"

definition active_count :: "PlanSnapshot \<Rightarrow> u32" where
  "active_count p =
     of_nat (length (filter (\<lambda>pr. sp_state pr \<in> {Claimed, StepState.Running}) (bt_values (sn_steps p))))"

definition completed_steps :: "PlanSnapshot \<Rightarrow> PlanStepId set" where
  "completed_steps p =
     set (map fst (filter (\<lambda>e. sp_state (snd e) = StepState.Completed) (bt_entries (sn_steps p))))"

definition refresh_step ::
  "PlanStepId set \<Rightarrow> (PlanStepId, StepProgress) btmap \<Rightarrow> PlanStepV1 \<Rightarrow>
   plan_fault + (PlanStepId, StepProgress) btmap" where
  "refresh_step completed steps s =
     rbind (ok_or (bt_get steps (ps_step_id s)) PlanPanic) (\<lambda>pr.
       Inr (if sp_state pr = Pending \<and> sp_attempts pr < ps_max_attempts s \<and> ps_depends_on s \<subseteq> completed
            then bt_insert (ps_step_id s) (pr\<lparr>sp_state := Ready\<rparr>) steps
            else steps))"

definition refresh_ready :: "PlanSnapshot \<Rightarrow> plan_fault + PlanSnapshot" where
  "refresh_ready p =
     (if sn_state p \<notin> {Adopted, PlanState.Running} \<or>
         sn_total_attempts p \<ge> pb_max_total_attempts (pd_bounds (sn_definition p))
      then Inr p
      else rbind (run (refresh_step (completed_steps p)) (sn_steps p) (pd_steps (sn_definition p)))
             (\<lambda>steps. Inr (p\<lparr>sn_steps := steps\<rparr>)))"

definition plan_claim :: "PlanStepId \<Rightarrow> PlanSnapshot \<Rightarrow> plan_fault + PlanSnapshot" where
  "plan_claim i p =
     (if sn_state p \<notin> {Adopted, PlanState.Running} \<or>
         active_count p \<ge> pb_max_parallel_ready (pd_bounds (sn_definition p))
      then Inl (PlanError StepNotReady)
      else move_step i Ready Claimed p)"

text \<open>The checks that \<open>start\<close> and \<open>retry\<close> share: the limit of the step, its state, and both attempt bounds.\<close>

definition within_attempts :: "PlanStepId \<Rightarrow> StepState \<Rightarrow> PlanSnapshot \<Rightarrow> plan_fault + unit" where
  "within_attempts i st p =
     rbind (ok_or (find_step (sn_definition p) i) (PlanError PlanInvalid)) (\<lambda>s.
     rbind (require_state p i st) (\<lambda>pr.
       if sp_attempts pr \<ge> ps_max_attempts s \<or>
          sn_total_attempts p \<ge> pb_max_total_attempts (pd_bounds (sn_definition p))
       then Inl (PlanError PlanBoundExceeded)
       else Inr ()))"

definition plan_start :: "PlanStepId \<Rightarrow> PlanSnapshot \<Rightarrow> plan_fault + PlanSnapshot" where
  "plan_start i p =
     rbind (within_attempts i Claimed p) (\<lambda>_.
     rbind (require_state p i Claimed) (\<lambda>pr.
       Inr ((set_progress i (pr\<lparr>sp_attempts := sp_attempts pr + 1, sp_state := StepState.Running\<rparr>) p)
              \<lparr>sn_total_attempts := sn_total_attempts p + 1, sn_state := PlanState.Running\<rparr>)))"

definition plan_retry :: "PlanStepId \<Rightarrow> PlanSnapshot \<Rightarrow> plan_fault + PlanSnapshot" where
  "plan_retry i p =
     rbind (within_attempts i StepState.Failed p) (\<lambda>_.
     rbind (move_step i StepState.Failed Pending p) refresh_ready)"

definition carry_step ::
  "(PlanStepId, StepProgress) btmap \<Rightarrow> PlanStepId \<Rightarrow> plan_fault + (PlanStepId, StepProgress) btmap" where
  "carry_step steps i =
     rbind (ok_or (bt_get steps i) (PlanError PlanTransitionInvalid)) (\<lambda>pr.
       Inr (bt_insert i (pr\<lparr>sp_state := StepState.Completed\<rparr>) steps))"

definition carry_forward :: "PlanStepId set \<Rightarrow> PlanSnapshot \<Rightarrow> plan_fault + PlanSnapshot" where
  "carry_forward carried p =
     (if list_ex (\<lambda>i. case find_step (sn_definition p) i of
           None \<Rightarrow> True | Some s \<Rightarrow> \<not> ps_depends_on s \<subseteq> carried) (sorted_list_of_set carried)
      then Inl (PlanError PlanTransitionInvalid)
      else rbind (run carry_step (sn_steps p) (sorted_list_of_set carried)) (\<lambda>steps.
        refresh_ready (p\<lparr>sn_steps := steps,
          sn_state := if list_ex (\<lambda>pr. sp_state pr = StepState.Completed) (bt_values steps)
                      then PlanState.Running else Adopted\<rparr>)))"

subsection \<open>The reducer\<close>

definition plan_guard :: "bool \<Rightarrow> plan_fault + PlanSnapshot \<Rightarrow> plan_fault + PlanSnapshot" where
  "plan_guard b r = (if b then r else Inl (PlanError PlanTransitionInvalid))"

definition plan_apply :: "PlanSnapshot \<Rightarrow> PlanTransition \<Rightarrow> plan_fault + PlanSnapshot" where
  "plan_apply p t =
     (if plan_is_terminal (sn_state p) then Inl (PlanError PlanTransitionInvalid)
      else case t of
        Adopt \<Rightarrow> plan_guard (sn_state p = Proposed) (refresh_ready (p\<lparr>sn_state := Adopted\<rparr>))
      | AdoptWithCarryForward carried \<Rightarrow> plan_guard (sn_state p = Proposed) (carry_forward carried p)
      | Reject \<Rightarrow> plan_guard (sn_state p = Proposed) (Inr (p\<lparr>sn_state := Rejected\<rparr>))
      | Suspend \<Rightarrow> plan_guard (sn_state p = PlanState.Running) (Inr (p\<lparr>sn_state := PlanState.Suspended\<rparr>))
      | Resume \<Rightarrow> plan_guard (sn_state p = PlanState.Suspended)
          (refresh_ready (p\<lparr>sn_state := PlanState.Running\<rparr>))
      | Supersede \<Rightarrow> plan_guard (sn_state p \<in> {Adopted, PlanState.Running, PlanState.Suspended})
          (Inr (p\<lparr>sn_state := Superseded\<rparr>))
      | Fail \<Rightarrow> plan_guard (sn_state p \<in> {PlanState.Running, PlanState.Suspended})
          (Inr (p\<lparr>sn_state := PlanState.Failed\<rparr>))
      | Complete criteria_complete \<Rightarrow>
          plan_guard (sn_state p = PlanState.Running \<and> criteria_complete \<and>
              list_all (\<lambda>pr. sp_state pr = StepState.Completed) (bt_values (sn_steps p)))
            (Inr (p\<lparr>sn_state := PlanState.Completed\<rparr>))
      | Claim i \<Rightarrow> plan_claim i p
      | ExpireClaim i \<Rightarrow> move_step i Claimed Ready p
      | Start i \<Rightarrow> plan_start i p
      | CompleteStep i \<Rightarrow> rbind (move_step i StepState.Running StepState.Completed p) refresh_ready
      | SuspendStep i \<Rightarrow> move_step i StepState.Running StepState.Suspended p
      | ResumeStep i \<Rightarrow> move_step i StepState.Suspended StepState.Running p
      | FailStep i \<Rightarrow> move_step i StepState.Running StepState.Failed p
      | RetryStep i \<Rightarrow> plan_retry i p)"

subsection \<open>Edits\<close>

definition status_moves :: "(PlanState \<times> PlanState \<times> bool) set" where
  "status_moves = {(Proposed, Adopted, True), (Proposed, Rejected, False),
     (PlanState.Running, PlanState.Suspended, False), (PlanState.Suspended, PlanState.Running, True),
     (Adopted, Superseded, False), (PlanState.Running, Superseded, False),
     (PlanState.Suspended, Superseded, False), (PlanState.Running, PlanState.Failed, False),
     (PlanState.Suspended, PlanState.Failed, False), (PlanState.Running, PlanState.Completed, False)}"

definition step_moves :: "(StepState \<times> StepState \<times> bool) set" where
  "step_moves = {(Ready, Claimed, False), (Claimed, Ready, False),
     (StepState.Running, StepState.Completed, True), (StepState.Running, StepState.Suspended, False),
     (StepState.Suspended, StepState.Running, False), (StepState.Running, StepState.Failed, False),
     (StepState.Failed, Pending, True)}"

definition all_completed :: "PlanSnapshot \<Rightarrow> bool" where
  "all_completed p \<longleftrightarrow> (\<forall>i pr. bt_get (sn_steps p) i = Some pr \<longrightarrow> sp_state pr = StepState.Completed)"

text \<open>The flag says that a refresh follows.\<close>

inductive plan_edit :: "PlanSnapshot \<Rightarrow> bool \<Rightarrow> PlanSnapshot \<Rightarrow> bool" where
  status: "(sn_state p, st, b) \<in> status_moves \<Longrightarrow> (st = PlanState.Completed \<Longrightarrow> all_completed p) \<Longrightarrow>
    plan_edit p b (p\<lparr>sn_state := st\<rparr>)"
| move: "bt_get (sn_steps p) i = Some pr \<Longrightarrow> (sp_state pr, st, b) \<in> step_moves \<Longrightarrow>
    (st = Pending \<Longrightarrow> \<exists>s. find_step (sn_definition p) i = Some s \<and> sp_attempts pr < ps_max_attempts s) \<Longrightarrow>
    plan_edit p b (set_progress i (pr\<lparr>sp_state := st\<rparr>) p)"
| start: "bt_get (sn_steps p) i = Some pr \<Longrightarrow> sp_state pr = Claimed \<Longrightarrow>
    find_step (sn_definition p) i = Some s \<Longrightarrow> sp_attempts pr < ps_max_attempts s \<Longrightarrow>
    sn_total_attempts p < pb_max_total_attempts (pd_bounds (sn_definition p)) \<Longrightarrow>
    plan_edit p False ((set_progress i (pr\<lparr>sp_attempts := sp_attempts pr + 1, sp_state := StepState.Running\<rparr>) p)
      \<lparr>sn_total_attempts := sn_total_attempts p + 1, sn_state := PlanState.Running\<rparr>)"
| carry: "sn_state p = Proposed \<Longrightarrow> st \<in> {Adopted, PlanState.Running} \<Longrightarrow>
    (st = Adopted \<Longrightarrow> carried = {}) \<Longrightarrow>
    (\<And>i. i \<in> carried \<Longrightarrow> \<exists>s. find_step (sn_definition p) i = Some s \<and> ps_depends_on s \<subseteq> carried) \<Longrightarrow>
    (\<And>i. bt_get steps i = (if i \<in> carried
       then map_option (\<lambda>pr. pr\<lparr>sp_state := StepState.Completed\<rparr>) (bt_get (sn_steps p) i)
       else bt_get (sn_steps p) i)) \<Longrightarrow>
    plan_edit p True (p\<lparr>sn_steps := steps, sn_state := st\<rparr>)"

lemma require_state_iff:
  "require_state p i st = Inr pr \<longleftrightarrow> bt_get (sn_steps p) i = Some pr \<and> sp_state pr = st"
  by (auto simp: require_state_def split: option.splits)

lemma move_step_iff:
  "move_step i from to p = Inr q \<longleftrightarrow>
   (\<exists>pr. bt_get (sn_steps p) i = Some pr \<and> sp_state pr = from \<and> q = set_progress i (pr\<lparr>sp_state := to\<rparr>) p)"
  by (auto simp: move_step_def rbind_eq_Inr require_state_iff)

lemma within_attempts_iff:
  "within_attempts i st p = Inr u \<longleftrightarrow>
   (\<exists>s pr. find_step (sn_definition p) i = Some s \<and> bt_get (sn_steps p) i = Some pr \<and> sp_state pr = st \<and>
      sp_attempts pr < ps_max_attempts s \<and>
      sn_total_attempts p < pb_max_total_attempts (pd_bounds (sn_definition p)))"
  by (auto simp: within_attempts_def rbind_eq_Inr ok_or_eq_Inr require_state_iff not_le)

lemma plan_guard_iff: "plan_guard b r = Inr q \<longleftrightarrow> b \<and> r = Inr q"
  by (simp add: plan_guard_def)

lemma carry_step_iff:
  "carry_step steps i = Inr steps' \<longleftrightarrow>
   (\<exists>pr. bt_get steps i = Some pr \<and> steps' = bt_insert i (pr\<lparr>sp_state := StepState.Completed\<rparr>) steps)"
  by (auto simp: carry_step_def rbind_eq_Inr ok_or_eq_Inr)

lemma run_carry_step:
  "run carry_step steps is = Inr steps' \<Longrightarrow>
   bt_get steps' i = (if i \<in> set is
     then map_option (\<lambda>pr. pr\<lparr>sp_state := StepState.Completed\<rparr>) (bt_get steps i) else bt_get steps i) \<and>
   (i \<in> set is \<longrightarrow> bt_get steps i \<noteq> None)"
proof (induction "is" arbitrary: steps)
  case (Cons j js)
  then obtain pr where pr: "bt_get steps j = Some pr"
    and js: "run carry_step (bt_insert j (pr\<lparr>sp_state := StepState.Completed\<rparr>) steps) js = Inr steps'"
    by (auto simp: carry_step_iff rbind_eq_Inr)
  show ?case
    using pr Cons.IH [OF js] by (cases "i = j") auto
qed simp

text \<open>Every successful transition is an edit, followed by a refresh where the flag says so.\<close>

definition plan_effect :: "PlanSnapshot \<Rightarrow> PlanSnapshot \<Rightarrow> bool" where
  "plan_effect p q \<longleftrightarrow> (\<exists>m. plan_edit p False m \<and> q = m \<or> plan_edit p True m \<and> refresh_ready m = Inr q)"

definition carried_snapshot :: "PlanSnapshot \<Rightarrow> (PlanStepId, StepProgress) btmap \<Rightarrow> PlanSnapshot" where
  "carried_snapshot p steps = p\<lparr>sn_steps := steps,
     sn_state := if list_ex (\<lambda>pr. sp_state pr = StepState.Completed) (bt_values steps)
       then PlanState.Running else Adopted\<rparr>"

lemma carry_edit:
  assumes "sn_state p = Proposed"
    and closed: "\<not> list_ex (\<lambda>i. case find_step (sn_definition p) i of
      None \<Rightarrow> True | Some s \<Rightarrow> \<not> ps_depends_on s \<subseteq> carried) (sorted_list_of_set carried)"
    and steps: "run carry_step (sn_steps p) (sorted_list_of_set carried) = Inr steps"
  shows "plan_edit p True (carried_snapshot p steps)"
proof -
  let ?c = "set (sorted_list_of_set carried)"
  have "?c = {}" if none: "\<not> list_ex (\<lambda>pr. sp_state pr = StepState.Completed) (bt_values steps)"
  proof (rule equals0I)
    fix i assume "i \<in> ?c"
    with run_carry_step [OF steps, of i] obtain pr
      where "bt_get steps i = Some (pr\<lparr>sp_state := StepState.Completed\<rparr>)"
      by (auto simp: option.map_sel)
    with none show False
      by (fastforce simp: list_ex_bt_values)
  qed
  moreover have "\<exists>s. find_step (sn_definition p) i = Some s \<and> ps_depends_on s \<subseteq> ?c" if "i \<in> ?c" for i
  proof -
    have "?c = carried"
      using that by (cases "finite carried") auto
    with closed that show ?thesis
      by (auto simp: list_ex_iff split: option.splits)
  qed
  ultimately show ?thesis
    using assms(1) run_carry_step [OF steps] unfolding carried_snapshot_def
    by (intro plan_edit.carry [where carried = ?c]) (auto split: if_splits)
qed

lemma effect_carry: "sn_state p = Proposed \<Longrightarrow> carry_forward carried p = Inr q \<Longrightarrow> plan_effect p q"
  using carry_edit by (auto simp: carry_forward_def rbind_eq_Inr if_Inl_eq_Inr plan_effect_def carried_snapshot_def)

lemma effect_status:
  "(sn_state p, st, False) \<in> status_moves \<Longrightarrow> (st = PlanState.Completed \<Longrightarrow> all_completed p) \<Longrightarrow>
   plan_effect p (p\<lparr>sn_state := st\<rparr>)"
  by (auto simp: plan_effect_def intro: plan_edit.status)

lemma effect_status_refresh:
  "(sn_state p, st, True) \<in> status_moves \<Longrightarrow> st \<noteq> PlanState.Completed \<Longrightarrow>
   refresh_ready (p\<lparr>sn_state := st\<rparr>) = Inr q \<Longrightarrow> plan_effect p q"
  by (auto simp: plan_effect_def intro: plan_edit.status)

lemma effect_move:
  "move_step i from to p = Inr q \<Longrightarrow> (from, to, False) \<in> step_moves \<Longrightarrow> to \<noteq> Pending \<Longrightarrow> plan_effect p q"
  by (auto simp: plan_effect_def move_step_iff intro: plan_edit.move)

lemma effect_move_refresh:
  "move_step i from to p = Inr m \<Longrightarrow> (from, to, True) \<in> step_moves \<Longrightarrow>
   (to = Pending \<Longrightarrow> within_attempts i from p = Inr ()) \<Longrightarrow> refresh_ready m = Inr q \<Longrightarrow> plan_effect p q"
  unfolding plan_effect_def move_step_iff within_attempts_iff
  by (rule exI [of _ m]) (auto intro!: plan_edit.move)

lemma effect_start: "plan_start i p = Inr q \<Longrightarrow> plan_effect p q"
  by (auto simp: plan_effect_def plan_start_def rbind_eq_Inr within_attempts_iff require_state_iff
      intro: plan_edit.start)

lemma apply_effect:
  assumes "plan_apply p t = Inr q"
  shows "plan_effect p q"
proof -
  have live: "\<not> plan_is_terminal (sn_state p)"
    using assms by (auto simp: plan_apply_def)
  then show ?thesis
    using assms
    by (cases t)
      (auto simp: plan_apply_def plan_guard_iff plan_claim_def plan_retry_def if_Inl_eq_Inr rbind_eq_Inr
        status_moves_def step_moves_def all_completed_def list_all_bt_values
        intro: effect_status effect_status_refresh effect_start effect_move effect_move_refresh effect_carry)
qed

subsection \<open>The refresh\<close>

definition dispatching :: "PlanSnapshot \<Rightarrow> bool" where
  "dispatching p \<longleftrightarrow> sn_state p \<in> {Adopted, PlanState.Running} \<and>
     sn_total_attempts p < pb_max_total_attempts (pd_bounds (sn_definition p))"

definition refreshed :: "PlanStepId set \<Rightarrow> PlanStepV1 \<Rightarrow> StepProgress \<Rightarrow> StepProgress" where
  "refreshed completed s pr =
     (if sp_state pr = Pending \<and> sp_attempts pr < ps_max_attempts s \<and> ps_depends_on s \<subseteq> completed
      then pr\<lparr>sp_state := Ready\<rparr> else pr)"

definition keys_ok :: "PlanSnapshot \<Rightarrow> bool" where
  "keys_ok p \<longleftrightarrow> distinct (map ps_step_id (pd_steps (sn_definition p))) \<and>
     dom (bt_get (sn_steps p)) = declared (pd_steps (sn_definition p))"

lemma refresh_step_eq:
  "bt_get steps (ps_step_id s) = Some pr \<Longrightarrow>
   refresh_step c steps s = Inr (bt_insert (ps_step_id s) (refreshed c s pr) steps)"
  by (auto simp: refresh_step_def refreshed_def bt.put_same)

lemma run_refresh_step:
  fixes ss :: "PlanStepV1 list"
  assumes "distinct (map ps_step_id ss)" and "declared ss \<subseteq> dom (bt_get steps)"
  shows "\<exists>steps'. run (refresh_step c) steps ss = Inr steps' \<and>
    (\<forall>i. bt_get steps' i = (case find (\<lambda>s. ps_step_id s = i) ss of
       None \<Rightarrow> bt_get steps i | Some s \<Rightarrow> map_option (refreshed c s) (bt_get steps i)))"
  using assms
proof (induction ss arbitrary: steps)
  case (Cons s ss)
  from Cons.prems(2) obtain pr where pr: "bt_get steps (ps_step_id s) = Some pr"
    by (auto simp: declared_def)
  have "declared ss \<subseteq> dom (bt_get (bt_insert (ps_step_id s) (refreshed c s pr) steps))"
    using Cons.prems(2) by (auto simp: declared_def)
  from Cons.IH [OF _ this] Cons.prems(1) obtain steps'
    where steps': "run (refresh_step c) (bt_insert (ps_step_id s) (refreshed c s pr) steps) ss = Inr steps'"
      "\<And>i. bt_get steps' i = (case find (\<lambda>s. ps_step_id s = i) ss of
         None \<Rightarrow> bt_get (bt_insert (ps_step_id s) (refreshed c s pr) steps) i
       | Some t \<Rightarrow> map_option (refreshed c t) (bt_get (bt_insert (ps_step_id s) (refreshed c s pr) steps) i))"
    by auto
  have "find (\<lambda>t. ps_step_id t = ps_step_id s) ss = None"
    using Cons.prems(1) by (auto simp: find_None_iff image_iff)
  then show ?case
    using steps' pr by (intro exI [of _ steps']) (auto simp: refresh_step_eq split: option.splits)
qed simp

lemma find_step_iff:
  assumes "distinct (map ps_step_id (pd_steps d))"
  shows "find_step d i = Some s \<longleftrightarrow> s \<in> set (pd_steps d) \<and> ps_step_id s = i"
proof
  show "s \<in> set (pd_steps d) \<and> ps_step_id s = i" if "find_step d i = Some s"
    using that by (auto simp: find_step_def find_Some_iff)
  show "find_step d i = Some s" if s: "s \<in> set (pd_steps d) \<and> ps_step_id s = i"
  proof (cases "find_step d i")
    case None
    with s show ?thesis
      by (auto simp: find_step_def find_None_iff)
  next
    case (Some t)
    then have "t \<in> set (pd_steps d)" "ps_step_id t = i"
      by (auto simp: find_step_def find_Some_iff)
    with s step_unique [OF assms] Some show ?thesis
      by blast
  qed
qed

lemma find_step_declared: "find_step d i = None \<longleftrightarrow> i \<notin> declared (pd_steps d)"
  by (auto simp: find_step_def find_None_iff declared_def)

lemma refresh_ready_spec:
  assumes "keys_ok m"
  obtains q where "refresh_ready m = Inr q" "sn_definition q = sn_definition m" "sn_state q = sn_state m"
    "sn_total_attempts q = sn_total_attempts m"
    "\<And>i. bt_get (sn_steps q) i = (case find_step (sn_definition m) i of None \<Rightarrow> None
       | Some s \<Rightarrow> map_option (if dispatching m then refreshed (completed_steps m) s else id) (bt_get (sn_steps m) i))"
proof -
  have undeclared: "bt_get (sn_steps m) i = None" if "find_step (sn_definition m) i = None" for i
    using that assms by (auto simp: find_step_declared keys_ok_def)
  show ?thesis
  proof (cases "dispatching m")
    case True
    obtain steps where steps: "run (refresh_step (completed_steps m)) (sn_steps m) (pd_steps (sn_definition m)) = Inr steps"
      "\<And>i. bt_get steps i = (case find (\<lambda>s. ps_step_id s = i) (pd_steps (sn_definition m)) of
         None \<Rightarrow> bt_get (sn_steps m) i | Some s \<Rightarrow> map_option (refreshed (completed_steps m) s) (bt_get (sn_steps m) i))"
      using run_refresh_step [of "pd_steps (sn_definition m)" "sn_steps m" "completed_steps m"] assms
      by (auto simp: keys_ok_def)
    show ?thesis
      using True undeclared steps
      by (intro that [of "m\<lparr>sn_steps := steps\<rparr>"])
        (auto simp: refresh_ready_def dispatching_def find_step_def split: option.splits)
  next
    case False
    then have "refresh_ready m = Inr m"
      by (auto simp: refresh_ready_def dispatching_def not_less)
    with False undeclared show ?thesis
      by (intro that [of m]) (auto simp: option.map_id split: option.splits)
  qed
qed

subsection \<open>The invariant\<close>

text \<open>
  What the admitted definition contributes, and the parts of the invariant: the attempts of each step
  and their sum are bounded; a step leaves \<open>Pending\<close> only after its dependencies are completed; the
  plan state says what the steps may have done; and a dispatching plan has no overlooked step, one
  that could be ready and is not, unless a started step is still to be completed.
\<close>

definition plan_static :: "PlanDefinitionV1 \<Rightarrow> bool" where
  "plan_static d \<longleftrightarrow> graph_ok (pd_steps d) \<and> (\<forall>s \<in> set (pd_steps d). step_ok s) \<and> bounds_ok (pd_bounds d) \<and>
     length (pd_steps d) \<le> unat (pb_max_steps (pd_bounds d))"

definition at_step :: "(PlanStepV1 \<Rightarrow> StepProgress \<Rightarrow> bool) \<Rightarrow> PlanSnapshot \<Rightarrow> bool" where
  "at_step P p \<longleftrightarrow> (\<forall>i s pr. find_step (sn_definition p) i = Some s \<longrightarrow>
     bt_get (sn_steps p) i = Some pr \<longrightarrow> P s pr)"

definition attempts_ok :: "PlanStepV1 \<Rightarrow> StepProgress \<Rightarrow> bool" where
  "attempts_ok s pr \<longleftrightarrow> sp_attempts pr \<le> ps_max_attempts s \<and>
     (sp_state pr = Pending \<longrightarrow> sp_attempts pr < ps_max_attempts s)"

definition order_ok :: "PlanStepId set \<Rightarrow> PlanStepV1 \<Rightarrow> StepProgress \<Rightarrow> bool" where
  "order_ok completed s pr \<longleftrightarrow> sp_state pr \<noteq> Pending \<longrightarrow> ps_depends_on s \<subseteq> completed"

definition attempts_of :: "PlanSnapshot \<Rightarrow> PlanStepId \<Rightarrow> nat" where
  "attempts_of p i = (case bt_get (sn_steps p) i of None \<Rightarrow> 0 | Some pr \<Rightarrow> unat (sp_attempts pr))"

definition total_ok :: "PlanSnapshot \<Rightarrow> bool" where
  "total_ok p \<longleftrightarrow> unat (sn_total_attempts p) = (\<Sum>i \<in> declared (pd_steps (sn_definition p)). attempts_of p i) \<and>
     sn_total_attempts p \<le> pb_max_total_attempts (pd_bounds (sn_definition p))"

definition all_steps :: "StepState set \<Rightarrow> PlanSnapshot \<Rightarrow> bool" where
  "all_steps A p \<longleftrightarrow> (\<forall>i pr. bt_get (sn_steps p) i = Some pr \<longrightarrow> sp_state pr \<in> A)"

definition status_ok :: "PlanSnapshot \<Rightarrow> bool" where
  "status_ok p \<longleftrightarrow>
     (sn_state p \<in> {Proposed, Adopted, Rejected} \<longrightarrow> sn_total_attempts p = 0 \<and> all_steps {Pending, Ready, Claimed} p) \<and>
     (sn_state p = Proposed \<longrightarrow> all_steps {Pending} p) \<and>
     (sn_state p = PlanState.Completed \<longrightarrow> all_steps {StepState.Completed} p)"

definition overlooked :: "PlanStepId set \<Rightarrow> PlanStepV1 \<Rightarrow> StepProgress \<Rightarrow> bool" where
  "overlooked completed s pr \<longleftrightarrow> sp_state pr = Pending \<and> sp_attempts pr < ps_max_attempts s \<and>
     ps_depends_on s \<subseteq> completed"

definition fresh_ok :: "PlanSnapshot \<Rightarrow> bool" where
  "fresh_ok p \<longleftrightarrow> dispatching p \<longrightarrow>
     at_step (\<lambda>s pr. \<not> overlooked (completed_steps p) s pr) p \<or>
     \<not> all_steps {Pending, Ready, Claimed, StepState.Completed} p"

definition plan_core :: "PlanSnapshot \<Rightarrow> bool" where
  "plan_core p \<longleftrightarrow> plan_static (sn_definition p) \<and> keys_ok p \<and> at_step attempts_ok p \<and>
     at_step (order_ok (completed_steps p)) p \<and> total_ok p \<and> status_ok p"

definition plan_inv :: "PlanSnapshot \<Rightarrow> bool" where
  "plan_inv p \<longleftrightarrow> plan_core p \<and> fresh_ok p"

lemma completed_steps_iff:
  "i \<in> completed_steps p \<longleftrightarrow> (\<exists>pr. bt_get (sn_steps p) i = Some pr \<and> sp_state pr = StepState.Completed)"
  by (force simp: completed_steps_def bt.entry_iff [symmetric])

lemma static_distinct: "plan_static d \<Longrightarrow> distinct (map ps_step_id (pd_steps d))"
  by (simp add: plan_static_def graph_ok_def well_declared_def)

lemma snapshot_get:
  assumes "plan_static d"
  shows "bt_get (sn_steps (plan_snapshot d)) i =
    (if i \<in> declared (pd_steps d) then Some \<lparr>sp_state = Pending, sp_attempts = 0\<rparr> else None)"
proof (cases "i \<in> declared (pd_steps d)")
  case True
  then show ?thesis
    using collect_get [OF static_distinct [OF assms], where f = "\<lambda>_. \<lparr>sp_state = Pending, sp_attempts = 0\<rparr>"]
    by (auto simp: plan_snapshot_def declared_def)
next
  case False
  then show ?thesis
    by (simp add: plan_snapshot_def collect_steps_def collect_fold_other)
qed

lemma snapshot_inv:
  assumes "plan_static d"
  shows "plan_inv (plan_snapshot d)"
proof -
  note get = snapshot_get [OF assms]
  have [simp]: "sn_definition (plan_snapshot d) = d" "sn_state (plan_snapshot d) = Proposed"
    "sn_total_attempts (plan_snapshot d) = 0"
    by (simp_all add: plan_snapshot_def)
  have "keys_ok (plan_snapshot d)"
    by (auto simp: keys_ok_def static_distinct [OF assms] get dom_def)
  moreover have "at_step attempts_ok (plan_snapshot d)"
    using assms by (auto simp: at_step_def attempts_ok_def get plan_static_def step_ok_def word_neq_0_conv
        find_step_iff [OF static_distinct [OF assms]] split: if_splits)
  moreover have "at_step (order_ok (completed_steps (plan_snapshot d))) (plan_snapshot d)"
    by (auto simp: at_step_def order_ok_def get split: if_splits)
  moreover have "total_ok (plan_snapshot d)"
    by (simp add: total_ok_def attempts_of_def get)
  moreover have "status_ok (plan_snapshot d)"
    by (auto simp: status_ok_def all_steps_def get split: if_splits)
  moreover have "fresh_ok (plan_snapshot d)"
    by (simp add: fresh_ok_def dispatching_def)
  ultimately show ?thesis
    using assms by (simp add: plan_inv_def plan_core_def)
qed

subsection \<open>The invariant is kept\<close>

lemma refreshed_simps [simp]:
  "sp_attempts (refreshed c s pr) = sp_attempts pr"
  "sp_state (refreshed c s pr) = StepState.Completed \<longleftrightarrow> sp_state pr = StepState.Completed"
  "sp_state (refreshed c s pr) = Pending \<longleftrightarrow> sp_state pr = Pending \<and> \<not> overlooked c s pr"
  "\<not> overlooked c s (refreshed c s pr)"
  by (auto simp: refreshed_def overlooked_def)

lemma refreshed_ok:
  "attempts_ok s pr \<Longrightarrow> attempts_ok s (refreshed c s pr)"
  "order_ok c s pr \<Longrightarrow> order_ok c s (refreshed c s pr)"
  "sp_state pr \<in> A \<Longrightarrow> Ready \<in> A \<or> Pending \<notin> A \<Longrightarrow> sp_state (refreshed c s pr) \<in> A"
  by (auto simp: attempts_ok_def order_ok_def overlooked_def refreshed_def)

lemma refresh_keeps:
  assumes "plan_core m" and "refresh_ready m = Inr q"
  shows "plan_inv q"
proof -
  have keys: "keys_ok m"
    using assms(1) by (simp add: plan_core_def)
  let ?r = "\<lambda>s. if dispatching m then refreshed (completed_steps m) s else id"
  have q: "sn_definition q = sn_definition m" "sn_state q = sn_state m"
    "sn_total_attempts q = sn_total_attempts m"
    and get: "bt_get (sn_steps q) i = (case find_step (sn_definition m) i of None \<Rightarrow> None
       | Some s \<Rightarrow> map_option (?r s) (bt_get (sn_steps m) i))" for i
    using refresh_ready_spec [OF keys] assms(2) by auto
  have declared: "\<exists>s. find_step (sn_definition m) i = Some s" if "bt_get (sn_steps m) i = Some pr" for i pr
    using that keys by (cases "find_step (sn_definition m) i") (auto simp: find_step_declared keys_ok_def)
  have completed: "completed_steps q = completed_steps m"
    using declared by (fastforce simp: completed_steps_iff get split: option.splits if_splits)
  have "attempts_of q i = attempts_of m i" for i
    using declared by (fastforce simp: attempts_of_def get split: option.splits)
  then have "total_ok q"
    using assms(1) by (simp add: plan_core_def total_ok_def q)
  moreover have "keys_ok q"
  proof -
    have "bt_get (sn_steps q) i = None \<longleftrightarrow> bt_get (sn_steps m) i = None" for i
      using declared [of i] by (cases "bt_get (sn_steps m) i") (auto simp: get split: option.splits)
    with keys show ?thesis
      by (auto simp: keys_ok_def q dom_def)
  qed
  moreover have "at_step attempts_ok q"
    using assms(1) by (auto simp: plan_core_def at_step_def q get refreshed_ok split: option.splits if_splits)
  moreover have "at_step (order_ok (completed_steps q)) q"
    using assms(1) by (auto simp: completed plan_core_def at_step_def q get refreshed_ok split: option.splits if_splits)
  moreover have "status_ok q"
  proof -
    have "all_steps A q" if "all_steps A m" "Ready \<in> A \<or> Pending \<notin> A" for A
      unfolding all_steps_def
    proof (intro allI impI)
      fix i pr assume "bt_get (sn_steps q) i = Some pr"
      then obtain s pr' where "bt_get (sn_steps m) i = Some pr'" "pr = ?r s pr'"
        by (auto simp: get split: option.splits)
      moreover from this have "sp_state pr' \<in> A"
        using that(1) by (auto simp: all_steps_def)
      ultimately show "sp_state pr \<in> A"
        using refreshed_ok(3) that(2) by (auto split: if_splits)
    qed
    moreover have "all_steps {Pending} q" if "sn_state m = Proposed" "all_steps {Pending} m"
      using that by (auto simp: all_steps_def get dispatching_def split: option.splits)
    ultimately show ?thesis
      using assms(1) by (auto simp: plan_core_def status_ok_def q)
  qed
  moreover have "fresh_ok q"
    using q by (auto simp: fresh_ok_def completed dispatching_def at_step_def get split: option.splits if_splits)
  ultimately show ?thesis
    using assms(1) by (simp add: plan_inv_def plan_core_def q)
qed

lemma set_progress_simps [simp]:
  "sn_definition (set_progress i pr p) = sn_definition p"
  "sn_state (set_progress i pr p) = sn_state p"
  "sn_total_attempts (set_progress i pr p) = sn_total_attempts p"
  "bt_get (sn_steps (set_progress i pr p)) = (bt_get (sn_steps p))(i \<mapsto> pr)"
  by (simp_all add: set_progress_def)

lemma plan_update_simps [simp]:
  "completed_steps (p\<lparr>sn_state := st\<rparr>) = completed_steps p"
  "completed_steps (p\<lparr>sn_total_attempts := n\<rparr>) = completed_steps p"
  "attempts_of (p\<lparr>sn_state := st\<rparr>) i = attempts_of p i"
  "attempts_of (p\<lparr>sn_total_attempts := n\<rparr>) i = attempts_of p i"
  "attempts_of (set_progress j pr p) i = (if i = j then unat (sp_attempts pr) else attempts_of p i)"
  "keys_ok (p\<lparr>sn_state := st\<rparr>) = keys_ok p"
  "keys_ok (p\<lparr>sn_total_attempts := n\<rparr>) = keys_ok p"
  "at_step P (p\<lparr>sn_state := st\<rparr>) = at_step P p"
  "at_step P (p\<lparr>sn_total_attempts := n\<rparr>) = at_step P p"
  by (auto simp: completed_steps_def attempts_of_def keys_ok_def at_step_def)

lemma set_progress_keys: "keys_ok p \<Longrightarrow> bt_get (sn_steps p) i = Some pr \<Longrightarrow> keys_ok (set_progress i pr' p)"
  by (auto simp: keys_ok_def)

lemma set_progress_completed:
  "bt_get (sn_steps p) i = Some pr \<Longrightarrow> sp_state pr \<noteq> StepState.Completed \<Longrightarrow>
   completed_steps (set_progress i pr' p) =
     (if sp_state pr' = StepState.Completed then insert i (completed_steps p) else completed_steps p)"
  by (auto simp: completed_steps_iff split: if_splits)

lemma all_steps_set_progress:
  "all_steps A (set_progress i pr p) \<longleftrightarrow>
   sp_state pr \<in> A \<and> (\<forall>j pr'. j \<noteq> i \<longrightarrow> bt_get (sn_steps p) j = Some pr' \<longrightarrow> sp_state pr' \<in> A)"
  by (auto simp: all_steps_def)

lemma all_stepsD: "all_steps A p \<Longrightarrow> bt_get (sn_steps p) i = Some pr \<Longrightarrow> sp_state pr \<in> A"
  by (simp add: all_steps_def)

lemma all_steps_move:
  "all_steps A p \<Longrightarrow> sp_state pr \<in> A \<Longrightarrow> all_steps A (set_progress i pr p)"
  by (auto simp: all_steps_set_progress all_stepsD)

lemma order_ok_mono: "order_ok c s pr \<Longrightarrow> c \<subseteq> c' \<Longrightarrow> order_ok c' s pr"
  by (auto simp: order_ok_def)

lemma at_step_set_progress:
  "at_step P p \<Longrightarrow> (\<And>s pr. P s pr \<Longrightarrow> Q s pr) \<Longrightarrow>
   (\<And>s. find_step (sn_definition p) i = Some s \<Longrightarrow> Q s pr') \<Longrightarrow> at_step Q (set_progress i pr' p)"
  by (auto simp: at_step_def)

text \<open>A step that moves to a state that is not \<open>Pending\<close>, or back to it within its attempts, keeps the step invariants.\<close>

lemma progress_keeps:
  assumes "plan_core p" and i: "bt_get (sn_steps p) i = Some pr"
    and "sp_state pr \<notin> {Pending, StepState.Completed}"
    and "\<And>s. find_step (sn_definition p) i = Some s \<Longrightarrow> attempts_ok s pr'"
  shows "keys_ok (set_progress i pr' p)"
    and "at_step attempts_ok (set_progress i pr' p)"
    and "at_step (order_ok (completed_steps (set_progress i pr' p))) (set_progress i pr' p)"
proof -
  show "keys_ok (set_progress i pr' p)"
    using assms set_progress_keys by (auto simp: plan_core_def)
  show "at_step attempts_ok (set_progress i pr' p)"
    using assms by (auto simp: plan_core_def intro: at_step_set_progress)
  have order: "at_step (order_ok (completed_steps p)) p"
    using assms(1) by (simp add: plan_core_def)
  have mono: "completed_steps p \<subseteq> completed_steps (set_progress i pr' p)"
    using set_progress_completed [OF i] assms(3) by auto
  have "order_ok (completed_steps p) s pr" if "find_step (sn_definition p) i = Some s" for s
    using order i that by (auto simp: at_step_def)
  then have "order_ok (completed_steps (set_progress i pr' p)) s pr'"
    if "find_step (sn_definition p) i = Some s" for s
    using that assms(3) mono by (auto simp: order_ok_def)
  with order mono show "at_step (order_ok (completed_steps (set_progress i pr' p))) (set_progress i pr' p)"
    by (auto intro: at_step_set_progress order_ok_mono)
qed

lemma status_keeps:
  assumes "plan_core p" and "(sn_state p, st, b) \<in> status_moves" and "st = PlanState.Completed \<Longrightarrow> all_completed p"
  shows "plan_core (p\<lparr>sn_state := st\<rparr>)" and "\<not> b \<Longrightarrow> fresh_ok (p\<lparr>sn_state := st\<rparr>)"
proof -
  have "status_ok (p\<lparr>sn_state := st\<rparr>)"
    using assms by (auto simp: plan_core_def status_ok_def status_moves_def all_steps_def all_completed_def)
  with assms(1) show "plan_core (p\<lparr>sn_state := st\<rparr>)"
    by (simp add: plan_core_def total_ok_def)
  show "fresh_ok (p\<lparr>sn_state := st\<rparr>)" if "\<not> b"
    using that assms(2) by (auto simp: fresh_ok_def dispatching_def status_moves_def)
qed

lemma sum_attempts_move:
  "bt_get (sn_steps p) i = Some pr \<Longrightarrow> sp_attempts pr' = sp_attempts pr \<Longrightarrow>
   attempts_of (set_progress i pr' p) = attempts_of p"
  by (auto simp: attempts_of_def)

lemma step_move_from: "(st, st', b) \<in> step_moves \<Longrightarrow> st \<notin> {Pending, StepState.Completed}"
  by (auto simp: step_moves_def)

lemma move_fresh:
  assumes "fresh_ok p" and i: "bt_get (sn_steps p) i = Some pr" and move: "(sp_state pr, st, False) \<in> step_moves"
  shows "fresh_ok (set_progress i (pr\<lparr>sp_state := st\<rparr>) p)"
proof -
  let ?q = "set_progress i (pr\<lparr>sp_state := st\<rparr>) p" and ?A = "{Pending, Ready, Claimed, StepState.Completed}"
  have completed: "completed_steps ?q = completed_steps p"
    using set_progress_completed [OF i] move by (auto simp: step_moves_def)
  have "all_steps ?A p" if "all_steps ?A ?q"
    unfolding all_steps_def
  proof (intro allI impI)
    fix j pr' assume j: "bt_get (sn_steps p) j = Some pr'"
    from that have "st \<in> ?A" "j \<noteq> i \<Longrightarrow> sp_state pr' \<in> ?A"
      using j unfolding all_steps_set_progress by (simp, blast)
    with move i j show "sp_state pr' \<in> ?A"
      by (cases "j = i") (auto simp: step_moves_def)
  qed
  moreover have "at_step (\<lambda>s pr. \<not> overlooked (completed_steps ?q) s pr) ?q"
    if "at_step (\<lambda>s pr. \<not> overlooked (completed_steps p) s pr) p"
    unfolding completed
    by (rule at_step_set_progress [OF that]) (use move in \<open>auto simp: overlooked_def step_moves_def\<close>)
  moreover have "dispatching ?q = dispatching p"
    by (simp add: dispatching_def)
  ultimately show ?thesis
    using assms(1) unfolding fresh_ok_def by blast
qed

lemma move_keeps:
  assumes "plan_core p" and i: "bt_get (sn_steps p) i = Some pr" and move: "(sp_state pr, st, b) \<in> step_moves"
    and pending: "st = Pending \<Longrightarrow> \<exists>s. find_step (sn_definition p) i = Some s \<and> sp_attempts pr < ps_max_attempts s"
  shows "plan_core (set_progress i (pr\<lparr>sp_state := st\<rparr>) p)"
proof -
  let ?q = "set_progress i (pr\<lparr>sp_state := st\<rparr>) p"
  have at: "attempts_ok s (pr\<lparr>sp_state := st\<rparr>)" if "find_step (sn_definition p) i = Some s" for s
    using assms(1) i that pending by (auto simp: plan_core_def at_step_def attempts_ok_def)
  note kept = progress_keeps [OF assms(1) i step_move_from [OF move] at]
  have "total_ok ?q"
    using assms(1) sum_attempts_move [OF i, of "pr\<lparr>sp_state := st\<rparr>"] by (simp add: plan_core_def total_ok_def)
  moreover have "status_ok ?q"
  proof -
    have "status_ok p"
      using assms(1) by (simp add: plan_core_def)
    moreover have "\<not> all_steps {Pending} p" "\<not> all_steps {StepState.Completed} p"
      using all_stepsD [OF _ i] step_move_from [OF move] by auto
    moreover have "all_steps {Pending, Ready, Claimed} ?q" if "all_steps {Pending, Ready, Claimed} p"
      using all_steps_move [OF that] all_stepsD [OF that i] move by (auto simp: step_moves_def)
    ultimately show ?thesis
      by (simp add: status_ok_def)
  qed
  ultimately show ?thesis
    using kept assms(1) by (simp add: plan_core_def)
qed

lemma start_keeps:
  assumes "plan_core p" and i: "bt_get (sn_steps p) i = Some pr" and claimed: "sp_state pr = Claimed"
    and s: "find_step (sn_definition p) i = Some s" and step: "sp_attempts pr < ps_max_attempts s"
    and bound: "sn_total_attempts p < pb_max_total_attempts (pd_bounds (sn_definition p))"
  defines "pr' \<equiv> pr\<lparr>sp_attempts := sp_attempts pr + 1, sp_state := StepState.Running\<rparr>"
  defines "m \<equiv> (set_progress i pr' p)\<lparr>sn_total_attempts := sn_total_attempts p + 1, sn_state := PlanState.Running\<rparr>"
  shows "plan_core m" and "fresh_ok m"
proof -
  let ?D = "declared (pd_steps (sn_definition p))"
  have "i \<in> ?D"
    using s find_step_declared [of "sn_definition p" i] by auto
  moreover have "finite ?D"
    by (simp add: declared_def)
  ultimately have "(\<Sum>j \<in> ?D. attempts_of m j) = Suc (\<Sum>j \<in> ?D. attempts_of p j)"
    using i unat_succ_less [OF step]
    by (simp add: m_def pr'_def sum.remove [of ?D i] attempts_of_def [of p i])
  with assms(1) bound have "total_ok m"
    by (simp add: total_ok_def plan_core_def m_def unat_succ_less succ_le_less)
  moreover have "keys_ok m" "at_step attempts_ok m" "at_step (order_ok (completed_steps m)) m"
    using progress_keeps [OF assms(1) i, of pr'] claimed s step
    by (auto simp: m_def pr'_def attempts_ok_def succ_le_less)
  moreover have "status_ok m"
    by (simp add: status_ok_def m_def)
  ultimately show "plan_core m"
    using assms(1) by (simp add: plan_core_def m_def)
  have "bt_get (sn_steps m) i = Some pr'" "sp_state pr' = StepState.Running"
    by (simp_all add: m_def pr'_def)
  then show "fresh_ok m"
    by (auto simp: fresh_ok_def dest: all_stepsD)
qed

lemma carry_keeps:
  assumes "plan_core p" and proposed: "sn_state p = Proposed" and st: "st \<in> {Adopted, PlanState.Running}"
    and none: "st = Adopted \<Longrightarrow> carried = {}"
    and closed: "\<And>i. i \<in> carried \<Longrightarrow> \<exists>s. find_step (sn_definition p) i = Some s \<and> ps_depends_on s \<subseteq> carried"
    and steps: "\<And>i. bt_get steps i = (if i \<in> carried
       then map_option (\<lambda>pr. pr\<lparr>sp_state := StepState.Completed\<rparr>) (bt_get (sn_steps p) i)
       else bt_get (sn_steps p) i)"
  shows "plan_core (p\<lparr>sn_steps := steps, sn_state := st\<rparr>)"
proof -
  let ?m = "p\<lparr>sn_steps := steps, sn_state := st\<rparr>"
  have pending: "sp_state pr = Pending" if "bt_get (sn_steps p) i = Some pr" for i pr
    using assms(1) proposed that by (auto simp: plan_core_def status_ok_def all_steps_def)
  have keys: "keys_ok p" and zero: "sn_total_attempts p = 0"
    using assms(1) proposed by (auto simp: plan_core_def status_ok_def)
  have carried: "carried \<subseteq> completed_steps ?m"
  proof
    fix i assume i: "i \<in> carried"
    with closed find_step_declared [of "sn_definition p" i] have "i \<in> declared (pd_steps (sn_definition p))"
      by fastforce
    with keys obtain pr where "bt_get (sn_steps p) i = Some pr"
      by (auto simp: keys_ok_def)
    with i show "i \<in> completed_steps ?m"
      by (simp add: completed_steps_iff steps)
  qed
  have "keys_ok ?m"
    using keys by (auto simp: keys_ok_def steps dom_def split: if_splits)
  moreover have "attempts_of ?m = attempts_of p"
    by (auto simp: attempts_of_def steps split: option.splits)
  then have "total_ok ?m"
    using assms(1) by (simp add: plan_core_def total_ok_def)
  moreover have "at_step attempts_ok ?m"
    using assms(1) by (auto simp: plan_core_def at_step_def attempts_ok_def steps split: if_splits)
  moreover have "at_step (order_ok (completed_steps ?m)) ?m"
    using carried closed pending by (fastforce simp: at_step_def order_ok_def steps split: if_splits)
  moreover have "status_ok ?m"
    using st none zero pending by (auto simp: status_ok_def all_steps_def steps)
  ultimately show ?thesis
    using assms(1) by (simp add: plan_core_def)
qed

lemma edit_keeps:
  assumes "plan_edit p b m" and "plan_inv p"
  shows "plan_core m \<and> (\<not> b \<longrightarrow> fresh_ok m)"
  using assms
proof (induction rule: plan_edit.induct)
  case (status p st b)
  then show ?case
    using status_keeps unfolding plan_inv_def by blast
next
  case (move p i pr st b)
  then show ?case
    using move_keeps move_fresh unfolding plan_inv_def by (metis (full_types))
next
  case (start p i pr s)
  then show ?case
    using start_keeps unfolding plan_inv_def by blast
next
  case (carry p st carried steps)
  then show ?case
    using carry_keeps unfolding plan_inv_def by blast
qed

lemma apply_keeps:
  assumes "plan_inv p" and "plan_apply p t = Inr q"
  shows "plan_inv q"
proof -
  obtain m where "plan_edit p False m \<and> q = m \<or> plan_edit p True m \<and> refresh_ready m = Inr q"
    using apply_effect [OF assms(2)] unfolding plan_effect_def by blast
  then show ?thesis
  proof (elim disjE conjE)
    show ?thesis if "plan_edit p False m" "q = m"
      using edit_keeps [OF that(1) assms(1)] that(2) by (simp add: plan_inv_def)
    show ?thesis if "plan_edit p True m" "refresh_ready m = Inr q"
      using edit_keeps [OF that(1) assms(1)] refresh_keeps [OF _ that(2)] by simp
  qed
qed

interpretation plan_invariant: invariant_reducer plan_apply plan_inv
  by unfold_locales (rule apply_keeps)

interpretation plan_final: absorbing_reducer plan_apply "\<lambda>p. plan_is_terminal (sn_state p)"
  by unfold_locales (simp add: plan_apply_def)

lemma plan_run_inv: "plan_static d \<Longrightarrow> run plan_apply (plan_snapshot d) ts = Inr p \<Longrightarrow> plan_inv p"
  using plan_invariant.run_keeps snapshot_inv by blast

lemma plan_ok_static: "plan_ok required satisfied available d \<Longrightarrow> plan_static d"
  by (simp add: plan_ok_def plan_static_def)

subsection \<open>Consequences\<close>

lemma refresh_no_panic: "plan_core m \<Longrightarrow> refresh_ready m \<noteq> Inl e"
  using refresh_ready_spec [of m] by (metis Inl_Inr_False plan_core_def)

lemma faults_of_helpers:
  "require_state p i st \<noteq> Inl PlanPanic" "move_step i from to p \<noteq> Inl PlanPanic"
  "within_attempts i st p \<noteq> Inl PlanPanic" "plan_start i p \<noteq> Inl PlanPanic" "plan_claim i p \<noteq> Inl PlanPanic"
  by (auto simp: require_state_def move_step_def within_attempts_def plan_start_def plan_claim_def rbind_def
      ok_or_def split: option.splits sum.splits if_splits)

lemma run_carry_no_panic: "run carry_step steps is \<noteq> Inl PlanPanic"
  by (induction "is" arbitrary: steps) (auto simp: rbind_eq_Inl carry_step_def ok_or_eq_Inl)

lemma edit_refresh_no_panic: "plan_inv p \<Longrightarrow> plan_edit p b m \<Longrightarrow> refresh_ready m \<noteq> Inl e"
  using edit_keeps refresh_no_panic by blast

lemma no_panic_status:
  "plan_inv p \<Longrightarrow> (sn_state p, st, b) \<in> status_moves \<Longrightarrow> st \<noteq> PlanState.Completed \<Longrightarrow>
   refresh_ready (p\<lparr>sn_state := st\<rparr>) \<noteq> Inl e"
  using edit_refresh_no_panic plan_edit.status by blast

lemma no_panic_move:
  assumes "plan_inv p" and "move_step i from to p = Inr m" and "(from, to, b) \<in> step_moves"
    and "to = Pending \<Longrightarrow> within_attempts i from p = Inr ()"
  shows "refresh_ready m \<noteq> Inl e"
proof -
  have "plan_edit p b m"
    using assms(2-4) unfolding move_step_iff within_attempts_iff by (auto intro!: plan_edit.move)
  with assms(1) show ?thesis
    by (rule edit_refresh_no_panic)
qed

lemma no_panic_carry:
  "plan_inv p \<Longrightarrow> sn_state p = Proposed \<Longrightarrow> carry_forward carried p \<noteq> Inl PlanPanic"
  using carry_edit [of p carried] edit_refresh_no_panic [of p True] run_carry_no_panic
  by (auto simp: carry_forward_def rbind_eq_Inl carried_snapshot_def)

lemma apply_no_panic:
  assumes "plan_inv p"
  shows "plan_apply p t \<noteq> Inl PlanPanic"
proof -
  have "rbind (move_step i from to p) refresh_ready \<noteq> Inl PlanPanic"
    if "(from, to, True) \<in> step_moves" "to \<noteq> Pending" for i "from" to
    using no_panic_move [OF assms _ that(1)] that(2) faults_of_helpers(2) by (auto simp: rbind_eq_Inl)
  moreover have "plan_retry i p \<noteq> Inl PlanPanic" for i
    using no_panic_move [OF assms, of i StepState.Failed Pending _ True] faults_of_helpers
    by (auto simp: plan_retry_def rbind_eq_Inl step_moves_def)
  ultimately show ?thesis
    using faults_of_helpers no_panic_carry [OF assms] no_panic_status [OF assms]
    by (cases t) (auto simp: plan_apply_def plan_guard_def status_moves_def step_moves_def)
qed

lemma ready_steps_spec:
  assumes "plan_inv p"
  obtains "is" where "ready_steps p = Inr is"
    "set is = {i. \<exists>pr. bt_get (sn_steps p) i = Some pr \<and> sp_state pr = Ready}"
proof -
  let ?f = "\<lambda>s. (ps_step_id s, sp_state (the (bt_get (sn_steps p) (ps_step_id s))) = Ready)"
  have keys: "dom (bt_get (sn_steps p)) = declared (pd_steps (sn_definition p))"
    using assms by (simp add: plan_inv_def plan_core_def keys_ok_def)
  have "rmap (\<lambda>s. rbind (ok_or (bt_get (sn_steps p) (ps_step_id s)) PlanPanic)
      (\<lambda>pr. Inr (ps_step_id s, sp_state pr = Ready))) ss = Inr (map ?f ss)"
    if "declared ss \<subseteq> dom (bt_get (sn_steps p))" for ss
    using that by (induction ss) (auto simp: declared_def)
  with keys have "ready_steps p = Inr (map fst (filter snd (map ?f (pd_steps (sn_definition p)))))"
    by (simp add: ready_steps_def)
  moreover have "set (map fst (filter snd (map ?f (pd_steps (sn_definition p))))) =
      {i. \<exists>pr. bt_get (sn_steps p) i = Some pr \<and> sp_state pr = Ready}"
  proof (intro set_eqI iffI)
    fix i assume "i \<in> set (map fst (filter snd (map ?f (pd_steps (sn_definition p)))))"
    then have "i \<in> dom (bt_get (sn_steps p))" "sp_state (the (bt_get (sn_steps p) i)) = Ready"
      unfolding keys by (auto simp: declared_def)
    then show "i \<in> {i. \<exists>pr. bt_get (sn_steps p) i = Some pr \<and> sp_state pr = Ready}"
      by auto
  next
    fix i assume "i \<in> {i. \<exists>pr. bt_get (sn_steps p) i = Some pr \<and> sp_state pr = Ready}"
    then obtain pr where "bt_get (sn_steps p) i = Some pr" "sp_state pr = Ready"
      by blast
    moreover from this keys have "i \<in> declared (pd_steps (sn_definition p))"
      by blast
    ultimately show "i \<in> set (map fst (filter snd (map ?f (pd_steps (sn_definition p)))))"
      by (auto simp: declared_def filter_map)
  qed
  ultimately show ?thesis
    by (rule that)
qed

lemma plan_progress:
  assumes inv: "plan_inv p" and live: "dispatching p"
    and idle: "all_steps {Pending, Ready, StepState.Completed} p"
    and open_step: "\<not> all_steps {StepState.Completed} p"
  shows "\<exists>i is. ready_steps p = Inr is \<and> i \<in> set is"
proof -
  let ?d = "sn_definition p"
  have keys: "keys_ok p" and static: "plan_static ?d"
    using inv by (auto simp: plan_inv_def plan_core_def)
  have "wf (dependencies (pd_steps ?d))"
    using static finite_dependencies finite_acyclic_wf by (auto simp: plan_static_def graph_ok_def)
  moreover obtain j where "j \<in> declared (pd_steps ?d) - completed_steps p"
    using open_step keys by (fastforce simp: all_steps_def completed_steps_iff keys_ok_def)
  ultimately obtain i where i: "i \<in> declared (pd_steps ?d)" "i \<notin> completed_steps p"
    and min: "\<And>k. (k, i) \<in> dependencies (pd_steps ?d) \<Longrightarrow> k \<notin> declared (pd_steps ?d) - completed_steps p"
    using wfE_min [of "dependencies (pd_steps ?d)" j "declared (pd_steps ?d) - completed_steps p"] by blast
  obtain s where s: "s \<in> set (pd_steps ?d)" "ps_step_id s = i"
    using i(1) by (auto simp: declared_def)
  obtain pr where pr: "bt_get (sn_steps p) i = Some pr"
    using i(1) keys by (auto simp: keys_ok_def)
  from s have find: "find_step ?d i = Some s"
    using find_step_iff static_distinct static by blast
  have "ps_depends_on s \<subseteq> completed_steps p"
    using s min static by (fastforce simp: dependencies_def plan_static_def graph_ok_def well_declared_def)
  moreover have "attempts_ok s pr"
    using inv find pr by (auto simp: plan_inv_def plan_core_def at_step_def)
  moreover have "\<not> overlooked (completed_steps p) s pr"
    using inv live idle find pr by (fastforce simp: plan_inv_def fresh_ok_def at_step_def all_steps_def)
  moreover have "sp_state pr \<noteq> StepState.Completed"
    using i(2) pr by (auto simp: completed_steps_iff)
  ultimately have "sp_state pr = Ready"
    using all_stepsD [OF idle pr] by (auto simp: overlooked_def attempts_ok_def)
  with ready_steps_spec [OF inv] pr show ?thesis
    by (metis (mono_tags, lifting) mem_Collect_eq)
qed

end
