(* ===== verification/Plan_Properties.thy ===== *)
theory Plan_Properties
  imports Plan_Lifecycle
begin

section \<open>Properties of plans\<close>

text \<open>
  What holds of every plan that was admitted and of every snapshot that transitions can lead to, each
  exercised on a plan of three steps; and two behaviours of the reducer that its documentation does
  not suggest.
\<close>

subsection \<open>Reachable snapshots\<close>

lemma apply_definition:
  assumes "plan_inv p" and "plan_apply p t = Inr q"
  shows "sn_definition q = sn_definition p"
proof -
  have edit: "sn_definition m = sn_definition p" if "plan_edit p b m" for b m
    using that by cases simp_all
  have refresh: "sn_definition q = sn_definition p" if "plan_edit p True m" "refresh_ready m = Inr q" for m
  proof -
    have "keys_ok m"
      using edit_keeps [OF that(1) assms(1)] by (simp add: plan_core_def)
    then obtain r where "refresh_ready m = Inr r" "sn_definition r = sn_definition m"
      by (rule refresh_ready_spec)
    with that(2) edit [OF that(1)] show ?thesis
      by simp
  qed
  from apply_effect [OF assms(2)] edit refresh show ?thesis
    unfolding plan_effect_def by blast
qed

interpretation plan_revision: invariant_reducer plan_apply "\<lambda>p. plan_inv p \<and> sn_definition p = d"
  by unfold_locales (use apply_keeps apply_definition in blast)

lemma plan_reachable:
  assumes "plan_ok required satisfied available d" and "run plan_apply (plan_snapshot d) ts = Inr p"
  shows "plan_inv p" and "sn_definition p = d"
proof -
  have "sn_definition (plan_snapshot d) = d"
    by (simp add: plan_snapshot_def)
  then have "plan_inv p \<and> sn_definition p = d"
    using plan_revision.run_keeps [of "plan_snapshot d" d ts p] snapshot_inv [OF plan_ok_static [OF assms(1)]]
      assms(2) by blast
  then show "plan_inv p" "sn_definition p = d"
    by blast+
qed

subsection \<open>A sample plan\<close>

definition sample_step :: "string \<Rightarrow> string list \<Rightarrow> PlanStepV1" where
  "sample_step i deps =
     \<lparr>ps_step_id = Ident i, ps_objective = ''work'', ps_depends_on = set (map Ident deps),
      ps_completion_criteria = {''done''}, ps_required_capabilities = {}, ps_input_bindings = {},
      ps_max_attempts = 2\<rparr>"

definition sample_plan :: "PlanDefinitionV1" where
  "sample_plan =
     \<lparr>pd_contract = plan_definition_contract, pd_version = plan_contract_version, pd_plan_id = Ident ''p'',
      pd_plan_revision = 1, pd_goal_id = ''g'', pd_goal_revision = 1,
      pd_goal_definition_digest = replicate 64 CHR ''0'', pd_agent_snapshot_digest = replicate 64 CHR ''1'',
      pd_tool_catalogue_digest = replicate 64 CHR ''2'', pd_safety_policy_revision = ''s'',
      pd_steps = [sample_step ''a'' [], sample_step ''b'' [''a''], sample_step ''c'' []],
      pd_bounds = \<lparr>pb_max_steps = 3, pb_max_parallel_ready = 1, pb_max_total_attempts = 5,
        pb_token_budget = None, pb_duration_budget_ms = None\<rparr>\<rparr>"

abbreviation plan_after :: "PlanTransition list \<Rightarrow> plan_fault + PlanSnapshot" where
  "plan_after ts \<equiv> run plan_apply (plan_snapshot sample_plan) ts"

lemma all_steps_code [code]: "all_steps A p \<longleftrightarrow> list_all (\<lambda>pr. sp_state pr \<in> A) (bt_values (sn_steps p))"
  by (auto simp: all_steps_def list_all_bt_values)

lemma sample_plan_validates: "plan_validate {''done''} {} {} sample_plan = Inr ()"
  by code_simp

lemma sample_plan_parts:
  "header_ok sample_plan" "bounds_ok (pd_bounds sample_plan)" "list_all step_ok (pd_steps sample_plan)"
  by (code_simp, code_simp, simp add: sample_plan_def sample_step_def step_ok_def)

lemma sample_plan_ok: "plan_ok {''done''} {} {} sample_plan"
  using sample_plan_validates sample_plan_parts by (simp add: plan_validate_iff plan_ok_def list_all_iff)

subsection \<open>Properties\<close>

text \<open>
  C17. In every snapshot that transitions can produce from an admitted plan, a step that is past
  Pending (ready, claimed, running, suspended, failed or completed) has all its direct dependencies
  completed.
\<close>

theorem plan_steps_follow_dependencies:
  assumes "plan_ok required satisfied available d" and "run plan_apply (plan_snapshot d) ts = Inr p"
    and "find_step d i = Some s" and "j \<in> ps_depends_on s"
    and "bt_get (sn_steps p) i = Some pr" and "sp_state pr \<noteq> Pending"
  shows "\<exists>pr'. bt_get (sn_steps p) j = Some pr' \<and> sp_state pr' = StepState.Completed"
proof -
  have "at_step (order_ok (completed_steps p)) p" and "sn_definition p = d"
    using plan_reachable [OF assms(1,2)] by (simp_all add: plan_inv_def plan_core_def)
  with assms(3-6) have "j \<in> completed_steps p"
    by (auto simp: at_step_def order_ok_def)
  then show ?thesis
    by (simp add: completed_steps_iff)
qed

theorem plan_steps_follow_dependencies_witness:
  "\<exists>p. plan_after [Adopt, Claim (Ident ''a''), Start (Ident ''a''), CompleteStep (Ident ''a''), Claim (Ident ''b'')] = Inr p \<and>
     (\<exists>pr'. bt_get (sn_steps p) (Ident ''a'') = Some pr' \<and> sp_state pr' = StepState.Completed)"
proof -
  let ?ts = "[Adopt, Claim (Ident ''a''), Start (Ident ''a''), CompleteStep (Ident ''a''), Claim (Ident ''b'')]"
  have "rbind (plan_after ?ts) (\<lambda>p. Inr (map_option sp_state (bt_get (sn_steps p) (Ident ''b'')))) = Inr (Some Claimed)"
    by code_simp
  then obtain p pr where p: "plan_after ?ts = Inr p" "bt_get (sn_steps p) (Ident ''b'') = Some pr" "sp_state pr \<noteq> Pending"
    by (auto simp: rbind_eq_Inr)
  have "find_step sample_plan (Ident ''b'') = Some (sample_step ''b'' [''a''])"
    "Ident ''a'' \<in> ps_depends_on (sample_step ''b'' [''a''])"
    by (simp_all add: find_step_def sample_plan_def sample_step_def)
  from plan_steps_follow_dependencies [OF sample_plan_ok p(1) this p(2,3)] p(1) show ?thesis
    by blast
qed

text \<open>
  C19. The total attempt counter is exactly the sum of the attempts of the steps, without
  wrap-around, and never exceeds the bound of the plan, nor do the attempts of a step exceed its
  limit.
\<close>

theorem plan_attempts_are_bounded:
  assumes "plan_ok required satisfied available d" and "run plan_apply (plan_snapshot d) ts = Inr p"
  shows "unat (sn_total_attempts p) = (\<Sum>i \<in> declared (pd_steps d). attempts_of p i)
    \<and> sn_total_attempts p \<le> pb_max_total_attempts (pd_bounds d)
    \<and> (\<forall>i s pr. find_step d i = Some s \<and> bt_get (sn_steps p) i = Some pr \<longrightarrow> sp_attempts pr \<le> ps_max_attempts s)"
  using plan_reachable [OF assms]
  by (auto simp: plan_inv_def plan_core_def total_ok_def at_step_def attempts_ok_def)

theorem plan_attempts_are_bounded_witness:
  "\<exists>p. plan_after [Adopt, Claim (Ident ''a''), Start (Ident ''a'')] = Inr p \<and> sn_total_attempts p = 1 \<and>
     sn_total_attempts p \<le> pb_max_total_attempts (pd_bounds sample_plan)"
proof -
  have "rbind (plan_after [Adopt, Claim (Ident ''a''), Start (Ident ''a'')]) (\<lambda>p. Inr (sn_total_attempts p)) = Inr 1"
    by code_simp
  then obtain p where p: "plan_after [Adopt, Claim (Ident ''a''), Start (Ident ''a'')] = Inr p" "sn_total_attempts p = 1"
    by (auto simp: rbind_eq_Inr)
  from plan_attempts_are_bounded [OF sample_plan_ok p(1)] p show ?thesis
    by blast
qed

text \<open>
  C21. A terminal plan refuses every transition with PlanTransitionInvalid, and a completed one has
  completed every declared step.
\<close>

theorem plan_ends_are_final:
  assumes "plan_ok required satisfied available d" and "run plan_apply (plan_snapshot d) ts = Inr p"
    and "plan_is_terminal (sn_state p)"
  shows "plan_apply p t = Inl (PlanError PlanTransitionInvalid)
    \<and> (sn_state p = PlanState.Completed \<longrightarrow>
        (\<forall>i \<in> declared (pd_steps d). map_option sp_state (bt_get (sn_steps p) i) = Some StepState.Completed))"
proof
  show "plan_apply p t = Inl (PlanError PlanTransitionInvalid)"
    using assms(3) by (simp add: plan_apply_def)
  show "sn_state p = PlanState.Completed \<longrightarrow>
      (\<forall>i \<in> declared (pd_steps d). map_option sp_state (bt_get (sn_steps p) i) = Some StepState.Completed)"
  proof (intro impI ballI)
    fix i assume "sn_state p = PlanState.Completed" and "i \<in> declared (pd_steps d)"
    with plan_reachable [OF assms(1,2)]
    have "i \<in> dom (bt_get (sn_steps p))" and "all_steps {StepState.Completed} p"
      by (simp_all add: plan_inv_def plan_core_def status_ok_def keys_ok_def)
    then show "map_option sp_state (bt_get (sn_steps p) i) = Some StepState.Completed"
      by (auto simp: all_steps_def)
  qed
qed

theorem plan_ends_are_final_witness:
  "\<exists>p. plan_after [Adopt, Supersede] = Inr p \<and> plan_apply p Resume = Inl (PlanError PlanTransitionInvalid)"
proof -
  have "rbind (plan_after [Adopt, Supersede]) (\<lambda>p. Inr (plan_is_terminal (sn_state p))) = Inr True"
    by code_simp
  then obtain p where p: "plan_after [Adopt, Supersede] = Inr p" "plan_is_terminal (sn_state p)"
    by (auto simp: rbind_eq_Inr)
  from plan_ends_are_final [OF sample_plan_ok p] p(1) show ?thesis
    by blast
qed

text \<open>
  C18. A dispatching plan with attempts left and no step claimed, running, suspended or failed
  either has completed every step or offers a ready one: acyclic dependencies and the refresh leave
  no deadlock.
\<close>

theorem plans_never_get_stuck:
  assumes "plan_ok required satisfied available d" and "run plan_apply (plan_snapshot d) ts = Inr p"
    and "sn_state p \<in> {Adopted, PlanState.Running}" and "sn_total_attempts p < pb_max_total_attempts (pd_bounds d)"
    and "all_steps {Pending, Ready, StepState.Completed} p" and "\<not> all_steps {StepState.Completed} p"
  shows "\<exists>i is. ready_steps p = Inr is \<and> i \<in> set is"
  using plan_reachable [OF assms(1,2)] assms(3-6) by (intro plan_progress) (auto simp: dispatching_def)

theorem plans_never_get_stuck_witness:
  "\<exists>p. plan_after [Adopt, Claim (Ident ''a''), Start (Ident ''a''), CompleteStep (Ident ''a'')] = Inr p \<and>
     (\<exists>i is. ready_steps p = Inr is \<and> i \<in> set is)"
proof -
  let ?ts = "[Adopt, Claim (Ident ''a''), Start (Ident ''a''), CompleteStep (Ident ''a'')]"
  have "rbind (plan_after ?ts) (\<lambda>p. Inr (sn_state p, sn_total_attempts p,
      all_steps {Pending, Ready, StepState.Completed} p, all_steps {StepState.Completed} p)) =
      Inr (PlanState.Running, 1, True, False)"
    by code_simp
  then obtain p where p: "plan_after ?ts = Inr p" "sn_state p = PlanState.Running" "sn_total_attempts p = 1"
    "all_steps {Pending, Ready, StepState.Completed} p" "\<not> all_steps {StepState.Completed} p"
    by (auto simp: rbind_eq_Inr)
  from plans_never_get_stuck [OF sample_plan_ok p(1) _ _ p(4,5)] p show ?thesis
    by (simp add: sample_plan_def)
qed

text \<open>
  No transition and no query on a reachable snapshot reaches the index expressions and expect
  calls of the reducer with a missing step.
\<close>

lemma plans_never_panic:
  assumes "plan_ok required satisfied available d" and "run plan_apply (plan_snapshot d) ts = Inr p"
  shows "plan_apply p t \<noteq> Inl PlanPanic \<and> ready_steps p \<noteq> Inl PlanPanic"
  using apply_no_panic ready_steps_spec plan_reachable(1) [OF assms] by (metis Inl_Inr_False)

lemma plans_never_panic_witness:
  "\<exists>p. plan_after [Adopt] = Inr p \<and> plan_apply p (Claim (Ident ''x'')) \<noteq> Inl PlanPanic"
proof -
  have "rbind (plan_after [Adopt]) (\<lambda>p. Inr (sn_state p)) = Inr Adopted"
    by code_simp
  then obtain p where p: "plan_after [Adopt] = Inr p"
    by (auto simp: rbind_eq_Inr)
  from plans_never_panic [OF sample_plan_ok p] p show ?thesis
    by blast
qed

lemma dependenciesI: "s \<in> set steps \<Longrightarrow> d \<in> ps_depends_on s \<Longrightarrow> (d, ps_step_id s) \<in> dependencies steps"
  by (auto simp: dependencies_def)

text \<open>
  C20. The round-by-round topology check accepts a declared list of steps exactly when the
  dependency relation is acyclic, and reports PlanCycle otherwise.
\<close>

theorem topology_check_is_exact:
  assumes "well_declared steps"
  shows "validate_acyclic steps = (if acyclic (dependencies steps) then Inr () else Inl PlanCycle)"
  using assms by (rule validate_acyclic_iff)

theorem topology_check_is_exact_witness:
  "validate_acyclic [sample_step ''a'' [''b''], sample_step ''b'' [''a'']] = Inl PlanCycle"
proof -
  let ?s = "[sample_step ''a'' [''b''], sample_step ''b'' [''a'']]"
  have "(Ident ''b'', ps_step_id (sample_step ''a'' [''b''])) \<in> dependencies ?s"
    "(Ident ''a'', ps_step_id (sample_step ''b'' [''a''])) \<in> dependencies ?s"
    by (rule dependenciesI; simp add: sample_step_def)+
  then have "(Ident ''a'', Ident ''a'') \<in> (dependencies ?s)\<^sup>+"
    by (auto simp: sample_step_def intro: trancl_trans)
  then have "\<not> acyclic (dependencies ?s)"
    by (auto simp: acyclic_def)
  moreover have "well_declared ?s"
    by (simp add: well_declared_def declared_def sample_step_def)
  ultimately show ?thesis
    using topology_check_is_exact by simp
qed

text \<open>
  C22. A text decodes to a definition exactly when the parsed document describes it, the definition
  satisfies every check of the constructors, and the text is its canonical form.
\<close>

theorem plan_decoding_is_exact:
  "plan_from_canonical_json parse jcs json required satisfied available = Inr d \<longleftrightarrow>
   (\<exists>raw. parse json = Some raw \<and> describes raw d) \<and>
   plan_ok required satisfied available d \<and> plan_named d \<and> jcs d = Some json"
  using plan_from_canonical_json_sound plan_from_canonical_json_complete by blast

subsection \<open>Two behaviours of the reducer\<close>

text \<open>
  The parallel bound is checked when a step is claimed only. A step that was suspended does not count,
  and resuming it is not checked, so two steps run under a bound of one.
\<close>

lemma parallel_bound_exceeded:
  "rbind (plan_after [Adopt, Claim (Ident ''a''), Start (Ident ''a''), SuspendStep (Ident ''a''),
       Claim (Ident ''c''), Start (Ident ''c''), ResumeStep (Ident ''a'')])
     (\<lambda>p. Inr (active_count p, pb_max_parallel_ready (pd_bounds (sn_definition p)))) = Inr (2, 1)"
  by code_simp

text \<open>Starting a claimed step while the plan is suspended sets the plan running again without a resume.\<close>

lemma start_resumes_suspended_plan:
  "rbind (plan_after [Adopt, Claim (Ident ''a''), Start (Ident ''a''), CompleteStep (Ident ''a''), Claim (Ident ''b''), Suspend])
     (\<lambda>p. Inr (sn_state p)) = Inr PlanState.Suspended"
  "rbind (plan_after [Adopt, Claim (Ident ''a''), Start (Ident ''a''), CompleteStep (Ident ''a''), Claim (Ident ''b''), Suspend,
       Start (Ident ''b'')]) (\<lambda>p. Inr (sn_state p)) = Inr PlanState.Running"
  by code_simp+

end
