(* ===== verification/Goal_Definition.thy ===== *)
theory Goal_Definition
  imports Garive_Prelude
begin

section \<open>Goal definitions\<close>

text \<open>
  The immutable part of the \<open>goal\<close> crate (\<open>lib.rs\<close>): validated identities, capability references, scopes,
  bounds and criteria, the definition constructor, the check that a child goal only narrows its
  parent, and the decoder of a canonical definition. The canonical JSON printer, the derived JSON
  reader and SHA-256 are parameters. A reader derived by \<open>serde\<close> fills the fields of a type without
  calling its constructor; the raw document therefore has fields of the same types, unchecked.

  The main results: narrowing is a preorder on authority, so no chain of child goals gains any; an
  admitted definition is well formed; and the decoder accepts a text only when it is the canonical text
  of what it returns. The constructor's bounds on the length of an identity and of a capability name
  are not among the things it checks again.
\<close>

subsection \<open>Identities, errors and references\<close>

typedecl goal_tag
typedecl goal_criterion_tag
typedecl goal_evidence_tag

type_synonym GoalId = "goal_tag ident"
type_synonym GoalCriterionId = "goal_criterion_tag ident"
type_synonym GoalEvidenceId = "goal_evidence_tag ident"

datatype GoalErrorCode = GoalInvalid | GoalRevisionConflict | GoalTransitionInvalid
  | GoalEvidenceInsufficient | GoalScopeExceeded

definition goal_max_id_bytes :: nat where "goal_max_id_bytes = 256"
definition goal_max_reference_bytes :: nat where "goal_max_reference_bytes = 512"
definition goal_max_objective_bytes :: nat where "goal_max_objective_bytes = 16 * 1024"
definition goal_max_collection_items :: nat where "goal_max_collection_items = 256"

definition goal_identity :: "string \<Rightarrow> GoalErrorCode + 'tag ident" where
  "goal_identity s = (if s = [] \<or> length s > goal_max_id_bytes then Inl GoalInvalid else Inr (Ident s))"

definition valid_reference :: "string \<Rightarrow> bool" where
  "valid_reference s \<longleftrightarrow> s \<noteq> [] \<and> length s \<le> goal_max_reference_bytes"

record GoalCapabilityReference =
  gc_name :: string
  gc_exact_revision :: string

definition goal_capability :: "string \<Rightarrow> string \<Rightarrow> GoalErrorCode + GoalCapabilityReference" where
  "goal_capability n r =
     (if \<not> valid_reference n \<or> \<not> valid_reference r then Inl GoalInvalid
      else Inr \<lparr>gc_name = n, gc_exact_revision = r\<rparr>)"

subsection \<open>Scope and bounds\<close>

record GoalScopeV1 =
  gs_session_id :: "string option"
  gs_workspace_capability_ids :: "string set"

definition goal_scope :: "string option \<Rightarrow> string list \<Rightarrow> GoalErrorCode + GoalScopeV1" where
  "goal_scope session workspaces =
     (if (case session of None \<Rightarrow> False | Some s \<Rightarrow> \<not> valid_reference s)
       \<or> length workspaces > goal_max_collection_items
       \<or> list_ex (\<lambda>w. \<not> valid_reference w) workspaces
       \<or> length workspaces \<noteq> card (set workspaces)
       \<or> session = None \<and> set workspaces = {}
      then Inl GoalInvalid
      else Inr \<lparr>gs_session_id = session, gs_workspace_capability_ids = set workspaces\<rparr>)"

definition scope_within :: "GoalScopeV1 \<Rightarrow> GoalScopeV1 \<Rightarrow> bool" where
  "scope_within c p \<longleftrightarrow>
     (gs_session_id c = None \<or> gs_session_id c = gs_session_id p) \<and>
     gs_workspace_capability_ids c \<subseteq> gs_workspace_capability_ids p"

record GoalBoundsV1 =
  gb_max_attempts :: u32
  gb_max_plan_revisions :: u32
  gb_max_child_goals :: u32
  gb_token_budget :: "u64 option"
  gb_duration_budget_ms :: "u64 option"

definition goal_bounds ::
  "u32 \<Rightarrow> u32 \<Rightarrow> u32 \<Rightarrow> u64 option \<Rightarrow> u64 option \<Rightarrow> GoalErrorCode + GoalBoundsV1" where
  "goal_bounds attempts plans children tokens duration =
     (if attempts = 0 \<or> plans = 0 \<or> children = 0 \<or> tokens = Some 0 \<or> duration = Some 0
      then Inl GoalInvalid
      else Inr \<lparr>gb_max_attempts = attempts, gb_max_plan_revisions = plans, gb_max_child_goals = children,
                gb_token_budget = tokens, gb_duration_budget_ms = duration\<rparr>)"

fun optional_bound_within :: "u64 option \<Rightarrow> u64 option \<Rightarrow> bool" where
  "optional_bound_within c None = True"
| "optional_bound_within (Some c) (Some p) = (c \<le> p)"
| "optional_bound_within None (Some p) = False"

definition bounds_within :: "GoalBoundsV1 \<Rightarrow> GoalBoundsV1 \<Rightarrow> bool" where
  "bounds_within c p \<longleftrightarrow>
     gb_max_attempts c \<le> gb_max_attempts p \<and> gb_max_plan_revisions c \<le> gb_max_plan_revisions p \<and>
     gb_max_child_goals c \<le> gb_max_child_goals p \<and>
     optional_bound_within (gb_token_budget c) (gb_token_budget p) \<and>
     optional_bound_within (gb_duration_budget_ms c) (gb_duration_budget_ms p)"

subsection \<open>Criteria\<close>

datatype GoalCriterion =
    UserAcceptance GoalCriterionId string
  | Artifact GoalCriterionId string "string option"
  | DurableFact GoalCriterionId string string
  | ChildGoals GoalCriterionId "GoalId set"

fun criterion_id :: "GoalCriterion \<Rightarrow> GoalCriterionId" where
  "criterion_id (UserAcceptance i _) = i"
| "criterion_id (Artifact i _ _) = i"
| "criterion_id (DurableFact i _ _) = i"
| "criterion_id (ChildGoals i _) = i"

definition criterion_validate :: "GoalCriterion \<Rightarrow> bool" where
  "criterion_validate c \<longleftrightarrow>
     as_str (criterion_id c) \<noteq> [] \<and>
     (case c of
        UserAcceptance _ schema \<Rightarrow> valid_digest schema
      | Artifact _ kind digest \<Rightarrow> valid_reference kind \<and> (case digest of None \<Rightarrow> True | Some d \<Rightarrow> valid_digest d)
      | DurableFact _ kind subject \<Rightarrow> valid_reference kind \<and> valid_digest subject
      | ChildGoals _ children \<Rightarrow> children \<noteq> {} \<and> (\<forall>i \<in> children. as_str i \<noteq> []))"

subsection \<open>Definitions\<close>

record GoalDefinitionV1 =
  gd_contract :: string
  gd_version :: nat
  gd_goal_id :: GoalId
  gd_objective :: string
  gd_criteria :: "GoalCriterion list"
  gd_scope :: GoalScopeV1
  gd_bounds :: GoalBoundsV1
  gd_parent_goal_id :: "GoalId option"
  gd_capability_references :: "GoalCapabilityReference set"

definition goal_definition_contract :: string where
  "goal_definition_contract = ''garive.goal-definition''"

definition goal_contract_version :: nat where
  "goal_contract_version = 1"

definition goal_definition ::
  "GoalId \<Rightarrow> string \<Rightarrow> GoalCriterion list \<Rightarrow> GoalScopeV1 \<Rightarrow> GoalBoundsV1 \<Rightarrow> GoalId option \<Rightarrow>
   GoalCapabilityReference list \<Rightarrow> GoalErrorCode + GoalDefinitionV1" where
  "goal_definition i objective criteria scope bounds parent capabilities =
     (if as_str i = []
       \<or> objective = []
       \<or> length objective > goal_max_objective_bytes
       \<or> criteria = []
       \<or> length criteria > goal_max_collection_items
       \<or> card (set (map criterion_id criteria)) \<noteq> length criteria
       \<or> list_ex (\<lambda>c. \<not> criterion_validate c) criteria
       \<or> length capabilities \<noteq> card (set capabilities)
       \<or> length capabilities > goal_max_collection_items
       \<or> list_ex (\<lambda>c. gc_name c = [] \<or> gc_exact_revision c = []) capabilities
       \<or> (case parent of None \<Rightarrow> False | Some p \<Rightarrow> as_str p = [])
       \<or> parent = Some i
      then Inl GoalInvalid
      else Inr \<lparr>gd_contract = goal_definition_contract, gd_version = goal_contract_version, gd_goal_id = i,
                gd_objective = objective, gd_criteria = criteria, gd_scope = scope, gd_bounds = bounds,
                gd_parent_goal_id = parent, gd_capability_references = set capabilities\<rparr>)"

definition validate_child_of :: "GoalDefinitionV1 \<Rightarrow> GoalDefinitionV1 \<Rightarrow> GoalErrorCode + unit" where
  "validate_child_of c p =
     (if gd_parent_goal_id c \<noteq> Some (gd_goal_id p)
       \<or> \<not> scope_within (gd_scope c) (gd_scope p)
       \<or> \<not> bounds_within (gd_bounds c) (gd_bounds p)
       \<or> \<not> gd_capability_references c \<subseteq> gd_capability_references p
      then Inl GoalScopeExceeded else Inr ())"

subsection \<open>Canonical documents\<close>

definition goal_canonical_json :: "(GoalDefinitionV1 \<Rightarrow> string option) \<Rightarrow> GoalDefinitionV1 \<Rightarrow> GoalErrorCode + string" where
  "goal_canonical_json jcs d = ok_or (jcs d) GoalInvalid"

definition goal_digest ::
  "(string \<Rightarrow> string) \<Rightarrow> (GoalDefinitionV1 \<Rightarrow> string option) \<Rightarrow> GoalDefinitionV1 \<Rightarrow> GoalErrorCode + string" where
  "goal_digest sha jcs d = rbind (ok_or (jcs d) GoalInvalid) (\<lambda>bytes. Inr (sha bytes))"

record RawGoalDefinitionV1 =
  rg_contract :: string
  rg_version :: nat
  rg_goal_id :: GoalId
  rg_objective :: string
  rg_criteria :: "GoalCriterion list"
  rg_scope :: GoalScopeV1
  rg_bounds :: GoalBoundsV1
  rg_parent_goal_id :: "GoalId option"
  rg_capability_references :: "GoalCapabilityReference list"

definition goal_from_canonical_json ::
  "(string \<Rightarrow> RawGoalDefinitionV1 option) \<Rightarrow> (GoalDefinitionV1 \<Rightarrow> string option) \<Rightarrow> string \<Rightarrow>
   GoalErrorCode + GoalDefinitionV1" where
  "goal_from_canonical_json parse jcs json =
     rbind (ok_or (parse json) GoalInvalid) (\<lambda>raw.
     if rg_contract raw \<noteq> goal_definition_contract \<or> rg_version raw \<noteq> goal_contract_version
     then Inl GoalInvalid
     else
     rbind (goal_scope (gs_session_id (rg_scope raw))
              (sorted_list_of_set (gs_workspace_capability_ids (rg_scope raw)))) (\<lambda>scope.
     rbind (goal_bounds (gb_max_attempts (rg_bounds raw)) (gb_max_plan_revisions (rg_bounds raw))
              (gb_max_child_goals (rg_bounds raw)) (gb_token_budget (rg_bounds raw))
              (gb_duration_budget_ms (rg_bounds raw))) (\<lambda>bounds.
     rbind (goal_definition (rg_goal_id raw) (rg_objective raw) (rg_criteria raw) scope bounds
              (rg_parent_goal_id raw) (rg_capability_references raw)) (\<lambda>d.
     rbind (goal_canonical_json jcs d) (\<lambda>text.
       if text \<noteq> json then Inl GoalInvalid else Inr d)))))"

subsection \<open>Narrowing\<close>

text \<open>
  What a definition lets a goal do, without reference to the comparisons of the code: the session and the
  workspaces it may act in, the capabilities it may use, and how many attempts, plan revisions, child
  goals, tokens and milliseconds it may spend. A budget that is absent is no limit.
\<close>

datatype goal_use =
    InSession string
  | InWorkspace string
  | UsingCapability GoalCapabilityReference
  | Attempts nat
  | PlanRevisions nat
  | ChildGoalCount nat
  | Tokens nat
  | Milliseconds nat

fun goal_permits :: "GoalDefinitionV1 \<Rightarrow> goal_use \<Rightarrow> bool" where
  "goal_permits d (InSession s) \<longleftrightarrow> gs_session_id (gd_scope d) = Some s"
| "goal_permits d (InWorkspace w) \<longleftrightarrow> w \<in> gs_workspace_capability_ids (gd_scope d)"
| "goal_permits d (UsingCapability c) \<longleftrightarrow> c \<in> gd_capability_references d"
| "goal_permits d (Attempts n) \<longleftrightarrow> n \<le> unat (gb_max_attempts (gd_bounds d))"
| "goal_permits d (PlanRevisions n) \<longleftrightarrow> n \<le> unat (gb_max_plan_revisions (gd_bounds d))"
| "goal_permits d (ChildGoalCount n) \<longleftrightarrow> n \<le> unat (gb_max_child_goals (gd_bounds d))"
| "goal_permits d (Tokens n) \<longleftrightarrow> (case gb_token_budget (gd_bounds d) of None \<Rightarrow> True | Some b \<Rightarrow> n \<le> unat b)"
| "goal_permits d (Milliseconds n) \<longleftrightarrow> (case gb_duration_budget_ms (gd_bounds d) of None \<Rightarrow> True | Some b \<Rightarrow> n \<le> unat b)"

definition goal_authority :: "GoalDefinitionV1 \<Rightarrow> goal_use set" where
  "goal_authority d = {u. goal_permits d u}"

locale narrowing =
  fixes within :: "'a \<Rightarrow> 'a \<Rightarrow> bool"
  assumes within_refl: "within x x"
    and within_trans: "within x y \<Longrightarrow> within y z \<Longrightarrow> within x z"
begin

lemma chain_narrows: "successively (\<lambda>p c. within c p) (p # cs) \<Longrightarrow> c \<in> set cs \<Longrightarrow> within c p"
proof (induction cs arbitrary: p)
  case (Cons d ds)
  then have "within d p" "c \<in> set ds \<Longrightarrow> within c d"
    by auto
  with Cons.prems(2) show ?case
    by (auto intro: within_trans)
qed simp

end

interpretation goals: narrowing "\<lambda>c p. goal_authority c \<subseteq> goal_authority p"
  by unfold_locales auto

lemma all_below_iff: "(\<forall>n. n \<le> unat a \<longrightarrow> n \<le> unat b) \<longleftrightarrow> a \<le> b"
  by (auto simp: word_le_nat_alt)

lemma optional_bound_within_iff:
  "optional_bound_within c p \<longleftrightarrow>
    (\<forall>n. (case c of None \<Rightarrow> True | Some b \<Rightarrow> n \<le> unat b) \<longrightarrow> (case p of None \<Rightarrow> True | Some b \<Rightarrow> n \<le> unat b))"
  by (cases c; cases p) (auto simp: word_le_nat_alt not_le intro: lessI)

lemma scope_within_iff:
  "scope_within c p \<longleftrightarrow> (\<forall>s. gs_session_id c = Some s \<longrightarrow> gs_session_id p = Some s) \<and>
    (\<forall>w. w \<in> gs_workspace_capability_ids c \<longrightarrow> w \<in> gs_workspace_capability_ids p)"
  by (cases "gs_session_id c") (auto simp: scope_within_def)

lemma goal_uses_all: "(\<forall>u. P u) \<longleftrightarrow> (\<forall>s. P (InSession s)) \<and> (\<forall>w. P (InWorkspace w)) \<and> (\<forall>c. P (UsingCapability c)) \<and>
    (\<forall>n. P (Attempts n)) \<and> (\<forall>n. P (PlanRevisions n)) \<and> (\<forall>n. P (ChildGoalCount n)) \<and> (\<forall>n. P (Tokens n)) \<and>
    (\<forall>n. P (Milliseconds n))"
  by (metis goal_use.exhaust)

lemma goal_authority_iff:
  "goal_authority c \<subseteq> goal_authority p \<longleftrightarrow> scope_within (gd_scope c) (gd_scope p) \<and>
    bounds_within (gd_bounds c) (gd_bounds p) \<and> gd_capability_references c \<subseteq> gd_capability_references p"
  unfolding goal_authority_def Collect_mono_iff mem_Collect_eq subset_iff goal_uses_all goal_permits.simps scope_within_iff bounds_within_def
    optional_bound_within_iff all_below_iff by blast

lemma validate_child_iff:
  "validate_child_of c p = Inr () \<longleftrightarrow>
    gd_parent_goal_id c = Some (gd_goal_id p) \<and> goal_authority c \<subseteq> goal_authority p"
  by (auto simp: validate_child_of_def goal_authority_iff)

subsection \<open>What an admitted definition is\<close>

definition scope_ok :: "GoalScopeV1 \<Rightarrow> bool" where
  "scope_ok s \<longleftrightarrow> (\<forall>i. gs_session_id s = Some i \<longrightarrow> valid_reference i) \<and>
     finite (gs_workspace_capability_ids s) \<and> card (gs_workspace_capability_ids s) \<le> goal_max_collection_items \<and>
     (\<forall>w \<in> gs_workspace_capability_ids s. valid_reference w) \<and>
     (gs_session_id s \<noteq> None \<or> gs_workspace_capability_ids s \<noteq> {})"

definition goal_bounds_ok :: "GoalBoundsV1 \<Rightarrow> bool" where
  "goal_bounds_ok b \<longleftrightarrow> gb_max_attempts b \<noteq> 0 \<and> gb_max_plan_revisions b \<noteq> 0 \<and> gb_max_child_goals b \<noteq> 0 \<and>
     gb_token_budget b \<noteq> Some 0 \<and> gb_duration_budget_ms b \<noteq> Some 0"

definition criteria_ok :: "GoalCriterion list \<Rightarrow> bool" where
  "criteria_ok cs \<longleftrightarrow> cs \<noteq> [] \<and> length cs \<le> goal_max_collection_items \<and> distinct (map criterion_id cs) \<and>
     (\<forall>c \<in> set cs. criterion_validate c)"

definition goal_ok :: "GoalDefinitionV1 \<Rightarrow> bool" where
  "goal_ok d \<longleftrightarrow> gd_contract d = goal_definition_contract \<and> gd_version d = goal_contract_version \<and>
     as_str (gd_goal_id d) \<noteq> [] \<and> gd_objective d \<noteq> [] \<and> length (gd_objective d) \<le> goal_max_objective_bytes \<and>
     criteria_ok (gd_criteria d) \<and> gd_parent_goal_id d \<notin> {Some (gd_goal_id d), Some (Ident [])} \<and>
     finite (gd_capability_references d) \<and> card (gd_capability_references d) \<le> goal_max_collection_items \<and>
     (\<forall>c \<in> gd_capability_references d. gc_name c \<noteq> [] \<and> gc_exact_revision c \<noteq> [])"

lemma length_card_distinct: "length xs = card (set xs) \<longleftrightarrow> distinct xs"
  using card_distinct [of xs] distinct_card [of xs] by auto

lemma goal_scope_iff:
  "goal_scope session ws = Inr s \<longleftrightarrow>
   distinct ws \<and> s = \<lparr>gs_session_id = session, gs_workspace_capability_ids = set ws\<rparr> \<and> scope_ok s"
  by (auto simp: goal_scope_def scope_ok_def length_card_distinct list_ex_iff distinct_card not_less
      split: option.splits)

lemma goal_bounds_iff:
  "goal_bounds attempts plans children tokens duration = Inr b \<longleftrightarrow>
   b = \<lparr>gb_max_attempts = attempts, gb_max_plan_revisions = plans, gb_max_child_goals = children,
        gb_token_budget = tokens, gb_duration_budget_ms = duration\<rparr> \<and> goal_bounds_ok b"
  by (auto simp: goal_bounds_def goal_bounds_ok_def)

lemma goal_definition_iff:
  "goal_definition i objective criteria scope bounds parent capabilities = Inr d \<longleftrightarrow>
   goal_ok d \<and> distinct capabilities \<and> d =
     \<lparr>gd_contract = goal_definition_contract, gd_version = goal_contract_version, gd_goal_id = i,
      gd_objective = objective, gd_criteria = criteria, gd_scope = scope, gd_bounds = bounds,
      gd_parent_goal_id = parent, gd_capability_references = set capabilities\<rparr>"
proof -
  have "card (set (map criterion_id criteria)) = length criteria \<longleftrightarrow> distinct (map criterion_id criteria)"
    using length_card_distinct [of "map criterion_id criteria"] by auto
  moreover have "(case parent of None \<Rightarrow> False | Some p \<Rightarrow> as_str p = []) \<longleftrightarrow> parent = Some (Ident [])"
    by (cases parent) (auto intro: ident.expand)
  ultimately show ?thesis
    unfolding goal_definition_def goal_ok_def criteria_ok_def
    by (auto simp: length_card_distinct distinct_card list_ex_iff not_less)
qed

text \<open>
  A raw document describes a definition when it has its content, with the capability references in any
  order and without repetitions.
\<close>

definition goal_describes :: "RawGoalDefinitionV1 \<Rightarrow> GoalDefinitionV1 \<Rightarrow> bool" where
  "goal_describes raw d \<longleftrightarrow>
     rg_contract raw = gd_contract d \<and> rg_version raw = gd_version d \<and> rg_goal_id raw = gd_goal_id d \<and>
     rg_objective raw = gd_objective d \<and> rg_criteria raw = gd_criteria d \<and>
     gs_session_id (rg_scope raw) = gs_session_id (gd_scope d) \<and>
     set (sorted_list_of_set (gs_workspace_capability_ids (rg_scope raw))) = gs_workspace_capability_ids (gd_scope d) \<and>
     rg_bounds raw = gd_bounds d \<and> rg_parent_goal_id raw = gd_parent_goal_id d \<and>
     distinct (rg_capability_references raw) \<and> set (rg_capability_references raw) = gd_capability_references d"

lemma goal_from_canonical_json_iff:
  "goal_from_canonical_json parse jcs json = Inr d \<longleftrightarrow>
   (\<exists>raw. parse json = Some raw \<and> goal_describes raw d) \<and> goal_ok d \<and> scope_ok (gd_scope d) \<and>
   goal_bounds_ok (gd_bounds d) \<and> jcs d = Some json"
proof (cases "parse json")
  case (Some raw)
  have "goal_from_canonical_json parse jcs json = Inr d \<longleftrightarrow>
    goal_describes raw d \<and> goal_ok d \<and> scope_ok (gd_scope d) \<and> goal_bounds_ok (gd_bounds d) \<and> jcs d = Some json"
    unfolding goal_from_canonical_json_def goal_canonical_json_def Some ok_or_simps rbind_simps if_Inl_eq_Inr
      rbind_eq_Inr goal_scope_iff goal_bounds_iff goal_definition_iff ok_or_eq_Inr goal_describes_def
    by (cases d, cases "gd_scope d", cases "rg_bounds raw") (auto simp: goal_ok_def)
  with Some show ?thesis
    by simp
qed (simp add: goal_from_canonical_json_def)

end
