(* ===== verification/Goal_Lifecycle.thy ===== *)
theory Goal_Lifecycle
  imports Goal_Definition
begin

section \<open>Goal progress\<close>

text \<open>
  The revisioned reducer of \<open>lifecycle.rs\<close>: evidence, the snapshot of a goal, and its transitions, each of
  which names the revision it expects. A success is admitted only with one piece of evidence of the
  right kind for every criterion; every transition raises the revision by one, and the closed states
  admit none. The properties are stated over runs of the reducer from a new goal.
\<close>

subsection \<open>Evidence\<close>

datatype GoalEvidenceKind = UserAcceptanceKind | ArtifactKind | DurableFactKind | ChildGoalsKind

record GoalEvidenceV1 =
  ge_evidence_id :: GoalEvidenceId
  ge_criterion_id :: GoalCriterionId
  ge_kind :: GoalEvidenceKind
  ge_durable_reference :: string
  ge_evidence_digest :: string
  ge_observed_at_commit_version :: u64

definition goal_evidence ::
  "GoalEvidenceId \<Rightarrow> GoalCriterionId \<Rightarrow> GoalEvidenceKind \<Rightarrow> string \<Rightarrow> string \<Rightarrow> u64 \<Rightarrow>
   GoalErrorCode + GoalEvidenceV1" where
  "goal_evidence i criterion kind reference digest version =
     (let e = \<lparr>ge_evidence_id = i, ge_criterion_id = criterion, ge_kind = kind,
               ge_durable_reference = reference, ge_evidence_digest = digest,
               ge_observed_at_commit_version = version\<rparr> in
      if \<not> valid_reference (ge_durable_reference e) \<or> \<not> valid_digest (ge_evidence_digest e)
         \<or> ge_observed_at_commit_version e = 0
      then Inl GoalInvalid else Inr e)"

definition evidence_canonical_json ::
  "(GoalEvidenceV1 list \<Rightarrow> string option) \<Rightarrow> GoalEvidenceV1 list \<Rightarrow> GoalErrorCode + string" where
  "evidence_canonical_json jcs es =
     (if length es > goal_max_collection_items then Inl GoalInvalid else ok_or (jcs es) GoalInvalid)"

definition evidence_from_canonical_json ::
  "(string \<Rightarrow> GoalEvidenceV1 list option) \<Rightarrow> (GoalEvidenceV1 list \<Rightarrow> string option) \<Rightarrow> string \<Rightarrow>
   GoalErrorCode + GoalEvidenceV1 list" where
  "evidence_from_canonical_json parse jcs json =
     rbind (ok_or (parse json) GoalInvalid) (\<lambda>raw.
     rbind (rmap (\<lambda>e. goal_evidence (ge_evidence_id e) (ge_criterion_id e) (ge_kind e)
              (ge_durable_reference e) (ge_evidence_digest e) (ge_observed_at_commit_version e)) raw) (\<lambda>es.
     rbind (evidence_canonical_json jcs es) (\<lambda>text.
       if text \<noteq> json then Inl GoalInvalid else Inr es)))"

subsection \<open>Snapshots and transitions\<close>

datatype GoalState = Draft | Active | Suspended | Succeeded | Failed | Cancelled

definition goal_is_terminal :: "GoalState \<Rightarrow> bool" where
  "goal_is_terminal s \<longleftrightarrow> s \<in> {Succeeded, Failed, Cancelled}"

datatype GoalTransition =
    Activate
  | Suspend string
  | Succeed "GoalEvidenceV1 list"
  | Fail string
  | Cancel string
  | Revise GoalDefinitionV1

record GoalSnapshot =
  gn_definition :: GoalDefinitionV1
  gn_revision :: u64
  gn_state :: GoalState
  gn_terminal_evidence :: "GoalEvidenceV1 list"

definition goal_snapshot :: "GoalDefinitionV1 \<Rightarrow> GoalSnapshot" where
  "goal_snapshot d = \<lparr>gn_definition = d, gn_revision = 1, gn_state = Draft, gn_terminal_evidence = []\<rparr>"

fun criterion_kind :: "GoalCriterion \<Rightarrow> GoalEvidenceKind" where
  "criterion_kind (UserAcceptance _ _) = UserAcceptanceKind"
| "criterion_kind (Artifact _ _ _) = ArtifactKind"
| "criterion_kind (DurableFact _ _ _) = DurableFactKind"
| "criterion_kind (ChildGoals _ _) = ChildGoalsKind"

definition validate_evidence :: "GoalCriterion list \<Rightarrow> GoalEvidenceV1 list \<Rightarrow> GoalErrorCode + unit" where
  "validate_evidence criteria evidence =
     (let by_criterion = bt_collect (map (\<lambda>e. (ge_criterion_id e, e)) evidence);
          evidence_ids = bt_collect (map (\<lambda>e. (ge_evidence_id e, e)) evidence) in
      if bt_len by_criterion \<noteq> length evidence
       \<or> bt_len evidence_ids \<noteq> length evidence
       \<or> length criteria \<noteq> length evidence
       \<or> list_ex (\<lambda>c. case bt_get by_criterion (criterion_id c) of
             None \<Rightarrow> True | Some e \<Rightarrow> ge_kind e \<noteq> criterion_kind c) criteria
      then Inl GoalEvidenceInsufficient else Inr ())"

definition goal_apply :: "GoalSnapshot \<Rightarrow> u64 \<Rightarrow> GoalTransition \<Rightarrow> GoalErrorCode + GoalSnapshot" where
  "goal_apply g expected t =
     (if expected \<noteq> gn_revision g then Inl GoalRevisionConflict
      else if goal_is_terminal (gn_state g) then Inl GoalTransitionInvalid
      else rbind (ok_or (checked_add (gn_revision g) 1) GoalInvalid) (\<lambda>revision.
        let next = g\<lparr>gn_revision := revision\<rparr>; refused = Inl GoalTransitionInvalid in
        case t of
          Activate \<Rightarrow>
            if gn_state g \<in> {Draft, Suspended} then Inr (next\<lparr>gn_state := Active\<rparr>) else refused
        | Suspend reason \<Rightarrow>
            if gn_state g = Active \<and> valid_reference reason then Inr (next\<lparr>gn_state := Suspended\<rparr>) else refused
        | Succeed evidence \<Rightarrow>
            if gn_state g = Active
            then rbind (validate_evidence (gd_criteria (gn_definition g)) evidence)
                   (\<lambda>_. Inr (next\<lparr>gn_state := Succeeded, gn_terminal_evidence := evidence\<rparr>))
            else refused
        | Fail reason \<Rightarrow>
            if gn_state g \<in> {Active, Suspended} \<and> valid_reference reason
            then Inr (next\<lparr>gn_state := Failed\<rparr>) else refused
        | Cancel reason \<Rightarrow>
            if valid_reference reason then Inr (next\<lparr>gn_state := Cancelled\<rparr>) else refused
        | Revise d \<Rightarrow>
            if gd_goal_id d = gd_goal_id (gn_definition g)
            then Inr (next\<lparr>gn_definition := d, gn_state := Draft, gn_terminal_evidence := []\<rparr>)
            else refused))"

text \<open>Commands carry the revision they expect.\<close>

definition goal_step :: "GoalSnapshot \<Rightarrow> u64 \<times> GoalTransition \<Rightarrow> GoalErrorCode + GoalSnapshot" where
  "goal_step g c = goal_apply g (fst c) (snd c)"

subsection \<open>Evidence is complete\<close>

text \<open>What complete evidence is: one piece for every criterion, of its kind, and nothing else.\<close>

definition evidence_complete :: "GoalCriterion list \<Rightarrow> GoalEvidenceV1 list \<Rightarrow> bool" where
  "evidence_complete criteria evidence \<longleftrightarrow>
     distinct (map ge_evidence_id evidence) \<and> distinct (map ge_criterion_id evidence) \<and>
     (\<lambda>e. (ge_criterion_id e, ge_kind e)) ` set evidence = (\<lambda>c. (criterion_id c, criterion_kind c)) ` set criteria"

lemma collect_len_iff:
  "bt_len (bt_collect (map (\<lambda>x. (f x, x)) xs)) = length xs \<longleftrightarrow> distinct (map f xs)"
proof -
  have "bt_len (bt_collect (map (\<lambda>x. (f x, x)) xs)) = card (set (map f xs))"
    by (simp add: bt_len_collect image_image)
  then show ?thesis
    using length_card_distinct [of "map f xs"] by auto
qed

lemma collect_get_iff:
  "distinct (map f xs) \<Longrightarrow> bt_get (bt_collect (map (\<lambda>x. (f x, x)) xs)) k = Some x \<longleftrightarrow> x \<in> set xs \<and> f x = k"
  by (subst bt_get_collect_iff) (auto simp: comp_def)

lemma collect_case_iff:
  assumes "distinct (map f xs)"
  shows "(case bt_get (bt_collect (map (\<lambda>x. (f x, x)) xs)) k of None \<Rightarrow> True | Some x \<Rightarrow> g x \<noteq> v) \<longleftrightarrow>
    (k, v) \<notin> (\<lambda>x. (f x, g x)) ` set xs"
proof (cases "bt_get (bt_collect (map (\<lambda>x. (f x, x)) xs)) k")
  case None
  then have "f x \<noteq> k" if "x \<in> set xs" for x
    using collect_get_iff [OF assms, of k x] that by auto
  with None show ?thesis
    by auto
next
  case (Some a)
  then have a: "a \<in> set xs" "f a = k"
    using collect_get_iff [OF assms, of k a] by simp_all
  have unique: "x = a" if "x \<in> set xs" "f x = k" for x
    using collect_get_iff [OF assms, of k x] that Some by simp
  have "(k, v) \<in> (\<lambda>x. (f x, g x)) ` set xs \<longleftrightarrow> g a = v"
  proof
    assume "(k, v) \<in> (\<lambda>x. (f x, g x)) ` set xs"
    then obtain x where "x \<in> set xs" "f x = k" "g x = v"
      by auto
    with unique show "g a = v"
      by blast
  qed (use a in auto)
  with Some show ?thesis
    by simp
qed

lemma validate_evidence_iff:
  assumes "distinct (map criterion_id criteria)"
  shows "validate_evidence criteria evidence = Inr () \<longleftrightarrow> evidence_complete criteria evidence"
proof -
  let ?E = "(\<lambda>e. (ge_criterion_id e, ge_kind e)) ` set evidence"
  let ?C = "(\<lambda>c. (criterion_id c, criterion_kind c)) ` set criteria"
  have cards: "?C \<subseteq> ?E \<and> length criteria = length evidence \<longleftrightarrow> ?E = ?C" if "distinct (map ge_criterion_id evidence)"
  proof -
    have "inj_on (\<lambda>e. (ge_criterion_id e, ge_kind e)) (set evidence)" "inj_on (\<lambda>c. (criterion_id c, criterion_kind c)) (set criteria)"
      using that assms by (auto simp: distinct_map inj_on_def)
    then have "card ?E = length evidence" "card ?C = length criteria"
      using that assms by (simp_all add: card_image distinct_map distinct_card)
    then show ?thesis
      using card_subset_eq [of ?E ?C] by auto
  qed
  show ?thesis
  proof (cases "distinct (map ge_criterion_id evidence)")
    case True
    have "list_ex (\<lambda>c. case bt_get (bt_collect (map (\<lambda>e. (ge_criterion_id e, e)) evidence)) (criterion_id c) of
        None \<Rightarrow> True | Some e \<Rightarrow> ge_kind e \<noteq> criterion_kind c) criteria \<longleftrightarrow> \<not> ?C \<subseteq> ?E"
      unfolding list_ex_iff collect_case_iff [OF True] by auto
    then have "validate_evidence criteria evidence = Inr () \<longleftrightarrow>
        distinct (map ge_evidence_id evidence) \<and> (?C \<subseteq> ?E \<and> length criteria = length evidence)"
      using True unfolding validate_evidence_def Let_def collect_len_iff by simp blast
    with cards [OF True] True show ?thesis
      unfolding evidence_complete_def by blast
  next
    case False
    then show ?thesis
      by (simp add: validate_evidence_def Let_def collect_len_iff evidence_complete_def)
  qed
qed

subsection \<open>The reducer\<close>

lemma goal_apply_frame:
  assumes "goal_apply g expected t = Inr h"
  shows "expected = gn_revision g" and "unat (gn_revision h) = Suc (unat (gn_revision g))"
    and "\<not> goal_is_terminal (gn_state g)" and "gd_goal_id (gn_definition h) = gd_goal_id (gn_definition g)"
proof -
  from assms show e: "expected = gn_revision g" and live: "\<not> goal_is_terminal (gn_state g)"
    by (auto simp: goal_apply_def split: if_splits)
  with assms obtain r where r: "checked_add (gn_revision g) 1 = Some r"
    by (auto simp: goal_apply_def rbind_eq_Inr ok_or_eq_Inr)
  with assms e live have "gn_revision h = r \<and> gd_goal_id (gn_definition h) = gd_goal_id (gn_definition g)"
    by (auto simp: goal_apply_def Let_def rbind_eq_Inr split: GoalTransition.splits if_splits)
  with unat_checked_succ [OF r] show "unat (gn_revision h) = Suc (unat (gn_revision g))"
    and "gd_goal_id (gn_definition h) = gd_goal_id (gn_definition g)"
    by auto
qed

definition goal_inv :: "GoalSnapshot \<Rightarrow> bool" where
  "goal_inv g \<longleftrightarrow> distinct (map criterion_id (gd_criteria (gn_definition g))) \<and>
     (if gn_state g = Succeeded
      then evidence_complete (gd_criteria (gn_definition g)) (gn_terminal_evidence g)
      else gn_terminal_evidence g = [])"

text \<open>A revision carries a definition of its own, which the constructor has admitted.\<close>

fun transition_ok :: "GoalTransition \<Rightarrow> bool" where
  "transition_ok (Revise d) = goal_ok d"
| "transition_ok _ = True"

lemma goal_apply_inv:
  assumes "goal_inv g" and "transition_ok t" and "goal_apply g expected t = Inr h"
  shows "goal_inv h"
proof -
  note live = goal_apply_frame(3) [OF assms(3)]
  then have "gn_terminal_evidence g = []"
    using assms(1) by (auto simp: goal_inv_def goal_is_terminal_def split: if_splits)
  moreover have d: "distinct (map criterion_id (gd_criteria (gn_definition g)))"
    using assms(1) by (simp add: goal_inv_def)
  ultimately show ?thesis
    using assms(2,3) live
    by (cases t) (auto simp: goal_apply_def goal_inv_def Let_def rbind_eq_Inr validate_evidence_iff [OF d]
        goal_ok_def criteria_ok_def split: if_splits)
qed

interpretation goal_evidences: guarded_reducer goal_step goal_inv "transition_ok \<circ> snd"
  by unfold_locales (auto simp: goal_step_def intro: goal_apply_inv)

interpretation goal_final: absorbing_reducer goal_step "\<lambda>g. goal_is_terminal (gn_state g)"
  by unfold_locales (use goal_apply_frame(3) in \<open>auto simp: goal_step_def\<close>)

lemma goal_snapshot_inv: "goal_ok d \<Longrightarrow> goal_inv (goal_snapshot d)"
  by (simp add: goal_inv_def goal_snapshot_def goal_ok_def criteria_ok_def)

lemma goal_run_revisions:
  "run goal_step g cs = Inr h \<Longrightarrow>
   map (unat \<circ> fst) cs = [unat (gn_revision g) ..< unat (gn_revision g) + length cs] \<and>
   unat (gn_revision h) = unat (gn_revision g) + length cs \<and>
   gd_goal_id (gn_definition h) = gd_goal_id (gn_definition g)"
proof (induction cs arbitrary: g)
  case (Cons c cs)
  then obtain m where m: "goal_step g c = Inr m" "run goal_step m cs = Inr h"
    by (auto simp: rbind_eq_Inr)
  note frame = goal_apply_frame [OF m(1) [unfolded goal_step_def]]
  from Cons.IH [OF m(2)] frame show ?case
    by (simp add: upt_conv_Cons del: upt_Suc)
qed simp

subsection \<open>A sample goal\<close>

definition sample_goal :: "GoalDefinitionV1" where
  "sample_goal =
     \<lparr>gd_contract = goal_definition_contract, gd_version = goal_contract_version, gd_goal_id = Ident ''g'',
      gd_objective = ''ship'', gd_criteria = [Artifact (Ident ''c1'') ''report'' None, ChildGoals (Ident ''c2'') {Ident ''h''}],
      gd_scope = \<lparr>gs_session_id = Some ''s'', gs_workspace_capability_ids = {''w1'', ''w2''}\<rparr>,
      gd_bounds = \<lparr>gb_max_attempts = 3, gb_max_plan_revisions = 2, gb_max_child_goals = 4,
        gb_token_budget = Some 1000, gb_duration_budget_ms = None\<rparr>,
      gd_parent_goal_id = None, gd_capability_references = {\<lparr>gc_name = ''tool'', gc_exact_revision = ''1''\<rparr>}\<rparr>"

definition sample_child :: "GoalDefinitionV1" where
  "sample_child = sample_goal\<lparr>gd_goal_id := Ident ''h'', gd_parent_goal_id := Some (Ident ''g''),
     gd_scope := \<lparr>gs_session_id = None, gs_workspace_capability_ids = {''w1''}\<rparr>\<rparr>"

definition sample_grandchild :: "GoalDefinitionV1" where
  "sample_grandchild = sample_child\<lparr>gd_goal_id := Ident ''k'', gd_parent_goal_id := Some (Ident ''h''),
     gd_capability_references := {},
     gd_bounds := \<lparr>gb_max_attempts = 1, gb_max_plan_revisions = 2, gb_max_child_goals = 2,
        gb_token_budget = Some 500, gb_duration_budget_ms = Some 60000\<rparr>\<rparr>"

definition sample_evidence :: "GoalEvidenceV1 list" where
  "sample_evidence =
     [\<lparr>ge_evidence_id = Ident ''e1'', ge_criterion_id = Ident ''c2'', ge_kind = ChildGoalsKind,
       ge_durable_reference = ''r'', ge_evidence_digest = replicate 64 CHR ''0'', ge_observed_at_commit_version = 4\<rparr>,
      \<lparr>ge_evidence_id = Ident ''e2'', ge_criterion_id = Ident ''c1'', ge_kind = ArtifactKind,
       ge_durable_reference = ''r'', ge_evidence_digest = replicate 64 CHR ''1'', ge_observed_at_commit_version = 4\<rparr>]"

lemma sample_goal_ok: "goal_ok sample_goal"
  by (simp add: goal_ok_def criteria_ok_def criterion_validate_def valid_reference_def sample_goal_def
      goal_max_objective_bytes_def goal_max_collection_items_def goal_max_reference_bytes_def)

subsection \<open>Properties\<close>

text \<open>
  C23. A succeeded goal carries exactly one piece of evidence of the right kind for every criterion
  of its current definition, with distinct evidence identities, and no other evidence.
\<close>

theorem goals_succeed_only_with_complete_evidence:
  assumes "goal_ok d" and "list_all (transition_ok \<circ> snd) cs"
    and "run goal_step (goal_snapshot d) cs = Inr g" and "gn_state g = Succeeded"
  shows "evidence_complete (gd_criteria (gn_definition g)) (gn_terminal_evidence g)"
  using goal_evidences.run_keeps_ok [OF goal_snapshot_inv [OF assms(1)] assms(2,3)] assms(4)
  by (simp add: goal_inv_def)

theorem goals_succeed_only_with_complete_evidence_witness:
  "\<exists>g. run goal_step (goal_snapshot sample_goal) [(1, Activate), (2, Succeed sample_evidence)] = Inr g \<and>
     evidence_complete (gd_criteria sample_goal) sample_evidence"
proof -
  let ?cs = "[(1, Activate), (2, Succeed sample_evidence)]"
  have "validate_evidence (gd_criteria sample_goal) sample_evidence = Inr ()"
    by code_simp
  then have "rbind (run goal_step (goal_snapshot sample_goal) ?cs)
      (\<lambda>g. Inr (gn_state g, gn_terminal_evidence g = sample_evidence, gd_criteria (gn_definition g) = gd_criteria sample_goal)) =
      Inr (Succeeded, True, True)"
    by (simp add: goal_step_def goal_apply_def goal_snapshot_def checked_add_def goal_is_terminal_def)
  then obtain g where g: "run goal_step (goal_snapshot sample_goal) ?cs = Inr g" "gn_state g = Succeeded"
    "gn_terminal_evidence g = sample_evidence" "gd_criteria (gn_definition g) = gd_criteria sample_goal"
    by (auto simp: rbind_eq_Inr)
  from goals_succeed_only_with_complete_evidence [OF sample_goal_ok _ g(1,2)] g show ?thesis
    by simp
qed

text \<open>
  C24. A run of goal commands succeeds only when their expected revisions are 1, 2, 3 and so on; the
  revision counts them without wrap-around and the goal identity never changes.
\<close>

theorem goal_commands_apply_in_revision_order:
  assumes "run goal_step (goal_snapshot d) cs = Inr g"
  shows "map (unat \<circ> fst) cs = [1 ..< Suc (length cs)] \<and> unat (gn_revision g) = Suc (length cs)
    \<and> gd_goal_id (gn_definition g) = gd_goal_id d"
  using goal_run_revisions [OF assms] by (simp add: goal_snapshot_def)

theorem goal_commands_apply_in_revision_order_witness:
  "\<exists>g. run goal_step (goal_snapshot sample_goal) [(1, Activate), (2, Suspend ''wait'')] = Inr g \<and> unat (gn_revision g) = 3"
proof -
  let ?cs = "[(1, Activate), (2, Suspend ''wait'')]"
  have "rbind (run goal_step (goal_snapshot sample_goal) ?cs) (\<lambda>g. Inr (gn_state g)) = Inr Suspended"
    by (simp add: goal_step_def goal_apply_def goal_snapshot_def checked_add_def goal_is_terminal_def
        valid_reference_def goal_max_reference_bytes_def)
  then obtain g where g: "run goal_step (goal_snapshot sample_goal) ?cs = Inr g"
    by (auto simp: rbind_eq_Inr)
  from goal_commands_apply_in_revision_order [OF g] g show ?thesis
    by simp
qed

text \<open>
  C25. A goal passes the check as a child exactly when it names the parent and everything it permits
  (a session, a workspace, a capability, a number of attempts, plan revisions, child goals, tokens
  or milliseconds, an absent budget being no limit) the parent permits too, and along any chain of
  checked child goals no descendant permits anything that the first does not.
\<close>

theorem child_goals_never_gain_authority:
  "(validate_child_of c d = Inr () \<longleftrightarrow>
      gd_parent_goal_id c = Some (gd_goal_id d) \<and> (\<forall>u. goal_permits c u \<longrightarrow> goal_permits d u)) \<and>
   (successively (\<lambda>p c. validate_child_of c p = Inr ()) (d # ds) \<and> c \<in> set ds \<longrightarrow>
      (\<forall>u. goal_permits c u \<longrightarrow> goal_permits d u))"
proof (intro conjI impI)
  show "validate_child_of c d = Inr () \<longleftrightarrow>
      gd_parent_goal_id c = Some (gd_goal_id d) \<and> (\<forall>u. goal_permits c u \<longrightarrow> goal_permits d u)"
    by (auto simp: validate_child_iff goal_authority_def)
  assume chain: "successively (\<lambda>p c. validate_child_of c p = Inr ()) (d # ds) \<and> c \<in> set ds"
  then have "successively (\<lambda>p c. goal_authority c \<subseteq> goal_authority p) (d # ds)"
    by (auto intro: successively_mono simp: validate_child_iff)
  from goals.chain_narrows [OF this] chain show "\<forall>u. goal_permits c u \<longrightarrow> goal_permits d u"
    by (auto simp: goal_authority_def)
qed

theorem child_goals_never_gain_authority_witness:
  "goal_authority sample_grandchild \<subseteq> goal_authority sample_goal \<and>
   \<not> goal_permits sample_grandchild (InWorkspace ''w2'') \<and> goal_permits sample_goal (InWorkspace ''w2'') \<and>
   \<not> goal_permits sample_grandchild (ChildGoalCount 3) \<and> goal_permits sample_goal (ChildGoalCount 3)"
proof -
  have "successively (\<lambda>p c. validate_child_of c p = Inr ()) (sample_goal # [sample_child, sample_grandchild])"
    by code_simp
  then show ?thesis
    using child_goals_never_gain_authority [of sample_grandchild sample_goal "[sample_child, sample_grandchild]"]
    by (auto simp: goal_authority_def) (simp_all add: sample_grandchild_def sample_child_def sample_goal_def)
qed

text \<open>
  A text decodes to a goal definition exactly when the parsed document describes it, the
  definition passes the constructor checks that are applied again, and the text is its canonical
  form.
\<close>

lemma goal_decoding_is_exact:
  "goal_from_canonical_json parse jcs json = Inr d \<longleftrightarrow>
   (\<exists>raw. parse json = Some raw \<and> goal_describes raw d) \<and> goal_ok d \<and> scope_ok (gd_scope d) \<and>
   goal_bounds_ok (gd_bounds d) \<and> jcs d = Some json"
  by (rule goal_from_canonical_json_iff)

subsection \<open>Identities the decoder does not check again\<close>

text \<open>
  \<open>GoalId::new\<close> refuses an identity of more than 256 bytes. The derived reader does not call it, and the
  definition constructor only refuses an empty one, so a document with a longer identity is decoded.
\<close>

definition long_goal :: "GoalDefinitionV1" where
  "long_goal = sample_goal\<lparr>gd_goal_id := Ident (replicate 300 CHR ''x'')\<rparr>"

definition long_raw :: "RawGoalDefinitionV1" where
  "long_raw = \<lparr>rg_contract = gd_contract long_goal, rg_version = gd_version long_goal, rg_goal_id = gd_goal_id long_goal,
     rg_objective = gd_objective long_goal, rg_criteria = gd_criteria long_goal, rg_scope = gd_scope long_goal,
     rg_bounds = gd_bounds long_goal, rg_parent_goal_id = gd_parent_goal_id long_goal,
     rg_capability_references = [\<lparr>gc_name = ''tool'', gc_exact_revision = ''1''\<rparr>]\<rparr>"

lemma decoder_admits_long_identities:
  "goal_identity (as_str (gd_goal_id long_goal)) = Inl GoalInvalid"
  "goal_from_canonical_json (\<lambda>_. Some long_raw) (\<lambda>_. Some ''doc'') ''doc'' = Inr long_goal"
proof -
  show "goal_identity (as_str (gd_goal_id long_goal)) = Inl GoalInvalid"
    by (simp add: goal_identity_def long_goal_def goal_max_id_bytes_def)
  have "goal_ok long_goal" "goal_describes long_raw long_goal"
    using sample_goal_ok by (auto simp: long_goal_def long_raw_def goal_ok_def goal_describes_def sample_goal_def)
  moreover have "scope_ok (gd_scope long_goal)" "goal_bounds_ok (gd_bounds long_goal)"
    by (simp_all add: long_goal_def sample_goal_def scope_ok_def goal_bounds_ok_def valid_reference_def
        goal_max_collection_items_def goal_max_reference_bytes_def)
  ultimately show "goal_from_canonical_json (\<lambda>_. Some long_raw) (\<lambda>_. Some ''doc'') ''doc'' = Inr long_goal"
    by (simp add: goal_from_canonical_json_iff)
qed

end
