(* ===== verification/Session_Projection.thy ===== *)
theory Session_Projection
  imports Effect_Projection
begin

section \<open>The session projection: delegations, schedules, and one fact\<close>

text \<open>
  The remaining handlers of \<open>engine/ledger/src/projection.rs\<close>, for delegations to child agents and for
  schedules, the commit boundary (\<open>begin_commit\<close>, \<open>validate_commit_boundary\<close>), and \<open>apply\<close>, which
  picks the handler of a fact by its kind. \<open>apply_fact_cases\<close> says which handler an admitted fact went
  through; every invariant of the projection is proved from it.
\<close>

subsection \<open>Delegations\<close>

definition request_delegation :: handler where
  "request_delegation X f p =
     rbind (require_active_execution f p) (\<lambda>_.
     rbind (required (turn_id f)) (\<lambda>t.
     rbind (required (execution_id f)) (\<lambda>e.
     rbind (payload_of X f) (\<lambda>m.
     rbind (payload_text m ''delegation_id'') (\<lambda>i.
     rbind (refuse_any [
       Inr (bt_contains (delegations p) i),
       Inr (list_ex (\<lambda>d. dl_parent_turn d = t \<and> \<not> delegation_resolved d)
              (bt_values (delegations p))),
       text_ne m ''parent_agent_instance_id'' (map_option fst (bt_get (turn_agents p) t))]) (\<lambda>_.
     rbind (payload_text m ''intent_digest'') (\<lambda>d.
       Inr (p\<lparr>delegations := bt_insert i
              \<lparr>dl_parent_turn = t, dl_parent_execution = e, dl_intent_digest = d,
               dl_grant_id = None, dl_suspension_id = None, dl_child_turn = None,
               dl_result_id = None, dl_result_digest = None, dl_input_admitted = False,
               dl_state = DelRequested\<rparr> (delegations p)\<rparr>))))))))"

text \<open>The guards a decision on a requested delegation shares.\<close>

definition delegation_decidable :: "fact_draft \<Rightarrow> jmap \<Rightarrow> delegation_record \<Rightarrow> check" where
  "delegation_decidable f m r = refuse_any [
     Inr (dl_state r \<noteq> DelRequested),
     ident_ne (turn_id f) (dl_parent_turn r),
     ident_ne (execution_id f) (dl_parent_execution r),
     text_ne m ''intent_digest'' (Some (dl_intent_digest r))]"

definition authorize_delegation :: handler where
  "authorize_delegation X f p =
     rbind (require_active_execution f p) (\<lambda>_.
     rbind (payload_of X f) (\<lambda>m.
     rbind (payload_text m ''delegation_id'') (\<lambda>i.
     rbind (ok_or (bt_get (delegations p) i) MissingReference) (\<lambda>r.
     rbind (delegation_decidable f m r) (\<lambda>_.
     rbind (payload_text m ''grant_id'') (\<lambda>g.
       Inr (p\<lparr>delegations := bt_insert i
              (r\<lparr>dl_grant_id := Some g, dl_state := DelAuthorized\<rparr>) (delegations p)\<rparr>)))))))"

definition deny_delegation :: handler where
  "deny_delegation X f p =
     rbind (require_active_execution f p) (\<lambda>_.
     rbind (payload_of X f) (\<lambda>m.
     rbind (payload_text m ''delegation_id'') (\<lambda>i.
     rbind (ok_or (bt_get (delegations p) i) MissingReference) (\<lambda>r.
     rbind (delegation_decidable f m r) (\<lambda>_.
       Inr (p\<lparr>delegations := bt_insert i (r\<lparr>dl_state := DelDenied\<rparr>) (delegations p)\<rparr>))))))"

definition start_delegation_child :: handler where
  "start_delegation_child X f p =
     rbind (payload_of X f) (\<lambda>m.
     rbind (payload_text m ''child_turn_id'') (\<lambda>cs.
     rbind (identity_of cs) (\<lambda>c.
     rbind (payload_text m ''delegation_id'') (\<lambda>i.
     rbind (ok_or (bt_get (delegations p) i) MissingReference) (\<lambda>r.
     let child = bt_get (turn_agents p) c in
     rbind (refuse_any [
       Inr (dl_state r \<noteq> DelAuthorized),
       ident_ne (turn_id f) (dl_parent_turn r),
       ident_ne (execution_id f) (dl_parent_execution r),
       text_ne m ''grant_id'' (dl_grant_id r),
       Inr (dl_parent_turn r \<notin> turns_suspended_in_commit p),
       Inr (c \<notin> turns_started_in_commit p),
       text_ne m ''child_agent_instance_id'' (map_option fst child),
       text_ne m ''child_snapshot_digest'' (map_option snd child)]) (\<lambda>_.
     rbind (payload_text m ''suspension_id'') (\<lambda>s.
       if bt_get (suspensions p) (dl_parent_turn r) \<noteq> Some s then Inl InvalidTransition
       else Inr (p\<lparr>delegations := bt_insert i
              (r\<lparr>dl_suspension_id := Some s, dl_child_turn := Some c, dl_state := DelStarted\<rparr>)
              (delegations p)\<rparr>))))))))"

definition terminal_delegation_child :: handler where
  "terminal_delegation_child X f p =
     rbind (payload_of X f) (\<lambda>m.
     rbind (payload_text m ''child_turn_id'') (\<lambda>cs.
     rbind (identity_of cs) (\<lambda>c.
     rbind (payload_text m ''delegation_id'') (\<lambda>i.
     rbind (ok_or (bt_get (delegations p) i) MissingReference) (\<lambda>r.
     rbind (refuse_any [
       Inr (dl_state r \<noteq> DelStarted),
       ident_ne (turn_id f) (dl_parent_turn r),
       ident_ne (execution_id f) (dl_parent_execution r),
       text_ne m ''grant_id'' (dl_grant_id r),
       text_ne m ''suspension_id'' (dl_suspension_id r),
       Inr (dl_child_turn r \<noteq> Some c),
       Inr (c \<notin> turns_terminal_in_commit p)]) (\<lambda>_.
     rbind (payload_text m ''result_id'') (\<lambda>ri.
     rbind (payload_text m ''result_digest'') (\<lambda>rd.
       Inr (p\<lparr>delegations := bt_insert i
              (r\<lparr>dl_result_id := Some ri, dl_result_digest := Some rd, dl_state := DelTerminal\<rparr>)
              (delegations p)\<rparr>)))))))))"

definition observe_delegation :: handler where
  "observe_delegation X f p =
     rbind (payload_of X f) (\<lambda>m.
     rbind (payload_text m ''delegation_id'') (\<lambda>i.
     rbind (ok_or (bt_get (delegations p) i) MissingReference) (\<lambda>r.
     rbind (refuse_any [
       Inr (dl_state r \<noteq> DelTerminal),
       ident_ne (turn_id f) (dl_parent_turn r),
       ident_ne (execution_id f) (dl_parent_execution r),
       text_ne m ''grant_id'' (dl_grant_id r),
       text_ne m ''suspension_id'' (dl_suspension_id r),
       text_ne m ''result_id'' (dl_result_id r),
       text_ne m ''result_digest'' (dl_result_digest r)]) (\<lambda>_.
       Inr (p\<lparr>delegations := bt_insert i (r\<lparr>dl_state := DelObserved\<rparr>) (delegations p)\<rparr>)))))"

subsection \<open>Schedules\<close>

definition create_schedule :: handler where
  "create_schedule X f p =
     rbind (payload_of X f) (\<lambda>m.
     rbind (payload_text m ''schedule_id'') (\<lambda>i.
     rbind (payload_text m ''revision_id'') (\<lambda>r.
     rbind (payload_text m ''intent_digest'') (\<lambda>d.
     let fresh = \<lparr>sc_revision_id = r, sc_intent_digest = d, sc_last_handled_ordinal = 0,
                  sc_pending_claim = None, sc_state = SchedActive\<rparr>
     in case bt_get (schedules p) i of
          Some existing \<Rightarrow>
            if sc_state existing \<noteq> Superseding \<or> sc_revision_id existing = r
            then Inl InvalidTransition
            else Inr (p\<lparr>schedules := bt_insert i fresh (schedules p)\<rparr>)
        | None \<Rightarrow> Inr (p\<lparr>schedules := bt_insert i fresh (schedules p)\<rparr>)))))"

definition schedule_mut ::
  "jmap \<Rightarrow> session_projection \<Rightarrow> ledger_error + (string \<times> schedule_record)" where
  "schedule_mut m p =
     rbind (payload_text m ''schedule_id'') (\<lambda>i.
     rbind (ok_or (bt_get (schedules p) i) InvalidTransition) (\<lambda>r.
     rbind (refuse_any [
       Inr (sc_state r \<noteq> SchedActive),
       text_ne m ''revision_id'' (Some (sc_revision_id r))]) (\<lambda>_. Inr (i, r))))"

definition set_schedule ::
  "string \<Rightarrow> schedule_record \<Rightarrow> session_projection \<Rightarrow> session_projection" where
  "set_schedule i r p = p\<lparr>schedules := bt_insert i r (schedules p)\<rparr>"

definition claim_schedule :: handler where
  "claim_schedule X f p =
     rbind (payload_of X f) (\<lambda>m.
     rbind (schedule_mut m p) (\<lambda>(i, r).
     rbind (payload_unsigned m ''ordinal'') (\<lambda>ordinal.
     rbind (payload_text m ''occurrence_id'') (\<lambda>occurrence.
     rbind (payload_text m ''due_at_utc'') (\<lambda>due.
     rbind (payload_unsigned m ''lease_epoch'') (\<lambda>epoch.
     rbind (ok_or (checked_add (sc_last_handled_ordinal r) 1) InvalidTransition) (\<lambda>next.
     let valid = (case sc_pending_claim r of
           None \<Rightarrow> ordinal = next
         | Some pending \<Rightarrow> cl_ordinal pending = ordinal \<and> cl_occurrence_id pending = occurrence
             \<and> cl_due_at_utc pending = due \<and> epoch > cl_lease_epoch pending)
     in if \<not> valid then Inl InvalidTransition
        else Inr (set_schedule i (r\<lparr>sc_pending_claim := Some
               \<lparr>cl_occurrence_id = occurrence, cl_ordinal = ordinal, cl_due_at_utc = due,
                cl_lease_epoch = epoch\<rparr>\<rparr>) p))))))))"

definition fire_schedule :: handler where
  "fire_schedule X f p =
     rbind (payload_of X f) (\<lambda>m.
     rbind (schedule_mut m p) (\<lambda>(i, r).
     rbind (payload_unsigned m ''ordinal'') (\<lambda>ordinal.
     rbind (payload_text m ''occurrence_id'') (\<lambda>occurrence.
       if \<not> (case sc_pending_claim r of
               None \<Rightarrow> False
             | Some pending \<Rightarrow> cl_ordinal pending = ordinal \<and> cl_occurrence_id pending = occurrence)
       then Inl InvalidTransition
       else Inr (set_schedule i
              (r\<lparr>sc_last_handled_ordinal := ordinal, sc_pending_claim := None\<rparr>) p)))))"

definition skip_schedule :: handler where
  "skip_schedule X f p =
     rbind (payload_of X f) (\<lambda>m.
     rbind (schedule_mut m p) (\<lambda>(i, r).
     rbind (payload_unsigned m ''first_ordinal'') (\<lambda>first.
     rbind (payload_unsigned m ''last_ordinal'') (\<lambda>last.
       if sc_pending_claim r \<noteq> None \<or> checked_add (sc_last_handled_ordinal r) 1 \<noteq> Some first
       then Inl InvalidTransition
       else Inr (set_schedule i (r\<lparr>sc_last_handled_ordinal := last\<rparr>) p)))))"

definition cancel_schedule :: handler where
  "cancel_schedule X f p =
     rbind (payload_of X f) (\<lambda>m.
     rbind (payload_text m ''schedule_id'') (\<lambda>i.
     rbind (ok_or (bt_get (schedules p) i) InvalidTransition) (\<lambda>r.
     rbind (refuse_any [
       Inr (sc_state r \<noteq> SchedActive),
       Inr (sc_pending_claim r \<noteq> None),
       text_ne m ''expected_revision_id'' (Some (sc_revision_id r))]) (\<lambda>_.
     rbind (payload_text m ''reason'') (\<lambda>reason.
       Inr (set_schedule i (r\<lparr>sc_state :=
              (if reason = ''superseded'' then Superseding else SchedCancelled)\<rparr>) p))))))"

definition fail_schedule :: handler where
  "fail_schedule X f p =
     rbind (payload_of X f) (\<lambda>m.
     rbind (schedule_mut m p) (\<lambda>(i, r).
     let occurrence = Option.bind (jget m ''occurrence_id'') json_as_str;
         ordinal = Option.bind (jget m ''ordinal'') as_u64;
         matches_claim = (case (sc_pending_claim r, occurrence, ordinal) of
             (None, None, None) \<Rightarrow> True
           | (None, Some _, Some number) \<Rightarrow>
               checked_add (sc_last_handled_ordinal r) 1 = Some number
           | (Some pending, Some o_id, Some number) \<Rightarrow>
               cl_occurrence_id pending = o_id \<and> cl_ordinal pending = number
           | _ \<Rightarrow> False)
     in if \<not> matches_claim then Inl InvalidTransition
        else Inr (set_schedule i (r\<lparr>sc_pending_claim := None, sc_state := SchedFailed\<rparr>) p)))"

definition exhaust_schedule :: handler where
  "exhaust_schedule X f p =
     rbind (payload_of X f) (\<lambda>m.
     rbind (schedule_mut m p) (\<lambda>(i, r).
     rbind (refuse_any [
       Inr (sc_pending_claim r \<noteq> None),
       rbind (payload_unsigned m ''last_handled_ordinal'') (\<lambda>n.
         Inr (sc_last_handled_ordinal r \<noteq> n))]) (\<lambda>_.
       Inr (set_schedule i (r\<lparr>sc_state := Exhausted\<rparr>) p))))"

subsection \<open>Commit boundaries\<close>

definition begin_commit :: "session_projection \<Rightarrow> session_projection" where
  "begin_commit p = p\<lparr>turns_started_in_commit := {}, turns_suspended_in_commit := {},
     turns_terminal_in_commit := {}, tools_completed_in_commit := {}\<rparr>"

definition validate_commit_boundary :: "session_projection \<Rightarrow> check" where
  "validate_commit_boundary p =
     (if list_ex (\<lambda>v. sc_state v = Superseding) (bt_values (schedules p))
         \<or> list_ex (\<lambda>d.
             dl_parent_turn d \<in> turns_suspended_in_commit p \<and> dl_state d = DelAuthorized
             \<or> (case dl_child_turn d of
                  None \<Rightarrow> False
                | Some t \<Rightarrow> t \<in> turns_terminal_in_commit p \<and> dl_state d = DelStarted))
             (bt_values (delegations p))
      then Inl InvalidTransition else Inr ())"

subsection \<open>One fact\<close>

definition dispatch :: "string \<Rightarrow> handler" where
  "dispatch k =
     (if k = ''session.closed'' then (\<lambda>X f. close_session)
      else if k = ''turn.started'' then start_turn
      else if k = ''turn.suspended'' then suspend_turn
      else if k = ''turn.completed'' then terminal_turn TurnCompleted
      else if k = ''turn.stopped'' then terminal_turn TurnStopped
      else if k = ''turn.failed'' then terminal_turn TurnFailed
      else if k = ''turn.input'' then admit_turn_input
      else if k = ''turn.steered'' then admit_turn_steered
      else if k = ''turn.cancel_requested'' then request_cancel
      else if k = ''execution.started'' then start_execution
      else if k = ''execution.iteration_started'' then start_iteration
      else if k = ''execution.abandoned'' then transition_execution ExecAbandoned
      else if k = ''execution.completed'' then transition_execution ExecCompleted
      else if k = ''execution.suspended'' then transition_execution ExecSuspended
      else if k = ''execution.stopped'' then transition_execution ExecStopped
      else if k = ''execution.failed'' then transition_execution ExecFailed
      else if k = ''execution.effect_batch_planned'' then plan_effect_batch
      else if k = ''model.prepared'' then prepare_model
      else if k = ''model.started'' then transition_model Started
      else if k = ''model.completed'' then transition_model Completed
      else if k = ''model.rejected'' then transition_model Rejected
      else if k = ''model.interrupted'' then transition_model Interrupted
      else if k = ''model.unavailable'' then transition_model Unavailable
      else if k = ''model.uncertain'' then transition_model Uncertain
      else if k = ''effect.prepared'' then prepare_tool
      else if k = ''safety.decided'' then decide_safety
      else if k = ''effect.authorized'' then transition_tool Authorized
      else if k = ''sandbox.bound'' then bind_sandbox
      else if k = ''sandbox.preflighted'' then preflight_sandbox
      else if k = ''effect.started'' then transition_tool Started
      else if k = ''effect.receipt'' then transition_tool Receipt
      else if k = ''effect.completed'' then transition_tool Completed
      else if k = ''artifact.committed'' then commit_artifact
      else if k = ''effect.failed'' then transition_tool Failed
      else if k = ''effect.denied'' then transition_tool Denied
      else if k = ''effect.uncertain'' then transition_tool Uncertain
      else if k = ''effect.reconciled'' then reconcile_tool
      else if k = ''effect.observation'' then observe_tool
      else if k = ''tool.preparation_rejected'' then reject_tool_preparation
      else if k = ''interaction.requested'' then request_interaction
      else if k = ''interaction.resolved'' \<or> k = ''interaction.cancelled'' then finish_interaction
      else if k = ''knowledge.requested'' then request_knowledge
      else if k = ''knowledge.dispatched'' then dispatch_knowledge
      else if k = ''knowledge.completed'' \<or> k = ''knowledge.failed'' then terminal_knowledge
      else if k = ''schedule.created'' then create_schedule
      else if k = ''schedule.claimed'' then claim_schedule
      else if k = ''schedule.fired'' then fire_schedule
      else if k = ''schedule.skipped'' then skip_schedule
      else if k = ''schedule.cancelled'' then cancel_schedule
      else if k = ''schedule.failed'' then fail_schedule
      else if k = ''schedule.exhausted'' then exhaust_schedule
      else if k = ''delegation.requested'' then request_delegation
      else if k = ''delegation.authorized'' then authorize_delegation
      else if k = ''delegation.denied'' then deny_delegation
      else if k = ''delegation.child_started'' then start_delegation_child
      else if k = ''delegation.child_terminal'' then terminal_delegation_child
      else if k = ''delegation.observed'' then observe_delegation
      else (\<lambda>X f. Inr))"

definition apply_fact :: handler where
  "apply_fact X f p =
     rbind (draft_validate X f) (\<lambda>_.
     if kind f = ''session.opened'' then
       (if opened p \<or> closed p then Inl InvalidTransition else Inr (p\<lparr>opened := True\<rparr>))
     else if \<not> opened p \<or> closed p then Inl InvalidTransition
     else dispatch (kind f) X f p)"

subsection \<open>Which handler a fact goes through\<close>

text \<open>
  A property of every handler is a property of whatever \<open>dispatch\<close> picks: one case per handler,
  instead of one per kind.
\<close>

lemma dispatch_cases:
  assumes "P (\<lambda>X f. close_session)" and "P start_turn" and "P suspend_turn"
    and "\<And>st. st \<in> {TurnCompleted, TurnStopped, TurnFailed} \<Longrightarrow> P (terminal_turn st)" and "P admit_turn_input" and "P admit_turn_steered"
    and "P request_cancel" and "P start_execution" and "P start_iteration"
    and "\<And>st. st \<noteq> ExecActive \<Longrightarrow> P (transition_execution st)" and "P plan_effect_batch"
    and "P prepare_model" 
    and "\<And>st. st \<in> {Started, Completed, Rejected, Interrupted, Unavailable, Uncertain} \<Longrightarrow>
           P (transition_model st)" and "P prepare_tool"
    and "P decide_safety" 
    and "\<And>st. st \<in> {Authorized, Started, Receipt, Completed, Failed, Denied, Uncertain} \<Longrightarrow>
           P (transition_tool st)" and "P bind_sandbox"
    and "P preflight_sandbox" and "P commit_artifact" and "P reconcile_tool" and "P observe_tool"
    and "P reject_tool_preparation" and "P request_interaction" and "P finish_interaction"
    and "P request_knowledge" and "P dispatch_knowledge" and "P terminal_knowledge"
    and "P create_schedule" and "P claim_schedule" and "P fire_schedule" and "P skip_schedule"
    and "P cancel_schedule" and "P fail_schedule" and "P exhaust_schedule"
    and "P request_delegation" and "P authorize_delegation" and "P deny_delegation"
    and "P start_delegation_child" and "P terminal_delegation_child" and "P observe_delegation"
    and "P (\<lambda>X f. Inr)"
  shows "P (dispatch k)"
proof -
  have branch: "P (if b then g else h)" if "P g" and "P h" for b g h
    using that by simp
  show ?thesis
    unfolding dispatch_def by (intro branch assms) simp_all
qed

lemma apply_fact_cases:
  assumes "apply_fact X f p = Inr q"
  obtains (first) "kind f = ''session.opened''" and "\<not> opened p" and "\<not> closed p"
      and "q = p\<lparr>opened := True\<rparr>"
    | (handled) "opened p" and "\<not> closed p" and "dispatch (kind f) X f p = Inr q"
  using assms by (auto simp: apply_fact_def result_simps split: if_splits)

text \<open>A property of the state that opening a session and every handler keep is kept by every fact.\<close>

definition keeps :: "(session_projection \<Rightarrow> bool) \<Rightarrow> handler \<Rightarrow> bool" where
  "keeps I h \<longleftrightarrow> (\<forall>X f p q. I p \<longrightarrow> h X f p = Inr q \<longrightarrow> I q)"

lemma keepsI: "(\<And>X f p q. I p \<Longrightarrow> h X f p = Inr q \<Longrightarrow> I q) \<Longrightarrow> keeps I h"
  by (auto simp: keeps_def)

lemma apply_fact_keeps:
  assumes "apply_fact X f p = Inr q" and "I p"
    and "\<And>p. I p \<Longrightarrow> I (p\<lparr>opened := True\<rparr>)" and "keeps I (dispatch (kind f))"
  shows "I q"
  using assms(1) by (cases rule: apply_fact_cases) (use assms(2-4) in \<open>auto simp: keeps_def\<close>)

subsection \<open>When the parts of a handler succeed\<close>

named_theorems handler_simps \<open>when a part of a handler succeeds\<close>

lemma required_ok [handler_simps]: "required x = Inr v \<longleftrightarrow> x = Some v"
  by (simp add: required_def result_simps)

lemma payload_text_ok [handler_simps]: "payload_text m k = Inr s \<longleftrightarrow> text_at m k = Some s"
  by (simp add: payload_text_def text_at_def result_simps)

lemma payload_unsigned_ok [handler_simps]: "payload_unsigned m k = Inr n \<longleftrightarrow> u64_at m k = Some n"
  by (simp add: payload_unsigned_def u64_at_def result_simps)

lemma identity_of_ok [handler_simps]: "identity_of s = Inr i \<longleftrightarrow> s \<noteq> [] \<and> i = Ident s"
  by (auto simp: identity_of_def ledger_identity_def)

lemma refuse_any_ok [handler_simps]: "refuse_any cs = Inr u \<longleftrightarrow> list_all (\<lambda>c. c = Inr False) cs"
  by (induction cs) (auto simp: result_simps)

lemma text_ne_ok [handler_simps]: "text_ne m k x = Inr False \<longleftrightarrow> (\<exists>s. text_at m k = Some s \<and> x = Some s)"
  by (auto simp: text_ne_def result_simps payload_text_ok)

lemma ident_ne_ok [handler_simps]: "ident_ne i x = Inr False \<longleftrightarrow> i = Some x"
  by (auto simp: ident_ne_def result_simps required_ok)

lemma require_active_execution_ok [handler_simps]:
  "require_active_execution f p = Inr u \<longleftrightarrow>
     (\<exists>e t. execution_id f = Some e \<and> turn_id f = Some t
        \<and> bt_get (executions p) e = Some (t, ExecActive))"
  by (auto simp: require_active_execution_def result_simps required_ok split: option.splits if_splits)

lemma require_suspended_execution_ok [handler_simps]:
  "require_suspended_execution f p = Inr u \<longleftrightarrow>
     (\<exists>e t. execution_id f = Some e \<and> turn_id f = Some t
        \<and> bt_get (turns p) t = Some TurnSuspended
        \<and> bt_get (executions p) e = Some (t, ExecSuspended))"
  by (auto simp: require_suspended_execution_def result_simps required_ok)

lemma require_open_turn_ok [handler_simps]:
  "require_open_turn t p = Inr u \<longleftrightarrow> bt_get (turns p) t = Some TurnOpen"
  by (auto simp: require_open_turn_def)

lemmas handle = result_simps handler_simps

end
