(* ===== verification/Session_Lifecycle.thy ===== *)
theory Session_Lifecycle
  imports Session_Projection
begin

section \<open>What the projection promises: the session lifecycle\<close>

text \<open>
  An abstract specification of the projection. A \<open>lifecycle\<close> keeps only who exists, who owns whom and
  which state each is in: turns, their executions, the model calls, tool invocations, interactions
  and knowledge requests of an execution. \<open>lifecycle_step\<close> lists the moves the engine allows, each
  with its guard and nothing about payloads, digests or identities of facts.

  \<open>apply_refines\<close> is the simulation: every fact the projection admits is one move of this machine.
  The invariants and the order of the abstract machine then hold of every projection the ledger can
  reach.
\<close>

record lifecycle =
  lc_turns :: "TurnId \<rightharpoonup> turn_state"
  lc_executions :: "ExecutionId \<rightharpoonup> TurnId \<times> execution_state"
  lc_models :: "ModelRequestId \<rightharpoonup> ExecutionId \<times> invocation_state"
  lc_tools :: "ToolInvocationId \<rightharpoonup> ExecutionId \<times> invocation_state"
  lc_interactions :: "string \<rightharpoonup> ExecutionId \<times> bool"
  lc_lookups :: "string \<rightharpoonup> ExecutionId \<times> bool"

definition lifecycle_of :: "session_projection \<Rightarrow> lifecycle" where
  "lifecycle_of p = \<lparr>
     lc_turns = bt_get (turns p),
     lc_executions = bt_get (executions p),
     lc_models = bt_get (models p),
     lc_tools = bt_get (tools p),
     lc_interactions = (\<lambda>i. map_option (\<lambda>v. (ia_execution v, ia_terminal v)) (bt_get (interactions p) i)),
     lc_lookups = (\<lambda>i. map_option (\<lambda>v. (kn_execution v, kn_terminal v)) (bt_get (knowledge p) i))\<rparr>"

text \<open>What an execution or a turn still waits for.\<close>

definition dispatched :: "lifecycle \<Rightarrow> ExecutionId \<Rightarrow> bool" where
  "dispatched s e \<longleftrightarrow>
     (\<exists>r st. lc_models s r = Some (e, st) \<and> st \<in> {Started, Receipt})
     \<or> (\<exists>r st. lc_tools s r = Some (e, st) \<and> st \<in> {Started, Receipt})"

definition asking :: "lifecycle \<Rightarrow> ExecutionId \<Rightarrow> bool" where
  "asking s e \<longleftrightarrow> (\<exists>i. lc_interactions s i = Some (e, False))"

definition looking :: "lifecycle \<Rightarrow> ExecutionId \<Rightarrow> bool" where
  "looking s e \<longleftrightarrow> (\<exists>i. lc_lookups s i = Some (e, False))"

definition turn_asking :: "lifecycle \<Rightarrow> TurnId \<Rightarrow> bool" where
  "turn_asking s t \<longleftrightarrow> (\<exists>e st. lc_executions s e = Some (t, st) \<and> asking s e)"

definition turn_running :: "lifecycle \<Rightarrow> TurnId \<Rightarrow> bool" where
  "turn_running s t \<longleftrightarrow> (\<exists>e. lc_executions s e = Some (t, ExecActive))"

definition active :: "lifecycle \<Rightarrow> ExecutionId \<Rightarrow> bool" where
  "active s e \<longleftrightarrow> (\<exists>t. lc_executions s e = Some (t, ExecActive))"

inductive lifecycle_step :: "lifecycle \<Rightarrow> lifecycle \<Rightarrow> bool" where
  stay: "lifecycle_step s s"
| turn_start: "lc_turns s t = None \<Longrightarrow>
    lifecycle_step s (s\<lparr>lc_turns := (lc_turns s)(t \<mapsto> TurnOpen)\<rparr>)"
| turn_continue: "lc_turns s t = Some TurnSuspended \<Longrightarrow> \<not> turn_asking s t \<Longrightarrow>
    lifecycle_step s (s\<lparr>lc_turns := (lc_turns s)(t \<mapsto> TurnOpen)\<rparr>)"
| turn_suspend: "lc_turns s t = Some TurnOpen \<Longrightarrow> \<not> turn_running s t \<Longrightarrow>
    lc_executions s e = Some (t, ExecSuspended) \<Longrightarrow>
    lifecycle_step s (s\<lparr>lc_turns := (lc_turns s)(t \<mapsto> TurnSuspended)\<rparr>)"
| turn_end: "lc_turns s t = Some st \<Longrightarrow> st = TurnOpen \<or> st = TurnSuspended \<and> next \<noteq> TurnCompleted \<Longrightarrow>
    terminal_execution_state next = Some final \<Longrightarrow>
    lc_executions s e = Some (t, est) \<Longrightarrow> est = final \<or> st = TurnSuspended \<and> est = ExecSuspended \<Longrightarrow>
    \<not> turn_running s t \<Longrightarrow> \<not> turn_asking s t \<Longrightarrow>
    lifecycle_step s (s\<lparr>lc_turns := (lc_turns s)(t \<mapsto> next)\<rparr>)"
| execution_start: "lc_turns s t = Some TurnOpen \<Longrightarrow> lc_executions s e = None \<Longrightarrow>
    lifecycle_step s (s\<lparr>lc_executions := (lc_executions s)(e \<mapsto> (t, ExecActive))\<rparr>)"
| execution_end: "lc_executions s e = Some (t, ExecActive) \<Longrightarrow> next \<noteq> ExecActive \<Longrightarrow>
    \<not> dispatched s e \<Longrightarrow> \<not> looking s e \<Longrightarrow> next = ExecSuspended \<or> \<not> asking s e \<Longrightarrow>
    lifecycle_step s (s\<lparr>lc_executions := (lc_executions s)(e \<mapsto> (t, next))\<rparr>)"
| model_prepare: "active s e \<Longrightarrow> lc_models s r = None \<Longrightarrow>
    lifecycle_step s (s\<lparr>lc_models := (lc_models s)(r \<mapsto> (e, Prepared))\<rparr>)"
| model_move: "active s e \<Longrightarrow> lc_models s r = Some (e, st) \<Longrightarrow> model_edge st next \<Longrightarrow>
    next \<in> {Started, Completed, Rejected, Interrupted, Unavailable, Uncertain} \<Longrightarrow>
    lifecycle_step s (s\<lparr>lc_models := (lc_models s)(r \<mapsto> (e, next))\<rparr>)"
| tool_prepare: "active s e \<Longrightarrow> lc_tools s r = None \<Longrightarrow>
    lifecycle_step s (s\<lparr>lc_tools := (lc_tools s)(r \<mapsto> (e, Prepared))\<rparr>)"
| tool_move: "active s e \<Longrightarrow> lc_tools s r = Some (e, st) \<Longrightarrow> tool_edge st next \<Longrightarrow>
    lifecycle_step s (s\<lparr>lc_tools := (lc_tools s)(r \<mapsto> (e, next))\<rparr>)"
| tool_observe: "lc_tools s r = Some (e, st) \<Longrightarrow> st \<in> {Completed, Failed, Denied, Reconciled} \<Longrightarrow>
    lifecycle_step s (s\<lparr>lc_tools := (lc_tools s)(r \<mapsto> (e, Observed))\<rparr>)"
| tool_reconcile: "lc_tools s r = Some (e, Uncertain) \<Longrightarrow>
    lc_executions s e = Some (t, ExecSuspended) \<Longrightarrow> lc_turns s t = Some TurnSuspended \<Longrightarrow>
    lifecycle_step s (s\<lparr>lc_tools := (lc_tools s)(r \<mapsto> (e, Reconciled))\<rparr>)"
| ask: "active s e \<Longrightarrow> lc_interactions s i = None \<Longrightarrow>
    lifecycle_step s (s\<lparr>lc_interactions := (lc_interactions s)(i \<mapsto> (e, False))\<rparr>)"
| answer: "lc_interactions s i = Some (e, False) \<Longrightarrow>
    lifecycle_step s (s\<lparr>lc_interactions := (lc_interactions s)(i \<mapsto> (e, True))\<rparr>)"
| look: "active s e \<Longrightarrow> lc_lookups s i = None \<Longrightarrow>
    lifecycle_step s (s\<lparr>lc_lookups := (lc_lookups s)(i \<mapsto> (e, False))\<rparr>)"
| found: "active s e \<Longrightarrow> lc_lookups s i = Some (e, False) \<Longrightarrow>
    lifecycle_step s (s\<lparr>lc_lookups := (lc_lookups s)(i \<mapsto> (e, True))\<rparr>)"

subsection \<open>The projection refines the machine\<close>

text \<open>The queries of the projection are those of its lifecycle.\<close>

named_theorems view_simps \<open>the projection seen as a lifecycle\<close>

lemma view_recovery_pending [view_simps]:
  "has_recovery_pending_invocation (Some e) p \<longleftrightarrow> dispatched (lifecycle_of p) e"
  by (force simp: has_recovery_pending_invocation_def recovery_pending_def dispatched_def
      lifecycle_of_def list_ex_bt_values)

lemma view_pending_knowledge [view_simps]:
  "has_pending_knowledge e p \<longleftrightarrow> looking (lifecycle_of p) e"
  by (force simp: has_pending_knowledge_def looking_def lifecycle_of_def list_ex_bt_values)

lemma view_pending_interaction [view_simps]:
  "has_pending_interaction e p \<longleftrightarrow> asking (lifecycle_of p) e"
  by (force simp: has_pending_interaction_def asking_def lifecycle_of_def list_ex_bt_values)

lemma view_pending_interaction_for_turn [view_simps]:
  "has_pending_interaction_for_turn t p \<longleftrightarrow> turn_asking (lifecycle_of p) t"
  by (force simp: has_pending_interaction_for_turn_def turn_asking_def asking_def lifecycle_of_def
      list_ex_bt_values split: option.splits)

lemma view_running [view_simps]:
  "list_ex (\<lambda>v. fst v = t \<and> snd v = ExecActive) (bt_values (executions p))
     \<longleftrightarrow> turn_running (lifecycle_of p) t"
  by (auto simp: turn_running_def lifecycle_of_def list_ex_bt_values)

lemma lifecycle_of_sel [simp]:
  "lc_turns (lifecycle_of p) = bt_get (turns p)"
  "lc_executions (lifecycle_of p) = bt_get (executions p)"
  "lc_models (lifecycle_of p) = bt_get (models p)"
  "lc_tools (lifecycle_of p) = bt_get (tools p)"
  by (simp_all add: lifecycle_of_def)

lemma view_active: "bt_get (executions p) e = Some (t, ExecActive) \<Longrightarrow> active (lifecycle_of p) e"
  by (auto simp: active_def)

definition refines :: "handler \<Rightarrow> bool" where
  "refines h \<longleftrightarrow> (\<forall>X f p q. h X f p = Inr q \<longrightarrow> lifecycle_step (lifecycle_of p) (lifecycle_of q))"

lemma refinesI:
  "(\<And>X f p. rpost (h X f p) (\<lambda>q. lifecycle_step (lifecycle_of p) (lifecycle_of q))) \<Longrightarrow> refines h"
  by (auto simp: refines_def rpost_def)

text \<open>A handler that touches nothing the lifecycle shows is a \<open>stay\<close>.\<close>

definition silent :: "handler \<Rightarrow> bool" where
  "silent h \<longleftrightarrow> (\<forall>X f p q. h X f p = Inr q \<longrightarrow> lifecycle_of q = lifecycle_of p)"

lemma silent_refines: "silent h \<Longrightarrow> refines h"
  by (simp add: silent_def refines_def lifecycle_step.stay)

lemma silentI: "(\<And>X f p. rpost (h X f p) (\<lambda>q. lifecycle_of q = lifecycle_of p)) \<Longrightarrow> silent h"
  by (auto simp: silent_def rpost_def)


lemma silent_close: "silent (\<lambda>X f. close_session)"
  unfolding close_session_def by (intro silentI post_intros) (simp add: lifecycle_of_def)

lemma silent_input: "silent admit_turn_input"
  unfolding admit_turn_input_def by (intro silentI post_intros) (simp_all add: lifecycle_of_def)

lemma silent_steered: "silent admit_turn_steered"
  unfolding admit_turn_steered_def by (intro silentI post_intros) (auto simp: rpost_def split: turn_state.splits)

lemma silent_cancel: "silent request_cancel"
  unfolding request_cancel_def by (intro silentI post_intros) simp

lemma silent_iteration: "silent start_iteration"
  unfolding start_iteration_def by (intro silentI post_intros) (simp add: lifecycle_of_def)

lemma silent_batch: "silent plan_effect_batch"
  unfolding plan_effect_batch_def by (intro silentI post_intros) (simp add: lifecycle_of_def)

lemma silent_decide: "silent decide_safety"
  unfolding decide_safety_def by (intro silentI post_intros) (simp add: lifecycle_of_def)

lemma silent_bind: "silent bind_sandbox"
  unfolding bind_sandbox_def by (intro silentI post_intros) (simp add: lifecycle_of_def)

lemma silent_preflight: "silent preflight_sandbox"
  unfolding preflight_sandbox_def by (intro silentI post_intros) (simp add: lifecycle_of_def)

lemma silent_artifact: "silent commit_artifact"
  unfolding commit_artifact_def by (intro silentI post_intros) (simp add: lifecycle_of_def)

lemma silent_reject: "silent reject_tool_preparation"
  unfolding reject_tool_preparation_def by (intro silentI post_intros) simp

lemma silent_schedules: "silent create_schedule" "silent claim_schedule" "silent fire_schedule" "silent skip_schedule"
   "silent cancel_schedule" "silent fail_schedule" "silent exhaust_schedule"
  unfolding create_schedule_def claim_schedule_def fire_schedule_def skip_schedule_def cancel_schedule_def
  fail_schedule_def exhaust_schedule_def set_schedule_def
  by (intro silentI post_intros; simp add: lifecycle_of_def)+

lemma silent_delegations:
  "silent request_delegation" "silent authorize_delegation" "silent deny_delegation"
  "silent start_delegation_child" "silent terminal_delegation_child" "silent observe_delegation"
  unfolding request_delegation_def authorize_delegation_def deny_delegation_def
     start_delegation_child_def terminal_delegation_child_def observe_delegation_def
  by (intro silentI post_intros; simp add: lifecycle_of_def)+

text \<open>How each field update shows in the lifecycle.\<close>

lemma view_updates [view_simps]:
  "lifecycle_of (p\<lparr>turns := bt_insert t st (turns p)\<rparr>)
     = (lifecycle_of p)\<lparr>lc_turns := (bt_get (turns p))(t \<mapsto> st)\<rparr>"
  "lifecycle_of (p\<lparr>executions := bt_insert e x (executions p)\<rparr>)
     = (lifecycle_of p)\<lparr>lc_executions := (bt_get (executions p))(e \<mapsto> x)\<rparr>"
  "lifecycle_of (p\<lparr>models := bt_insert r y (models p)\<rparr>)
     = (lifecycle_of p)\<lparr>lc_models := (bt_get (models p))(r \<mapsto> y)\<rparr>"
  "lifecycle_of (p\<lparr>tools := bt_insert c y (tools p)\<rparr>)
     = (lifecycle_of p)\<lparr>lc_tools := (bt_get (tools p))(c \<mapsto> y)\<rparr>"
  "lifecycle_of (p\<lparr>interactions := bt_insert i v (interactions p)\<rparr>)
     = (lifecycle_of p)\<lparr>lc_interactions :=
         (lc_interactions (lifecycle_of p))(i \<mapsto> (ia_execution v, ia_terminal v))\<rparr>"
  "lifecycle_of (p\<lparr>knowledge := bt_insert i w (knowledge p)\<rparr>)
     = (lifecycle_of p)\<lparr>lc_lookups :=
         (lc_lookups (lifecycle_of p))(i \<mapsto> (kn_execution w, kn_terminal w))\<rparr>"
  by (simp_all add: lifecycle_of_def fun_eq_iff)

lemma step_to: "lifecycle_step s u \<Longrightarrow> v = u \<Longrightarrow> lifecycle_step s v"
  by simp

lemma refines_start_turn: "refines start_turn"
proof (rule refinesI)
  fix X f p
  show "rpost (start_turn X f p) (\<lambda>q. lifecycle_step (lifecycle_of p) (lifecycle_of q))"
    unfolding start_turn_def Let_def
    apply (intro post_intros)
    subgoal for t m k r
      apply (cases "bt_get (turns p) t")
      subgoal by (rule step_to [OF lifecycle_step.turn_start [of _ t]])
          (auto simp: lifecycle_of_def fun_eq_iff handle split: if_splits)
      subgoal by (rule step_to [OF lifecycle_step.turn_continue [of _ t]])
          (auto simp: lifecycle_of_def fun_eq_iff handle view_simps split: if_splits turn_state.splits)
      done
    done
qed

lemma transition_turn_ok:
  "transition_turn t next p = Inr q \<longleftrightarrow>
     (\<exists>st. bt_get (turns p) t = Some st \<and> next \<noteq> TurnOpen
        \<and> (st = TurnOpen \<or> st = TurnSuspended \<and> next \<in> {TurnStopped, TurnFailed}))
     \<and> \<not> turn_running (lifecycle_of p) t
     \<and> (next = TurnSuspended \<or> \<not> turn_asking (lifecycle_of p) t)
     \<and> q = p\<lparr>turns := bt_insert t next (turns p)\<rparr>"
  by (cases "bt_get (turns p) t"; cases "next")
    (auto simp: transition_turn_def Let_def handle view_simps split: turn_state.splits)

lemma refines_suspend_turn: "refines suspend_turn"
  unfolding suspend_turn_def Let_def
  apply (intro refinesI post_intros)
  subgoal for X f p t m es e q
    by (rule step_to [OF lifecycle_step.turn_suspend [of _ t e]])
      (auto simp: transition_turn_ok lifecycle_of_def fun_eq_iff)
  done

lemma refines_terminal_turn: "refines (terminal_turn next)"
  unfolding terminal_turn_def Let_def
  apply (intro refinesI post_intros)
  subgoal for X f p t m es e final q
    apply (rule step_to [OF lifecycle_step.turn_end
      [of _ t "the (bt_get (turns p) t)" "next" final e "snd (the (bt_get (executions p) e))"]])
    apply (auto simp: transition_turn_ok handle lifecycle_of_def fun_eq_iff)
    done
  done

lemma refines_start_execution: "refines start_execution"
  unfolding start_execution_def
  apply (intro refinesI post_intros)
  subgoal for X f p t u e
    by (rule step_to [OF lifecycle_step.execution_start [of _ t e]])
      (auto simp: handle lifecycle_of_def)
  done

lemma refines_transition_execution: "next \<noteq> ExecActive \<Longrightarrow> refines (transition_execution next)"
  unfolding transition_execution_def
  apply (intro refinesI post_intros)
  subgoal for X f p e t x owned st
    by (rule step_to [OF lifecycle_step.execution_end [of _ e t "next"]])
      (auto simp: handle view_simps)
  done

lemma refines_prepare_model: "refines prepare_model"
  unfolding prepare_model_def
  apply (intro refinesI post_intros)
  subgoal for X f p u r e
    by (rule step_to [OF lifecycle_step.model_prepare [of _ e r]])
      (auto simp: handle lifecycle_of_def active_def)
  done

lemma refines_transition_model:
  "next \<in> {Started, Completed, Rejected, Interrupted, Unavailable, Uncertain} \<Longrightarrow>
   refines (transition_model next)"
  unfolding transition_model_def
  apply (intro refinesI post_intros)
  subgoal for X f p u r e x owner st
    by (rule step_to [OF lifecycle_step.model_move [of _ e r st "next"]])
      (auto simp: handle view_simps intro: view_active)
  done

lemma refines_prepare_tool: "refines prepare_tool"
  unfolding prepare_tool_def Let_def
  apply (intro refinesI post_intros)
  subgoal for X f p u r e
    by (rule step_to [OF lifecycle_step.tool_prepare [of _ e r]])
      (auto simp: handle lifecycle_of_def active_def)
  subgoal for X f p u r e
    by (rule step_to [OF lifecycle_step.tool_prepare [of _ e r]])
      (auto simp: handle lifecycle_of_def active_def)
  subgoal for X f p u r e
    by (rule step_to [OF lifecycle_step.tool_prepare [of _ e r]])
      (auto simp: handle lifecycle_of_def active_def)
  done

lemma binding_view: "validate_effect_binding t st next m p = Inr q \<Longrightarrow> lifecycle_of q = lifecycle_of p"
proof -
  have "rpost (validate_effect_binding t st next m p) (\<lambda>q. lifecycle_of q = lifecycle_of p)"
    unfolding validate_effect_binding_def
    by (cases "next"; simp only: invocation_state.case; intro post_intros; simp add: lifecycle_of_def)
  then show "validate_effect_binding t st next m p = Inr q \<Longrightarrow> lifecycle_of q = lifecycle_of p"
    by (rule rpostD)
qed

lemma advance_view: "lifecycle_of (advance_batch t p) = lifecycle_of p"
  by (auto simp: advance_batch_def lifecycle_of_def split: option.splits)

lemma completed_view:
  "lifecycle_of (p\<lparr>tools_completed_in_commit := x\<rparr>) = lifecycle_of p"
  by (simp add: lifecycle_of_def)

lemma refines_transition_tool: "refines (transition_tool next)"
  unfolding transition_tool_def Let_def
proof (intro refinesI post_intros, goal_cases)
  case (1 X f p u t e m d x owner st q)
  from 1 have q: "lifecycle_of q = lifecycle_of p"
    by (auto dest: binding_view)
  then have "bt_get (tools q) = bt_get (tools p)"
    by (metis lifecycle_of_sel(4))
  with 1 q show ?case
    by (intro step_to [OF lifecycle_step.tool_move [of _ e t st "next"]])
      (auto simp: handle advance_view completed_view view_updates active_def)
qed

lemma refines_observe_tool: "refines observe_tool"
  unfolding observe_tool_def
  apply (intro refinesI post_intros)
  subgoal for X f p t e m x owner st
    by (rule step_to [OF lifecycle_step.tool_observe [of _ t e st]])
      (auto simp: handle view_simps)
  done

lemma refines_reconcile_tool: "refines reconcile_tool"
  unfolding reconcile_tool_def
  apply (intro refinesI post_intros)
  subgoal for X f p u t e
    by (rule step_to [OF lifecycle_step.tool_reconcile [of _ t e "the (turn_id f)"]])
      (auto simp: handle lifecycle_of_def)
  done

lemma refines_request_interaction: "refines request_interaction"
  unfolding request_interaction_def
  apply (intro refinesI post_intros)
  subgoal for X f p u t e m i
    by (rule step_to [OF lifecycle_step.ask [of _ e i]])
      (auto simp: handle view_simps lifecycle_of_def active_def fun_eq_iff)
  done

lemma refines_finish_interaction: "refines finish_interaction"
  unfolding finish_interaction_def
  apply (intro refinesI post_intros)
  subgoal for X f p e t m i v
    by (rule step_to [OF lifecycle_step.answer [of _ i e]])
      (auto simp: handle lifecycle_of_def fun_eq_iff)
  done

lemma refines_request_knowledge: "refines request_knowledge"
  unfolding request_knowledge_def
  apply (intro refinesI post_intros)
  subgoal for X f p u e m i
    by (rule step_to [OF lifecycle_step.look [of _ e i]])
      (auto simp: handle lifecycle_of_def active_def fun_eq_iff)
  done

lemma silent_dispatch_knowledge: "silent dispatch_knowledge"
  unfolding dispatch_knowledge_def
  by (intro silentI post_intros) (auto simp: handle lifecycle_of_def fun_eq_iff)

lemma refines_terminal_knowledge: "refines terminal_knowledge"
  unfolding terminal_knowledge_def Let_def
  apply (intro refinesI post_intros)
  subgoal for X f p u e m i r
    by (rule step_to [OF lifecycle_step.found [of _ e i]])
      (auto simp: handle lifecycle_of_def active_def fun_eq_iff)
  done


lemmas silent_handlers = silent_close silent_input silent_steered silent_cancel silent_iteration
  silent_batch silent_decide silent_bind silent_preflight silent_artifact silent_reject
  silent_schedules silent_delegations silent_dispatch_knowledge

lemmas refines_handlers = silent_handlers [THEN silent_refines] refines_start_turn
  refines_suspend_turn refines_terminal_turn refines_start_execution refines_transition_execution
  refines_prepare_model refines_transition_model refines_prepare_tool refines_transition_tool
  refines_observe_tool refines_reconcile_tool refines_request_interaction
  refines_finish_interaction refines_request_knowledge refines_terminal_knowledge

lemma refines_skip: "refines (\<lambda>X f. Inr)"
  by (simp add: refines_def lifecycle_step.stay)

lemma refines_dispatch: "refines (dispatch k)"
  by (rule dispatch_cases) (simp_all add: refines_handlers refines_skip)

lemma apply_refines:
  assumes "apply_fact X f p = Inr q"
  shows "lifecycle_step (lifecycle_of p) (lifecycle_of q)"
  using assms
proof (cases rule: apply_fact_cases)
  case first
  then have "lifecycle_of q = lifecycle_of p"
    by (simp add: lifecycle_of_def)
  then show ?thesis
    by (simp add: lifecycle_step.stay)
next
  case handled
  then show ?thesis
    using refines_dispatch [of "kind f"] by (simp add: refines_def)
qed

subsection \<open>Invariants of the machine\<close>

text \<open>
  Who may wait for what: an active execution belongs to an open turn; a dispatched call and an open
  knowledge request belong to an active execution; an unanswered interaction belongs to an
  execution that is active or suspended, in a turn that is open or suspended.
\<close>

definition executions_ok ::
  "(TurnId \<rightharpoonup> turn_state) \<Rightarrow> (ExecutionId \<rightharpoonup> TurnId \<times> execution_state) \<Rightarrow> bool" where
  "executions_ok T E \<longleftrightarrow> (\<forall>e t st. E e = Some (t, st) \<longrightarrow>
     T t \<noteq> None \<and> (st = ExecActive \<longrightarrow> T t = Some TurnOpen))"

definition calls_ok ::
  "(ExecutionId \<rightharpoonup> TurnId \<times> execution_state) \<Rightarrow> ('r \<rightharpoonup> ExecutionId \<times> invocation_state) \<Rightarrow> bool" where
  "calls_ok E M \<longleftrightarrow> (\<forall>r e st. M r = Some (e, st) \<longrightarrow>
     E e \<noteq> None \<and> (st = Started \<or> st = Receipt \<longrightarrow> (\<exists>t. E e = Some (t, ExecActive))))"

definition lookups_ok ::
  "(ExecutionId \<rightharpoonup> TurnId \<times> execution_state) \<Rightarrow> (string \<rightharpoonup> ExecutionId \<times> bool) \<Rightarrow> bool" where
  "lookups_ok E L \<longleftrightarrow> (\<forall>i e b. L i = Some (e, b) \<longrightarrow>
     E e \<noteq> None \<and> (\<not> b \<longrightarrow> (\<exists>t. E e = Some (t, ExecActive))))"

definition answerable ::
  "(TurnId \<rightharpoonup> turn_state) \<Rightarrow> (ExecutionId \<rightharpoonup> TurnId \<times> execution_state) \<Rightarrow> ExecutionId \<Rightarrow> bool" where
  "answerable T E e \<longleftrightarrow> (case E e of None \<Rightarrow> False
      | Some (t, st) \<Rightarrow> st \<in> {ExecActive, ExecSuspended} \<and> T t \<in> {Some TurnOpen, Some TurnSuspended})"

definition questions_ok ::
  "(TurnId \<rightharpoonup> turn_state) \<Rightarrow> (ExecutionId \<rightharpoonup> TurnId \<times> execution_state)
     \<Rightarrow> (string \<rightharpoonup> ExecutionId \<times> bool) \<Rightarrow> bool" where
  "questions_ok T E I \<longleftrightarrow> (\<forall>i e. I i = Some (e, False) \<longrightarrow> answerable T E e)"

definition lifecycle_inv :: "lifecycle \<Rightarrow> bool" where
  "lifecycle_inv s \<longleftrightarrow> executions_ok (lc_turns s) (lc_executions s)
     \<and> calls_ok (lc_executions s) (lc_models s) \<and> calls_ok (lc_executions s) (lc_tools s)
     \<and> lookups_ok (lc_executions s) (lc_lookups s)
     \<and> questions_ok (lc_turns s) (lc_executions s) (lc_interactions s)"

lemma executions_ok_upd:
  "executions_ok T E \<Longrightarrow> (\<forall>e. E e \<noteq> Some (t, ExecActive)) \<or> x = TurnOpen \<Longrightarrow> executions_ok (T(t \<mapsto> x)) E"
  "executions_ok T E \<Longrightarrow> T t = Some y \<Longrightarrow> y = TurnOpen \<or> st \<noteq> ExecActive \<Longrightarrow>
     executions_ok T (E(e \<mapsto> (t, st)))"
  unfolding executions_ok_def by auto

lemma calls_ok_upd:
  "calls_ok E M \<Longrightarrow> \<forall>r st. M r = Some (e, st) \<longrightarrow> st \<noteq> Started \<and> st \<noteq> Receipt \<Longrightarrow>
     calls_ok (E(e \<mapsto> x)) M"
  "calls_ok E M \<Longrightarrow> E e \<noteq> None \<Longrightarrow> st = Started \<or> st = Receipt \<longrightarrow> (\<exists>t. E e = Some (t, ExecActive)) \<Longrightarrow>
     calls_ok E (M(r \<mapsto> (e, st)))"
  unfolding calls_ok_def by (force, auto)

lemma calls_ok_fresh: "calls_ok E M \<Longrightarrow> E e = None \<Longrightarrow> M r = Some (e, st) \<Longrightarrow> P"
  unfolding calls_ok_def by force

lemma lookups_ok_upd:
  "lookups_ok E L \<Longrightarrow> \<forall>i. L i \<noteq> Some (e, False) \<Longrightarrow> lookups_ok (E(e \<mapsto> x)) L"
  "lookups_ok E L \<Longrightarrow> E e = Some (t, ExecActive) \<Longrightarrow> lookups_ok E (L(i \<mapsto> (e, b)))"
  unfolding lookups_ok_def by (force, auto)

lemma answerable_upd:
  "answerable T E e \<Longrightarrow> x = TurnOpen \<or> x = TurnSuspended \<or> (\<forall>st. E e \<noteq> Some (t, st)) \<Longrightarrow>
     answerable (T(t \<mapsto> x)) E e"
  "answerable T E e \<Longrightarrow> E d = None \<or> e \<noteq> d \<or> st = ExecSuspended \<and> E d = Some (t, y) \<Longrightarrow>
     answerable T (E(d \<mapsto> (t, st))) e"
  by (auto simp: answerable_def split: option.splits)

lemma questions_ok_turn:
  assumes "questions_ok T E I"
    and "x = TurnOpen \<or> x = TurnSuspended \<or> (\<forall>e st i. E e = Some (t, st) \<longrightarrow> I i \<noteq> Some (e, False))"
  shows "questions_ok (T(t \<mapsto> x)) E I"
  using assms unfolding questions_ok_def by (metis answerable_upd(1))

lemma questions_ok_execution:
  assumes "questions_ok T E I"
    and "E e = None \<or> st = ExecSuspended \<and> E e = Some (t, y) \<or> (\<forall>i. I i \<noteq> Some (e, False))"
  shows "questions_ok T (E(e \<mapsto> (t, st))) I"
  using assms unfolding questions_ok_def by (metis answerable_upd(2))

lemma questions_ok_ask:
  assumes "questions_ok T E I" and "b \<or> answerable T E e"
  shows "questions_ok T E (I(i \<mapsto> (e, b)))"
  using assms by (auto simp: questions_ok_def)

lemma lifecycle_step_inv: "lifecycle_step s u \<Longrightarrow> lifecycle_inv s \<Longrightarrow> lifecycle_inv u"
proof (induction rule: lifecycle_step.induct)
  case (turn_start s t)
  then show ?case
    by (auto simp: lifecycle_inv_def intro: executions_ok_upd questions_ok_turn)
next
  case (turn_continue s t)
  then show ?case
    by (auto simp: lifecycle_inv_def intro: executions_ok_upd questions_ok_turn)
next
  case (turn_suspend s t e)
  then show ?case
    by (auto simp: lifecycle_inv_def turn_running_def intro: executions_ok_upd questions_ok_turn)
next
  case (turn_end s t st "next" final e est)
  then show ?case
    by (auto simp: lifecycle_inv_def turn_running_def turn_asking_def asking_def
        intro!: executions_ok_upd questions_ok_turn)
next
  case (execution_start s t e)
  then show ?case
    unfolding lifecycle_inv_def lookups_ok_def
    by (auto intro!: executions_ok_upd calls_ok_upd questions_ok_execution elim: calls_ok_fresh)
next
  case (execution_end s e t "next")
  then obtain y where "lc_turns s t = Some y" "executions_ok (lc_turns s) (lc_executions s)"
    unfolding lifecycle_inv_def executions_ok_def by blast
  with execution_end show ?case
    unfolding lifecycle_inv_def dispatched_def looking_def asking_def
    by (auto intro!: executions_ok_upd calls_ok_upd lookups_ok_upd questions_ok_execution)
next
  case (ask s e i)
  then have "answerable (lc_turns s) (lc_executions s) e"
    by (auto simp: active_def answerable_def lifecycle_inv_def executions_ok_def)
  with ask show ?case
    by (auto simp: lifecycle_inv_def intro: questions_ok_ask)
next
  case (answer s i e)
  then show ?case by (auto simp: lifecycle_inv_def intro: questions_ok_ask)
next
  case (look s e i)
  then show ?case by (auto simp: lifecycle_inv_def active_def intro: lookups_ok_upd)
next
  case (found s e i)
  then show ?case by (auto simp: lifecycle_inv_def active_def intro: lookups_ok_upd)
next
  case (tool_observe s r e st)
  then have "lc_executions s e \<noteq> None"
    unfolding lifecycle_inv_def calls_ok_def by blast
  with tool_observe show ?case by (auto simp: lifecycle_inv_def intro: calls_ok_upd)
qed (auto simp: lifecycle_inv_def active_def intro!: calls_ok_upd)

subsection \<open>The order of the machine\<close>

text \<open>
  A move never takes anything back: what exists stays and keeps its owner, a terminal turn and an
  ended execution keep their state, an invocation only moves forward, and an answered interaction
  stays answered.
\<close>

fun rank :: "invocation_state \<Rightarrow> nat" where
  "rank Prepared = 0"
| "rank Authorized = 1"
| "rank Started = 2"
| "rank Receipt = 3"
| "rank Reconciled = 5"
| "rank Observed = 6"
| "rank _ = 4"

definition advances :: "invocation_state \<Rightarrow> invocation_state \<Rightarrow> bool" where
  "advances st st' \<longleftrightarrow> st' = st \<or> rank st < rank st'"

definition turn_le :: "turn_state \<Rightarrow> turn_state \<Rightarrow> bool" where
  "turn_le st st' \<longleftrightarrow> st' = st \<or> st \<in> {TurnOpen, TurnSuspended}"

definition execution_le :: "execution_state \<Rightarrow> execution_state \<Rightarrow> bool" where
  "execution_le st st' \<longleftrightarrow> st' = st \<or> st = ExecActive"

definition owned :: "('s \<Rightarrow> 's \<Rightarrow> bool) \<Rightarrow> 'o \<times> 's \<Rightarrow> 'o \<times> 's \<Rightarrow> bool" where
  "owned R x y \<longleftrightarrow> fst x = fst y \<and> R (snd x) (snd y)"

definition entries_le :: "('v \<Rightarrow> 'v \<Rightarrow> bool) \<Rightarrow> ('k \<rightharpoonup> 'v) \<Rightarrow> ('k \<rightharpoonup> 'v) \<Rightarrow> bool" where
  "entries_le R m m' \<longleftrightarrow> (\<forall>k v. m k = Some v \<longrightarrow> (\<exists>v'. m' k = Some v' \<and> R v v'))"

definition lifecycle_le :: "lifecycle \<Rightarrow> lifecycle \<Rightarrow> bool" where
  "lifecycle_le s u \<longleftrightarrow>
     entries_le turn_le (lc_turns s) (lc_turns u)
     \<and> entries_le (owned execution_le) (lc_executions s) (lc_executions u)
     \<and> entries_le (owned advances) (lc_models s) (lc_models u)
     \<and> entries_le (owned advances) (lc_tools s) (lc_tools u)
     \<and> entries_le (owned (\<le>)) (lc_interactions s) (lc_interactions u)
     \<and> entries_le (owned (\<le>)) (lc_lookups s) (lc_lookups u)"

lemma entries_le_refl: "reflp R \<Longrightarrow> entries_le R m m"
  by (auto simp: entries_le_def reflp_def)

lemma entries_le_trans: "transp R \<Longrightarrow> entries_le R l m \<Longrightarrow> entries_le R m n \<Longrightarrow> entries_le R l n"
  unfolding entries_le_def transp_def by blast

lemma entries_le_upd:
  "reflp R \<Longrightarrow> (\<And>v. m k = Some v \<Longrightarrow> R v w) \<Longrightarrow> entries_le R m (m(k \<mapsto> w))"
  by (auto simp: entries_le_def reflp_def)

lemma order_refl_trans:
  "reflp turn_le" "transp turn_le" "reflp (owned execution_le)" "transp (owned execution_le)"
  "reflp (owned advances)" "transp (owned advances)"
  "reflp (owned ((\<le>) :: bool \<Rightarrow> bool \<Rightarrow> bool))" "transp (owned ((\<le>) :: bool \<Rightarrow> bool \<Rightarrow> bool))"
  by (auto simp: reflp_def transp_def turn_le_def execution_le_def owned_def advances_def)

lemma lifecycle_le_refl: "lifecycle_le s s"
  by (simp add: lifecycle_le_def entries_le_refl order_refl_trans)

lemma lifecycle_le_trans: "lifecycle_le s u \<Longrightarrow> lifecycle_le u v \<Longrightarrow> lifecycle_le s v"
  unfolding lifecycle_le_def
  by (elim conjE, intro conjI) (erule entries_le_trans [rotated]; simp add: order_refl_trans)+

lemma model_edge_advances:
  "model_edge st next \<Longrightarrow> next \<in> {Started, Completed, Rejected, Interrupted, Unavailable, Uncertain}
     \<Longrightarrow> advances st next"
  by (auto simp: model_edge_def advances_def)

lemma tool_edge_advances: "tool_edge st next \<Longrightarrow> advances st next"
  by (auto simp: tool_edge_def advances_def)

lemma owned_pair [simp]: "owned R (o1, x) (o2, y) \<longleftrightarrow> o1 = o2 \<and> R x y"
  by (simp add: owned_def)

lemma lifecycle_step_le: "lifecycle_step s u \<Longrightarrow> lifecycle_le s u"
  by (induction rule: lifecycle_step.induct)
    (auto simp: lifecycle_le_def entries_le_refl order_refl_trans turn_le_def execution_le_def
      advances_def dest: model_edge_advances tool_edge_advances intro!: entries_le_upd)

subsection \<open>Runs of facts\<close>

definition projection_inv :: "session_projection \<Rightarrow> bool" where
  "projection_inv p \<longleftrightarrow> lifecycle_inv (lifecycle_of p)"

definition projection_le :: "session_projection \<Rightarrow> session_projection \<Rightarrow> bool" where
  "projection_le p q \<longleftrightarrow> lifecycle_le (lifecycle_of p) (lifecycle_of q)"

interpretation projection: ordered_reducer "\<lambda>p f. apply_fact X f p" projection_inv projection_le
  for X
proof
  show "projection_inv t" if "projection_inv s" "apply_fact X e s = Inr t" for s e t
    using that unfolding projection_inv_def by (blast intro: lifecycle_step_inv apply_refines)
  show "projection_le s s" for s
    by (simp add: projection_le_def lifecycle_le_refl)
  show "projection_le s u" if "projection_le s t" "projection_le t u" for s t u
    using that by (auto simp: projection_le_def intro: lifecycle_le_trans)
  show "projection_le s t" if "projection_inv s" "apply_fact X e s = Inr t" for s e t
    using that unfolding projection_le_def by (blast intro: lifecycle_step_le apply_refines)
qed

text \<open>A closed session admits nothing, not even being opened again.\<close>

interpretation closed_session: absorbing_reducer "\<lambda>p f. apply_fact X f p" closed
  for X
  by unfold_locales (auto simp: apply_fact_def result_simps split: if_splits)

end
