(* ===== verification/Ledger_State.thy ===== *)
theory Ledger_State
  imports Session_Lifecycle
begin

section \<open>The ledger\<close>

text \<open>
  \<open>LedgerState\<close> of \<open>engine/ledger/src/state.rs\<close>: the reference ledger, which the SQLite store replays into.
  \<open>commit\<close> takes the state and returns the state it leaves and its result; every early return leaves
  the state it was given. The loop over the drafts of a batch is \<open>screen_drafts\<close> (validation, ownership
  and idempotency) and \<open>append_drafts\<close> (projection, position, verification).
\<close>

subsection \<open>State\<close>

record session_ledger =
  version :: u64
  facts :: "durable_fact list"
  drafts :: "(u64, fact_draft) btmap"
  projection :: session_projection

record fact_index_entry =
  ix_session_id :: SessionId
  ix_position :: u64
  ix_draft :: fact_draft

record ledger_state =
  sessions :: "(SessionId, session_ledger) btmap"
  fact_index :: "(FactId, fact_index_entry) btmap"

record turn_snapshot =
  ts_facts :: "durable_fact list"
  ts_session_version :: u64
  ts_through_position :: u64

definition default_session_ledger :: session_ledger where
  "default_session_ledger =
     \<lparr>version = 0, facts = [], drafts = bt_empty, projection = default_projection\<rparr>"

definition default_ledger :: ledger_state where
  "default_ledger = \<lparr>sessions = bt_empty, fact_index = bt_empty\<rparr>"

subsection \<open>Commit\<close>

definition same_present :: "'a option \<Rightarrow> 'a option \<Rightarrow> bool" where
  "same_present l r \<longleftrightarrow> (case (l, r) of (Some a, Some b) \<Rightarrow> a = b | _ \<Rightarrow> False)"

definition identity_owned_by_other_session :: "ledger_state \<Rightarrow> SessionId \<Rightarrow> fact_draft \<Rightarrow> bool" where
  "identity_owned_by_other_session st sid d \<longleftrightarrow>
     list_ex (\<lambda>x. ix_session_id x \<noteq> sid
       \<and> (same_present (turn_id (ix_draft x)) (turn_id d)
          \<or> same_present (execution_id (ix_draft x)) (execution_id d)
          \<or> same_present (model_request_id (ix_draft x)) (model_request_id d)
          \<or> same_present (tool_invocation_id (ix_draft x)) (tool_invocation_id d)))
       (bt_values (fact_index st))"

text \<open>The first loop returns the positions of the drafts that are already durable.\<close>

fun screen_drafts ::
  "externals \<Rightarrow> ledger_state \<Rightarrow> SessionId \<Rightarrow> FactId set \<Rightarrow> fact_draft list \<Rightarrow> ledger_error + u64 list" where
  "screen_drafts X st sid seen [] = Inr []"
| "screen_drafts X st sid seen (d # ds) =
     rbind (draft_validate X d) (\<lambda>_.
     rbind (validate_runtime_fact X d) (\<lambda>_.
     if identity_owned_by_other_session st sid d then Inl InvalidTransition
     else if fact_id d \<in> seen then Inl InvalidFact
     else case bt_get (fact_index st) (fact_id d) of
         None \<Rightarrow> screen_drafts X st sid (insert (fact_id d) seen) ds
       | Some existing \<Rightarrow>
           if ix_session_id existing \<noteq> sid \<or> \<not> same_semantics (ix_draft existing) d
           then Inl IdempotencyCollision
           else rbind (screen_drafts X st sid (insert (fact_id d) seen) ds)
                  (\<lambda>ps. Inr (ix_position existing # ps))))"

fun append_drafts ::
  "externals \<Rightarrow> SessionId \<Rightarrow> session_ledger \<Rightarrow> u64 \<Rightarrow> fact_draft list
     \<Rightarrow> ledger_error + (session_ledger \<times> u64 list)" where
  "append_drafts X sid l pos [] = Inr (l, [])"
| "append_drafts X sid l pos (d # ds) =
     rbind (apply_fact X d (projection l)) (\<lambda>q.
     rbind (durable_verify X (durable_from sid pos d)) (\<lambda>_.
     let l' = l\<lparr>projection := q, drafts := bt_insert pos d (drafts l),
                facts := facts l @ [durable_from sid pos d]\<rparr>
     in if ds = [] then Inr (l', [pos])
        else rbind (ok_or (checked_add pos 1) PositionOverflow) (\<lambda>pos'.
             rbind (append_drafts X sid l' pos' ds) (\<lambda>(n, ps). Inr (n, pos # ps)))))"

definition first_position :: "session_ledger \<Rightarrow> ledger_error + u64" where
  "first_position l = (if facts l = [] then Inr 1
     else ok_or (checked_add (position (last (facts l))) 1) PositionOverflow)"

definition append_batch ::
  "externals \<Rightarrow> ledger_state \<Rightarrow> SessionId \<Rightarrow> u64 \<Rightarrow> fact_draft list
     \<Rightarrow> ledger_error + (session_ledger \<times> u64 list)" where
  "append_batch X st sid expected ds =
     (let l = (case bt_get (sessions st) sid of None \<Rightarrow> default_session_ledger | Some l \<Rightarrow> l)
      in if version l \<noteq> expected then Inl ConcurrentModification
         else let l0 = l\<lparr>projection := begin_commit (projection l)\<rparr>
           in rbind (first_position l0) (\<lambda>pos.
              rbind (append_drafts X sid l0 pos ds) (\<lambda>(n, ps).
              rbind (validate_commit_boundary (projection n)) (\<lambda>_.
              rbind (ok_or (checked_add (version n) 1) PositionOverflow) (\<lambda>v.
                Inr (n\<lparr>version := v\<rparr>, ps))))))"

definition index_fact :: "SessionId \<Rightarrow> fact_draft \<times> u64 \<Rightarrow> (FactId, fact_index_entry) btmap
     \<Rightarrow> (FactId, fact_index_entry) btmap" where
  "index_fact sid x = bt_insert (fact_id (fst x))
     \<lparr>ix_session_id = sid, ix_position = snd x, ix_draft = fst x\<rparr>"

definition commit ::
  "externals \<Rightarrow> ledger_state \<Rightarrow> SessionId \<Rightarrow> u64 \<Rightarrow> fact_draft list
     \<Rightarrow> ledger_state \<times> (ledger_error + commit_result)" where
  "commit X st sid expected ds =
     (if ds = [] then (st, Inl EmptyBatch)
      else case screen_drafts X st sid {} ds of
          Inl e \<Rightarrow> (st, Inl e)
        | Inr replay_positions \<Rightarrow>
            if length replay_positions = length ds then
              (case bt_get (sessions st) sid of
                 None \<Rightarrow> (st, Inl MissingReference)
               | Some l \<Rightarrow> (st, Inr \<lparr>disposition = Replayed, session_version = version l,
                                    positions = replay_positions\<rparr>))
            else if replay_positions \<noteq> [] then (st, Inl IncompleteReplay)
            else case append_batch X st sid expected ds of
                Inl e \<Rightarrow> (st, Inl e)
              | Inr (n, ps) \<Rightarrow>
                  (st\<lparr>fact_index := fold (index_fact sid) (zip ds ps) (fact_index st),
                      sessions := bt_insert sid n (sessions st)\<rparr>,
                   Inr \<lparr>disposition = Committed, session_version = version n, positions = ps\<rparr>))"

subsection \<open>Queries\<close>

fun read_loop ::
  "externals \<Rightarrow> u64 \<Rightarrow> string set option \<Rightarrow> durable_fact list \<Rightarrow> ledger_error + durable_fact list" where
  "read_loop X previous kinds [] = Inr []"
| "read_loop X previous kinds (f # fs) =
     rbind (durable_verify X f) (\<lambda>_.
     if position f \<le> previous then Inl InvalidTransition
     else rbind (read_loop X (position f) kinds fs) (\<lambda>out.
       Inr (if (case kinds of None \<Rightarrow> True | Some ks \<Rightarrow> kind f \<in> ks) then f # out else out)))"

definition read_facts ::
  "externals \<Rightarrow> ledger_state \<Rightarrow> SessionId \<Rightarrow> u64 \<Rightarrow> u64 \<Rightarrow> string set option
     \<Rightarrow> ledger_error + durable_fact list" where
  "read_facts X st sid after through kinds =
     (if through = 0 \<or> after \<ge> through then Inl InvalidReadRange
      else rbind (ok_or (bt_get (sessions st) sid) MissingReference) (\<lambda>l.
        read_loop X after kinds
          (filter (\<lambda>f. position f > after \<and> position f \<le> through) (facts l))))"

definition turn_facts :: "TurnId \<Rightarrow> session_ledger \<Rightarrow> durable_fact list" where
  "turn_facts t l = filter (\<lambda>f. turn_id f = Some t) (facts l)"

definition load_turn :: "ledger_state \<Rightarrow> TurnId \<Rightarrow> ledger_error + turn_snapshot" where
  "load_turn st t =
     (case find (\<lambda>l. turn_facts t l \<noteq> []) (bt_values (sessions st)) of
        None \<Rightarrow> Inl MissingReference
      | Some l \<Rightarrow> Inr \<lparr>ts_facts = turn_facts t l, ts_session_version = version l,
          ts_through_position = (if facts l = [] then 0 else position (last (facts l)))\<rparr>)"

definition list_recoverable_turns :: "ledger_state \<Rightarrow> SessionId \<Rightarrow> ledger_error + TurnId list" where
  "list_recoverable_turns st sid =
     ok_or (map_option (\<lambda>l. recoverable_turns (projection l)) (bt_get (sessions st) sid)) MissingReference"

definition find_invocation :: "ledger_state \<Rightarrow> (durable_fact \<Rightarrow> bool) \<Rightarrow> durable_fact list" where
  "find_invocation st P = filter P (concat (map facts (bt_values (sessions st))))"

definition find_model_request :: "ledger_state \<Rightarrow> ModelRequestId \<Rightarrow> durable_fact list" where
  "find_model_request st r = find_invocation st (\<lambda>f. model_request_id f = Some r)"

definition find_tool_invocation :: "ledger_state \<Rightarrow> ToolInvocationId \<Rightarrow> durable_fact list" where
  "find_tool_invocation st t = find_invocation st (\<lambda>f. tool_invocation_id f = Some t)"

definition list_uncertain_model_requests ::
  "ledger_state \<Rightarrow> SessionId \<Rightarrow> ledger_error + ModelRequestId list" where
  "list_uncertain_model_requests st sid =
     ok_or (map_option (\<lambda>l. uncertain_model_requests (projection l)) (bt_get (sessions st) sid))
       MissingReference"

definition list_uncertain_tool_invocations ::
  "ledger_state \<Rightarrow> SessionId \<Rightarrow> ledger_error + ToolInvocationId list" where
  "list_uncertain_tool_invocations st sid =
     ok_or (map_option (\<lambda>l. uncertain_tool_invocations (projection l)) (bt_get (sessions st) sid))
       MissingReference"

definition version_of :: "ledger_state \<Rightarrow> SessionId \<Rightarrow> u64 option" where
  "version_of st sid = map_option version (bt_get (sessions st) sid)"

definition fact_count :: "ledger_state \<Rightarrow> SessionId \<Rightarrow> nat" where
  "fact_count st sid = (case bt_get (sessions st) sid of None \<Rightarrow> 0 | Some l \<Rightarrow> length (facts l))"

definition fact_at :: "ledger_state \<Rightarrow> SessionId \<Rightarrow> u64 \<Rightarrow> durable_fact option" where
  "fact_at st sid pos = Option.bind (bt_get (sessions st) sid) (\<lambda>l. find (\<lambda>f. position f = pos) (facts l))"

end
