(* ===== verification/Ledger_Invariants.thy ===== *)
theory Ledger_Invariants
  imports Ledger_State
begin

section \<open>What the ledger promises\<close>

text \<open>
  The invariant of the ledger and its order. \<open>ledger_inv\<close> says that the facts of a session are numbered
  from 1 without gaps, verify against their digests and are what a replay of the committed batches
  makes the projection of; that the version counts those batches; that the fact index is exactly
  the facts; and that no turn, execution, model request or tool invocation appears in two sessions.
  \<open>ledger_le\<close> says that a ledger only grows. Both are interpreted as a reducer over commits, so they
  hold along every sequence of commits, successful or not.
\<close>

subsection \<open>Appending a batch\<close>

text \<open>The draft a durable fact was made from.\<close>

abbreviation draft_of :: "durable_fact \<Rightarrow> fact_draft" where
  "draft_of \<equiv> fact_draft.truncate"

definition apply_batch ::
  "externals \<Rightarrow> session_projection \<Rightarrow> fact_draft list \<Rightarrow> ledger_error + session_projection" where
  "apply_batch X p ds =
     rbind (run (\<lambda>p f. apply_fact X f p) (begin_commit p) ds) (\<lambda>q.
     rbind (validate_commit_boundary q) (\<lambda>_. Inr q))"

definition replay :: "externals \<Rightarrow> fact_draft list list \<Rightarrow> ledger_error + session_projection" where
  "replay X bs = run (apply_batch X) default_projection bs"

definition numbered :: "durable_fact list \<Rightarrow> bool" where
  "numbered fs \<longleftrightarrow> (\<forall>i < length fs. unat (position (fs ! i)) = Suc i)"

definition stored_ok :: "externals \<Rightarrow> SessionId \<Rightarrow> session_ledger \<Rightarrow> bool" where
  "stored_ok X sid l \<longleftrightarrow> numbered (facts l)
     \<and> (\<forall>f \<in> set (facts l). session_id f = sid \<and> durable_verify X f = Inr ())
     \<and> (\<forall>p d. bt_get (drafts l) p = Some d \<longleftrightarrow> (\<exists>f \<in> set (facts l). position f = p \<and> draft_of f = d))"

definition history_ok :: "externals \<Rightarrow> session_ledger \<Rightarrow> fact_draft list list \<Rightarrow> bool" where
  "history_ok X l bs \<longleftrightarrow> concat bs = map draft_of (facts l) \<and> [] \<notin> set bs
     \<and> replay X bs = Inr (projection l) \<and> length bs = unat (version l)"

definition session_inv :: "externals \<Rightarrow> SessionId \<Rightarrow> session_ledger \<Rightarrow> bool" where
  "session_inv X sid l \<longleftrightarrow> stored_ok X sid l \<and> facts l \<noteq> [] \<and> (\<exists>bs. history_ok X l bs)"

lemma numbered_snoc:
  "numbered fs \<Longrightarrow> unat (position f) = Suc (length fs) \<Longrightarrow> numbered (fs @ [f])"
  by (auto simp: numbered_def nth_append less_Suc_eq)

lemma numbered_position: "numbered fs \<Longrightarrow> f \<in> set fs \<Longrightarrow> unat (position f) \<le> length fs \<and> position f \<noteq> 0"
  by (force simp: numbered_def in_set_conv_nth)

lemma numbered_inj:
  assumes "numbered fs" and "f \<in> set fs" and "g \<in> set fs" and "position f = position g"
  shows "f = g"
  using assms by (metis Suc_inject in_set_conv_nth numbered_def)

lemma stored_ok_append:
  assumes "stored_ok X sid l" and "unat pos = Suc (length (facts l))"
    and "durable_verify X (durable_from sid pos d) = Inr ()"
  shows "stored_ok X sid (l\<lparr>projection := q, drafts := bt_insert pos d (drafts l),
           facts := facts l @ [durable_from sid pos d]\<rparr>)"
proof -
  have "position f \<noteq> pos" if "f \<in> set (facts l)" for f
    using that assms(1,2) numbered_position [of "facts l" f] by (auto simp: stored_ok_def)
  with assms show ?thesis
    by (auto simp: stored_ok_def intro: numbered_snoc)
qed

definition stored ::
  "SessionId \<Rightarrow> u64 \<Rightarrow> fact_draft \<Rightarrow> session_projection \<Rightarrow> session_ledger \<Rightarrow> session_ledger" where
  "stored sid pos d q l = l\<lparr>projection := q, drafts := bt_insert pos d (drafts l),
     facts := facts l @ [durable_from sid pos d]\<rparr>"

lemma append_drafts_Cons:
  assumes "append_drafts X sid l pos (d # ds) = Inr (n, ps)"
  obtains (one) q where "apply_fact X d (projection l) = Inr q"
      and "durable_verify X (durable_from sid pos d) = Inr ()"
      and "ds = []" and "n = stored sid pos d q l" and "ps = [pos]"
    | (more) q pos' qs where "apply_fact X d (projection l) = Inr q"
      and "durable_verify X (durable_from sid pos d) = Inr ()"
      and "ds \<noteq> []" and "unat pos' = Suc (unat pos)"
      and "append_drafts X sid (stored sid pos d q l) pos' ds = Inr (n, qs)" and "ps = pos # qs"
  using assms
  by (cases "ds = []") (auto simp: result_simps Let_def stored_def dest: unat_checked_succ)

lemma append_drafts_stored:
  "append_drafts X sid l pos ds = Inr (n, ps) \<Longrightarrow> stored_ok X sid l \<Longrightarrow>
   unat pos = Suc (length (facts l)) \<Longrightarrow> stored_ok X sid n"
proof (induction ds arbitrary: l pos ps)
  case (Cons d ds)
  from Cons.prems(1) show ?case
  proof (cases rule: append_drafts_Cons)
    case (one q)
    with Cons.prems(2,3) show ?thesis by (simp add: stored_def stored_ok_append)
  next
    case (more q pos' qs)
    with Cons.prems(2,3) Cons.IH [OF more(5)] show ?thesis
      by (simp add: stored_def stored_ok_append)
  qed
qed simp

lemma append_drafts_facts:
  "append_drafts X sid l pos ds = Inr (n, ps) \<Longrightarrow>
   length ps = length ds \<and> facts n = facts l @ map2 (durable_from sid) ps ds
   \<and> version n = version l"
proof (induction ds arbitrary: l pos ps)
  case (Cons d ds)
  from Cons.prems(1) show ?case
  proof (cases rule: append_drafts_Cons)
    case (one q)
    then show ?thesis by (simp add: stored_def)
  next
    case (more q pos' qs)
    with Cons.IH [OF more(5)] show ?thesis by (simp add: stored_def)
  qed
qed simp

lemma append_drafts_positions:
  "append_drafts X sid l pos ds = Inr (n, ps) \<Longrightarrow> i < length ds \<Longrightarrow> unat (ps ! i) = unat pos + i"
proof (induction ds arbitrary: l pos ps i)
  case (Cons d ds)
  from Cons.prems(1) show ?case
  proof (cases rule: append_drafts_Cons)
    case (one q)
    with Cons.prems(2) show ?thesis by simp
  next
    case (more q pos' qs)
    with Cons.prems(2) Cons.IH [OF more(5)] show ?thesis by (cases i) auto
  qed
qed simp

lemma append_drafts_run:
  "append_drafts X sid l pos ds = Inr (n, ps) \<Longrightarrow>
   run (\<lambda>p f. apply_fact X f p) (projection l) ds = Inr (projection n)"
proof (induction ds arbitrary: l pos ps)
  case (Cons d ds)
  from Cons.prems(1) show ?case
  proof (cases rule: append_drafts_Cons)
    case (one q)
    then show ?thesis by (simp add: stored_def)
  next
    case (more q pos' qs)
    with Cons.IH [OF more(5)] show ?thesis by (simp add: stored_def)
  qed
qed simp

subsection \<open>A session after a commit\<close>

lemma first_position_ok:
  "first_position l = Inr pos \<Longrightarrow> numbered (facts l) \<Longrightarrow> unat pos = Suc (length (facts l))"
  by (cases "facts l" rule: rev_cases)
    (auto simp: first_position_def numbered_def result_simps dest!: unat_checked_succ)

definition ledger_of :: "ledger_state \<Rightarrow> SessionId \<Rightarrow> session_ledger" where
  "ledger_of st sid = (case bt_get (sessions st) sid of None \<Rightarrow> default_session_ledger | Some l \<Rightarrow> l)"

lemma append_batch_cases:
  assumes "append_batch X st sid expected ds = Inr (n, ps)"
  obtains pos m where "version (ledger_of st sid) = expected"
    and "first_position (ledger_of st sid) = Inr pos"
    and "append_drafts X sid
           ((ledger_of st sid)\<lparr>projection := begin_commit (projection (ledger_of st sid))\<rparr>) pos ds
         = Inr (m, ps)"
    and "validate_commit_boundary (projection m) = Inr ()"
    and "unat (version n) = Suc (unat expected)" and "n = m\<lparr>version := version n\<rparr>"
  using assms
  by (auto simp: append_batch_def ledger_of_def Let_def result_simps first_position_def
      append_drafts_facts dest!: unat_checked_succ split: if_splits option.splits)

lemma default_ok: "stored_ok X sid default_session_ledger" "history_ok X default_session_ledger []"
  by (simp_all add: stored_ok_def history_ok_def default_session_ledger_def numbered_def replay_def)

lemma ledger_of_ok:
  assumes "\<And>l. bt_get (sessions st) sid = Some l \<Longrightarrow> session_inv X sid l"
  shows "stored_ok X sid (ledger_of st sid)" and "\<exists>bs. history_ok X (ledger_of st sid) bs"
  using assms default_ok(1) [of X sid] default_ok(2) [of X]
  by (auto simp: ledger_of_def session_inv_def intro: exI [of _ "[]"] split: option.splits)

lemma draft_of_map2:
  "length ps = length ds \<Longrightarrow> map draft_of (map2 (durable_from sid) ps ds) = ds"
  by (induction ps ds rule: list_induct2) auto

lemma append_batch_inv:
  assumes append: "append_batch X st sid expected ds = Inr (n, ps)" and "ds \<noteq> []"
    and inv: "\<And>l. bt_get (sessions st) sid = Some l \<Longrightarrow> session_inv X sid l"
  shows "session_inv X sid n"
proof -
  let ?l = "ledger_of st sid"
  let ?start = "?l\<lparr>projection := begin_commit (projection ?l)\<rparr>"
  from append obtain pos m where m: "version ?l = expected" "first_position ?l = Inr pos"
      "append_drafts X sid ?start pos ds = Inr (m, ps)" "validate_commit_boundary (projection m) = Inr ()"
      "unat (version n) = Suc (unat expected)" "n = m\<lparr>version := version n\<rparr>"
    by (rule append_batch_cases)
  from ledger_of_ok [OF inv] obtain bs
    where l: "stored_ok X sid ?l" and bs: "history_ok X ?l bs" by blast
  from l have "stored_ok X sid ?start"
    by (simp add: stored_ok_def)
  moreover from l m(2) have "unat pos = Suc (length (facts ?l))"
    by (simp add: first_position_ok stored_ok_def)
  ultimately have "stored_ok X sid m"
    using append_drafts_stored [OF m(3)] by simp
  moreover have n: "facts n = facts m" "drafts n = drafts m" "projection n = projection m"
    by (subst m(6), simp)+
  ultimately have "stored_ok X sid n"
    by (simp add: stored_ok_def)
  moreover from append_drafts_facts [OF m(3)] n(1)
  have fs: "length ps = length ds" "facts n = facts ?l @ map2 (durable_from sid) ps ds"
    by simp_all
  moreover have "history_ok X n (bs @ [ds])"
  proof -
    have "apply_batch X (projection ?l) ds = Inr (projection m)"
      using append_drafts_run [OF m(3)] m(4) by (simp add: apply_batch_def)
    then show ?thesis
      using bs fs n(3) \<open>ds \<noteq> []\<close> m(1,5) draft_of_map2 [of ps ds sid]
      by (simp add: history_ok_def replay_def run_append)
  qed
  moreover from fs \<open>ds \<noteq> []\<close> have "facts n \<noteq> []"
    by (cases ps; cases ds) auto
  ultimately show ?thesis
    by (auto simp: session_inv_def)
qed

subsection \<open>Screening a batch\<close>

definition existing :: "ledger_state \<Rightarrow> fact_draft \<Rightarrow> fact_index_entry option" where
  "existing st d = bt_get (fact_index st) (fact_id d)"

definition admissible :: "externals \<Rightarrow> ledger_state \<Rightarrow> SessionId \<Rightarrow> fact_draft \<Rightarrow> bool" where
  "admissible X st sid d \<longleftrightarrow> draft_validate X d = Inr () \<and> (\<exists>v. validate_runtime_fact X d = Inr v)
     \<and> \<not> identity_owned_by_other_session st sid d
     \<and> (case existing st d of None \<Rightarrow> True
        | Some x \<Rightarrow> ix_session_id x = sid \<and> same_semantics (ix_draft x) d)"

lemma screen_drafts_ok:
  "screen_drafts X st sid seen ds = Inr ps \<longleftrightarrow>
     list_all (admissible X st sid) ds \<and> distinct (map fact_id ds) \<and> fact_id ` set ds \<inter> seen = {}
     \<and> ps = map ix_position (List.map_filter (existing st) ds)"
proof (induction ds arbitrary: seen ps)
  case (Cons d ds)
  show ?case
  proof (cases "existing st d")
    case None
    then show ?thesis
      by (auto simp: Cons.IH result_simps admissible_def existing_def map_filter_simps)
  next
    case (Some x)
    then show ?thesis
      by (auto simp: Cons.IH result_simps admissible_def existing_def map_filter_simps)
  qed
qed (auto simp: map_filter_simps)

lemma map_filter_length: "length (List.map_filter g xs) \<le> length xs"
  by (induction xs) (auto simp: map_filter_simps split: option.splits)

lemma map_filter_all:
  "length (List.map_filter g xs) = length xs \<Longrightarrow> x \<in> set xs \<Longrightarrow> g x \<noteq> None"
proof (induction xs)
  case (Cons y ys)
  then show ?case
    using map_filter_length [of g ys] by (auto simp: map_filter_simps split: option.splits)
qed simp

lemma map_filter_none: "List.map_filter g xs = [] \<longleftrightarrow> (\<forall>x \<in> set xs. g x = None)"
  by (induction xs) (auto simp: map_filter_simps split: option.splits)

lemma map_filter_eq_map:
  "(\<And>x. x \<in> set xs \<Longrightarrow> g x = Some (h x)) \<Longrightarrow> List.map_filter g xs = map h xs"
  by (induction xs) (auto simp: map_filter_simps)

subsection \<open>The invariant\<close>

definition shares :: "fact_draft \<Rightarrow> fact_draft \<Rightarrow> bool" where
  "shares a b \<longleftrightarrow> same_present (turn_id a) (turn_id b)
     \<or> same_present (execution_id a) (execution_id b)
     \<or> same_present (model_request_id a) (model_request_id b)
     \<or> same_present (tool_invocation_id a) (tool_invocation_id b)"

definition holds :: "ledger_state \<Rightarrow> SessionId \<Rightarrow> durable_fact \<Rightarrow> bool" where
  "holds st s f \<longleftrightarrow> (\<exists>l. bt_get (sessions st) s = Some l \<and> f \<in> set (facts l))"

definition entry_of :: "SessionId \<Rightarrow> durable_fact \<Rightarrow> fact_index_entry" where
  "entry_of s f = \<lparr>ix_session_id = s, ix_position = position f, ix_draft = draft_of f\<rparr>"

definition index_inv :: "ledger_state \<Rightarrow> bool" where
  "index_inv st \<longleftrightarrow>
     (\<forall>i x. bt_get (fact_index st) i = Some x \<longleftrightarrow> (\<exists>s f. holds st s f \<and> fact_id f = i \<and> x = entry_of s f))"

definition ownership_inv :: "ledger_state \<Rightarrow> bool" where
  "ownership_inv st \<longleftrightarrow>
     (\<forall>s f s' f'. holds st s f \<longrightarrow> holds st s' f' \<longrightarrow> s \<noteq> s' \<longrightarrow> \<not> shares (draft_of f) (draft_of f'))"

definition ledger_inv :: "externals \<Rightarrow> ledger_state \<Rightarrow> bool" where
  "ledger_inv X st \<longleftrightarrow> (\<forall>s l. bt_get (sessions st) s = Some l \<longrightarrow> session_inv X s l)
     \<and> index_inv st \<and> ownership_inv st"

lemma screened_all:
  assumes "screen_drafts X st sid {} ds = Inr rs" and "length rs = length ds"
  shows "\<forall>d \<in> set ds. existing st d \<noteq> None" and "rs = map (ix_position \<circ> the \<circ> existing st) ds"
proof -
  have rs: "rs = map ix_position (List.map_filter (existing st) ds)"
    using assms(1) by (simp add: screen_drafts_ok)
  with assms(2) show ex: "\<forall>d \<in> set ds. existing st d \<noteq> None"
    using map_filter_all [of "existing st" ds] by auto
  then show "rs = map (ix_position \<circ> the \<circ> existing st) ds"
    unfolding rs by (subst map_filter_eq_map [of _ _ "the \<circ> existing st"]) auto
qed

lemma screened_none:
  "screen_drafts X st sid {} ds = Inr [] \<Longrightarrow> \<forall>d \<in> set ds. existing st d = None"
  by (auto simp: screen_drafts_ok map_filter_none)

lemma commit_cases:
  obtains (failed) e where "commit X st sid expected ds = (st, Inl e)"
    | (replayed) l where "bt_get (sessions st) sid = Some l"
      and "list_all (admissible X st sid) ds" and "\<forall>d \<in> set ds. existing st d \<noteq> None"
      and "commit X st sid expected ds = (st, Inr \<lparr>disposition = Replayed, session_version = version l,
             positions = map (ix_position \<circ> the \<circ> existing st) ds\<rparr>)"
    | (committed) n ps where "ds \<noteq> []" and "list_all (admissible X st sid) ds"
      and "distinct (map fact_id ds)" and "\<forall>d \<in> set ds. existing st d = None"
      and "append_batch X st sid expected ds = Inr (n, ps)"
      and "commit X st sid expected ds =
             (st\<lparr>fact_index := fold (index_fact sid) (zip ds ps) (fact_index st),
                 sessions := bt_insert sid n (sessions st)\<rparr>,
              Inr \<lparr>disposition = Committed, session_version = version n, positions = ps\<rparr>)"
proof (cases "ds = []")
  case True
  then show ?thesis
    by (intro failed [of EmptyBatch]) (simp add: commit_def)
next
  case ds: False
  show ?thesis
  proof (cases "screen_drafts X st sid {} ds")
    case (Inl e)
    with ds show ?thesis by (intro failed [of e]) (simp add: commit_def)
  next
    case screened: (Inr rs)
    then have ok: "list_all (admissible X st sid) ds" "distinct (map fact_id ds)"
      by (simp_all add: screen_drafts_ok)
    consider (all) "length rs = length ds" | (some) "length rs \<noteq> length ds" "rs \<noteq> []" | (none) "rs = []"
      by blast
    then show ?thesis
    proof cases
      case all
      from screened_all [OF screened all] ok(1) all screened ds show ?thesis
        by (cases "bt_get (sessions st) sid")
          (auto simp: commit_def intro: failed [of MissingReference] replayed)
    next
      case some
      with screened ds show ?thesis
        by (intro failed [of IncompleteReplay]) (simp add: commit_def)
    next
      case none
      with screened screened_none ok ds show ?thesis
        by (cases "append_batch X st sid expected ds")
          (auto simp: commit_def intro: failed committed)
    qed
  qed
qed

subsection \<open>What a commit adds\<close>

definition added :: "externals \<Rightarrow> ledger_state \<Rightarrow> SessionId \<Rightarrow> fact_draft list \<Rightarrow> session_ledger \<Rightarrow> u64 list \<Rightarrow> ledger_state" where
  "added X st sid ds n ps =
     st\<lparr>fact_index := fold (index_fact sid) (zip ds ps) (fact_index st),
        sessions := bt_insert sid n (sessions st)\<rparr>"

lemma append_batch_facts:
  assumes "append_batch X st sid expected ds = Inr (n, ps)"
  shows "length ps = length ds" and "facts n = facts (ledger_of st sid) @ map2 (durable_from sid) ps ds"
    and "version (ledger_of st sid) = expected" and "unat (version n) = Suc (unat expected)"
    and "numbered (facts (ledger_of st sid)) \<Longrightarrow> i < length ds \<Longrightarrow>
           unat (ps ! i) = Suc (length (facts (ledger_of st sid)) + i)"
proof -
  from assms obtain pos m where m: "version (ledger_of st sid) = expected"
      "first_position (ledger_of st sid) = Inr pos"
      "append_drafts X sid
         ((ledger_of st sid)\<lparr>projection := begin_commit (projection (ledger_of st sid))\<rparr>) pos ds
       = Inr (m, ps)"
      "unat (version n) = Suc (unat expected)" "n = m\<lparr>version := version n\<rparr>"
    by (rule append_batch_cases)
  have "facts n = facts m"
    by (subst m(5)) simp
  with append_drafts_facts [OF m(3)] m(1,4)
  show "length ps = length ds" "facts n = facts (ledger_of st sid) @ map2 (durable_from sid) ps ds"
    "version (ledger_of st sid) = expected" "unat (version n) = Suc (unat expected)"
    by simp_all
  show "unat (ps ! i) = Suc (length (facts (ledger_of st sid)) + i)"
    if "numbered (facts (ledger_of st sid))" "i < length ds"
    using append_drafts_positions [OF m(3) that(2)] first_position_ok [OF m(2) that(1)] by simp
qed

lemma added_holds:
  assumes "append_batch X st sid expected ds = Inr (n, ps)"
  shows "holds (added X st sid ds n ps) s f \<longleftrightarrow>
     holds st s f \<or> s = sid \<and> (\<exists>d p. (d, p) \<in> set (zip ds ps) \<and> f = durable_from sid p d)"
proof -
  have "set (map2 (durable_from sid) ps ds) = (\<lambda>(d, p). durable_from sid p d) ` set (zip ds ps)"
    by (force simp: set_zip)
  with append_batch_facts(2) [OF assms] show ?thesis
    by (auto simp: holds_def added_def ledger_of_def default_session_ledger_def split: option.splits)
qed

lemma index_fact_get [simp]:
  "bt_get (index_fact sid (d, p) ix)
     = (bt_get ix)(fact_id d \<mapsto> \<lparr>ix_session_id = sid, ix_position = p, ix_draft = d\<rparr>)"
  by (simp add: index_fact_def)

lemma index_fold:
  "distinct (map fact_id ds) \<Longrightarrow> length ps = length ds \<Longrightarrow>
   bt_get (fold (index_fact sid) (zip ds ps) ix) i = Some x \<longleftrightarrow>
     (\<exists>d p. (d, p) \<in> set (zip ds ps) \<and> fact_id d = i
        \<and> x = \<lparr>ix_session_id = sid, ix_position = p, ix_draft = d\<rparr>)
     \<or> i \<notin> fact_id ` set ds \<and> bt_get ix i = Some x"
proof (induction ds arbitrary: ps ix)
  case (Cons d ds)
  then obtain p qs where "ps = p # qs" by (cases ps) auto
  with Cons.prems show ?case
    by (auto simp: Cons.IH dest: set_zip_leftD)
qed simp

lemma added_index_inv:
  assumes append: "append_batch X st sid expected ds = Inr (n, ps)"
    and inv: "index_inv st" and new: "\<forall>d \<in> set ds. existing st d = None"
    and distinct: "distinct (map fact_id ds)"
  shows "index_inv (added X st sid ds n ps)"
  unfolding index_inv_def
proof (intro allI)
  fix i x
  have "bt_get (fact_index (added X st sid ds n ps)) i = Some x \<longleftrightarrow>
     (\<exists>d p. (d, p) \<in> set (zip ds ps) \<and> fact_id d = i \<and> x = entry_of sid (durable_from sid p d))
     \<or> i \<notin> fact_id ` set ds \<and> bt_get (fact_index st) i = Some x"
    using index_fold [OF distinct append_batch_facts(1) [OF append]]
    by (simp add: added_def entry_of_def)
  also have "\<dots> \<longleftrightarrow> (\<exists>d p. (d, p) \<in> set (zip ds ps) \<and> fact_id d = i \<and> x = entry_of sid (durable_from sid p d))
     \<or> bt_get (fact_index st) i = Some x"
    using new by (auto simp: existing_def)
  also have "\<dots> \<longleftrightarrow> (\<exists>s f. holds (added X st sid ds n ps) s f \<and> fact_id f = i \<and> x = entry_of s f)"
    using inv unfolding index_inv_def added_holds [OF append] by fastforce
  finally show "bt_get (fact_index (added X st sid ds n ps)) i = Some x \<longleftrightarrow>
     (\<exists>s f. holds (added X st sid ds n ps) s f \<and> fact_id f = i \<and> x = entry_of s f)" .
qed

lemma same_present_sym: "same_present a b \<Longrightarrow> same_present b a"
  by (auto simp: same_present_def split: option.splits)

lemma shares_sym: "shares a b \<Longrightarrow> shares b a"
  by (auto simp: shares_def dest: same_present_sym)

lemma owned_by_other:
  "index_inv st \<Longrightarrow> identity_owned_by_other_session st sid d \<longleftrightarrow>
     (\<exists>s f. holds st s f \<and> s \<noteq> sid \<and> shares (draft_of f) d)"
  unfolding identity_owned_by_other_session_def list_ex_bt_values index_inv_def shares_def
  by (auto simp: entry_of_def; fastforce)

lemma added_ownership_inv:
  assumes append: "append_batch X st sid expected ds = Inr (n, ps)"
    and inv: "ownership_inv st" "index_inv st" and ok: "list_all (admissible X st sid) ds"
  shows "ownership_inv (added X st sid ds n ps)"
proof -
  have new: "\<not> shares (draft_of f) d" if "holds st s f" "s \<noteq> sid" "(d, p) \<in> set (zip ds ps)" for s f d p
    using that ok owned_by_other [OF inv(2), of sid d]
    by (auto simp: list_all_iff admissible_def dest: set_zip_leftD)
  show ?thesis
    unfolding ownership_inv_def
  proof (intro allI impI notI)
    fix s f s' f'
    assume "holds (added X st sid ds n ps) s f" "holds (added X st sid ds n ps) s' f'" "s \<noteq> s'"
      and sh: "shares (draft_of f) (draft_of f')"
    then consider "holds st s f" "holds st s' f'"
      | d p where "holds st s f" "s \<noteq> sid" "(d, p) \<in> set (zip ds ps)" "f' = durable_from sid p d"
      | d p where "holds st s' f'" "s' \<noteq> sid" "(d, p) \<in> set (zip ds ps)" "f = durable_from sid p d"
      unfolding added_holds [OF append] by blast
    then show False
    proof cases
      case 1
      with \<open>s \<noteq> s'\<close> inv(1) sh show False unfolding ownership_inv_def by blast
    next
      case (2 d p)
      with new [of s f d p] sh show False by simp
    next
      case (3 d p)
      with new [of s' f' d p] shares_sym [OF sh] show False by simp
    qed
  qed
qed

lemma commit_keeps_inv:
  assumes inv: "ledger_inv X st"
  shows "ledger_inv X (fst (commit X st sid expected ds))"
proof (cases rule: commit_cases [of X st sid expected ds])
  case (committed n ps)
  have "session_inv X sid n"
    using append_batch_inv [OF committed(5,1)] inv unfolding ledger_inv_def by blast
  then have "session_inv X s l" if "bt_get (sessions (added X st sid ds n ps)) s = Some l" for s l
    using that inv by (auto simp: ledger_inv_def added_def split: if_splits)
  moreover have "index_inv (added X st sid ds n ps)" "ownership_inv (added X st sid ds n ps)"
    using added_index_inv [OF committed(5) _ committed(4,3)]
      added_ownership_inv [OF committed(5) _ _ committed(2)] inv
    unfolding ledger_inv_def by blast+
  ultimately have "ledger_inv X (added X st sid ds n ps)"
    unfolding ledger_inv_def by blast
  then show ?thesis
    by (simp add: committed(6) added_def)
qed (simp_all add: inv)

subsection \<open>Batches and commits as reducers\<close>

lemma begin_commit_view [simp]: "lifecycle_of (begin_commit p) = lifecycle_of p"
  by (simp add: begin_commit_def lifecycle_of_def)

lemma apply_batch_run:
  "apply_batch X p ds = Inr q \<Longrightarrow> run (\<lambda>p f. apply_fact X f p) (begin_commit p) ds = Inr q"
  by (auto simp: apply_batch_def result_simps)

lemma apply_batch_keeps: "projection_inv p \<Longrightarrow> apply_batch X p ds = Inr q \<Longrightarrow> projection_inv q"
  using projection.run_keeps [OF _ apply_batch_run] by (simp add: projection_inv_def)

lemma apply_batch_le: "projection_inv p \<Longrightarrow> apply_batch X p ds = Inr q \<Longrightarrow> projection_le p q"
  using projection.run_le [OF _ apply_batch_run] by (simp add: projection_inv_def projection_le_def)

interpretation batches: ordered_reducer "apply_batch X" projection_inv projection_le for X
  by unfold_locales
    (auto intro: apply_batch_keeps apply_batch_le projection.le_refl projection.le_trans)

lemma default_projection_inv: "projection_inv default_projection"
  by (simp add: projection_inv_def lifecycle_inv_def default_projection_def executions_ok_def calls_ok_def
      lookups_ok_def questions_ok_def lifecycle_of_def)

lemma replay_inv: "replay X bs = Inr p \<Longrightarrow> projection_inv p"
  unfolding replay_def by (rule batches.run_keeps [OF default_projection_inv])

lemma session_projection_inv: "session_inv X sid l \<Longrightarrow> projection_inv (projection l)"
  by (auto simp: session_inv_def history_ok_def dest: replay_inv)

type_synonym commit_command = "SessionId \<times> u64 \<times> fact_draft list"

definition commit_step :: "externals \<Rightarrow> ledger_state \<Rightarrow> commit_command \<Rightarrow> unit + ledger_state" where
  "commit_step X st c = (case c of (sid, expected, ds) \<Rightarrow> Inr (fst (commit X st sid expected ds)))"

definition ledger_after :: "externals \<Rightarrow> ledger_state \<Rightarrow> commit_command list \<Rightarrow> ledger_state" where
  "ledger_after X st cs = foldl (\<lambda>st (sid, expected, ds). fst (commit X st sid expected ds)) st cs"

lemma run_ledger_after: "run (commit_step X) st cs = Inr (ledger_after X st cs)"
  by (induction cs arbitrary: st) (auto simp: ledger_after_def commit_step_def)

definition session_le :: "session_ledger \<Rightarrow> session_ledger \<Rightarrow> bool" where
  "session_le l l' \<longleftrightarrow> (\<exists>more. facts l' = facts l @ more) \<and> version l \<le> version l'
     \<and> projection_le (projection l) (projection l')"

definition ledger_le :: "ledger_state \<Rightarrow> ledger_state \<Rightarrow> bool" where
  "ledger_le st st' \<longleftrightarrow> entries_le session_le (bt_get (sessions st)) (bt_get (sessions st'))
     \<and> bt_get (fact_index st) \<subseteq>\<^sub>m bt_get (fact_index st')"

lemma session_le_order: "reflp session_le" "transp session_le"
  by (auto simp: session_le_def reflp_def transp_def intro: projection.le_refl projection.le_trans)

lemma ledger_le_refl: "ledger_le st st"
  by (simp add: ledger_le_def entries_le_refl session_le_order)

lemma ledger_le_trans: "ledger_le st su \<Longrightarrow> ledger_le su sv \<Longrightarrow> ledger_le st sv"
  unfolding ledger_le_def
  by (blast intro: entries_le_trans [OF session_le_order(2)] map_le_trans)

lemma append_batch_le:
  assumes append: "append_batch X st sid expected ds = Inr (n, ps)"
    and l: "bt_get (sessions st) sid = Some l" and inv: "session_inv X sid l"
  shows "session_le l n"
proof -
  from l have lo: "ledger_of st sid = l" by (simp add: ledger_of_def)
  note af = append_batch_facts [OF append, unfolded lo]
  from append obtain pos m where m: "append_drafts X sid
         ((ledger_of st sid)\<lparr>projection := begin_commit (projection (ledger_of st sid))\<rparr>) pos ds
       = Inr (m, ps)" "n = m\<lparr>version := version n\<rparr>"
    by (rule append_batch_cases)
  have "projection n = projection m" by (subst m(2)) simp
  with append_drafts_run [OF m(1)] lo
  have r: "run (\<lambda>p f. apply_fact X f p) (begin_commit (projection l)) ds = Inr (projection n)" by simp
  have "projection_inv (begin_commit (projection l))"
    using session_projection_inv [OF inv] by (simp add: projection_inv_def)
  then have "projection_le (projection l) (projection n)"
    using projection.run_le [OF _ r] by (simp add: projection_le_def)
  moreover have "version l \<le> version n"
    using af(3,4) by (simp add: word_le_nat_alt)
  ultimately show ?thesis
    using af(2) by (auto simp: session_le_def)
qed

lemma index_fold_le:
  assumes "distinct (map fact_id ds)" and "length ps = length ds"
    and "\<forall>d \<in> set ds. bt_get ix (fact_id d) = None"
  shows "bt_get ix \<subseteq>\<^sub>m bt_get (fold (index_fact sid) (zip ds ps) ix)"
  unfolding map_le_def
proof
  fix i assume "i \<in> dom (bt_get ix)"
  then obtain x where x: "bt_get ix i = Some x" by auto
  with assms(3) have "i \<notin> fact_id ` set ds" by auto
  with x show "bt_get ix i = bt_get (fold (index_fact sid) (zip ds ps) ix) i"
    using index_fold [OF assms(1,2), of sid ix i x] by simp
qed

lemma commit_le:
  assumes inv: "ledger_inv X st"
  shows "ledger_le st (fst (commit X st sid expected ds))"
proof (cases rule: commit_cases [of X st sid expected ds])
  case (committed n ps)
  have "session_le l n" if "bt_get (sessions st) sid = Some l" for l
    using append_batch_le [OF committed(5) that] inv that unfolding ledger_inv_def by blast
  then have "entries_le session_le (bt_get (sessions st)) (bt_get (sessions (added X st sid ds n ps)))"
    by (auto simp: added_def intro!: entries_le_upd session_le_order)
  moreover have "bt_get (fact_index st) \<subseteq>\<^sub>m bt_get (fact_index (added X st sid ds n ps))"
    using index_fold_le [OF committed(3) append_batch_facts(1) [OF committed(5)]] committed(4)
    by (simp add: added_def existing_def)
  ultimately show ?thesis
    by (simp add: ledger_le_def committed(6) added_def)
qed (simp_all add: ledger_le_refl)

interpretation ledger: ordered_reducer "commit_step X" "ledger_inv X" ledger_le for X
  by unfold_locales
    (auto simp: commit_step_def ledger_le_refl commit_keeps_inv commit_le intro: ledger_le_trans)

lemma default_ledger_inv: "ledger_inv X default_ledger"
  by (simp add: ledger_inv_def index_inv_def ownership_inv_def holds_def default_ledger_def)

lemma ledger_after_inv: "ledger_inv X st \<Longrightarrow> ledger_inv X (ledger_after X st cs)"
  using ledger.run_keeps [OF _ run_ledger_after] .

lemma ledger_after_le: "ledger_inv X st \<Longrightarrow> ledger_le st (ledger_after X st cs)"
  using ledger.run_le [OF _ run_ledger_after] .

lemmas reachable_inv = ledger_after_inv [OF default_ledger_inv]

end
