(* ===== verification/Ledger_Reads.thy ===== *)
theory Ledger_Reads
  imports Ledger_Invariants
begin

section \<open>Reading the ledger, and repeating a commit\<close>

text \<open>
  What the queries of \<open>state.rs\<close> return on a ledger that satisfies its invariant: a range read is exact
  and never fails, a position holds one fact forever, a turn is found in the one session that owns
  it. And idempotency: committing the drafts of a committed batch again, at any later time and with
  any new recording times, changes nothing and returns the positions of the first commit.
\<close>

subsection \<open>Reads\<close>

lemma read_loop_ok:
  assumes "sorted_wrt (\<lambda>f g. position f < position g) fs" and "\<forall>f \<in> set fs. previous < position f"
    and "\<forall>f \<in> set fs. durable_verify X f = Inr ()"
  shows "read_loop X previous kinds fs
    = Inr (filter (\<lambda>f. case kinds of None \<Rightarrow> True | Some ks \<Rightarrow> kind f \<in> ks) fs)"
  using assms by (induction fs arbitrary: previous) auto

lemma numbered_sorted: "numbered fs \<Longrightarrow> sorted_wrt (\<lambda>f g. position f < position g) fs"
  by (auto simp: sorted_wrt_iff_nth_less numbered_def word_less_nat_alt)

lemma numbered_last: "numbered fs \<Longrightarrow> fs \<noteq> [] \<Longrightarrow> unat (position (last fs)) = length fs"
  by (simp add: numbered_def last_conv_nth)

lemma ledger_stored:
  "ledger_inv X st \<Longrightarrow> bt_get (sessions st) sid = Some l \<Longrightarrow> stored_ok X sid l"
  by (auto simp: ledger_inv_def session_inv_def)

lemma read_facts_ok:
  assumes "ledger_inv X st" and "bt_get (sessions st) sid = Some l" and "after < through"
  shows "read_facts X st sid after through kinds
    = Inr (filter (\<lambda>f. after < position f \<and> position f \<le> through
             \<and> (case kinds of None \<Rightarrow> True | Some ks \<Rightarrow> kind f \<in> ks)) (facts l))"
proof -
  let ?range = "filter (\<lambda>f. position f > after \<and> position f \<le> through) (facts l)"
  from ledger_stored [OF assms(1,2)] have s: "stored_ok X sid l" .
  then have "sorted_wrt (\<lambda>f g. position f < position g) ?range"
    by (auto simp: stored_ok_def dest: numbered_sorted intro: sorted_wrt_filter)
  with s have "read_loop X after kinds ?range
      = Inr (filter (\<lambda>f. case kinds of None \<Rightarrow> True | Some ks \<Rightarrow> kind f \<in> ks) ?range)"
    by (intro read_loop_ok) (auto simp: stored_ok_def)
  moreover from assms(3) have "through \<noteq> 0" "\<not> through \<le> after"
    by auto
  ultimately show ?thesis
    using assms(2) by (simp add: read_facts_def conj_ac)
qed

lemma find_numbered:
  assumes "numbered fs"
  shows "find (\<lambda>f. position f = p) fs = Some f \<longleftrightarrow> f \<in> set fs \<and> position f = p"
proof
  assume f: "f \<in> set fs \<and> position f = p"
  then obtain i where i: "i < length fs" "fs ! i = f"
    by (auto simp: in_set_conv_nth)
  have "position (fs ! j) \<noteq> p" if "j < i" for j
  proof -
    from that i assms have "unat (position (fs ! j)) = Suc j" "unat (position (fs ! i)) = Suc i"
      by (auto simp: numbered_def)
    with that i f show ?thesis by auto
  qed
  with i f show "find (\<lambda>f. position f = p) fs = Some f"
    by (auto simp: find_Some_iff)
next
  assume "find (\<lambda>f. position f = p) fs = Some f"
  then show "f \<in> set fs \<and> position f = p"
    by (auto simp: find_Some_iff)
qed

lemma find_position:
  assumes "numbered fs"
  shows "find (\<lambda>f. position f = n) fs = (if 1 \<le> unat n \<and> unat n \<le> length fs then Some (fs ! (unat n - 1)) else None)"
proof (cases "1 \<le> unat n \<and> unat n \<le> length fs")
  case True
  then have "position (fs ! (unat n - 1)) = n" "fs ! (unat n - 1) \<in> set fs"
    using assms by (auto simp: numbered_def word_unat_eq_iff)
  with True show ?thesis
    by (simp add: find_numbered [OF assms])
next
  case False
  then have "\<not> (\<exists>f \<in> set fs. position f = n)"
    using assms by (auto simp: numbered_def in_set_conv_nth)
  with False show ?thesis
    by (auto simp: find_None_iff)
qed

lemma fact_at_ok:
  assumes "ledger_inv X st"
  shows "fact_at st sid p = Some f \<longleftrightarrow> holds st sid f \<and> position f = p"
proof (cases "bt_get (sessions st) sid")
  case (Some l)
  with ledger_stored [OF assms Some] show ?thesis
    by (simp add: fact_at_def holds_def find_numbered stored_ok_def)
qed (simp add: fact_at_def holds_def)

lemma ledger_le_holds: "ledger_le st st' \<Longrightarrow> holds st sid f \<Longrightarrow> holds st' sid f"
  by (fastforce simp: ledger_le_def entries_le_def session_le_def holds_def)

lemma ledger_le_fact_at:
  assumes "ledger_inv X st" and "ledger_inv X st'" and "ledger_le st st'" and "fact_at st sid p = Some f"
  shows "fact_at st' sid p = Some f"
  using assms ledger_le_holds by (auto simp: fact_at_ok)

subsection \<open>Turns and invocations belong to one session\<close>

lemma same_session:
  assumes "ledger_inv X st" and "holds st s f" and "holds st s' f'"
    and "shares (draft_of f) (draft_of f')"
  shows "s = s'"
  using assms unfolding ledger_inv_def ownership_inv_def by blast

lemma draft_of_sel [simp]:
  "fact_id (draft_of f) = fact_id f" "turn_id (draft_of f) = turn_id f"
  "execution_id (draft_of f) = execution_id f" "model_request_id (draft_of f) = model_request_id f"
  "tool_invocation_id (draft_of f) = tool_invocation_id f" "kind (draft_of f) = kind f"
  by (simp_all add: fact_draft.truncate_def)

lemma holds_iff_values: "(\<exists>s. holds st s f) \<longleftrightarrow> (\<exists>l \<in> set (bt_values (sessions st)). f \<in> set (facts l))"
  by (auto simp: holds_def Bex_def bt_values_iff)

lemma load_turn_ok:
  assumes inv: "ledger_inv X st" and "load_turn st t = Inr snap"
  shows "\<exists>s l. bt_get (sessions st) s = Some l \<and> ts_facts snap = turn_facts t l \<and> ts_facts snap \<noteq> []
    \<and> ts_session_version snap = version l \<and> unat (ts_through_position snap) = length (facts l)
    \<and> (\<forall>s' f. holds st s' f \<and> turn_id f = Some t \<longrightarrow> s' = s \<and> f \<in> set (ts_facts snap))"
proof -
  from assms(2) obtain l where l: "find (\<lambda>l. turn_facts t l \<noteq> []) (bt_values (sessions st)) = Some l"
    and snap: "snap = \<lparr>ts_facts = turn_facts t l, ts_session_version = version l,
          ts_through_position = (if facts l = [] then 0 else position (last (facts l)))\<rparr>"
    by (auto simp: load_turn_def split: option.splits)
  from l have "l \<in> set (bt_values (sessions st))" and ne: "turn_facts t l \<noteq> []"
    by (auto simp: find_Some_iff)
  then obtain s where s: "bt_get (sessions st) s = Some l"
    by (auto simp: bt_values_iff)
  from ne obtain g where g: "g \<in> set (facts l)" "turn_id g = Some t"
    by (auto simp: turn_facts_def filter_empty_conv)
  have "s' = s \<and> f \<in> set (turn_facts t l)" if f: "holds st s' f" "turn_id f = Some t" for s' f
  proof -
    have "shares (draft_of f) (draft_of g)"
      using f g by (simp add: shares_def same_present_def)
    with same_session [OF inv f(1), of s g] g s have "s' = s"
      by (auto simp: holds_def)
    with f s show ?thesis
      by (auto simp: holds_def turn_facts_def)
  qed
  moreover have "unat (position (last (facts l))) = length (facts l)" "facts l \<noteq> []"
    using ledger_stored [OF inv s] g(1) by (auto simp: stored_ok_def intro: numbered_last)
  ultimately show ?thesis
    using s snap ne by auto
qed

lemma load_turn_missing:
  "load_turn st t = Inl e \<longleftrightarrow> e = MissingReference \<and> (\<forall>s f. holds st s f \<longrightarrow> turn_id f \<noteq> Some t)"
proof -
  have "find (\<lambda>l. turn_facts t l \<noteq> []) (bt_values (sessions st)) = None \<longleftrightarrow>
      (\<forall>l \<in> set (bt_values (sessions st)). \<forall>f \<in> set (facts l). turn_id f \<noteq> Some t)"
    by (auto simp: find_None_iff turn_facts_def filter_empty_conv)
  also have "\<dots> \<longleftrightarrow> (\<forall>s f. holds st s f \<longrightarrow> turn_id f \<noteq> Some t)"
    using holds_iff_values by (metis (no_types))
  finally show ?thesis
    by (auto simp: load_turn_def split: option.splits)
qed

subsection \<open>Repeating a commit\<close>

lemma time_sel:
  fixes f :: fact_draft
  shows "kind (f\<lparr>recorded_at := t\<rparr>) = kind f"
    "schema_version (f\<lparr>recorded_at := t\<rparr>) = schema_version f"
    "turn_id (f\<lparr>recorded_at := t\<rparr>) = turn_id f"
    "execution_id (f\<lparr>recorded_at := t\<rparr>) = execution_id f"
    "model_request_id (f\<lparr>recorded_at := t\<rparr>) = model_request_id f"
    "tool_invocation_id (f\<lparr>recorded_at := t\<rparr>) = tool_invocation_id f"
    "payload (f\<lparr>recorded_at := t\<rparr>) = payload f"
  by simp_all

lemma validate_payload_time: "validate_payload X (f\<lparr>recorded_at := t\<rparr>) = validate_payload X f"
  unfolding validate_payload_def effect_prepared_v2_def effect_prepared_v3_def
    effect_authorized_v2_def by (simp only: time_sel)

lemma validate_runtime_fact_time:
  "validate_runtime_fact X (f\<lparr>recorded_at := t\<rparr>) = validate_runtime_fact X f"
  unfolding validate_runtime_fact_def validate_payload_time effect_prepared_v2_def
    effect_prepared_v3_def effect_authorized_v2_def envelope_ok_def
  by (simp only: time_sel)

lemma same_semantics_validate:
  "same_semantics a b \<Longrightarrow> validate_runtime_fact X a = validate_runtime_fact X b"
  using validate_runtime_fact_time by (metis same_semantics_iff)

lemma same_semantics_shares: "same_semantics a b \<Longrightarrow> shares c a = shares c b"
  by (simp add: same_semantics_def shares_def)

lemma committed_state:
  assumes "commit X st sid v ds = (st', Inr r)" and "disposition r = Committed"
  obtains n where "append_batch X st sid v ds = Inr (n, positions r)" and "session_version r = version n"
    and "st' = added X st sid ds n (positions r)" and "ds \<noteq> []" and "list_all (admissible X st sid) ds"
    and "distinct (map fact_id ds)" and "\<forall>d \<in> set ds. existing st d = None"
  by (rule commit_cases [of X st sid v ds]) (use assms in \<open>auto simp: added_def\<close>)

lemma committed_entry:
  assumes "commit X st sid v ds = (st', Inr r)" and "disposition r = Committed" and "i < length ds"
  shows "existing st' (ds ! i)
    = Some \<lparr>ix_session_id = sid, ix_position = positions r ! i, ix_draft = ds ! i\<rparr>"
proof -
  from assms(1,2) obtain n where n: "append_batch X st sid v ds = Inr (n, positions r)"
      "st' = added X st sid ds n (positions r)" "distinct (map fact_id ds)"
    by (rule committed_state)
  note len = append_batch_facts(1) [OF n(1)]
  have "(ds ! i, positions r ! i) \<in> set (zip ds (positions r))"
    using len assms(3) by (auto simp: set_zip)
  then show ?thesis
    using index_fold [OF n(3) len] by (auto simp: existing_def n(2) added_def)
qed

lemma replay_admissible:
  assumes inv: "ledger_inv X st" and x: "existing st d = Some x" "ix_session_id x = sid"
    and d: "same_semantics (ix_draft x) d" "draft_validate X d = Inr ()"
    and ok: "validate_runtime_fact X (ix_draft x) = Inr w"
  shows "admissible X st sid d"
proof -
  from inv x obtain f where f: "holds st sid f" "draft_of f = ix_draft x"
    by (auto simp: ledger_inv_def index_inv_def existing_def entry_of_def)
  have "\<not> identity_owned_by_other_session st sid d"
  proof
    assume "identity_owned_by_other_session st sid d"
    then obtain s g where g: "holds st s g" "s \<noteq> sid" "shares (draft_of g) d"
      using inv owned_by_other by (auto simp: ledger_inv_def)
    then have "shares (draft_of g) (draft_of f)"
      using f(2) d(1) same_semantics_shares by metis
    with same_session [OF inv g(1) f(1)] g(2) show False by simp
  qed
  with x d ok same_semantics_validate [OF d(1), of X] show ?thesis
    by (simp add: admissible_def)
qed

lemma commit_all_existing:
  assumes "ds \<noteq> []" and "list_all (admissible X st sid) ds" and "distinct (map fact_id ds)"
    and "\<And>i. i < length ds \<Longrightarrow> \<exists>x. existing st (ds ! i) = Some x \<and> ix_position x = ps ! i"
    and "length ps = length ds" and "bt_get (sessions st) sid = Some l"
  shows "commit X st sid expected ds =
    (st, Inr \<lparr>disposition = Replayed, session_version = version l, positions = ps\<rparr>)"
proof -
  have "List.map_filter (existing st) ds = map (the \<circ> existing st) ds"
    by (rule map_filter_eq_map) (metis assms(4) comp_apply in_set_conv_nth option.sel)
  moreover have "map ix_position (map (the \<circ> existing st) ds) = ps"
    by (rule nth_equalityI) (use assms(4,5) in force)+
  ultimately have "screen_drafts X st sid {} ds = Inr ps"
    using assms(2,3) by (simp add: screen_drafts_ok)
  with assms(1,5,6) show ?thesis
    by (simp add: commit_def)
qed

lemma commit_again:
  assumes inv: "ledger_inv X st" and first: "commit X st sid v ds = (st', Inr r)" "disposition r = Committed"
    and later: "ledger_inv X st''" "ledger_le st' st''"
    and again: "list_all2 same_semantics ds ds'" "\<forall>d \<in> set ds'. draft_validate X d = Inr ()"
  shows "\<exists>l. bt_get (sessions st'') sid = Some l \<and> commit X st'' sid w ds' =
    (st'', Inr \<lparr>disposition = Replayed, session_version = version l, positions = positions r\<rparr>)"
proof -
  from first obtain n where n: "append_batch X st sid v ds = Inr (n, positions r)" "ds \<noteq> []"
      "list_all (admissible X st sid) ds" "distinct (map fact_id ds)"
    by (rule committed_state)
  have len: "length ds' = length ds"
    using again(1) by (simp add: list_all2_lengthD)
  have sem: "same_semantics (ds ! i) (ds' ! i)" if "i < length ds" for i
    using again(1) that by (simp add: list_all2_conv_all_nth)
  have ids: "map fact_id ds' = map fact_id ds"
    by (rule nth_equalityI) (use len sem in \<open>auto simp: same_semantics_def\<close>)
  have entry: "existing st'' (ds' ! i)
      = Some \<lparr>ix_session_id = sid, ix_position = positions r ! i, ix_draft = ds ! i\<rparr>"
    if "i < length ds" for i
  proof -
    from sem [OF that] have "fact_id (ds' ! i) = fact_id (ds ! i)"
      by (simp add: same_semantics_def)
    with committed_entry [OF first that] later(2) show ?thesis
      unfolding ledger_le_def existing_def map_le_def by (metis domI)
  qed
  have "admissible X st'' sid (ds' ! i)" if "i < length ds" for i
    using replay_admissible [OF later(1) entry [OF that]] sem [OF that] that len again(2) n(3)
    by (auto simp: list_all_length admissible_def)
  then have adm: "list_all (admissible X st'' sid) ds'"
    by (simp add: list_all_length len)
  obtain l where l: "bt_get (sessions st'') sid = Some l"
    using entry [of 0] n(2) later(1)
    by (auto simp: ledger_inv_def index_inv_def existing_def entry_of_def holds_def)
  have "ds' \<noteq> []" "distinct (map fact_id ds')" "length (positions r) = length ds'"
    using n len ids append_batch_facts(1) [OF n(1)] by auto
  with commit_all_existing [OF _ adm, of "positions r" l w] entry len l show ?thesis
    by auto
qed

end
