(* ===== verification/Session_Properties.thy ===== *)
theory Session_Properties
  imports Ledger_Reads
begin

section \<open>Invariants of a session, lifted to the ledger\<close>

text \<open>
  What the store owes to a property of session projections: the property need only hold of the empty
  projection, survive the opening of a session and the start of a commit, and be kept by the handler
  of every kind; then it holds of the projection of every session of every ledger that any sequence of
  commits can produce. The effect, delegation and schedule invariants are instances.
\<close>

lemma reachable_session:
  assumes "bt_get (sessions (ledger_after X default_ledger cs)) sid = Some l"
  shows "session_inv X sid l"
  using reachable_inv [of X cs] assms by (simp add: ledger_inv_def)

lemma reachable_lifecycle:
  assumes "bt_get (sessions (ledger_after X default_ledger cs)) sid = Some l"
  shows "lifecycle_inv (lifecycle_of (projection l))"
  using session_projection_inv [OF reachable_session [OF assms]] by (simp add: projection_inv_def)

text \<open>
  The general form relates the projection to the facts applied so far, in the order they were
  committed; a property of the projection alone is the special case.
\<close>

locale session_history =
  fixes H :: "externals \<Rightarrow> fact_draft list \<Rightarrow> session_projection \<Rightarrow> bool"
  assumes history_default: "H X [] default_projection"
    and history_opening: "H X ds p \<Longrightarrow> kind f = ''session.opened'' \<Longrightarrow> H X (ds @ [f]) (p\<lparr>opened := True\<rparr>)"
    and history_begin: "H X ds p \<Longrightarrow> H X ds (begin_commit p)"
    and history_dispatch: "H X ds p \<Longrightarrow> \<not> closed p \<Longrightarrow> dispatch (kind f) X f p = Inr q \<Longrightarrow> H X (ds @ [f]) q"
begin

lemma history_fact:
  assumes "H X ds p" and "apply_fact X f p = Inr q"
  shows "H X (ds @ [f]) q"
  using assms(2) by (cases rule: apply_fact_cases) (use assms(1) in \<open>auto intro: history_opening history_dispatch\<close>)

lemma history_facts: "H X ds p \<Longrightarrow> run (\<lambda>p f. apply_fact X f p) p fs = Inr q \<Longrightarrow> H X (ds @ fs) q"
proof (induction fs arbitrary: ds p)
  case (Cons f fs)
  from Cons.prems(2) obtain r where "apply_fact X f p = Inr r" "run (\<lambda>p f. apply_fact X f p) r fs = Inr q"
    by (auto simp: result_simps)
  then show ?case
    using Cons.IH [of "ds @ [f]" r] history_fact [OF Cons.prems(1)] by simp
qed simp

lemma history_batch: "H X ds p \<Longrightarrow> apply_batch X p fs = Inr q \<Longrightarrow> H X (ds @ fs) q"
  by (blast intro: history_facts history_begin apply_batch_run)

lemma history_replay: "H X ds p \<Longrightarrow> run (apply_batch X) p bs = Inr q \<Longrightarrow> H X (ds @ concat bs) q"
proof (induction bs arbitrary: ds p)
  case (Cons b bs)
  from Cons.prems(2) obtain r where "apply_batch X p b = Inr r" "run (apply_batch X) r bs = Inr q"
    by (auto simp: result_simps)
  then show ?case
    using Cons.IH [of "ds @ b" r] history_batch [OF Cons.prems(1)] by simp
qed simp

lemma history_session: "session_inv X sid l \<Longrightarrow> H X (map draft_of (facts l)) (projection l)"
  using history_replay [OF history_default] by (fastforce simp: session_inv_def history_ok_def replay_def)

lemma history_ledger:
  assumes "bt_get (sessions (ledger_after X default_ledger cs)) sid = Some l"
  shows "H X (map draft_of (facts l)) (projection l)"
  using reachable_session [OF assms] by (rule history_session)

end

locale session_property =
  fixes I :: "session_projection \<Rightarrow> bool"
  assumes at_default: "I default_projection"
    and at_opening: "I p \<Longrightarrow> I (p\<lparr>opened := True\<rparr>)"
    and at_begin: "I p \<Longrightarrow> I (begin_commit p)"
    and at_dispatch: "I p \<Longrightarrow> \<not> closed p \<Longrightarrow> dispatch k X f p = Inr q \<Longrightarrow> I q"

sublocale session_property \<subseteq> session_history "\<lambda>X ds p. I p"
  by unfold_locales (auto intro: at_default at_opening at_begin at_dispatch)

context session_property begin

lemma ledger_keeps:
  assumes "bt_get (sessions (ledger_after X default_ledger cs)) sid = Some l"
  shows "I (projection l)"
  using history_ledger [OF assms] .

end

end
