(* ===== verification/Effect_Safety.thy ===== *)
theory Effect_Safety
  imports Session_Properties
begin

section \<open>Safety of effects\<close>

text \<open>
  What the projection guarantees about tool invocations, whatever facts are committed. Under contract
  version 3 no tool is dispatched without an \<open>Allow\<close> decision on exactly the prepared call and a
  sandbox proof for the grant and executor it was started under (\<open>effects_safe\<close>). Under contract
  version 2 no tool is dispatched outside a planned batch, and the tools of a batch are dispatched in
  the order of the plan, each batch keeping its tools to itself (\<open>batches_ok\<close>).
\<close>

subsection \<open>Handlers that leave the effects alone\<close>

text \<open>The part of the projection that effect safety is about.\<close>

definition effect_view where
  "effect_view p = (tools p, tool_contract_versions p, f0 p, tool_digests p, tool_grants p,
     tool_executors p, tool_batch_plans p, effect_batches p)"

definition quiet :: "handler \<Rightarrow> bool" where
  "quiet h \<longleftrightarrow> (\<forall>X f p q. h X f p = Inr q \<longrightarrow> effect_view q = effect_view p)"

lemma quietI: "(\<And>X f p. rpost (h X f p) (\<lambda>q. effect_view q = effect_view p)) \<Longrightarrow> quiet h"
  by (auto simp: quiet_def rpost_def)

lemma transition_turn_quiet: "transition_turn t next p = Inr q \<Longrightarrow> effect_view q = effect_view p"
  by (auto simp: transition_turn_ok effect_view_def)

lemma quiet_start_turn: "quiet start_turn"
proof (rule quietI)
  fix X f p
  show "rpost (start_turn X f p) (\<lambda>q. effect_view q = effect_view p)"
    unfolding start_turn_def Let_def
  proof (intro post_intros, goal_cases)
    case (1 t m k q)
    from 1(5) show ?case
      by (auto simp: effect_view_def result_simps split: if_splits)
  qed
qed

lemma quiet_turns: "quiet (\<lambda>X f. close_session)" "quiet suspend_turn" "quiet (terminal_turn st)"
    "quiet admit_turn_input" "quiet request_cancel" "quiet start_execution"
    "quiet start_iteration" "quiet (transition_execution est)"
  unfolding close_session_def suspend_turn_def terminal_turn_def admit_turn_input_def
    request_cancel_def start_execution_def start_iteration_def
    transition_execution_def Let_def
  by (intro quietI post_intros; simp add: effect_view_def transition_turn_ok)+

lemma quiet_steered: "quiet admit_turn_steered"
  unfolding admit_turn_steered_def
  by (intro quietI post_intros) (auto simp: rpost_def split: turn_state.splits)

lemma quiet_calls: "quiet prepare_model" "quiet (transition_model st)" "quiet commit_artifact"
    "quiet reject_tool_preparation" "quiet request_interaction" "quiet finish_interaction"
    "quiet request_knowledge" "quiet dispatch_knowledge" "quiet terminal_knowledge"
  unfolding prepare_model_def transition_model_def commit_artifact_def reject_tool_preparation_def
    request_interaction_def finish_interaction_def request_knowledge_def dispatch_knowledge_def
    terminal_knowledge_def Let_def
  by (intro quietI post_intros; simp add: effect_view_def)+

lemma quiet_schedules: "quiet create_schedule" "quiet claim_schedule" "quiet fire_schedule" "quiet skip_schedule"
   "quiet cancel_schedule" "quiet fail_schedule" "quiet exhaust_schedule"
  unfolding create_schedule_def claim_schedule_def fire_schedule_def skip_schedule_def
    cancel_schedule_def fail_schedule_def exhaust_schedule_def set_schedule_def
  by (intro quietI post_intros; simp add: effect_view_def)+

lemma quiet_delegations:
  "quiet request_delegation" "quiet authorize_delegation" "quiet deny_delegation"
  "quiet start_delegation_child" "quiet terminal_delegation_child" "quiet observe_delegation"
  unfolding request_delegation_def authorize_delegation_def deny_delegation_def
    start_delegation_child_def terminal_delegation_child_def observe_delegation_def
  by (intro quietI post_intros; simp add: effect_view_def)+

lemma quiet_skip: "quiet (\<lambda>X f. Inr)"
  by (simp add: quiet_def)

lemmas quiet_handlers = quiet_start_turn quiet_turns quiet_steered quiet_calls quiet_schedules quiet_delegations quiet_skip

lemma quiet_keeps:
  assumes "quiet h" and "\<And>p q. effect_view p = effect_view q \<Longrightarrow> I p = I q"
  shows "keeps I h"
  using assms unfolding quiet_def keeps_def by blast

text \<open>An invariant of the effects is kept when the effect handlers keep it.\<close>

lemma dispatch_effects:
  assumes view: "\<And>p q. effect_view p = effect_view q \<Longrightarrow> I p = I q"
    and "keeps I prepare_tool" and "keeps I plan_effect_batch" and "keeps I decide_safety"
    and "keeps I bind_sandbox" and "keeps I preflight_sandbox" and "keeps I reconcile_tool"
    and "keeps I observe_tool"
    and "\<And>st. st \<in> {Authorized, Started, Receipt, Completed, Failed, Denied, Uncertain} \<Longrightarrow>
          keeps I (transition_tool st)"
  shows "keeps I (dispatch k)"
proof -
  have q: "keeps I h" if "quiet h" for h
    by (rule quiet_keeps [OF that view])
  show ?thesis
    by (rule dispatch_cases) (simp_all add: q quiet_handlers assms(2-))
qed

subsection \<open>What a binding establishes\<close>

lemma binding_Authorized:
  assumes "validate_effect_binding t st Authorized m p = Inr q"
  obtains g where "q = p\<lparr>tool_grants := bt_insert t g (tool_grants p)\<rparr>"
    and "bt_get (tool_contract_versions p) t = Some 3 \<longrightarrow>
      (\<exists>r. bt_get (f0 p) t = Some r \<and> f0_disposition r = Allow
         \<and> text_at m ''prepared_digest'' = Some (f0_prepared_digest r))"
  using assms
  by (cases "bt_get (tool_contract_versions p) t = Some 3")
    (auto simp: validate_effect_binding_def result_simps required_ok payload_text_ok text_ne_ok refuse_any_ok
      simp del: refuse_any.simps)

text \<open>The sandbox proof of a tool names this grant, this executor and some dispatch attempt.\<close>

definition matching_proof ::
  "session_projection \<Rightarrow> ToolInvocationId \<Rightarrow> string \<Rightarrow> string \<Rightarrow> string \<Rightarrow> bool" where
  "matching_proof p t g ei er \<longleftrightarrow>
     (\<exists>r sp. bt_get (f0 p) t = Some r \<and> f0_sandbox r = Some sp \<and> sp_grant_id sp = Some g
        \<and> sp_executor_id sp = ei \<and> sp_executor_revision sp = er \<and> sp_dispatch_attempt_id sp \<noteq> None)"

lemma binding_Started:
  assumes "validate_effect_binding t st Started m p = Inr q"
  obtains g ei er where "q = p\<lparr>tool_grants := bt_insert t g (tool_grants p),
      tool_executors := bt_insert t (ei, er) (tool_executors p)\<rparr>"
    and "bt_get (tool_contract_versions p) t = Some 3 \<longrightarrow> matching_proof p t g ei er"
proof -
  have "rpost (validate_effect_binding t st Started m p) (\<lambda>q. \<exists>g ei er.
      q = p\<lparr>tool_grants := bt_insert t g (tool_grants p),
            tool_executors := bt_insert t (ei, er) (tool_executors p)\<rparr>
      \<and> (bt_get (tool_contract_versions p) t = Some 3 \<longrightarrow> matching_proof p t g ei er))"
    unfolding validate_effect_binding_def invocation_state.case
  proof (intro post_intros, goal_cases)
    case (1 g u ei er)
    then have "bt_get (tool_contract_versions p) t = Some 3 \<longrightarrow> matching_proof p t g ei er"
      by (auto simp: matching_proof_def result_simps payload_text_ok bind_eq_Some_conv
          split: option.splits if_splits)
    then show ?case by (intro exI conjI) (rule refl)
  qed
  with assms have "\<exists>g ei er. q = p\<lparr>tool_grants := bt_insert t g (tool_grants p),
            tool_executors := bt_insert t (ei, er) (tool_executors p)\<rparr>
      \<and> (bt_get (tool_contract_versions p) t = Some 3 \<longrightarrow> matching_proof p t g ei er)"
    by (rule rpostD [rotated])
  then show thesis
    using that by (elim exE conjE)
qed

lemma binding_other:
  assumes "validate_effect_binding t st next m p = Inr q" and "next \<noteq> Authorized" and "next \<noteq> Started"
  obtains rs where "q = p\<lparr>tool_receipts := rs\<rparr>"
proof -
  have same: "p = p\<lparr>tool_receipts := tool_receipts p\<rparr>" by simp
  have "rpost (validate_effect_binding t st next m p) (\<lambda>q. \<exists>rs. q = p\<lparr>tool_receipts := rs\<rparr>)"
    unfolding validate_effect_binding_def
    by (cases "next"; simp only: invocation_state.case; intro post_intros)
      (use assms(2,3) same in \<open>blast+\<close>)
  with assms(1) that show thesis
    unfolding rpost_def by blast
qed

text \<open>Everything a tool transition checks, and what it leaves of the effect state.\<close>

definition moved :: "session_projection \<Rightarrow> ToolInvocationId \<Rightarrow> ExecutionId \<Rightarrow> invocation_state
     \<Rightarrow> session_projection \<Rightarrow> session_projection" where
  "moved p t e next r = (let s = r\<lparr>tools := bt_insert t (e, next) (tools r)\<rparr>
     in if starts_in_batch p t next then advance_batch t s else s)"

lemma effect_view_completed:
  "effect_view (r\<lparr>tools_completed_in_commit := x\<rparr>) = effect_view r"
  "effect_view (advance_batch t (r\<lparr>tools_completed_in_commit := x\<rparr>)) = effect_view (advance_batch t r)"
  by (auto simp: effect_view_def advance_batch_def planned_batch_def split: option.splits)

lemma transition_tool_cases:
  assumes "transition_tool next X f p = Inr q"
  obtains t e m d st r where "text_at m ''prepared_digest'' = Some d" and "bt_get (tool_digests p) t = Some d"
    and "bt_get (tools p) t = Some (e, st)" and "tool_edge st next"
    and "bt_get (tool_contract_versions p) t = Some 3 \<longrightarrow> v3_edge p t f st next"
    and "starts_in_batch p t next \<longrightarrow> (\<exists>k b. planned_batch p t = Some (k, b) \<and> next_in_batch b t)"
    and "validate_effect_binding t st next m p = Inr r"
    and "effect_view q = effect_view (moved p t e next r)" and "tool_invocation_id f = Some t"
proof -
  let ?P = "\<lambda>q. \<exists>t e m d st r. text_at m ''prepared_digest'' = Some d \<and> bt_get (tool_digests p) t = Some d
    \<and> bt_get (tools p) t = Some (e, st) \<and> tool_edge st next
    \<and> (bt_get (tool_contract_versions p) t = Some 3 \<longrightarrow> v3_edge p t f st next)
    \<and> (starts_in_batch p t next \<longrightarrow> (\<exists>k b. planned_batch p t = Some (k, b) \<and> next_in_batch b t))
    \<and> validate_effect_binding t st next m p = Inr r
    \<and> effect_view q = effect_view (moved p t e next r) \<and> tool_invocation_id f = Some t"
  have "rpost (transition_tool next X f p) ?P"
    unfolding transition_tool_def Let_def
  proof (intro post_intros, goal_cases)
    case (1 u t e m d x owner st r)
    then show ?case
      by (intro exI [of _ t] exI [of _ e] exI [of _ m] exI [of _ d] exI [of _ st] exI [of _ r])
        (auto simp: handle moved_def Let_def effect_view_completed split: option.splits)
  qed
  with assms have "?P q"
    by (rule rpostD [rotated])
  then show thesis
    using that by (elim exE conjE)
qed

subsection \<open>No dispatch without a proof\<close>

definition begun :: "invocation_state \<Rightarrow> bool" where
  "begun st \<longleftrightarrow> st \<in> {Started, Receipt, Completed, Uncertain, Reconciled}"

text \<open>
  \<open>allowed\<close>: the safety decision on exactly this prepared call is \<open>Allow\<close>. \<open>proven\<close>: and the sandbox
  preflight names the grant and the executor the tool was started under.
\<close>

definition allowed :: "session_projection \<Rightarrow> ToolInvocationId \<Rightarrow> bool" where
  "allowed p t \<longleftrightarrow> (\<exists>r. bt_get (f0 p) t = Some r \<and> f0_disposition r = Allow
     \<and> bt_get (tool_digests p) t = Some (f0_prepared_digest r))"

definition proven :: "session_projection \<Rightarrow> ToolInvocationId \<Rightarrow> bool" where
  "proven p t \<longleftrightarrow> allowed p t \<and> (\<exists>g ei er. bt_get (tool_grants p) t = Some g
     \<and> bt_get (tool_executors p) t = Some (ei, er) \<and> matching_proof p t g ei er)"

text \<open>
  The executor of a tool is recorded when it is dispatched. From then on the proof of a tool of contract
  version 3 stands, whatever becomes of the tool.
\<close>

definition recorded :: "session_projection \<Rightarrow> ToolInvocationId \<Rightarrow> bool" where
  "recorded p t \<longleftrightarrow> bt_contains (tool_executors p) t"

definition tool_safe :: "session_projection \<Rightarrow> ToolInvocationId \<Rightarrow> bool" where
  "tool_safe p t \<longleftrightarrow> (recorded p t \<longrightarrow> bt_contains (tools p) t)
     \<and> (bt_get (tool_contract_versions p) t = Some 3 \<longrightarrow>
     (\<forall>e st. bt_get (tools p) t = Some (e, st) \<longrightarrow>
        (st = Authorized \<longrightarrow> allowed p t) \<and> (begun st \<longrightarrow> recorded p t)
        \<and> (recorded p t \<longrightarrow> proven p t \<and> st \<noteq> Prepared \<and> st \<noteq> Authorized)))"

definition effects_safe :: "session_projection \<Rightarrow> bool" where
  "effects_safe p \<longleftrightarrow> (\<forall>t. tool_safe p t)"

lemmas safe_defs = tool_safe_def recorded_def allowed_def proven_def matching_proof_def

lemma effects_safe_view: "effect_view p = effect_view q \<Longrightarrow> effects_safe p = effects_safe q"
  by (simp add: effect_view_def effects_safe_def safe_defs)

lemma tool_safe_cong:
  assumes "bt_get (tool_contract_versions p) t = bt_get (tool_contract_versions q) t"
    and "bt_get (tools p) t = bt_get (tools q) t" and "bt_get (f0 p) t = bt_get (f0 q) t"
    and "bt_get (tool_digests p) t = bt_get (tool_digests q) t"
    and "bt_get (tool_grants p) t = bt_get (tool_grants q) t"
    and "bt_get (tool_executors p) t = bt_get (tool_executors q) t"
  shows "tool_safe p t = tool_safe q t"
  using assms by (simp add: safe_defs)

text \<open>A handler that works on one tool need only be checked on that tool.\<close>

lemma effects_safe_at:
  assumes "effects_safe p" and "\<And>u. u \<noteq> t \<Longrightarrow> tool_safe p u = tool_safe q u"
    and "tool_safe p t \<Longrightarrow> tool_safe q t"
  shows "effects_safe q"
  using assms unfolding effects_safe_def by (metis (full_types))

lemma effects_safe_named:
  assumes "required (tool_invocation_id f) = Inr t" and "effects_safe p"
    and "\<And>u. u \<noteq> t \<Longrightarrow> tool_safe p u = tool_safe q u" and "tool_safe p t \<Longrightarrow> tool_safe q t"
  shows "effects_safe q"
  using assms(2-) by (rule effects_safe_at)

lemma safeI:
  assumes "\<And>X f p. effects_safe p \<Longrightarrow> rpost (h X f p) effects_safe"
  shows "keeps effects_safe h"
  using assms by (auto simp: keeps_def rpost_def)

lemma safe_prepare_tool: "keeps effects_safe prepare_tool"
  unfolding prepare_tool_def Let_def
  by (intro safeI post_intros; elim effects_safe_named) (auto simp: safe_defs begun_def)

lemma safe_decide_safety: "keeps effects_safe decide_safety"
  unfolding decide_safety_def
  by (intro safeI post_intros; elim effects_safe_named) (auto simp: safe_defs begun_def)

lemma safe_bind_sandbox: "keeps effects_safe bind_sandbox"
  unfolding bind_sandbox_def
  by (intro safeI post_intros; elim effects_safe_named) (auto simp: safe_defs begun_def refuse_any_ok result_simps)

lemma safe_preflight_sandbox: "keeps effects_safe preflight_sandbox"
  unfolding preflight_sandbox_def
  by (intro safeI post_intros; elim effects_safe_named) (auto simp: safe_defs begun_def refuse_any_ok result_simps)

lemma safe_reconcile_tool: "keeps effects_safe reconcile_tool"
  unfolding reconcile_tool_def
  by (intro safeI post_intros; elim effects_safe_named) (auto simp: safe_defs begun_def refuse_any_ok result_simps)

lemma safe_observe_tool: "keeps effects_safe observe_tool"
  unfolding observe_tool_def
  by (intro safeI post_intros; elim effects_safe_named) (auto simp: safe_defs begun_def)

lemma moved_sel [simp]:
  "tools (moved p t e next r) = bt_insert t (e, next) (tools r)"
  "tool_contract_versions (moved p t e next r) = tool_contract_versions r"
  "f0 (moved p t e next r) = f0 r" "tool_digests (moved p t e next r) = tool_digests r"
  "tool_grants (moved p t e next r) = tool_grants r"
  "tool_executors (moved p t e next r) = tool_executors r"
  "tool_batch_plans (moved p t e next r) = tool_batch_plans r"
  by (auto simp: moved_def advance_batch_def Let_def split: option.splits)

lemma allowed_moved: "allowed (moved p t e next r) u = allowed r u"
  by (simp add: allowed_def)

lemma proven_moved: "proven (moved p t e next r) u = proven r u"
  by (simp add: proven_def allowed_moved matching_proof_def)

lemma recorded_moved: "recorded (moved p t e next r) u = recorded r u"
  by (simp add: recorded_def)

lemma tool_safe_moved: "tool_safe (moved p t e next r) t \<longleftrightarrow>
    (bt_get (tool_contract_versions r) t = Some 3 \<longrightarrow>
       (next = Authorized \<longrightarrow> allowed r t) \<and> (begun next \<longrightarrow> recorded r t)
       \<and> (recorded r t \<longrightarrow> proven r t \<and> next \<noteq> Prepared \<and> next \<noteq> Authorized))"
  by (simp add: tool_safe_def allowed_moved proven_moved recorded_moved)

lemma safe_authorized:
  assumes "validate_effect_binding t st Authorized m p = Inr r"
    and "text_at m ''prepared_digest'' = bt_get (tool_digests p) t" and "effects_safe p"
    and "bt_get (tools p) t = Some (e, st)" and "bt_get (tool_contract_versions p) t = Some 3 \<longrightarrow> st = Prepared"
  shows "effects_safe (moved p t e Authorized r)"
proof -
  from assms(1) obtain g where r: "r = p\<lparr>tool_grants := bt_insert t g (tool_grants p)\<rparr>"
    and ok: "bt_get (tool_contract_versions p) t = Some 3 \<longrightarrow>
      (\<exists>r. bt_get (f0 p) t = Some r \<and> f0_disposition r = Allow
         \<and> text_at m ''prepared_digest'' = Some (f0_prepared_digest r))"
    by (rule binding_Authorized)
  show ?thesis
  proof (rule effects_safe_at [OF assms(3), of t])
    show "tool_safe p u = tool_safe (moved p t e Authorized r) u" if "u \<noteq> t" for u
      using that by (intro tool_safe_cong) (simp_all add: r)
    show "tool_safe (moved p t e Authorized r) t" if "tool_safe p t"
      using that ok assms(2,4,5) by (simp add: tool_safe_moved tool_safe_def recorded_def begun_def r allowed_def)
  qed
qed

lemma safe_started:
  assumes "validate_effect_binding t st Started m p = Inr r"
    and "bt_get (tools p) t = Some (e, st)"
    and "bt_get (tool_contract_versions p) t = Some 3 \<longrightarrow> st = Authorized" and "effects_safe p"
  shows "effects_safe (moved p t e Started r)"
proof -
  from assms(1) obtain g ei er where r: "r = p\<lparr>tool_grants := bt_insert t g (tool_grants p),
      tool_executors := bt_insert t (ei, er) (tool_executors p)\<rparr>"
    and ok: "bt_get (tool_contract_versions p) t = Some 3 \<longrightarrow> matching_proof p t g ei er"
    by (rule binding_Started)
  show ?thesis
  proof (rule effects_safe_at [OF assms(4), of t])
    show "tool_safe p u = tool_safe (moved p t e Started r) u" if "u \<noteq> t" for u
      using that by (intro tool_safe_cong) (simp_all add: r)
    have "matching_proof r t = matching_proof p t" "allowed r t = allowed p t"
      by (simp_all add: r matching_proof_def allowed_def fun_eq_iff)
    with ok assms(2,3) show "tool_safe (moved p t e Started r) t" if "tool_safe p t"
      using that unfolding tool_safe_moved by (simp add: tool_safe_def proven_def) (simp add: r recorded_def)
  qed
qed

lemma safe_later:
  assumes "validate_effect_binding t st next m p = Inr r" and "next \<noteq> Authorized" and "next \<noteq> Started"
    and "bt_get (tools p) t = Some (e, st)" and "tool_edge st next" and "effects_safe p"
  shows "effects_safe (moved p t e next r)"
proof -
  from assms(1-3) obtain rs where r: "r = p\<lparr>tool_receipts := rs\<rparr>"
    by (rule binding_other)
  show ?thesis
  proof (rule effects_safe_at [OF assms(6), of t])
    show "tool_safe p u = tool_safe (moved p t e next r) u" if "u \<noteq> t" for u
      using that by (intro tool_safe_cong) (simp_all add: r)
    have "begun next \<longrightarrow> begun st"
      using assms(2,3,5) by (auto simp: begun_def tool_edge_def)
    moreover have "proven r t = proven p t" "recorded r t = recorded p t"
      by (simp_all add: r proven_def allowed_def matching_proof_def recorded_def)
    moreover have "next \<noteq> Prepared"
      using assms(5) by (auto simp: tool_edge_def)
    ultimately show "tool_safe (moved p t e next r) t" if "tool_safe p t"
      using that assms(2,4) unfolding tool_safe_moved by (simp add: tool_safe_def) (simp add: r)
  qed
qed

lemma safe_transition_tool: "keeps effects_safe (transition_tool next)"
proof (rule keepsI)
  fix X f p q
  assume p: "effects_safe p" and q: "transition_tool next X f p = Inr q"
  from q obtain t e m d st r where step: "text_at m ''prepared_digest'' = Some d"
      "bt_get (tool_digests p) t = Some d" "bt_get (tools p) t = Some (e, st)" "tool_edge st next"
      "bt_get (tool_contract_versions p) t = Some 3 \<longrightarrow> v3_edge p t f st next"
    and r: "validate_effect_binding t st next m p = Inr r"
    and view: "effect_view q = effect_view (moved p t e next r)"
    by (rule transition_tool_cases)
  consider "next = Authorized" | "next = Started" | "next \<noteq> Authorized" "next \<noteq> Started" by blast
  then have "effects_safe (moved p t e next r)"
    by cases (use step p r in \<open>auto simp: v3_edge_def intro: safe_authorized safe_started safe_later\<close>)
  then show "effects_safe q"
    using effects_safe_view [OF view] by simp
qed

lemma safe_plan_effect_batch: "keeps effects_safe plan_effect_batch"
  unfolding plan_effect_batch_def
  by (intro safeI post_intros) (simp add: effects_safe_def safe_defs)

lemma safe_dispatch: "keeps effects_safe (dispatch k)"
  by (rule dispatch_effects)
    (rule effects_safe_view safe_prepare_tool safe_plan_effect_batch safe_decide_safety safe_bind_sandbox
      safe_preflight_sandbox safe_reconcile_tool safe_observe_tool safe_transition_tool | assumption)+

subsection \<open>Planned batches\<close>

text \<open>A tool of a batch is still \<open>waiting\<close> until it is started, or once it was denied.\<close>

definition waiting :: "invocation_state \<Rightarrow> bool" where
  "waiting st \<longleftrightarrow> st \<in> {Prepared, Authorized, Denied}"

text \<open>
  The tool at index \<open>i\<close> of the batch with plan digest \<open>k\<close>, of which the first \<open>n\<close> were started.
\<close>

definition member_ok :: "session_projection \<Rightarrow> string \<Rightarrow> nat \<Rightarrow> nat \<Rightarrow> ToolInvocationId \<Rightarrow> bool" where
  "member_ok p k n i t \<longleftrightarrow> bt_get (tool_contract_versions p) t = Some 2 \<and> bt_get (tool_batch_plans p) t = Some k
     \<and> (case bt_get (tools p) t of None \<Rightarrow> False
        | Some (_, st) \<Rightarrow> (begun st \<longrightarrow> i < n) \<and> (waiting st \<longrightarrow> n \<le> i))"

definition batch_ok :: "session_projection \<Rightarrow> string \<Rightarrow> effect_batch_record \<Rightarrow> bool" where
  "batch_ok p k b \<longleftrightarrow> distinct (eb_tools b) \<and> eb_next_start b \<le> length (eb_tools b)
     \<and> (\<forall>i < length (eb_tools b). member_ok p k (eb_next_start b) i (eb_tools b ! i))"

definition planned_ok :: "session_projection \<Rightarrow> bool" where
  "planned_ok p \<longleftrightarrow> (\<forall>t k. bt_get (tool_batch_plans p) t = Some k \<longrightarrow>
     (\<exists>b. bt_get (effect_batches p) k = Some b \<and> t \<in> set (eb_tools b)))"

definition started_ok :: "session_projection \<Rightarrow> bool" where
  "started_ok p \<longleftrightarrow> (\<forall>t e st. bt_get (tools p) t = Some (e, st) \<longrightarrow>
     bt_get (tool_contract_versions p) t = Some 2 \<longrightarrow> begun st \<longrightarrow> bt_contains (tool_batch_plans p) t)"

definition batches_ok :: "session_projection \<Rightarrow> bool" where
  "batches_ok p \<longleftrightarrow> (\<forall>k b. bt_get (effect_batches p) k = Some b \<longrightarrow> batch_ok p k b)
     \<and> planned_ok p \<and> started_ok p"

definition batch_view where
  "batch_view p = (tools p, tool_contract_versions p, tool_batch_plans p, effect_batches p)"

lemma batches_ok_view: "batch_view p = batch_view q \<Longrightarrow> batches_ok p = batches_ok q"
  by (simp add: batch_view_def batches_ok_def batch_ok_def member_ok_def planned_ok_def started_ok_def)

lemma effect_batch_view: "effect_view p = effect_view q \<Longrightarrow> batch_view p = batch_view q"
  by (simp add: batch_view_def effect_view_def)

lemma member_ok_cong:
  assumes "bt_get (tools p) t = bt_get (tools q) t" and "bt_get (tool_batch_plans p) t = bt_get (tool_batch_plans q) t"
    and "bt_get (tool_contract_versions p) t = bt_get (tool_contract_versions q) t"
  shows "member_ok p k n i t = member_ok q k n i t"
  using assms by (simp add: member_ok_def)

lemma batch_ok_cong:
  assumes "\<And>t. t \<in> set (eb_tools b) \<Longrightarrow> bt_get (tools p) t = bt_get (tools q) t
      \<and> bt_get (tool_batch_plans p) t = bt_get (tool_batch_plans q) t
      \<and> bt_get (tool_contract_versions p) t = bt_get (tool_contract_versions q) t"
  shows "batch_ok p k b = batch_ok q k b"
  using assms unfolding batch_ok_def by (metis member_ok_cong nth_mem)

lemma batch_ok_member:
  assumes "batch_ok p k b" and "t \<in> set (eb_tools b)"
  shows "bt_get (tool_contract_versions p) t = Some 2" and "bt_get (tool_batch_plans p) t = Some k"
    and "bt_contains (tools p) t"
  using assms unfolding batch_ok_def in_set_conv_nth
  by (auto simp: member_ok_def split: option.splits)

lemma batch_ok_move:
  assumes "batch_ok p k b" and "bt_get (tools p) t = Some (e, st)"
    and "tools q = bt_insert t (e, nxt) (tools p)" and "tool_contract_versions q = tool_contract_versions p"
    and "tool_batch_plans q = tool_batch_plans p"
    and "bt_get (tool_contract_versions p) t = Some 2 \<Longrightarrow> (begun nxt \<longrightarrow> begun st) \<and> (waiting nxt \<longrightarrow> waiting st)"
  shows "batch_ok q k b"
proof -
  have "member_ok q k n i u" if "member_ok p k n i u" for n i u
    using that assms(2-) by (cases "u = t") (auto simp: member_ok_def)
  with assms(1) show ?thesis
    by (simp add: batch_ok_def)
qed

lemma batches_ok_move:
  assumes "batches_ok p" and "bt_get (tools p) t = Some (e, st)"
    and q: "tools q = bt_insert t (e, nxt) (tools p)" "tool_contract_versions q = tool_contract_versions p"
      "tool_batch_plans q = tool_batch_plans p" "effect_batches q = effect_batches p"
    and "bt_get (tool_contract_versions p) t = Some 2 \<Longrightarrow> (begun nxt \<longrightarrow> begun st) \<and> (waiting nxt \<longrightarrow> waiting st)"
  shows "batches_ok q"
proof -
  have "batch_ok q k b" if "bt_get (effect_batches p) k = Some b" for k b
    using assms(1) that by (intro batch_ok_move [OF _ assms(2) q(1-3) assms(7)]) (auto simp: batches_ok_def)
  moreover have "planned_ok q" "started_ok q"
    using assms unfolding batches_ok_def planned_ok_def started_ok_def by (auto split: if_splits)
  ultimately show ?thesis
    using q(4) by (simp add: batches_ok_def)
qed

lemma batchesI:
  assumes "\<And>X f p. batches_ok p \<Longrightarrow> rpost (h X f p) batches_ok"
  shows "keeps batches_ok h"
  using assms by (auto simp: keeps_def rpost_def)

lemma batches_ok_prepared:
  assumes "batches_ok p" and "\<not> bt_contains (tools p) t"
    and q: "tools q = bt_insert t (e, Prepared) (tools p)"
      "tool_contract_versions q = bt_insert t v (tool_contract_versions p)"
      "tool_batch_plans q = tool_batch_plans p" "effect_batches q = effect_batches p"
  shows "batches_ok q"
proof -
  have "batch_ok q k b" if "bt_get (effect_batches p) k = Some b" for k b
  proof -
    from assms(1) that have "batch_ok p k b" by (simp add: batches_ok_def)
    then show ?thesis
      using assms(2) by (subst batch_ok_cong [of b q p]) (auto simp: q dest: batch_ok_member(3))
  qed
  moreover have "planned_ok q" "started_ok q"
    using assms unfolding batches_ok_def planned_ok_def started_ok_def by (auto simp: begun_def)
  ultimately show ?thesis by (simp add: batches_ok_def q)
qed

lemma batches_prepare_tool: "keeps batches_ok prepare_tool"
  unfolding prepare_tool_def Let_def
  by (intro batchesI post_intros; elim batches_ok_prepared) simp_all

lemma batches_kept: "keeps batches_ok decide_safety" "keeps batches_ok bind_sandbox"
    "keeps batches_ok preflight_sandbox"
  unfolding decide_safety_def bind_sandbox_def preflight_sandbox_def
  by (intro batchesI post_intros; rule batches_ok_view [THEN iffD1]; simp add: batch_view_def)+

lemma batches_reconcile_tool: "keeps batches_ok reconcile_tool"
  unfolding reconcile_tool_def
  by (intro batchesI post_intros; elim batches_ok_move)
    (auto simp: begun_def waiting_def refuse_any_ok result_simps)

lemma batches_observe_tool: "keeps batches_ok observe_tool"
  unfolding observe_tool_def
  by (intro batchesI post_intros; elim batches_ok_move)
    (auto simp: begun_def waiting_def result_simps)

lemma single_ok: "(case xs of [c] \<Rightarrow> h c | _ \<Rightarrow> Inl err) = Inr v \<longleftrightarrow> (\<exists>c. xs = [c] \<and> h c = Inr v)"
  by (cases xs rule: remdups_adj.cases) auto

text \<open>Planning admits only authorized tools of contract version 2 that no plan names yet.\<close>

lemma batch_tools_ok:
  assumes "batch_tools e p ds = Inr ts" and "t \<in> set ts"
  shows "bt_get (tools p) t = Some (e, Authorized) \<and> bt_get (tool_contract_versions p) t = Some 2
    \<and> bt_get (tool_batch_plans p) t = None"
  using assms
proof (induction ds arbitrary: ts)
  case (Cons v ds)
  from Cons.prems(1) obtain d c us where d: "filter (batch_candidate e d p) (bt_entries (tools p)) = [c]"
    and us: "batch_tools e p ds = Inr us" "ts = fst c # us"
    by (auto simp: result_simps single_ok)
  from d have "c \<in> set (filter (batch_candidate e d p) (bt_entries (tools p)))" by simp
  then have "c \<in> set (bt_entries (tools p))" "batch_candidate e d p c" by simp_all
  with Cons.prems(2) Cons.IH [OF us(1)] us(2) show ?case
    by (cases c) (auto simp: batch_candidate_def bt.entry_iff)
qed simp

lemma bt_get_fold_insert:
  "bt_get (fold (\<lambda>t. bt_insert t k) ts m) x = (if x \<in> set ts then Some k else bt_get m x)"
  by (induction ts arbitrary: m) auto

lemma batches_ok_planned:
  assumes "batches_ok p" and "\<not> bt_contains (effect_batches p) k" and "distinct ts"
    and fresh: "\<And>t. t \<in> set ts \<Longrightarrow> bt_get (tools p) t = Some (e, Authorized)
      \<and> bt_get (tool_contract_versions p) t = Some 2 \<and> bt_get (tool_batch_plans p) t = None"
    and q: "q = p\<lparr>tool_batch_plans := fold (\<lambda>t. bt_insert t k) ts (tool_batch_plans p),
              effect_batches := bt_insert k \<lparr>eb_tools = ts, eb_next_start = 0\<rparr> (effect_batches p)\<rparr>"
  shows "batches_ok q"
proof -
  have "batch_ok q k \<lparr>eb_tools = ts, eb_next_start = 0\<rparr>"
    using assms(3) fresh unfolding batch_ok_def
    by (simp add: member_ok_def q bt_get_fold_insert begun_def waiting_def)
  moreover have "batch_ok q k' b" if "bt_get (effect_batches p) k' = Some b" for k' b
  proof -
    from assms(1) that have b: "batch_ok p k' b" by (simp add: batches_ok_def)
    have "t \<notin> set ts" if "t \<in> set (eb_tools b)" for t
      using batch_ok_member(2) [OF b that] fresh by force
    with b show ?thesis
      by (subst batch_ok_cong [of b q p]) (simp_all add: q bt_get_fold_insert)
  qed
  moreover have "planned_ok q"
    using assms(1,2) unfolding batches_ok_def planned_ok_def
    by (simp add: q bt_get_fold_insert) (metis option.distinct(1))
  moreover have "started_ok q"
    using assms(1) unfolding batches_ok_def started_ok_def by (simp add: q bt_get_fold_insert)
  ultimately show ?thesis by (simp add: batches_ok_def q)
qed

lemma batches_plan_effect_batch: "keeps batches_ok plan_effect_batch"
  unfolding plan_effect_batch_def
proof (intro batchesI post_intros, goal_cases)
  case (1 X f p u e m k v ds ts)
  then show ?case
    by (elim batches_ok_planned) (auto dest: batch_tools_ok)
qed

lemma member_ok_start:
  assumes "member_ok p k n i u" and "i = n \<Longrightarrow> u = t" and "u = t \<Longrightarrow> i = n"
    and "tools q = bt_insert t (e, Started) (tools p)" "tool_contract_versions q = tool_contract_versions p"
      "tool_batch_plans q = tool_batch_plans p"
  shows "member_ok q k (Suc n) i u"
proof (cases "u = t")
  case True
  with assms show ?thesis by (simp add: member_ok_def begun_def waiting_def)
next
  case False
  with assms(2) have "i \<noteq> n" by blast
  with False assms(1) show ?thesis
    by (auto simp: member_ok_def assms(4-) split: option.splits)
qed

lemma batch_ok_start:
  assumes b: "batch_ok p k b" and t: "next_in_batch b t"
    and q: "tools q = bt_insert t (e, Started) (tools p)" "tool_contract_versions q = tool_contract_versions p"
      "tool_batch_plans q = tool_batch_plans p"
  shows "batch_ok q k (b\<lparr>eb_next_start := eb_next_start b + 1\<rparr>)"
proof -
  have d: "distinct (eb_tools b)" "eb_next_start b < length (eb_tools b)" "eb_tools b ! eb_next_start b = t"
    using b t by (simp_all add: batch_ok_def next_in_batch_def)
  have "member_ok q k (Suc (eb_next_start b)) i (eb_tools b ! i)" if "i < length (eb_tools b)" for i
  proof (rule member_ok_start [OF _ _ _ q])
    show "member_ok p k (eb_next_start b) i (eb_tools b ! i)"
      using b that by (simp add: batch_ok_def)
    show "eb_tools b ! i = t" if "i = eb_next_start b"
      using that d(3) by simp
    show "i = eb_next_start b" if "eb_tools b ! i = t"
      using that \<open>i < length (eb_tools b)\<close> d nth_eq_iff_index_eq by metis
  qed
  with d show ?thesis by (simp add: batch_ok_def)
qed

lemma planned_batch_Some: "planned_batch p t = Some (k, b) \<longleftrightarrow>
    bt_get (tool_batch_plans p) t = Some k \<and> bt_get (effect_batches p) k = Some b"
  by (auto simp: planned_batch_def bind_eq_Some_conv)

lemma moved_batches:
  assumes "tool_batch_plans r = tool_batch_plans p" and "effect_batches r = effect_batches p"
  shows "effect_batches (moved p t e next r) = (case planned_batch p t of
      Some (k, b) \<Rightarrow> if starts_in_batch p t next
        then bt_insert k (b\<lparr>eb_next_start := eb_next_start b + 1\<rparr>) (effect_batches p) else effect_batches p
    | None \<Rightarrow> effect_batches p)"
  using assms by (auto simp: moved_def advance_batch_def planned_batch_def Let_def split: option.splits)

lemma batches_ok_start:
  assumes p: "batches_ok p" and plan: "planned_batch p t = Some (k, b)" "next_in_batch b t"
    and q: "tools q = bt_insert t (e, Started) (tools p)" "tool_contract_versions q = tool_contract_versions p"
      "tool_batch_plans q = tool_batch_plans p"
      "effect_batches q = bt_insert k (b\<lparr>eb_next_start := eb_next_start b + 1\<rparr>) (effect_batches p)"
  shows "batches_ok q"
proof -
  from plan(1) have k: "bt_get (tool_batch_plans p) t = Some k" "bt_get (effect_batches p) k = Some b"
    by (simp_all add: planned_batch_Some)
  with p have "batch_ok p k b" by (simp add: batches_ok_def)
  then have "batch_ok q k (b\<lparr>eb_next_start := eb_next_start b + 1\<rparr>)"
    using plan(2) q(1-3) by (rule batch_ok_start)
  moreover have "batch_ok q k' b'" if "bt_get (effect_batches p) k' = Some b'" "k' \<noteq> k" for k' b'
  proof -
    have ok: "batch_ok p k' b'" using p that(1) by (simp add: batches_ok_def)
    have "u \<noteq> t" if "u \<in> set (eb_tools b')" for u
      using batch_ok_member(2) [OF ok that] k(1) \<open>k' \<noteq> k\<close> by auto
    with ok show ?thesis by (subst batch_ok_cong [of b' q p]) (simp_all add: q)
  qed
  moreover have "planned_ok q" "started_ok q"
    using p k unfolding batches_ok_def planned_ok_def started_ok_def
    by (fastforce simp: q split: if_splits)+
  ultimately show ?thesis
    unfolding batches_ok_def by (simp add: q)
qed

lemma binding_batch_view:
  assumes "validate_effect_binding t st next m p = Inr r"
  shows "batch_view r = batch_view p"
proof -
  consider "next = Authorized" | "next = Started" | "next \<noteq> Authorized" "next \<noteq> Started" by blast
  then show ?thesis
    by cases (use assms in \<open>auto simp: batch_view_def elim: binding_Authorized binding_Started binding_other\<close>)
qed

lemma batches_transition_tool: "keeps batches_ok (transition_tool next)"
proof (rule keepsI)
  fix X f p q
  assume p: "batches_ok p" and "transition_tool next X f p = Inr q"
  then obtain t e m st r where tool: "bt_get (tools p) t = Some (e, st)" and edge: "tool_edge st next"
    and batch: "starts_in_batch p t next \<longrightarrow> (\<exists>k b. planned_batch p t = Some (k, b) \<and> next_in_batch b t)"
    and r: "validate_effect_binding t st next m p = Inr r"
    and view: "effect_view q = effect_view (moved p t e next r)"
    by (elim transition_tool_cases)
  from binding_batch_view [OF r] have same: "tools r = tools p" "tool_contract_versions r = tool_contract_versions p"
      "tool_batch_plans r = tool_batch_plans p" "effect_batches r = effect_batches p"
    by (simp_all add: batch_view_def)
  have "batches_ok (moved p t e next r)"
  proof (cases "starts_in_batch p t next")
    case True
    with batch obtain k b where "planned_batch p t = Some (k, b)" "next_in_batch b t" by blast
    with p show ?thesis
      by (rule batches_ok_start)
        (use True \<open>planned_batch p t = Some (k, b)\<close> in
          \<open>simp_all add: same moved_batches starts_in_batch_def\<close>)
  next
    case False
    with edge show ?thesis
      by (intro batches_ok_move [OF p tool, where nxt = "next"])
        (auto simp: same moved_batches starts_in_batch_def tool_edge_def begun_def waiting_def split: option.splits)
  qed
  then show "batches_ok q"
    using batches_ok_view [OF effect_batch_view [OF view]] by simp
qed

lemma batches_dispatch: "keeps batches_ok (dispatch k)"
  by (rule dispatch_effects)
    (rule batches_ok_view [OF effect_batch_view] batches_prepare_tool batches_plan_effect_batch batches_kept
      batches_reconcile_tool batches_observe_tool batches_transition_tool | assumption)+

subsection \<open>A dispatched tool stays recorded\<close>

lemma recorded_view: "effect_view p = effect_view q \<Longrightarrow> recorded p t = recorded q t"
  by (simp add: effect_view_def recorded_def)

lemma recordedI:
  assumes "\<And>X f p. recorded p t \<Longrightarrow> rpost (h X f p) (\<lambda>q. recorded q t)"
  shows "keeps (\<lambda>p. recorded p t) h"
  using assms by (auto simp: keeps_def rpost_def)

lemma recorded_handlers:
  "keeps (\<lambda>p. recorded p t) prepare_tool" "keeps (\<lambda>p. recorded p t) plan_effect_batch"
  "keeps (\<lambda>p. recorded p t) decide_safety" "keeps (\<lambda>p. recorded p t) bind_sandbox"
  "keeps (\<lambda>p. recorded p t) preflight_sandbox" "keeps (\<lambda>p. recorded p t) reconcile_tool"
  "keeps (\<lambda>p. recorded p t) observe_tool"
  unfolding prepare_tool_def plan_effect_batch_def decide_safety_def bind_sandbox_def preflight_sandbox_def
    reconcile_tool_def observe_tool_def Let_def
  by (intro recordedI post_intros; simp add: recorded_def)+

lemma binding_recorded:
  assumes "validate_effect_binding t st next m p = Inr r"
  shows "recorded r u \<longleftrightarrow> recorded p u \<or> (next = Started \<and> u = t)"
proof -
  consider "next = Authorized" | "next = Started" | "next \<noteq> Authorized" "next \<noteq> Started"
    by blast
  then show ?thesis
  proof cases
    case 1
    then show ?thesis
      using assms by (auto simp: recorded_def elim: binding_Authorized)
  next
    case 2
    then show ?thesis
      using assms by (auto simp: recorded_def elim!: binding_Started)
  next
    case 3
    then show ?thesis
      using assms by (auto simp: recorded_def elim: binding_other)
  qed
qed

lemma transition_recorded:
  assumes "transition_tool next X f p = Inr q"
  shows "recorded p u \<Longrightarrow> recorded q u" and "next = Started \<Longrightarrow> tool_invocation_id f = Some u \<Longrightarrow> recorded q u"
proof -
  obtain t e m st r where r: "validate_effect_binding t st next m p = Inr r"
      and q: "effect_view q = effect_view (moved p t e next r)" and t: "tool_invocation_id f = Some t"
    using assms by (rule transition_tool_cases)
  have "recorded q u \<longleftrightarrow> recorded p u \<or> (next = Started \<and> u = t)"
    using recorded_view [OF q] by (simp add: recorded_moved binding_recorded [OF r])
  then show "recorded p u \<Longrightarrow> recorded q u" and "next = Started \<Longrightarrow> tool_invocation_id f = Some u \<Longrightarrow> recorded q u"
    using t by simp_all
qed

lemma recorded_dispatch: "keeps (\<lambda>p. recorded p t) (dispatch k)"
  by (rule dispatch_effects [OF recorded_view]) (auto intro: recorded_handlers keepsI transition_recorded(1))

definition starts :: "ToolInvocationId \<Rightarrow> fact_draft \<Rightarrow> bool" where
  "starts t f \<longleftrightarrow> kind f = ''effect.started'' \<and> tool_invocation_id f = Some t"

interpretation dispatches: session_history "\<lambda>X ds p. \<forall>f t. f \<in> set ds \<and> starts t f \<longrightarrow> recorded p t"
proof
  show "\<forall>g t. g \<in> set (ds @ [f]) \<and> starts t g \<longrightarrow> recorded q t"
    if past: "\<forall>g t. g \<in> set ds \<and> starts t g \<longrightarrow> recorded p t" and q: "dispatch (kind f) X f p = Inr q" for X f ds p q
  proof (intro allI impI, elim conjE)
    fix g t
    assume g: "g \<in> set (ds @ [f])" "starts t g"
    show "recorded q t"
    proof (cases "g \<in> set ds")
      case True
      with past g(2) have "recorded p t"
        by blast
      with recorded_dispatch q show ?thesis
        by (auto simp: keeps_def)
    next
      case False
      with g have "kind f = ''effect.started''" "tool_invocation_id f = Some t"
        by (auto simp: starts_def)
      then show ?thesis
        using q transition_recorded(2) [of Started X f p q t] by (simp add: dispatch_def)
    qed
  qed
qed (auto simp: recorded_def starts_def begin_commit_def)

subsection \<open>Both hold in every session\<close>

interpretation effects: session_property effects_safe
proof
  show "effects_safe default_projection"
    by (simp add: effects_safe_def tool_safe_def recorded_def default_projection_def)
  show "effects_safe (p\<lparr>opened := True\<rparr>)" if "effects_safe p" for p
    using that by (rule effects_safe_view [THEN iffD1, rotated]) (simp add: effect_view_def)
  show "effects_safe (begin_commit p)" if "effects_safe p" for p
    using that by (rule effects_safe_view [THEN iffD1, rotated]) (simp add: effect_view_def begin_commit_def)
qed (use safe_dispatch in \<open>auto simp: keeps_def\<close>)

interpretation planned: session_property batches_ok
proof
  show "batches_ok default_projection"
    by (simp add: batches_ok_def planned_ok_def started_ok_def default_projection_def)
  show "batches_ok (p\<lparr>opened := True\<rparr>)" if "batches_ok p" for p
    using that by (rule batches_ok_view [THEN iffD1, rotated]) (simp add: batch_view_def)
  show "batches_ok (begin_commit p)" if "batches_ok p" for p
    using that by (rule batches_ok_view [THEN iffD1, rotated]) (simp add: batch_view_def begin_commit_def)
qed (use batches_dispatch in \<open>auto simp: keeps_def\<close>)

text \<open>The two invariants as they are used.\<close>

lemma batches_ok_order:
  assumes "batches_ok p" and "bt_get (effect_batches p) k = Some b"
    and "i < j" and "j < length (eb_tools b)"
    and "bt_get (tools p) (eb_tools b ! j) = Some (e, st)" and "begun st"
  shows "\<exists>e' st'. bt_get (tools p) (eb_tools b ! i) = Some (e', st') \<and> \<not> waiting st'"
proof -
  from assms(1,2) have b: "batch_ok p k b" by (simp add: batches_ok_def)
  with assms(4) have "member_ok p k (eb_next_start b) j (eb_tools b ! j)" by (simp add: batch_ok_def)
  with assms(5,6) have "j < eb_next_start b" by (simp add: member_ok_def)
  moreover from b assms(3,4) have "member_ok p k (eb_next_start b) i (eb_tools b ! i)"
    by (simp add: batch_ok_def)
  ultimately show ?thesis
    using assms(3) by (auto simp: member_ok_def split: option.splits)
qed

end
