(* ===== verification/Session_Obligations.thy ===== *)
theory Session_Obligations
  imports Session_Properties
begin

section \<open>Obligations of a session: closing, schedules and delegations\<close>

text \<open>
  Three guarantees about what a session still owes. A session is closed by one handler only, which
  refuses while anything is unfinished, and nothing is admitted after, so a closed session is settled
  (\<open>settled\<close>). The claim a schedule has pending is for the ordinal after the last handled one, and only an
  active schedule has one (\<open>schedules_ok\<close>). A delegation carries exactly the bindings its state calls for,
  and a parent turn has at most one unresolved delegation (\<open>delegations_ok\<close>); each binding is the one of
  the committed facts that brought the delegation there (\<open>delegations_bound\<close>).
\<close>

subsection \<open>Handlers that leave them alone\<close>

definition obligations where
  "obligations p = (closed p, delegations p, schedules p)"

definition untouched :: "handler \<Rightarrow> bool" where
  "untouched h \<longleftrightarrow> (\<forall>X f p q. h X f p = Inr q \<longrightarrow> obligations q = obligations p)"

lemma untouchedI: "(\<And>X f p. rpost (h X f p) (\<lambda>q. obligations q = obligations p)) \<Longrightarrow> untouched h"
  by (auto simp: untouched_def rpost_def)

lemma untouched_start_turn: "untouched start_turn"
proof (rule untouchedI)
  fix X f p
  show "rpost (start_turn X f p) (\<lambda>q. obligations q = obligations p)"
    unfolding start_turn_def Let_def
  proof (intro post_intros, goal_cases)
    case (1 t m k q)
    from 1(5) show ?case by (auto simp: obligations_def result_simps split: if_splits)
  qed
qed

lemma untouched_turns: "untouched suspend_turn" "untouched (terminal_turn st)"
    "untouched request_cancel" "untouched start_execution"
    "untouched start_iteration" "untouched (transition_execution est)"
  unfolding suspend_turn_def terminal_turn_def request_cancel_def start_execution_def start_iteration_def
    transition_execution_def Let_def
  by (intro untouchedI post_intros; simp add: obligations_def transition_turn_ok)+

lemma untouched_steered: "untouched admit_turn_steered"
  unfolding admit_turn_steered_def
  by (intro untouchedI post_intros) (auto simp: rpost_def split: turn_state.splits)

lemma untouched_calls: "untouched prepare_model" "untouched (transition_model st)" "untouched commit_artifact"
    "untouched reject_tool_preparation" "untouched request_interaction" "untouched finish_interaction"
    "untouched request_knowledge" "untouched dispatch_knowledge" "untouched terminal_knowledge"
    "untouched prepare_tool" "untouched plan_effect_batch" "untouched decide_safety"
    "untouched bind_sandbox" "untouched preflight_sandbox" "untouched observe_tool" "untouched reconcile_tool"
  unfolding prepare_model_def transition_model_def commit_artifact_def reject_tool_preparation_def
    request_interaction_def finish_interaction_def request_knowledge_def dispatch_knowledge_def
    terminal_knowledge_def prepare_tool_def plan_effect_batch_def decide_safety_def bind_sandbox_def
    preflight_sandbox_def observe_tool_def reconcile_tool_def Let_def
  by (intro untouchedI post_intros; simp add: obligations_def)+

lemma binding_obligations: "validate_effect_binding t st next m p = Inr r \<Longrightarrow> obligations r = obligations p"
  by (auto simp: validate_effect_binding_def obligations_def result_simps split: invocation_state.splits if_splits)

lemma untouched_tool: "untouched (transition_tool st)"
  unfolding transition_tool_def Let_def
  by (intro untouchedI post_intros)
    (auto simp: advance_batch_def obligations_def dest!: binding_obligations split: option.splits)

lemma untouched_skip: "untouched (\<lambda>X f. Inr)"
  by (simp add: untouched_def)

lemmas untouched_handlers = untouched_start_turn untouched_turns untouched_steered untouched_calls
  untouched_tool untouched_skip

text \<open>An invariant of the obligations is kept when the handlers that write them keep it.\<close>

lemma dispatch_obligations:
  assumes view: "\<And>p q. obligations p = obligations q \<Longrightarrow> I p = I q"
    and "keeps I (\<lambda>X f. close_session)" and "keeps I admit_turn_input"
    and "keeps I create_schedule" "keeps I claim_schedule" "keeps I fire_schedule" "keeps I skip_schedule"
      "keeps I cancel_schedule" "keeps I fail_schedule" "keeps I exhaust_schedule"
    and "keeps I request_delegation" "keeps I authorize_delegation" "keeps I deny_delegation"
      "keeps I start_delegation_child" "keeps I terminal_delegation_child" "keeps I observe_delegation"
  shows "keeps I (dispatch k)"
proof -
  have q: "keeps I h" if "untouched h" for h
    using that view unfolding untouched_def keeps_def by blast
  show ?thesis
    by (rule dispatch_cases) (simp_all add: q untouched_handlers assms(2-))
qed

subsection \<open>Schedules\<close>

definition schedule_ok :: "schedule_record \<Rightarrow> bool" where
  "schedule_ok r \<longleftrightarrow> (case sc_pending_claim r of None \<Rightarrow> True
     | Some c \<Rightarrow> sc_state r = SchedActive \<and> checked_add (sc_last_handled_ordinal r) 1 = Some (cl_ordinal c))"

definition schedules_ok :: "session_projection \<Rightarrow> bool" where
  "schedules_ok p \<longleftrightarrow> (\<forall>i r. bt_get (schedules p) i = Some r \<longrightarrow> schedule_ok r)"

lemma schedules_ok_set: "schedules_ok p \<Longrightarrow> schedule_ok r \<Longrightarrow> schedules_ok (set_schedule i r p)"
  by (auto simp: schedules_ok_def set_schedule_def)

lemma schedule_mut_ok:
  "schedule_mut m p = Inr (i, r) \<longleftrightarrow> text_at m ''schedule_id'' = Some i \<and> bt_get (schedules p) i = Some r
     \<and> sc_state r = SchedActive \<and> text_at m ''revision_id'' = Some (sc_revision_id r)"
  by (auto simp: schedule_mut_def handle simp del: refuse_any.simps)

lemma schedulesI:
  assumes "\<And>X f p. schedules_ok p \<Longrightarrow> rpost (h X f p) schedules_ok"
  shows "keeps schedules_ok h"
  using assms by (auto simp: keeps_def rpost_def)

lemma schedules_kept: "schedules q = schedules p \<Longrightarrow> schedules_ok p \<Longrightarrow> schedules_ok q"
  by (simp add: schedules_ok_def)

lemma schedules_others:
  "keeps schedules_ok (\<lambda>X f. close_session)" "keeps schedules_ok admit_turn_input"
  "keeps schedules_ok request_delegation" "keeps schedules_ok authorize_delegation" "keeps schedules_ok deny_delegation"
  "keeps schedules_ok start_delegation_child" "keeps schedules_ok terminal_delegation_child"
  "keeps schedules_ok observe_delegation"
  unfolding close_session_def admit_turn_input_def request_delegation_def authorize_delegation_def
    deny_delegation_def start_delegation_child_def terminal_delegation_child_def observe_delegation_def Let_def
  by (intro schedulesI post_intros; simp add: schedules_ok_def)+

lemma schedules_ok_insert: "schedules_ok p \<Longrightarrow> schedule_ok r \<Longrightarrow> schedules_ok (p\<lparr>schedules := bt_insert i r (schedules p)\<rparr>)"
  by (simp add: schedules_ok_def)

lemma schedules_okD: "schedules_ok p \<Longrightarrow> bt_get (schedules p) i = Some r \<Longrightarrow> schedule_ok r"
  by (simp add: schedules_ok_def)

lemma schedules_create: "keeps schedules_ok create_schedule"
  unfolding create_schedule_def Let_def
  by (intro schedulesI post_intros schedules_ok_insert) (simp_all add: schedule_ok_def)

lemma schedules_claim: "keeps schedules_ok claim_schedule"
  unfolding claim_schedule_def Let_def
  by (intro schedulesI post_intros schedules_ok_set)
    (auto simp: schedule_ok_def schedule_mut_ok ok_or_eq_Inr split: option.splits dest: schedules_okD)

lemma schedules_fire: "keeps schedules_ok fire_schedule" "keeps schedules_ok fail_schedule"
  unfolding fire_schedule_def fail_schedule_def Let_def
  by (intro schedulesI post_intros schedules_ok_set; simp add: schedule_ok_def)+

lemma schedules_skip: "keeps schedules_ok skip_schedule"
  unfolding skip_schedule_def
  by (intro schedulesI post_intros schedules_ok_set) (simp_all add: schedule_ok_def)

lemma schedules_cancel: "keeps schedules_ok cancel_schedule" "keeps schedules_ok exhaust_schedule"
  unfolding cancel_schedule_def exhaust_schedule_def
  by (intro schedulesI post_intros schedules_ok_set; simp add: schedule_ok_def refuse_any_ok del: refuse_any.simps)+

lemma schedules_dispatch: "keeps schedules_ok (dispatch k)"
  by (rule dispatch_obligations)
    (simp_all add: schedules_others schedules_create schedules_claim schedules_fire schedules_skip schedules_cancel
      obligations_def schedules_ok_def)


subsection \<open>Delegations\<close>

text \<open>The bindings of a delegation that are set in each of its states.\<close>

definition delegation_ok :: "delegation_record \<Rightarrow> bool" where
  "delegation_ok d \<longleftrightarrow>
     (dl_grant_id d \<noteq> None \<longleftrightarrow> dl_state d \<in> {DelAuthorized, DelStarted, DelTerminal, DelObserved})
     \<and> (dl_suspension_id d \<noteq> None \<longleftrightarrow> dl_state d \<in> {DelStarted, DelTerminal, DelObserved})
     \<and> (dl_child_turn d \<noteq> None \<longleftrightarrow> dl_state d \<in> {DelStarted, DelTerminal, DelObserved})
     \<and> (dl_result_id d \<noteq> None \<longleftrightarrow> dl_state d \<in> {DelTerminal, DelObserved})
     \<and> (dl_result_digest d \<noteq> None \<longleftrightarrow> dl_state d \<in> {DelTerminal, DelObserved})
     \<and> (dl_input_admitted d \<longrightarrow> dl_state d = DelObserved)"

definition delegations_ok :: "session_projection \<Rightarrow> bool" where
  "delegations_ok p \<longleftrightarrow>
     (\<forall>i d. bt_get (delegations p) i = Some d \<longrightarrow> delegation_ok d)
     \<and> (\<forall>i d j d'. bt_get (delegations p) i = Some d \<longrightarrow> bt_get (delegations p) j = Some d' \<longrightarrow>
          dl_parent_turn d = dl_parent_turn d' \<longrightarrow> \<not> delegation_resolved d \<longrightarrow> \<not> delegation_resolved d' \<longrightarrow>
          i = j)"

lemma delegations_okD: "delegations_ok p \<Longrightarrow> bt_get (delegations p) i = Some d \<Longrightarrow> delegation_ok d"
  by (simp add: delegations_ok_def)

lemma delegations_ok_move:
  assumes "delegations_ok p" and "bt_get (delegations p) i = Some d" and "dl_parent_turn d' = dl_parent_turn d"
    and "delegation_resolved d \<Longrightarrow> delegation_resolved d'" and "delegation_ok d \<Longrightarrow> delegation_ok d'"
  shows "delegations_ok (p\<lparr>delegations := bt_insert i d' (delegations p)\<rparr>)"
proof -
  have "j = i" if "bt_get (delegations p) j = Some x" "dl_parent_turn x = dl_parent_turn d"
      "\<not> delegation_resolved x" "\<not> delegation_resolved d'" for j x
    using assms(1,2,4) that unfolding delegations_ok_def by metis
  with assms show ?thesis
    unfolding delegations_ok_def by (simp, metis)
qed

lemma delegations_ok_step:
  assumes "ok_or (bt_get (delegations p) i) e = Inr d" and "delegations_ok p"
    and "dl_parent_turn d' = dl_parent_turn d"
    and "delegation_resolved d \<Longrightarrow> delegation_resolved d'" and "delegation_ok d \<Longrightarrow> delegation_ok d'"
  shows "delegations_ok (p\<lparr>delegations := bt_insert i d' (delegations p)\<rparr>)"
  using assms by (intro delegations_ok_move [of p i d]) (auto simp: ok_or_eq_Inr)

lemma delegations_ok_new:
  assumes "delegations_ok p" and "\<not> bt_contains (delegations p) i"
    and "\<not> list_ex (\<lambda>d. dl_parent_turn d = dl_parent_turn d' \<and> \<not> delegation_resolved d) (bt_values (delegations p))"
    and "delegation_ok d'"
  shows "delegations_ok (p\<lparr>delegations := bt_insert i d' (delegations p)\<rparr>)"
  using assms unfolding delegations_ok_def list_ex_bt_values by (auto split: if_splits)

lemma delegationsI:
  assumes "\<And>X f p. delegations_ok p \<Longrightarrow> rpost (h X f p) delegations_ok"
  shows "keeps delegations_ok h"
  using assms by (auto simp: keeps_def rpost_def)

lemma delegations_others:
  "keeps delegations_ok (\<lambda>X f. close_session)"
  "keeps delegations_ok create_schedule" "keeps delegations_ok claim_schedule" "keeps delegations_ok fire_schedule"
  "keeps delegations_ok skip_schedule" "keeps delegations_ok cancel_schedule" "keeps delegations_ok fail_schedule"
  "keeps delegations_ok exhaust_schedule"
  unfolding close_session_def create_schedule_def claim_schedule_def fire_schedule_def skip_schedule_def
    cancel_schedule_def fail_schedule_def exhaust_schedule_def Let_def
  by (intro delegationsI post_intros; simp add: delegations_ok_def set_schedule_def)+

lemma delegations_request: "keeps delegations_ok request_delegation"
  unfolding request_delegation_def
  by (intro delegationsI post_intros; elim delegations_ok_new)
    (auto simp: refuse_any_ok delegation_ok_def simp del: refuse_any.simps bt_contains_iff)

lemma delegations_move:
  "keeps delegations_ok authorize_delegation" "keeps delegations_ok deny_delegation"
  unfolding authorize_delegation_def deny_delegation_def delegation_decidable_def
  by (intro delegationsI post_intros; elim delegations_ok_step;
      simp add: refuse_any_ok delegation_ok_def delegation_resolved_def del: refuse_any.simps)+

lemma delegations_child:
  "keeps delegations_ok start_delegation_child" "keeps delegations_ok terminal_delegation_child"
  "keeps delegations_ok observe_delegation"
  unfolding start_delegation_child_def terminal_delegation_child_def observe_delegation_def Let_def
  by (intro delegationsI post_intros; elim delegations_ok_step;
      simp add: refuse_any_ok delegation_ok_def delegation_resolved_def del: refuse_any.simps)+

lemma awaiting_delegation_ok:
  assumes "awaiting_delegation t s d p = Some (i, v)"
  shows "bt_get (delegations p) i = Some v \<and> dl_state v = DelObserved"
  using assms by (auto simp: awaiting_delegation_def find_Some_iff bt.entry_iff [symmetric] in_set_conv_nth)

lemma delegations_input: "keeps delegations_ok admit_turn_input"
  unfolding admit_turn_input_def
proof (intro delegationsI post_intros, goal_cases)
  case (1 X f p t m k s d x i v)
  then have "bt_get (delegations p) i = Some v" "dl_state v = DelObserved"
    using awaiting_delegation_ok by (auto simp: ok_or_eq_Inr)
  with 1(1) show ?case
    by (intro delegations_ok_move [of p i v]) (simp_all add: delegation_ok_def delegation_resolved_def)
qed

lemma delegations_dispatch: "keeps delegations_ok (dispatch k)"
  by (rule dispatch_obligations)
    (simp_all add: delegations_others delegations_request delegations_move delegations_child delegations_input
      obligations_def delegations_ok_def)


text \<open>
  Where the bindings come from. A committed fact of the kind names the delegation and carries these
  texts; each field of the record is the one of the fact that brought the delegation into that state.
\<close>

definition carried ::
  "externals \<Rightarrow> fact_draft list \<Rightarrow> string \<Rightarrow> TurnId \<Rightarrow> ExecutionId \<Rightarrow> string
     \<Rightarrow> (string \<times> string option) list \<Rightarrow> bool" where
  "carried X ds k t e i bindings \<longleftrightarrow> (\<exists>f m. f \<in> set ds \<and> kind f = k \<and> payload_of X f = Inr m
     \<and> turn_id f = Some t \<and> execution_id f = Some e
     \<and> text_at m ''delegation_id'' = Some i \<and> list_all (\<lambda>(n, v). v \<noteq> None \<and> text_at m n = v) bindings)"

definition child_text :: "delegation_record \<Rightarrow> string option" where
  "child_text d = map_option as_str (dl_child_turn d)"

definition delegation_bound :: "externals \<Rightarrow> fact_draft list \<Rightarrow> string \<Rightarrow> delegation_record \<Rightarrow> bool" where
  "delegation_bound X ds i d \<longleftrightarrow>
     carried X ds ''delegation.requested'' (dl_parent_turn d) (dl_parent_execution d) i [(''intent_digest'', Some (dl_intent_digest d))]
   \<and> (dl_state d \<in> {DelAuthorized, DelStarted, DelTerminal, DelObserved} \<longrightarrow>
        carried X ds ''delegation.authorized'' (dl_parent_turn d) (dl_parent_execution d) i
          [(''intent_digest'', Some (dl_intent_digest d)), (''grant_id'', dl_grant_id d)])
   \<and> (dl_state d \<in> {DelStarted, DelTerminal, DelObserved} \<longrightarrow>
        carried X ds ''delegation.child_started'' (dl_parent_turn d) (dl_parent_execution d) i
          [(''grant_id'', dl_grant_id d), (''suspension_id'', dl_suspension_id d), (''child_turn_id'', child_text d)])
   \<and> (dl_state d \<in> {DelTerminal, DelObserved} \<longrightarrow>
        carried X ds ''delegation.child_terminal'' (dl_parent_turn d) (dl_parent_execution d) i
          [(''grant_id'', dl_grant_id d), (''suspension_id'', dl_suspension_id d), (''child_turn_id'', child_text d),
           (''result_id'', dl_result_id d), (''result_digest'', dl_result_digest d)])
   \<and> (dl_state d = DelObserved \<longrightarrow>
        carried X ds ''delegation.observed'' (dl_parent_turn d) (dl_parent_execution d) i
          [(''grant_id'', dl_grant_id d), (''suspension_id'', dl_suspension_id d),
           (''result_id'', dl_result_id d), (''result_digest'', dl_result_digest d)])"

definition delegations_bound :: "externals \<Rightarrow> fact_draft list \<Rightarrow> session_projection \<Rightarrow> bool" where
  "delegations_bound X ds p \<longleftrightarrow>
     (\<forall>i d. bt_get (delegations p) i = Some d \<longrightarrow> delegation_bound X ds i d)"

lemma carried_more: "carried X ds k t e i b \<Longrightarrow> carried X (ds @ [f]) k t e i b"
  by (auto simp: carried_def)

lemma carried_last:
  assumes "payload_of X f = Inr m" and "kind f = k" and "turn_id f = Some t"
    and "execution_id f = Some e" and "text_at m ''delegation_id'' = Some i"
    and "list_all (\<lambda>(n, v). v \<noteq> None \<and> text_at m n = v) b"
  shows "carried X (ds @ [f]) k t e i b"
  using assms by (auto simp: carried_def)

lemma delegation_bound_more: "delegation_bound X ds i d \<Longrightarrow> delegation_bound X (ds @ [f]) i d"
  by (simp add: delegation_bound_def carried_more)

text \<open>A handler grows the history: run on a fact of its kind it keeps every delegation bound.\<close>

definition grows :: "handler \<Rightarrow> string \<Rightarrow> bool" where
  "grows h k \<longleftrightarrow> (\<forall>X ds f p q. kind f = k \<longrightarrow> delegations_bound X ds p \<longrightarrow> h X f p = Inr q \<longrightarrow>
     delegations_bound X (ds @ [f]) q)"

lemma growsI:
  assumes "\<And>X ds f p. kind f = k \<Longrightarrow> delegations_bound X ds p \<Longrightarrow>
    rpost (h X f p) (\<lambda>q. delegations_bound X (ds @ [f]) q)"
  shows "grows h k"
  using assms by (auto simp: grows_def rpost_def)

lemma grows_branch: "(b \<Longrightarrow> grows g k) \<Longrightarrow> grows h k \<Longrightarrow> grows (if b then g else h) k"
  by simp

lemma delegations_bound_kept:
  "delegations_bound X ds p \<Longrightarrow> delegations q = delegations p \<Longrightarrow> delegations_bound X (ds @ [f]) q"
  by (simp add: delegations_bound_def delegation_bound_more)

lemma delegations_bound_insert:
  assumes "delegations_bound X ds p" and "delegation_bound X (ds @ [f]) i d"
  shows "delegations_bound X (ds @ [f]) (p\<lparr>delegations := bt_insert i d (delegations p)\<rparr>)"
  using assms by (simp add: delegations_bound_def delegation_bound_more)

lemma delegations_boundD: "delegations_bound X ds p \<Longrightarrow> bt_get (delegations p) i = Some d \<Longrightarrow> delegation_bound X ds i d"
  by (simp add: delegations_bound_def)

lemma untouched_grows: "untouched h \<Longrightarrow> grows h k"
  unfolding grows_def untouched_def obligations_def by (blast intro: delegations_bound_kept)

lemma others_grow:
  "grows (\<lambda>X f. close_session) k" "grows create_schedule k" "grows claim_schedule k" "grows fire_schedule k"
  "grows skip_schedule k" "grows cancel_schedule k" "grows fail_schedule k" "grows exhaust_schedule k"
  unfolding close_session_def create_schedule_def claim_schedule_def fire_schedule_def skip_schedule_def
    cancel_schedule_def fail_schedule_def exhaust_schedule_def Let_def
  by (intro growsI post_intros; elim delegations_bound_kept; simp add: set_schedule_def)+

lemma delegations_bound_step:
  assumes "ok_or (bt_get (delegations p) i) e = Inr d" and "delegations_bound X ds p"
    and "delegation_bound X ds i d \<Longrightarrow> delegation_bound X (ds @ [f]) i d'"
  shows "delegations_bound X (ds @ [f]) (p\<lparr>delegations := bt_insert i d' (delegations p)\<rparr>)"
  using assms by (intro delegations_bound_insert) (auto simp: ok_or_eq_Inr dest: delegations_boundD)

lemma delegation_grows:
  "grows request_delegation ''delegation.requested''"
  unfolding request_delegation_def
  by (intro growsI post_intros delegations_bound_insert)
    (auto simp: delegation_bound_def handle intro: carried_last simp del: refuse_any.simps)

lemmas bound_simps = delegation_bound_def delegation_decidable_def child_text_def handle

lemma decision_grows:
  "grows authorize_delegation ''delegation.authorized''" "grows deny_delegation ''delegation.denied''"
  unfolding authorize_delegation_def deny_delegation_def
  by (intro growsI post_intros; elim delegations_bound_step;
      auto simp: bound_simps intro: carried_last carried_more simp del: refuse_any.simps)+

lemma child_grows:
  "grows start_delegation_child ''delegation.child_started''"
  "grows terminal_delegation_child ''delegation.child_terminal''"
  "grows observe_delegation ''delegation.observed''"
  unfolding start_delegation_child_def terminal_delegation_child_def observe_delegation_def Let_def
  by (intro growsI post_intros; elim delegations_bound_step;
      auto simp: bound_simps intro: carried_last carried_more simp del: refuse_any.simps)+

lemma input_grows: "grows admit_turn_input k"
  unfolding admit_turn_input_def
proof (intro growsI post_intros, goal_cases)
  case (1 X ds f p t m k s d x i v)
  then have "bt_get (delegations p) i = Some v"
    using awaiting_delegation_ok by (auto simp: ok_or_eq_Inr)
  with 1(2) have "delegation_bound X (ds @ [f]) i v"
    by (auto intro: delegation_bound_more delegations_boundD)
  then show ?case
    by (intro delegations_bound_insert [OF 1(2)]) (simp add: delegation_bound_def child_text_def)
qed (auto intro: delegations_bound_kept)

lemma dispatch_grows: "grows (dispatch k) k"
  unfolding dispatch_def
  by (intro grows_branch) (simp_all add: delegation_grows decision_grows child_grows input_grows others_grow
      untouched_grows untouched_handlers)

subsection \<open>Closing\<close>

definition settled :: "session_projection \<Rightarrow> bool" where
  "settled p \<longleftrightarrow>
     (\<forall>t st. bt_get (turns p) t = Some st \<longrightarrow> st \<noteq> TurnOpen \<and> st \<noteq> TurnSuspended)
     \<and> (\<forall>e t st. bt_get (executions p) e = Some (t, st) \<longrightarrow> st \<noteq> ExecActive)
     \<and> (\<forall>r e st. bt_get (models p) r = Some (e, st) \<longrightarrow> st \<noteq> Started \<and> st \<noteq> Receipt)
     \<and> (\<forall>r e st. bt_get (tools p) r = Some (e, st) \<longrightarrow> st \<noteq> Started \<and> st \<noteq> Receipt)
     \<and> (\<forall>i v. bt_get (schedules p) i = Some v \<longrightarrow> sc_state v \<noteq> SchedActive)
     \<and> (\<forall>i d. bt_get (delegations p) i = Some d \<longrightarrow> delegation_resolved d)"

lemma close_session_settled: "close_session p = Inr q \<Longrightarrow> settled q"
  unfolding close_session_def settled_def
  by (clarsimp simp: list_ex_bt_values has_recovery_pending_invocation_def recovery_pending_def split: if_splits)

definition settles :: "handler \<Rightarrow> bool" where
  "settles h \<longleftrightarrow> (\<forall>X f p q. \<not> closed p \<longrightarrow> h X f p = Inr q \<longrightarrow> closed q \<longrightarrow> settled q)"

lemma settlesI: "(\<And>X f p. rpost (h X f p) (\<lambda>q. closed q = closed p)) \<Longrightarrow> settles h"
  by (auto simp: settles_def rpost_def)

lemma settles_close: "settles (\<lambda>X f. close_session)"
  by (auto simp: settles_def intro: close_session_settled)

lemma settles_writers: "settles admit_turn_input"
    "settles create_schedule" "settles claim_schedule" "settles fire_schedule"
    "settles skip_schedule" "settles cancel_schedule" "settles fail_schedule" "settles exhaust_schedule"
    "settles request_delegation" "settles authorize_delegation" "settles deny_delegation"
    "settles start_delegation_child" "settles terminal_delegation_child" "settles observe_delegation"
  unfolding admit_turn_input_def create_schedule_def claim_schedule_def fire_schedule_def skip_schedule_def
    cancel_schedule_def fail_schedule_def exhaust_schedule_def set_schedule_def
    request_delegation_def authorize_delegation_def deny_delegation_def
    start_delegation_child_def terminal_delegation_child_def observe_delegation_def Let_def
  by (intro settlesI post_intros; simp)+

lemma settles_dispatch: "settles (dispatch k)"
proof -
  have q: "settles h" if "untouched h" for h
    using that by (auto simp: untouched_def settles_def obligations_def)
  show ?thesis
    by (rule dispatch_cases) (simp_all add: settles_close settles_writers q untouched_handlers)
qed

subsection \<open>All three hold in every session\<close>

interpretation scheduling: session_property schedules_ok
proof
  show "schedules_ok q" if "schedules_ok p" "dispatch k X f p = Inr q" for k X f p q
    using that schedules_dispatch [of k] by (auto simp: keeps_def)
qed (simp_all add: schedules_ok_def default_projection_def begin_commit_def)

interpretation delegating: session_property delegations_ok
proof
  show "delegations_ok q" if "delegations_ok p" "dispatch k X f p = Inr q" for k X f p q
    using that delegations_dispatch [of k] by (auto simp: keeps_def)
qed (simp_all add: delegations_ok_def default_projection_def begin_commit_def)

interpretation binding: session_history delegations_bound
proof
  show "delegations_bound X (ds @ [f]) q" if "delegations_bound X ds p" "dispatch (kind f) X f p = Inr q" for X ds f p q
    using that dispatch_grows [of "kind f"] by (auto simp: grows_def)
qed (auto simp: delegations_bound_def default_projection_def begin_commit_def delegation_bound_more)

interpretation closing: session_property "\<lambda>p. closed p \<longrightarrow> settled p"
proof
  show "closed q \<longrightarrow> settled q" if "\<not> closed p" "dispatch k X f p = Inr q" for k X f p q
    using that settles_dispatch [of k] by (simp add: settles_def)
qed (simp_all add: default_projection_def begin_commit_def settled_def)


text \<open>No batch is ever appended to a closed session.\<close>

lemma closed_append:
  assumes "bt_get (sessions st) sid = Some l" and "closed (projection l)" and "ds \<noteq> []"
  shows "append_batch X st sid v ds \<noteq> Inr (n, ps)"
proof
  assume "append_batch X st sid v ds = Inr (n, ps)"
  then obtain pos m where "append_drafts X sid
      ((ledger_of st sid)\<lparr>projection := begin_commit (projection (ledger_of st sid))\<rparr>) pos ds = Inr (m, ps)"
    by (rule append_batch_cases)
  moreover have "closed (begin_commit (projection (ledger_of st sid)))"
    using assms(1,2) by (simp add: ledger_of_def begin_commit_def)
  ultimately show False
    using assms(3) closed_session.final_stuck [where s = "begin_commit (projection (ledger_of st sid))"]
    by (cases ds) (auto simp: result_simps)
qed

lemma closed_commit:
  assumes "bt_get (sessions st) sid = Some l" and "closed (projection l)"
  shows "bt_get (sessions (fst (commit X st s v ds))) sid = Some l"
proof (cases rule: commit_cases [of X st s v ds])
  case (committed n ps)
  with closed_append [OF assms] have "s \<noteq> sid" by blast
  with committed(6) assms(1) show ?thesis by simp
qed (use assms in simp_all)

lemma closed_ledger_after:
  assumes "bt_get (sessions st) sid = Some l" and "closed (projection l)"
  shows "bt_get (sessions (ledger_after X st cs)) sid = Some l"
  using assms by (induction cs arbitrary: st) (auto simp: ledger_after_def closed_commit)

end
