(* ===== verification/Sample_Session.thy ===== *)
theory Sample_Session
  imports Effect_Safety Session_Obligations
begin

section \<open>A sample session\<close>

text \<open>
  A concrete session on which the general results are exercised: a session is opened, a turn and an
  execution start, and a tool of contract version 3 goes through preparation, the safety decision,
  authorization, sandbox binding and preflight to its start. External code is instantiated by simple
  total functions: a parser that knows the payloads of the session by name, a digest function with
  one value, and a clock format that takes every timestamp as canonical.
\<close>

named_theorems sample_eval \<open>definitions a concrete evaluation unfolds\<close>

lemma rbind_eval: "r = r' \<Longrightarrow> rbind r f = rbind r' f"
  by simp

definition sample_digest :: string where
  "sample_digest = replicate 64 CHR ''0''"

definition text_member :: "string \<Rightarrow> string \<Rightarrow> string \<times> json" where
  [sample_eval]: "text_member k s = (k, JString s)"

definition digest_member :: "string \<Rightarrow> string \<times> json" where
  [sample_eval]: "digest_member k = (k, JString sample_digest)"

definition number_member :: "string \<Rightarrow> u64 \<Rightarrow> string \<times> json" where
  [sample_eval]: "number_member k n = (k, JNumber (PosInt n))"

definition content_member :: "string \<Rightarrow> string \<times> json" where
  [sample_eval]: "content_member k =
     (k, JObject [(''digest'', JString sample_digest), (''inline_utf8'', JString ''content'')])"

definition turn_payload :: json where
  [sample_eval]: "turn_payload = JObject [text_member ''agent_instance_id'' ''agent-1'',
     text_member ''command_id'' ''command-1'', text_member ''definition_id'' ''definition-1'',
     text_member ''definition_revision'' ''1'', text_member ''kind'' ''start'',
     digest_member ''snapshot_digest'', digest_member ''trusted_input_digest'']"

definition execution_payload :: json where
  [sample_eval]: "execution_payload = JObject [number_member ''completed_iterations'' 0,
     (''limits'', JObject [number_member ''max_iterations'' 4]), number_member ''recovery_ordinal'' 0,
     digest_member ''snapshot_digest'', number_member ''through_position'' 2]"

definition prepared_payload :: json where
  [sample_eval]: "prepared_payload = JObject [
     text_member ''access_policy_revision'' ''1'', text_member ''access_resolver_revision'' ''1'',
     content_member ''arguments'', content_member ''invocation_accesses'',
     number_member ''max_result_bytes'' 1024, text_member ''model_call_id'' ''call-1'',
     number_member ''prepared_contract_version'' 3, digest_member ''prepared_digest'',
     text_member ''replay_class'' ''read_only'', content_member ''sandbox_requirements'',
     digest_member ''sandbox_requirements_digest'', text_member ''tool_name'' ''read'',
     text_member ''tool_revision'' ''1'']"

definition decision_payload :: json where
  [sample_eval]: "decision_payload = JObject [
     text_member ''actor_authority_reference'' ''actor-1'', digest_member ''constraints_digest'',
     text_member ''decision_id'' ''decision-1'', text_member ''disposition'' ''allow'',
     digest_member ''exact_access_digest'', text_member ''policy_revision'' ''7'',
     digest_member ''prepared_digest'', text_member ''request_id'' ''request-1'',
     digest_member ''sandbox_requirements_digest'', text_member ''tool_name'' ''read'',
     text_member ''tool_revision'' ''1'']"

definition authorized_payload :: json where
  [sample_eval]: "authorized_payload = JObject [text_member ''authority_revision'' ''7'',
     digest_member ''constraints_digest'', text_member ''grant_id'' ''grant-1'',
     content_member ''granted_requirements'', number_member ''prepared_contract_version'' 3,
     digest_member ''prepared_digest'']"

definition bound_payload :: json where
  [sample_eval]: "bound_payload = JObject [digest_member ''access_scope_digest'',
     text_member ''binding_id'' ''binding-1'', text_member ''decision_id'' ''decision-1'',
     digest_member ''effective_limits_digest'', digest_member ''enforcement_digest'',
     text_member ''executor_id'' ''executor-1'', text_member ''executor_revision'' ''1'',
     text_member ''policy_revision'' ''7'', digest_member ''prepared_digest'',
     text_member ''workspace_capability_id'' ''workspace-1'']"

definition preflight_payload :: json where
  [sample_eval]: "preflight_payload = JObject [text_member ''binding_id'' ''binding-1'',
     text_member ''decision_id'' ''decision-1'', text_member ''dispatch_attempt_id'' ''attempt-1'',
     text_member ''executor_id'' ''executor-1'', text_member ''executor_revision'' ''1'',
     text_member ''grant_id'' ''grant-1'', text_member ''preflight_id'' ''preflight-1'',
     digest_member ''prepared_digest'']"

definition dispatch_payload :: json where
  [sample_eval]: "dispatch_payload = JObject [text_member ''dispatch_attempt_id'' ''attempt-1'',
     text_member ''executor_id'' ''executor-1'', text_member ''executor_revision'' ''1'',
     text_member ''grant_id'' ''grant-1'', digest_member ''prepared_digest'']"

definition sample_documents :: "(string \<times> json) list" where
  "sample_documents = [(''opened'', JObject []), (''turn'', turn_payload), (''execution'', execution_payload),
     (''prepared'', prepared_payload), (''decision'', decision_payload), (''authorized'', authorized_payload),
     (''bound'', bound_payload), (''preflight'', preflight_payload), (''dispatch'', dispatch_payload),
     (''closed'', JObject [])]"

definition sample :: externals where
  "sample = \<lparr>sha256_hex = (\<lambda>_. sample_digest), from_str = map_of sample_documents, rfc3339_utc = Some\<rparr>"

lemma sample_sel [simp]:
  "sha256_hex sample s = sample_digest" "rfc3339_utc sample s = Some s"
  "from_str sample ''opened'' = Some (JObject [])" "from_str sample ''turn'' = Some turn_payload"
  "from_str sample ''execution'' = Some execution_payload" "from_str sample ''prepared'' = Some prepared_payload"
  "from_str sample ''decision'' = Some decision_payload" "from_str sample ''authorized'' = Some authorized_payload"
  "from_str sample ''bound'' = Some bound_payload" "from_str sample ''preflight'' = Some preflight_payload"
  "from_str sample ''dispatch'' = Some dispatch_payload" "from_str sample ''closed'' = Some (JObject [])"
  by (simp_all add: sample_def sample_documents_def)

lemma sample_digest_ok [simp]: "valid_digest sample_digest"
  by code_simp

lemma sample_digest_ne [simp]: "sample_digest \<noteq> []"
  by (simp add: sample_digest_def)

definition sample_fact :: "string \<Rightarrow> string \<Rightarrow> u32 \<Rightarrow> fact_draft" where
  [sample_eval]: "sample_fact document k n = \<lparr>fact_id = Ident document, turn_id = None, execution_id = None,
     model_request_id = None, tool_invocation_id = None, kind = k, schema_version = n,
     payload = \<lparr>payload_json = document, payload_sha256 = sample_digest\<rparr>,
     recorded_at = ''2026-01-01T00:00:00Z''\<rparr>"

definition in_turn :: "fact_draft \<Rightarrow> fact_draft" where
  [sample_eval]: "in_turn f = f\<lparr>turn_id := Some (Ident ''turn-1'')\<rparr>"
definition in_execution :: "fact_draft \<Rightarrow> fact_draft" where
  [sample_eval]: "in_execution f = (in_turn f)\<lparr>execution_id := Some (Ident ''execution-1'')\<rparr>"
definition of_tool :: "fact_draft \<Rightarrow> fact_draft" where
  [sample_eval]: "of_tool f = (in_execution f)\<lparr>tool_invocation_id := Some (Ident ''tool-1'')\<rparr>"

definition opened_fact :: fact_draft where
  [sample_eval]: "opened_fact = sample_fact ''opened'' ''session.opened'' 1"
definition turn_fact :: fact_draft where
  [sample_eval]: "turn_fact = in_turn (sample_fact ''turn'' ''turn.started'' 1)"
definition execution_fact :: fact_draft where
  [sample_eval]: "execution_fact = in_execution (sample_fact ''execution'' ''execution.started'' 1)"
definition prepared_fact :: fact_draft where
  [sample_eval]: "prepared_fact = of_tool (sample_fact ''prepared'' ''effect.prepared'' 3)"
definition decision_fact :: fact_draft where
  [sample_eval]: "decision_fact = of_tool (sample_fact ''decision'' ''safety.decided'' 1)"
definition authorized_fact :: fact_draft where
  [sample_eval]: "authorized_fact = of_tool (sample_fact ''authorized'' ''effect.authorized'' 2)"
definition bound_fact :: fact_draft where
  [sample_eval]: "bound_fact = of_tool (sample_fact ''bound'' ''sandbox.bound'' 1)"
definition preflight_fact :: fact_draft where
  [sample_eval]: "preflight_fact = of_tool (sample_fact ''preflight'' ''sandbox.preflighted'' 1)"
definition dispatch_fact :: fact_draft where
  [sample_eval]: "dispatch_fact = of_tool (sample_fact ''dispatch'' ''effect.started'' 1)"

definition sample_batch :: "fact_draft list" where
  "sample_batch = [opened_fact, turn_fact, execution_fact, prepared_fact, decision_fact, authorized_fact,
     bound_fact, preflight_fact, dispatch_fact]"

lemmas check_defs = object_of_def Fact_Values.fields_def string_of_def non_empty_def optional_non_empty_def enumeration_def
  unsigned_of_def optional_unsigned_def digest_def content_def optional_content_def limits_def identities_def
  digests_def jget_def jhas_def ok_or_def ensure_def rvoid_def List.member_iff

lemmas admission_defs = validate_runtime_fact_def known_family_def envelope_ok_def validate_payload_def
  execution_family_def model_family_def effect_family_def f0_family_def skill_family_def memory_family_def
  knowledge_family_def scheduler_family_def delegation_family_def workspace_family_def artifact_family_def
  goal_family_def plan_family_def rejection_def effect_prepared_v2_def effect_prepared_v3_def
  effect_authorized_v2_def memory_session_scoped_def starts_with_def


lemmas sample_checks = admission_defs check_defs turn_validate_def turn_started_def conditional_identity_def
  conditional_unsigned_def execution_started_def effect_validate_prepared_v3_def prepared_contract_def
  replay_class_of_def effect_validate_authorized_v2_def f0_validate_def safety_decided_def exact_code_def
  sandbox_bound_def sandbox_preflighted_def effect_validate_def effect_started_def

lemma opened_admitted: "validate_runtime_fact sample opened_fact = Inr Opaque"
  by (simp add: sample_eval admission_defs cong: rbind_eval)
lemma turn_admitted: "validate_runtime_fact sample turn_fact = Inr AppliedV1"
  by (simp add: sample_eval sample_checks cong: rbind_eval)
lemma execution_admitted: "validate_runtime_fact sample execution_fact = Inr AppliedV1"
  by (simp add: sample_eval sample_checks cong: rbind_eval)
lemma prepared_admitted: "validate_runtime_fact sample prepared_fact = Inr AppliedV3"
  by (simp add: sample_eval sample_checks cong: rbind_eval)
lemma decision_admitted: "validate_runtime_fact sample decision_fact = Inr AppliedV1"
  by (simp add: sample_eval sample_checks cong: rbind_eval)
lemma authorized_admitted: "validate_runtime_fact sample authorized_fact = Inr AppliedV2"
  by (simp add: sample_eval sample_checks cong: rbind_eval)
lemma bound_admitted: "validate_runtime_fact sample bound_fact = Inr AppliedV1"
  by (simp add: sample_eval sample_checks cong: rbind_eval)
lemma preflight_admitted: "validate_runtime_fact sample preflight_fact = Inr AppliedV1"
  by (simp add: sample_eval sample_checks cong: rbind_eval)
lemma dispatch_admitted: "validate_runtime_fact sample dispatch_fact = Inr AppliedV1"
  by (simp add: sample_eval sample_checks cong: rbind_eval)


subsection \<open>The projection after each fact\<close>

definition after_opened :: session_projection where
  "after_opened = default_projection\<lparr>opened := True\<rparr>"

definition after_turn :: session_projection where
  "after_turn = after_opened\<lparr>turns := bt_insert (Ident ''turn-1'') TurnOpen bt_empty,
     turn_agents := bt_insert (Ident ''turn-1'') (''agent-1'', sample_digest) bt_empty,
     turns_started_in_commit := {Ident ''turn-1''}, suspensions := bt_remove (Ident ''turn-1'') bt_empty\<rparr>"

definition after_execution :: session_projection where
  "after_execution = after_turn\<lparr>
     executions := bt_insert (Ident ''execution-1'') (Ident ''turn-1'', ExecActive) bt_empty,
     execution_iterations := bt_insert (Ident ''execution-1'') 0 bt_empty\<rparr>"

definition after_prepared :: session_projection where
  "after_prepared = after_execution\<lparr>
     tools := bt_insert (Ident ''tool-1'') (Ident ''execution-1'', Prepared) bt_empty,
     tool_digests := bt_insert (Ident ''tool-1'') sample_digest bt_empty,
     tool_revisions := bt_insert (Ident ''tool-1'') (''read'', ''1'') bt_empty,
     tool_contract_versions := bt_insert (Ident ''tool-1'') 3 bt_empty,
     tool_result_bytes := bt_insert (Ident ''tool-1'') 1024 bt_empty,
     tool_access_digests := bt_insert (Ident ''tool-1'') sample_digest bt_empty,
     tool_sandbox_digests := bt_insert (Ident ''tool-1'') sample_digest bt_empty\<rparr>"

definition sample_decision :: f0_record where
  "sample_decision = \<lparr>f0_decision_id = ''decision-1'', f0_disposition = Allow,
     f0_prepared_digest = sample_digest, f0_policy_revision = ''7'',
     f0_constraints_digest = Some sample_digest, f0_sandbox = None\<rparr>"

definition after_decision :: session_projection where
  "after_decision = after_prepared\<lparr>f0 := bt_insert (Ident ''tool-1'') sample_decision bt_empty\<rparr>"

definition after_authorized :: session_projection where
  "after_authorized = after_decision\<lparr>tool_grants := bt_insert (Ident ''tool-1'') ''grant-1'' bt_empty,
     tools := bt_insert (Ident ''tool-1'') (Ident ''execution-1'', Authorized) (tools after_prepared)\<rparr>"

definition sample_proof :: sandbox_proof_record where
  "sample_proof = \<lparr>sp_binding_id = ''binding-1'', sp_executor_id = ''executor-1'',
     sp_executor_revision = ''1'', sp_grant_id = None, sp_dispatch_attempt_id = None\<rparr>"

definition after_bound :: session_projection where
  "after_bound = after_authorized\<lparr>f0 := bt_insert (Ident ''tool-1'')
     (sample_decision\<lparr>f0_sandbox := Some sample_proof\<rparr>) (f0 after_decision)\<rparr>"

definition after_preflight :: session_projection where
  "after_preflight = after_bound\<lparr>f0 := bt_insert (Ident ''tool-1'')
     (sample_decision\<lparr>f0_sandbox := Some (sample_proof\<lparr>sp_grant_id := Some ''grant-1'',
        sp_dispatch_attempt_id := Some ''attempt-1''\<rparr>)\<rparr>) (f0 after_bound)\<rparr>"

definition after_dispatch :: session_projection where
  "after_dispatch = after_preflight\<lparr>
     tool_grants := bt_insert (Ident ''tool-1'') ''grant-1'' (tool_grants after_authorized),
     tool_executors := bt_insert (Ident ''tool-1'') (''executor-1'', ''1'') bt_empty,
     tools := bt_insert (Ident ''tool-1'') (Ident ''execution-1'', Started) (tools after_authorized)\<rparr>"

lemmas after_defs = after_dispatch_def after_preflight_def after_bound_def after_authorized_def
  after_decision_def after_prepared_def after_execution_def after_turn_def after_opened_def
  default_projection_def sample_decision_def sample_proof_def

lemmas handler_defs = apply_fact_def dispatch_def draft_validate_def payload_verify_def Let_def required_def
  payload_of_def payload_text_def payload_unsigned_def content_digest_def jget_def ok_or_def
  text_ne_def ident_ne_def require_open_turn_def require_active_execution_def start_turn_def
  start_execution_def prepare_tool_def decide_safety_def transition_tool_def tool_edge_def v3_edge_def
  validate_effect_binding_def starts_in_batch_def bind_sandbox_def preflight_sandbox_def

lemma apply_opened: "apply_fact sample opened_fact default_projection = Inr after_opened"
  by (simp add: sample_eval handler_defs after_opened_def default_projection_def cong: rbind_eval)
lemma apply_turn: "apply_fact sample turn_fact after_opened = Inr after_turn"
  by (simp add: sample_eval handler_defs after_turn_def after_opened_def default_projection_def cong: rbind_eval)
lemma apply_execution: "apply_fact sample execution_fact after_turn = Inr after_execution"
  by (simp add: sample_eval handler_defs after_defs cong: rbind_eval)
lemma apply_prepared: "apply_fact sample prepared_fact after_execution = Inr after_prepared"
  by (simp add: sample_eval handler_defs after_defs cong: rbind_eval)
lemma apply_decision: "apply_fact sample decision_fact after_prepared = Inr after_decision"
  by (simp add: sample_eval handler_defs after_defs cong: rbind_eval)
lemma apply_authorized: "apply_fact sample authorized_fact after_decision = Inr after_authorized"
  by (simp add: sample_eval handler_defs after_defs cong: rbind_eval)
lemma apply_bound: "apply_fact sample bound_fact after_authorized = Inr after_bound"
  by (simp add: sample_eval handler_defs after_defs cong: rbind_eval)
lemma apply_preflight: "apply_fact sample preflight_fact after_bound = Inr after_preflight"
  by (simp add: sample_eval handler_defs after_defs cong: rbind_eval)
lemma apply_dispatch: "apply_fact sample dispatch_fact after_preflight = Inr after_dispatch"
  by (simp add: sample_eval handler_defs after_defs cong: rbind_eval)


subsection \<open>The session as one commit\<close>

definition sample_session :: SessionId where
  "sample_session = Ident ''session-1''"

lemmas sample_admitted = opened_admitted turn_admitted execution_admitted prepared_admitted decision_admitted
  authorized_admitted bound_admitted preflight_admitted dispatch_admitted

lemmas sample_applied = apply_opened apply_turn apply_execution apply_prepared apply_decision apply_authorized
  apply_bound apply_preflight apply_dispatch

lemma sample_batch_valid: "f \<in> set sample_batch \<Longrightarrow> draft_validate sample f = Inr ()"
  by (auto simp: sample_batch_def sample_eval draft_validate_def payload_verify_def)

lemma sample_batch_verified:
  "f \<in> set sample_batch \<Longrightarrow> n \<noteq> 0 \<Longrightarrow> durable_verify sample (durable_from sid n f) = Inr ()"
  by (simp add: durable_verify_from sample_batch_valid)

lemma sample_batch_ids: "map fact_id sample_batch = [Ident ''opened'', Ident ''turn'', Ident ''execution'',
    Ident ''prepared'', Ident ''decision'', Ident ''authorized'', Ident ''bound'', Ident ''preflight'', Ident ''dispatch'']"
  by (simp add: sample_batch_def sample_eval)

lemma screen_fresh:
  assumes "\<forall>d \<in> set ds. draft_validate X d = Inr () \<and> (\<exists>v. validate_runtime_fact X d = Inr v)"
    and "distinct (map fact_id ds)" and "fact_id ` set ds \<inter> seen = {}"
  shows "screen_drafts X default_ledger sid seen ds = Inr []"
  using assms
proof (induction ds arbitrary: seen)
  case (Cons d ds)
  have "\<not> identity_owned_by_other_session default_ledger sid d"
    by (simp add: identity_owned_by_other_session_def default_ledger_def bt_values_def bt_empty.rep_eq)
  with Cons show ?case
    by (auto simp: default_ledger_def)
qed simp

lemma sample_screened: "screen_drafts sample default_ledger sid {} sample_batch = Inr []"
proof (rule screen_fresh)
  show "\<forall>d \<in> set sample_batch. draft_validate sample d = Inr () \<and> (\<exists>v. validate_runtime_fact sample d = Inr v)"
    using sample_batch_valid by (simp add: sample_batch_def sample_admitted)
qed (simp_all add: sample_batch_ids)

definition sample_ledger :: session_ledger where
  "sample_ledger = \<lparr>version = 1,
     facts = map (\<lambda>(n, f). durable_from sample_session n f) (zip [1, 2, 3, 4, 5, 6, 7, 8, 9] sample_batch),
     drafts = fold (\<lambda>(n, f). bt_insert n f) (zip [1, 2, 3, 4, 5, 6, 7, 8, 9] sample_batch) bt_empty,
     projection = after_dispatch\<rparr>"

lemma begin_default: "begin_commit default_projection = default_projection"
  by (simp add: begin_commit_def default_projection_def)

lemma sample_boundary: "validate_commit_boundary after_dispatch = Inr ()"
  by (simp add: validate_commit_boundary_def after_defs bt_values_def bt_empty.rep_eq)

lemma sample_appended: "append_batch sample default_ledger sample_session 0 sample_batch =
    Inr (sample_ledger, [1, 2, 3, 4, 5, 6, 7, 8, 9])"
  by (simp add: append_batch_def default_ledger_def default_session_ledger_def Let_def first_position_def
      begin_default sample_applied sample_batch_verified sample_batch_def checked_add_def ok_or_def
      sample_boundary sample_ledger_def)

definition sample_state :: ledger_state where
  "sample_state = \<lparr>sessions = bt_insert sample_session sample_ledger bt_empty,
     fact_index = fold (index_fact sample_session) (zip sample_batch [1, 2, 3, 4, 5, 6, 7, 8, 9]) bt_empty\<rparr>"

lemma sample_commit: "commit sample default_ledger sample_session 0 sample_batch =
    (sample_state, Inr \<lparr>disposition = Committed, session_version = 1,
       positions = [1, 2, 3, 4, 5, 6, 7, 8, 9]\<rparr>)"
proof -
  have "sample_batch \<noteq> []" by (simp add: sample_batch_def)
  then show ?thesis
    unfolding commit_def sample_screened sum.case sample_appended
    by (simp add: sample_state_def default_ledger_def sample_ledger_def)
qed

lemma sample_state_new: "sample_state \<noteq> default_ledger"
  by (metis bt.get_empty bt.get_put default_ledger_def fun_upd_same ledger_state.select_convs(1)
      option.distinct(1) sample_state_def)

definition sample_commits :: "commit_command list" where
  "sample_commits = [(sample_session, 0, sample_batch)]"

lemma sample_reached: "ledger_after sample default_ledger sample_commits = sample_state"
  by (simp add: sample_commits_def ledger_after_def sample_commit)

lemma sample_state_session: "bt_get (sessions sample_state) sample_session = Some sample_ledger"
  by (simp add: sample_state_def)

lemma sample_in_ledger:
  "bt_get (sessions (ledger_after sample default_ledger sample_commits)) sample_session = Some sample_ledger"
  by (simp add: sample_reached sample_state_session)

lemma sample_ledger_sel [simp]: "version sample_ledger = 1" "projection sample_ledger = after_dispatch"
  by (simp_all add: sample_ledger_def)

lemma sample_facts: "facts sample_ledger = [
    durable_from sample_session 1 opened_fact, durable_from sample_session 2 turn_fact,
    durable_from sample_session 3 execution_fact, durable_from sample_session 4 prepared_fact,
    durable_from sample_session 5 decision_fact, durable_from sample_session 6 authorized_fact,
    durable_from sample_session 7 bound_fact, durable_from sample_session 8 preflight_fact,
    durable_from sample_session 9 dispatch_fact]"
  by (simp add: sample_ledger_def sample_batch_def)


subsection \<open>A session that is opened and closed\<close>

definition closed_fact :: fact_draft where
  [sample_eval]: "closed_fact = sample_fact ''closed'' ''session.closed'' 1"

definition closed_batch :: "fact_draft list" where
  "closed_batch = [opened_fact, closed_fact]"

definition closed_ledger :: session_ledger where
  "closed_ledger = \<lparr>version = 1,
     facts = [durable_from sample_session 1 opened_fact, durable_from sample_session 2 closed_fact],
     drafts = bt_insert 2 closed_fact (bt_insert 1 opened_fact bt_empty),
     projection = after_opened\<lparr>closed := True\<rparr>\<rparr>"

definition closed_commits :: "commit_command list" where
  "closed_commits = [(sample_session, 0, closed_batch)]"

lemma closed_admitted: "validate_runtime_fact sample closed_fact = Inr Opaque"
  by (simp add: sample_eval admission_defs cong: rbind_eval)

lemma apply_closed: "apply_fact sample closed_fact after_opened = Inr (after_opened\<lparr>closed := True\<rparr>)"
  by (simp add: sample_eval handler_defs close_session_def has_recovery_pending_invocation_def
      after_opened_def default_projection_def bt_values_def bt_empty.rep_eq cong: rbind_eval)

lemma closed_batch_valid: "f \<in> set closed_batch \<Longrightarrow> draft_validate sample f = Inr ()"
  by (auto simp: closed_batch_def sample_eval draft_validate_def payload_verify_def)

lemma closed_screened: "screen_drafts sample default_ledger sid {} closed_batch = Inr []"
proof (rule screen_fresh)
  show "\<forall>d \<in> set closed_batch. draft_validate sample d = Inr () \<and> (\<exists>v. validate_runtime_fact sample d = Inr v)"
    using closed_batch_valid by (simp add: closed_batch_def sample_admitted closed_admitted)
qed (simp_all add: closed_batch_def sample_eval)

lemma closed_appended: "append_batch sample default_ledger sample_session 0 closed_batch = Inr (closed_ledger, [1, 2])"
  by (simp add: append_batch_def default_ledger_def default_session_ledger_def Let_def first_position_def
      begin_default apply_opened apply_closed durable_verify_from closed_batch_valid closed_batch_def
      checked_add_def ok_or_def closed_ledger_def validate_commit_boundary_def bt_values_def bt_empty.rep_eq)
    (simp add: after_opened_def default_projection_def bt_empty.rep_eq)

lemma closed_in_ledger:
  "bt_get (sessions (ledger_after sample default_ledger closed_commits)) sample_session = Some closed_ledger"
proof -
  have "closed_batch \<noteq> []" by (simp add: closed_batch_def)
  then show ?thesis
    unfolding closed_commits_def ledger_after_def
    by (simp add: commit_def closed_screened closed_appended)
qed

end
