(* ===== verification/Scheduler.thy ===== *)
theory Scheduler
  imports Rust_Text Tool_Preparation "HOL-Library.Signed_Division"
begin

section \<open>Schedules and their occurrences\<close>

text \<open>
  The scheduling contract (\<open>engine/scheduler\<close>): the construction and the canonical binding of a schedule
  intent (\<open>values.rs\<close>), and the reduction of an intent, the ordinal handled last and one observed clock
  to a decision (\<open>recurrence.rs\<close>).

  Time is the third-party library chrono, whose operations are the fields of the parameter \<open>chrono\<close>. An
  instant is its number of nanoseconds since the epoch and a duration its number of nanoseconds.
  \<open>chrono_laws\<close> states what the theorems use: additions and subtractions are exact where they return,
  a duration has the number of milliseconds it was made from, and a text that was printed from an
  instant parses to no other instant. Where chrono leaves its range it returns nothing, and no law says
  when that is. The laws speak of instants on the line of nanoseconds; the leap second that chrono can also
  read from a text is not one of them.

  The main results are that a decision is exact (\<open>next_occurrence_exact\<close>): the occurrence is the one
  after the last handled, it is due or late exactly as the decision says, and a skipped range holds all
  occurrences that are late and no other; and that handling decisions ends (\<open>schedule_run_ends\<close>).
\<close>

subsection \<open>Values\<close>

datatype ScheduleErrorCode =
    InvalidSchedule | ScheduleNotFound | RevisionConflict | SubjectNotResumable | AuthorityDenied
  | ClockInvalid | OccurrenceOverflow | MisfireLimitExceeded | LeaseLost | DispatchConflict
  | DurabilityFailure | CorruptScheduleState

datatype ScheduleSubject = StartTurn | ContinueTurnResourceReady

datatype ScheduleTiming =
    At (due_at_utc: string)
  | FixedDelay (first_due_at_utc: string) (delay_ms: u64) (max_occurrences: "u64 option")

datatype MisfirePolicy = FireOnce | Skip | Fail

record ScheduleIntentBinding =
  sb_digest :: string
  sb_inline_utf8 :: string

record ScheduleIntent =
  si_schedule_id :: string
  si_revision_id :: string
  si_subject :: ScheduleSubject
  si_subject_binding_digest :: string
  si_timing :: ScheduleTiming
  si_misfire_policy :: MisfirePolicy
  si_max_lateness_ms :: u64
  si_effective_limits_digest :: string

record IntentSemantics =
  is_contract :: string
  is_version :: u32
  is_subject :: ScheduleSubject
  is_subject_binding_digest :: string
  is_timing :: ScheduleTiming
  is_misfire_policy :: MisfirePolicy
  is_max_lateness_ms :: u64
  is_effective_limits_digest :: string

record chrono =
  parse_from_rfc3339 :: "string \<Rightarrow> int option"
  to_rfc3339 :: "int \<Rightarrow> string"
  checked_add_signed :: "int \<Rightarrow> int \<Rightarrow> int option"
  checked_sub_signed :: "int \<Rightarrow> int \<Rightarrow> int option"
  try_milliseconds :: "int \<Rightarrow> int option"
  num_nanoseconds :: "int \<Rightarrow> int option"

definition canonical_utc :: "chrono \<Rightarrow> string \<Rightarrow> int option" where
  "canonical_utc C s = Option.bind (parse_from_rfc3339 C s)
     (\<lambda>utc. if to_rfc3339 C utc = s then Some utc else None)"

definition canonical_digest :: "tool_externals \<Rightarrow> json \<Rightarrow> ScheduleErrorCode + string" where
  "canonical_digest X v = rbind (ok_or (jcs X v) InvalidSchedule) (\<lambda>bytes. Inr (sha256 X bytes))"

definition valid_timing :: "chrono \<Rightarrow> ScheduleTiming \<Rightarrow> bool" where
  "valid_timing C v = (case v of
      At due \<Rightarrow> canonical_utc C due \<noteq> None
    | FixedDelay first delay bound \<Rightarrow>
        canonical_utc C first \<noteq> None \<and> delay \<noteq> 0
        \<and> (case bound of None \<Rightarrow> True | Some count \<Rightarrow> count \<noteq> 0))"

definition schedule_valid_id :: "string \<Rightarrow> bool" where
  "schedule_valid_id s \<longleftrightarrow> s \<noteq> [] \<and> length s \<le> 128 \<and> trimmed s"

definition schedule_intent ::
  "chrono \<Rightarrow> string \<Rightarrow> string \<Rightarrow> ScheduleSubject \<Rightarrow> string \<Rightarrow> ScheduleTiming \<Rightarrow> MisfirePolicy \<Rightarrow> u64
     \<Rightarrow> string \<Rightarrow> ScheduleErrorCode + ScheduleIntent" where
  "schedule_intent C schedule revision subject binding timing policy lateness limits_digest =
     (let v = \<lparr>si_schedule_id = schedule, si_revision_id = revision, si_subject = subject,
               si_subject_binding_digest = binding, si_timing = timing, si_misfire_policy = policy,
               si_max_lateness_ms = lateness, si_effective_limits_digest = limits_digest\<rparr>
      in if \<not> schedule_valid_id (si_schedule_id v)
            \<or> \<not> schedule_valid_id (si_revision_id v)
            \<or> \<not> valid_digest (si_subject_binding_digest v)
            \<or> \<not> valid_timing C (si_timing v)
            \<or> si_max_lateness_ms v = 0
            \<or> \<not> valid_digest (si_effective_limits_digest v)
         then Inl InvalidSchedule else Inr v)"

subsection \<open>The canonical binding\<close>

definition subject_name :: "ScheduleSubject \<Rightarrow> string" where
  "subject_name s = (case s of StartTurn \<Rightarrow> ''start_turn''
     | ContinueTurnResourceReady \<Rightarrow> ''continue_turn_resource_ready'')"

definition misfire_name :: "MisfirePolicy \<Rightarrow> string" where
  "misfire_name p = (case p of FireOnce \<Rightarrow> ''fire_once'' | Skip \<Rightarrow> ''skip'' | Fail \<Rightarrow> ''fail'')"

definition timing_json :: "ScheduleTiming \<Rightarrow> json" where
  "timing_json t = (case t of
      At due \<Rightarrow> JObject [(''due_at_utc'', JString due), (''kind'', JString ''at'')]
    | FixedDelay first delay bound \<Rightarrow> JObject (
        [(''delay_ms'', JNumber (PosInt delay)), (''first_due_at_utc'', JString first),
         (''kind'', JString ''fixed_delay'')] @
        (case bound of None \<Rightarrow> [] | Some n \<Rightarrow> [(''max_occurrences'', JNumber (PosInt n))])))"

definition intent_contract :: string where
  "intent_contract = ''garive.schedule-intent''"

definition schedule_contract_version :: u32 where
  "schedule_contract_version = 1"

definition intent_value :: "ScheduleIntent \<Rightarrow> json" where
  "intent_value i = JObject [
     (''contract'', JString intent_contract),
     (''effective_limits_digest'', JString (si_effective_limits_digest i)),
     (''max_lateness_ms'', JNumber (PosInt (si_max_lateness_ms i))),
     (''misfire_policy'', JString (misfire_name (si_misfire_policy i))),
     (''subject'', JString (subject_name (si_subject i))),
     (''subject_binding_digest'', JString (si_subject_binding_digest i)),
     (''timing'', timing_json (si_timing i)),
     (''version'', JNumber (PosInt (ucast schedule_contract_version)))]"

definition intent_binding :: "tool_externals \<Rightarrow> ScheduleIntent \<Rightarrow> ScheduleErrorCode + ScheduleIntentBinding" where
  "intent_binding X i = rbind (ok_or (jcs X (intent_value i)) InvalidSchedule) (\<lambda>inline_utf8.
     Inr \<lparr>sb_digest = sha256 X inline_utf8, sb_inline_utf8 = inline_utf8\<rparr>)"

definition intent_digest :: "tool_externals \<Rightarrow> ScheduleIntent \<Rightarrow> ScheduleErrorCode + string" where
  "intent_digest X i = rbind (intent_binding X i) (\<lambda>b. Inr (sb_digest b))"

definition semantics_value :: "IntentSemantics \<Rightarrow> json" where
  "semantics_value v = JObject [
     (''contract'', JString (is_contract v)),
     (''effective_limits_digest'', JString (is_effective_limits_digest v)),
     (''max_lateness_ms'', JNumber (PosInt (is_max_lateness_ms v))),
     (''misfire_policy'', JString (misfire_name (is_misfire_policy v))),
     (''subject'', JString (subject_name (is_subject v))),
     (''subject_binding_digest'', JString (is_subject_binding_digest v)),
     (''timing'', timing_json (is_timing v)),
     (''version'', JNumber (PosInt (ucast (is_version v))))]"

text \<open>The derived deserializer of \<open>IntentSemantics\<close> is the parameter \<open>parse\<close>.\<close>

definition from_binding ::
  "(string \<Rightarrow> IntentSemantics option) \<Rightarrow> tool_externals \<Rightarrow> chrono \<Rightarrow> string \<Rightarrow> string \<Rightarrow> ScheduleIntentBinding
     \<Rightarrow> ScheduleErrorCode + ScheduleIntent" where
  "from_binding parse X C schedule revision b =
     rbind (ok_or (parse (sb_inline_utf8 b)) CorruptScheduleState) (\<lambda>v.
     rbind (ok_or (jcs X (semantics_value v)) CorruptScheduleState) (\<lambda>canonical.
     if canonical \<noteq> sb_inline_utf8 b \<or> sha256 X canonical \<noteq> sb_digest b
        \<or> is_contract v \<noteq> intent_contract \<or> is_version v \<noteq> schedule_contract_version
     then Inl CorruptScheduleState
     else case schedule_intent C schedule revision (is_subject v) (is_subject_binding_digest v) (is_timing v)
                 (is_misfire_policy v) (is_max_lateness_ms v) (is_effective_limits_digest v) of
            Inl _ \<Rightarrow> Inl CorruptScheduleState | Inr i \<Rightarrow> Inr i))"

subsection \<open>Occurrences\<close>

record DueOccurrence =
  do_ordinal :: u64
  do_due_at_utc :: string
  do_occurrence_id :: string
  do_runtime_command_id :: string

record SkippedOccurrences =
  so_first_ordinal :: u64
  so_last_ordinal :: u64
  so_first_due_at_utc :: string
  so_last_due_at_utc :: string
  so_next_due :: "DueOccurrence option"

datatype ScheduleDecision =
    NotDue DueOccurrence
  | Due DueOccurrence
  | Skipped SkippedOccurrences
  | Exhausted
  | FailMisfire DueOccurrence

definition milliseconds :: "chrono \<Rightarrow> u64 \<Rightarrow> ScheduleErrorCode + int" where
  "milliseconds C n =
     ok_or (if unat n < 2 ^ 63 then try_milliseconds C (uint n) else None) OccurrenceOverflow"

definition occurrence_identity ::
  "tool_externals \<Rightarrow> string \<Rightarrow> string \<Rightarrow> jmap \<Rightarrow> ScheduleErrorCode + string" where
  "occurrence_identity X contract tag semantic =
     rbind (canonical_digest X (JObject (alist_put ''contract'' (JString contract) semantic)))
       (\<lambda>d. Inr (tag @ d))"

definition occurrence_due :: "chrono \<Rightarrow> ScheduleTiming \<Rightarrow> u64 \<Rightarrow> (ScheduleErrorCode + int option) option" where
  "occurrence_due C timing ordinal = (case timing of
      At due \<Rightarrow>
        if ordinal \<noteq> 1 then Some (Inr None)
        else Option.bind (canonical_utc C due) (\<lambda>t. Some (Inr (Some t)))
    | FixedDelay first delay bound \<Rightarrow>
        if (case bound of None \<Rightarrow> False | Some m \<Rightarrow> ordinal > m) then Some (Inr None) else
        pbind (Some (ok_or (checked_sub ordinal 1) OccurrenceOverflow)) (\<lambda>multiplier.
        pbind (Some (ok_or (checked_mul multiplier delay) OccurrenceOverflow)) (\<lambda>offset.
        Option.bind (canonical_utc C first) (\<lambda>t.
        pbind (Some (milliseconds C offset)) (\<lambda>d.
        pbind (Some (ok_or (checked_add_signed C t d) OccurrenceOverflow)) (\<lambda>due.
          Some (Inr (Some due))))))))"

definition schedule_occurrence ::
  "tool_externals \<Rightarrow> chrono \<Rightarrow> ScheduleIntent \<Rightarrow> u64 \<Rightarrow> (ScheduleErrorCode + DueOccurrence option) option" where
  "schedule_occurrence X C i ordinal =
     pbind (occurrence_due C (si_timing i) ordinal) (\<lambda>d. case d of
         None \<Rightarrow> Some (Inr None)
       | Some due \<Rightarrow>
           let due_at = to_rfc3339 C due;
               semantic = [(''due_at_utc'', JString due_at), (''ordinal'', JNumber (PosInt ordinal)),
                 (''revision_id'', JString (si_revision_id i)), (''schedule_id'', JString (si_schedule_id i)),
                 (''version'', JNumber (PosInt (ucast schedule_contract_version)))]
           in Some (
             rbind (occurrence_identity X ''garive.schedule-occurrence'' ''occurrence-'' semantic) (\<lambda>occurrence.
             rbind (occurrence_identity X ''garive.schedule-command'' ''schedule-command-'' semantic) (\<lambda>command.
               Inr (Some \<lparr>do_ordinal = ordinal, do_due_at_utc = due_at, do_occurrence_id = occurrence,
                          do_runtime_command_id = command\<rparr>)))))"

definition max_ordinal :: "ScheduleTiming \<Rightarrow> u64" where
  "max_ordinal t = (case t of At _ \<Rightarrow> 1
     | FixedDelay _ _ bound \<Rightarrow> (case bound of None \<Rightarrow> - 1 | Some m \<Rightarrow> m))"

text \<open>
  The division of the \<open>i64\<close> numbers rounds towards zero. The subtraction of one panics on the least
  number and the division on a zero divisor.
\<close>

definition last_overdue ::
  "chrono \<Rightarrow> ScheduleTiming \<Rightarrow> u64 \<Rightarrow> int \<Rightarrow> int \<Rightarrow> int \<Rightarrow> (ScheduleErrorCode + u64) option" where
  "last_overdue C timing first_ordinal first_due now lateness = (case timing of
      At _ \<Rightarrow> Some (Inr 1)
    | FixedDelay _ delay _ \<Rightarrow>
        pbind (Some (ok_or (checked_sub_signed C now lateness) OccurrenceOverflow)) (\<lambda>cutoff.
        pbind (Some (ok_or (num_nanoseconds C (cutoff - first_due)) OccurrenceOverflow)) (\<lambda>delta.
        pbind (Some (ok_or (checked_mul delay 1000000) OccurrenceOverflow)) (\<lambda>delay_ns.
        pbind (Some (ensure (unat delay_ns < 2 ^ 63) OccurrenceOverflow)) (\<lambda>_.
        if delta = - (2 ^ 63) \<or> delay_ns = 0 then None else
        let additional = (delta - 1) sdiv uint delay_ns
        in pbind (Some (ensure (0 \<le> additional) OccurrenceOverflow)) (\<lambda>_.
           Some (rbind (ok_or (checked_add first_ordinal (of_int additional)) OccurrenceOverflow)
             (\<lambda>l. Inr (min l (max_ordinal timing))))))))))"

definition skip_overdue ::
  "tool_externals \<Rightarrow> chrono \<Rightarrow> ScheduleIntent \<Rightarrow> DueOccurrence \<Rightarrow> int \<Rightarrow> int \<Rightarrow> int
     \<Rightarrow> (ScheduleErrorCode + ScheduleDecision) option" where
  "skip_overdue X C i first first_due now lateness =
     pbind (last_overdue C (si_timing i) (do_ordinal first) first_due now lateness) (\<lambda>last_ordinal.
     pbind (schedule_occurrence X C i last_ordinal) (\<lambda>l.
     pbind (Some (ok_or l OccurrenceOverflow)) (\<lambda>final.
     pbind (if last_ordinal = max_ordinal (si_timing i) then Some (Inr None)
            else pbind (Some (ok_or (checked_add last_ordinal 1) OccurrenceOverflow)) (schedule_occurrence X C i))
       (\<lambda>next_due.
       Some (Inr (Skipped \<lparr>so_first_ordinal = do_ordinal first, so_last_ordinal = last_ordinal,
         so_first_due_at_utc = do_due_at_utc first, so_last_due_at_utc = do_due_at_utc final,
         so_next_due = next_due\<rparr>))))))"

definition next_ordinal :: "u64 option \<Rightarrow> ScheduleErrorCode + u64" where
  "next_ordinal handled = (case handled of
      Some n \<Rightarrow> ok_or (checked_add n 1) OccurrenceOverflow | None \<Rightarrow> Inr 1)"

definition next_occurrence ::
  "tool_externals \<Rightarrow> chrono \<Rightarrow> ScheduleIntent \<Rightarrow> u64 option \<Rightarrow> string
     \<Rightarrow> (ScheduleErrorCode + ScheduleDecision) option" where
  "next_occurrence X C i last_handled observed =
     pbind (Some (ok_or (canonical_utc C observed) ClockInvalid)) (\<lambda>now.
     pbind (Some (next_ordinal last_handled)) (\<lambda>ordinal.
     pbind (schedule_occurrence X C i ordinal) (\<lambda>n. case n of
         None \<Rightarrow> Some (Inr Exhausted)
       | Some next \<Rightarrow>
           pbind (Some (ok_or (canonical_utc C (do_due_at_utc next)) OccurrenceOverflow)) (\<lambda>due.
           if now < due then Some (Inr (NotDue next)) else
           pbind (Some (milliseconds C (si_max_lateness_ms i))) (\<lambda>lateness.
           pbind (Some (ok_or (checked_add_signed C due lateness) OccurrenceOverflow)) (\<lambda>latest.
           if now \<le> latest then Some (Inr (Due next)) else
           case si_misfire_policy i of
             FireOnce \<Rightarrow> Some (Inr (Due next))
           | Fail \<Rightarrow> Some (Inr (FailMisfire next))
           | Skip \<Rightarrow> skip_overdue X C i next due now lateness))))))"

subsection \<open>What chrono promises\<close>

definition chrono_laws :: "chrono \<Rightarrow> bool" where
  "chrono_laws C \<longleftrightarrow>
     (\<forall>t d u. checked_add_signed C t d = Some u \<longrightarrow> u = t + d)
   \<and> (\<forall>t d u. checked_sub_signed C t d = Some u \<longrightarrow> u = t - d)
   \<and> (\<forall>n d. try_milliseconds C n = Some d \<longrightarrow> d = n * 1000000)
   \<and> (\<forall>d n. num_nanoseconds C d = Some n \<longrightarrow> n = d \<and> - (2 ^ 63) \<le> n \<and> n < 2 ^ 63)
   \<and> (\<forall>t u. parse_from_rfc3339 C (to_rfc3339 C t) = Some u \<longrightarrow> u = t)"

lemma chrono_lawsD:
  assumes "chrono_laws C"
  shows "checked_add_signed C t d = Some u \<Longrightarrow> u = t + d"
    and "checked_sub_signed C t d = Some u \<Longrightarrow> u = t - d"
    and "try_milliseconds C n = Some d \<Longrightarrow> d = n * 1000000"
    and "num_nanoseconds C d = Some n \<Longrightarrow> n = d \<and> - (2 ^ 63) \<le> n \<and> n < 2 ^ 63"
    and "canonical_utc C (to_rfc3339 C t) = Some u \<Longrightarrow> u = t"
  using assms by (auto simp: chrono_laws_def canonical_utc_def bind_eq_Some_conv split: if_splits)

subsection \<open>The declared occurrences\<close>

text \<open>
  The specification: which ordinals a timing declares, when each is due, and which of them are late at
  an instant, over unbounded numbers.
\<close>

definition declared_ordinal :: "ScheduleTiming \<Rightarrow> nat \<Rightarrow> bool" where
  "declared_ordinal t k \<longleftrightarrow> 0 < k \<and> k \<le> unat (max_ordinal t)"

definition due_ns :: "chrono \<Rightarrow> ScheduleTiming \<Rightarrow> nat \<Rightarrow> int" where
  "due_ns C t k = (case t of
      At due \<Rightarrow> the (canonical_utc C due)
    | FixedDelay first delay _ \<Rightarrow> the (canonical_utc C first) + (int k - 1) * (uint delay * 1000000))"

definition late_at :: "chrono \<Rightarrow> ScheduleIntent \<Rightarrow> int \<Rightarrow> nat \<Rightarrow> bool" where
  "late_at C i now k \<longleftrightarrow> due_ns C (si_timing i) k + uint (si_max_lateness_ms i) * 1000000 < now"

definition occurrence_of :: "chrono \<Rightarrow> ScheduleIntent \<Rightarrow> nat \<Rightarrow> DueOccurrence \<Rightarrow> bool" where
  "occurrence_of C i k x \<longleftrightarrow> declared_ordinal (si_timing i) k \<and> unat (do_ordinal x) = k
     \<and> do_due_at_utc x = to_rfc3339 C (due_ns C (si_timing i) k)"

lemma schedule_intent_valid:
  assumes "schedule_intent C s r sub b t p n l = Inr i"
  shows "valid_timing C (si_timing i)" and "si_max_lateness_ms i \<noteq> 0"
  using assms by (auto simp: schedule_intent_def Let_def split: if_splits)

lemma milliseconds_ns: "chrono_laws C \<Longrightarrow> milliseconds C n = Inr d \<Longrightarrow> d = uint n * 1000000"
  using chrono_lawsD(3) by (auto simp: milliseconds_def ok_or_eq_Inr split: if_splits)

lemma int_unat: "int (unat a) = uint a"
  by simp

lemma occurrence_due_ns:
  assumes "chrono_laws C" and "valid_timing C t" and "occurrence_due C t n = Some (Inr (Some d))"
  shows "declared_ordinal t (unat n) \<and> d = due_ns C t (unat n)"
proof (cases t)
  case (At due)
  with assms(3) show ?thesis
    by (auto simp: occurrence_due_def declared_ordinal_def max_ordinal_def due_ns_def bind_eq_Some_conv split: if_splits)
next
  case (FixedDelay first delay bound)
  with assms(3) obtain k off f m where n: "checked_sub n 1 = Some k" "checked_mul k delay = Some off"
      "canonical_utc C first = Some f" "milliseconds C off = Inr m" "checked_add_signed C f m = Some d"
      and le: "n \<le> max_ordinal t"
    by (auto simp: occurrence_due_def pbind_eq_Inr ok_or_eq_Inr bind_eq_Some_conv max_ordinal_def not_less
        split: if_splits option.splits)
  have "unat k = unat n - 1" "1 \<le> unat n"
    using unat_checked_sub [OF n(1)] by simp_all
  moreover have "uint off = int (unat k) * uint delay"
    using unat_checked_mul [OF n(2)] by (metis of_nat_mult int_unat)
  moreover have "d = f + uint off * 1000000"
    using chrono_lawsD(1) [OF assms(1) n(5)] milliseconds_ns [OF assms(1) n(4)] by simp
  ultimately show ?thesis
    using FixedDelay n(3) le by (simp add: declared_ordinal_def due_ns_def word_le_nat_alt)
qed

lemma occurrence_due_None:
  "occurrence_due C t n = Some (Inr None) \<Longrightarrow> unat (max_ordinal t) < unat n \<or> n = 0"
  by (auto simp: occurrence_due_def max_ordinal_def pbind_eq_Inr ok_or_eq_Inr bind_eq_Some_conv word_less_nat_alt
      unat_eq_0 split: ScheduleTiming.splits if_splits option.splits)
    (metis One_nat_def Suc_lessI not_gr_zero unat_1 unat_eq_0 word_unat_eq_iff)

lemma schedule_occurrence_of:
  assumes "chrono_laws C" and "valid_timing C (si_timing i)"
  shows "schedule_occurrence X C i n = Some (Inr (Some x)) \<Longrightarrow> occurrence_of C i (unat n) x \<and> do_ordinal x = n"
    and "schedule_occurrence X C i n = Some (Inr None) \<Longrightarrow> n \<noteq> 0 \<Longrightarrow> \<not> declared_ordinal (si_timing i) (unat n)"
  using occurrence_due_ns [OF assms] occurrence_due_None
  by (fastforce simp: schedule_occurrence_def pbind_eq_Inr rbind_eq_Inr Let_def occurrence_of_def declared_ordinal_def
      split: option.splits)+

subsection \<open>Skipped ranges\<close>

lemma sdiv_nonneg: "0 \<le> a \<Longrightarrow> 0 < b \<Longrightarrow> a sdiv b = a div b" for a b :: int
  by (cases "a = 0") (simp_all add: signed_divide_int_def)

lemma mult_less_iff_le_div:
  fixes a b j :: int
  assumes "0 < b"
  shows "j * b < a \<longleftrightarrow> j \<le> (a - 1) div b"
proof
  assume "j * b < a"
  then have "j * b div b \<le> (a - 1) div b"
    using assms by (intro zdiv_mono1) simp_all
  then show "j \<le> (a - 1) div b"
    using assms by simp
next
  assume "j \<le> (a - 1) div b"
  then have "j * b \<le> (a - 1) div b * b"
    using assms by simp
  also have "\<dots> \<le> a - 1"
    using pos_mod_sign [OF assms, of "a - 1"] by (simp add: minus_mod_eq_div_mult [symmetric])
  finally show "j * b < a"
    by simp
qed

lemma unat_of_int: "0 \<le> a \<Longrightarrow> a < 2 ^ 64 \<Longrightarrow> unat (of_int a :: u64) = nat a"
  by (simp add: unat_eq_nat_uint uint_word_of_int)

lemma last_overdue_exact:
  assumes laws: "chrono_laws C" and valid: "valid_timing C t"
    and first: "declared_ordinal t (unat n)" "due_ns C t (unat n) + lateness < now"
    and l: "last_overdue C t n (due_ns C t (unat n)) now lateness = Some (Inr l)"
  shows "unat n \<le> k \<and> k \<le> unat l \<longleftrightarrow> unat n \<le> k \<and> declared_ordinal t k \<and> due_ns C t k + lateness < now"
proof (cases t)
  case (At due)
  with l first show ?thesis
    by (auto simp: last_overdue_def declared_ordinal_def max_ordinal_def due_ns_def)
next
  case (FixedDelay f delay bound)
  let ?D = "uint delay * 1000000" and ?delta = "now - lateness - due_ns C t (unat n)"
  from l FixedDelay obtain c e w where step: "checked_sub_signed C now lateness = Some c"
      "num_nanoseconds C (c - due_ns C t (unat n)) = Some e" "checked_mul delay 1000000 = Some w" "w \<noteq> 0"
      "0 \<le> (e - 1) sdiv uint w"
    and sum: "rbind (ok_or (checked_add n (of_int ((e - 1) sdiv uint w))) OccurrenceOverflow)
        (\<lambda>l. Inr (min l (max_ordinal t))) = Inr l"
    by (auto simp: last_overdue_def pbind_eq_Inr ok_or_eq_Inr ensure_eq_Inr Let_def split: if_splits)
  have c: "c = now - lateness"
    using chrono_lawsD(2) [OF laws step(1)] .
  then have e: "e = ?delta" "e < 2 ^ 63"
    using chrono_lawsD(4) [OF laws step(2)] by auto
  have million: "unat (1000000 :: u64) = 1000000"
    by simp
  have "unat w = unat delay * 1000000"
    using unat_checked_mul [OF step(3)] unfolding million .
  then have "int (unat w) = int (unat delay) * 1000000"
    by (simp only: of_nat_mult of_nat_numeral)
  then have w: "uint w = ?D"
    by (simp only: int_unat)
  have D: "0 < ?D"
    using w step(4) by (metis uint_0_iff uint_ge_0 order_less_le)
  let ?a = "(?delta - 1) div ?D"
  have pos: "0 \<le> ?delta - 1"
    using first(2) by simp
  then have a: "(e - 1) sdiv uint w = ?a" "0 \<le> ?a"
    using e(1) D w by (simp_all add: sdiv_nonneg pos_imp_zdiv_nonneg_iff)
  have "?a \<le> ?delta - 1"
    using pos D zdiv_mono2 [of "?delta - 1" 1 ?D] by simp
  then have a_bound: "?a < 2 ^ 64"
    using e by simp
  have step_due: "due_ns C t k = due_ns C t (unat n) + (int k - int (unat n)) * ?D"
    using FixedDelay by (simp add: due_ns_def algebra_simps)
  have late: "due_ns C t k + lateness < now \<longleftrightarrow> int k - int (unat n) \<le> ?a"
    using mult_less_iff_le_div [OF D, of "int k - int (unat n)" ?delta] step_due by linarith
  have "unat l = min (unat n + nat ?a) (unat (max_ordinal t))"
  proof -
    from sum obtain r where r: "checked_add n (of_int ?a) = Some r" "l = min r (max_ordinal t)"
      unfolding a(1) rbind_eq_Inr ok_or_eq_Inr by auto
    have "unat (of_int ?a :: u64) = nat ?a"
      using a(2) a_bound by (rule unat_of_int)
    then have "unat r = unat n + nat ?a"
      using unat_checked_add [OF r(1)] by simp
    then show ?thesis
      using r(2) by (auto simp: min_def word_le_nat_alt)
  qed
  moreover have "due_ns C t k + lateness < now \<longleftrightarrow> k \<le> unat n + nat ?a"
    unfolding late using a(2) by linarith
  ultimately show ?thesis
    using first(1) by (auto simp: declared_ordinal_def)
qed

subsection \<open>Decisions\<close>

text \<open>What a decision states, for the ordinal \<open>n\<close> after the last handled one.\<close>

definition decision_ok :: "chrono \<Rightarrow> ScheduleIntent \<Rightarrow> int \<Rightarrow> nat \<Rightarrow> ScheduleDecision \<Rightarrow> bool" where
  "decision_ok C i now n d \<longleftrightarrow> (case d of
      NotDue x \<Rightarrow> occurrence_of C i n x \<and> now < due_ns C (si_timing i) n
    | Due x \<Rightarrow> occurrence_of C i n x \<and> due_ns C (si_timing i) n \<le> now
        \<and> (late_at C i now n \<longrightarrow> si_misfire_policy i = FireOnce)
    | FailMisfire x \<Rightarrow> occurrence_of C i n x \<and> late_at C i now n \<and> si_misfire_policy i = Fail
    | Exhausted \<Rightarrow> \<not> declared_ordinal (si_timing i) n
    | Skipped r \<Rightarrow> si_misfire_policy i = Skip \<and> unat (so_first_ordinal r) = n
        \<and> (\<forall>k. n \<le> k \<and> k \<le> unat (so_last_ordinal r) \<longleftrightarrow>
             n \<le> k \<and> declared_ordinal (si_timing i) k \<and> late_at C i now k)
        \<and> n \<le> unat (so_last_ordinal r)
        \<and> so_first_due_at_utc r = to_rfc3339 C (due_ns C (si_timing i) n)
        \<and> so_last_due_at_utc r = to_rfc3339 C (due_ns C (si_timing i) (unat (so_last_ordinal r)))
        \<and> (case so_next_due r of
             None \<Rightarrow> \<not> declared_ordinal (si_timing i) (Suc (unat (so_last_ordinal r)))
           | Some x \<Rightarrow> occurrence_of C i (Suc (unat (so_last_ordinal r))) x))"

lemma skip_overdue_ok:
  assumes laws: "chrono_laws C" and valid: "valid_timing C (si_timing i)"
    and first: "occurrence_of C i n x" "late_at C i now n" "si_misfire_policy i = Skip"
    and r: "skip_overdue X C i x (due_ns C (si_timing i) n) now (uint (si_max_lateness_ms i) * 1000000) = Some (Inr d)"
  shows "decision_ok C i now n d"
proof -
  let ?t = "si_timing i"
  have n: "unat (do_ordinal x) = n" "declared_ordinal ?t n"
    using first(1) by (simp_all add: occurrence_of_def)
  from r obtain l y nd where l: "last_overdue C ?t (do_ordinal x) (due_ns C ?t n) now (uint (si_max_lateness_ms i) * 1000000) = Some (Inr l)"
      and y: "schedule_occurrence X C i l = Some (Inr (Some y))"
      and nd: "(if l = max_ordinal ?t then Some (Inr None)
            else pbind (Some (ok_or (checked_add l 1) OccurrenceOverflow)) (schedule_occurrence X C i)) = Some (Inr nd)"
      and d: "d = Skipped \<lparr>so_first_ordinal = do_ordinal x, so_last_ordinal = l,
         so_first_due_at_utc = do_due_at_utc x, so_last_due_at_utc = do_due_at_utc y, so_next_due = nd\<rparr>"
    by (auto simp: skip_overdue_def pbind_eq_Inr ok_or_eq_Inr)
  have range: "n \<le> k \<and> k \<le> unat l \<longleftrightarrow> n \<le> k \<and> declared_ordinal ?t k \<and> late_at C i now k" for k
    using last_overdue_exact [OF laws valid _ _ l [folded n(1)], of k] n first(2)
    by (simp add: late_at_def)
  have "occurrence_of C i (unat l) y"
    using schedule_occurrence_of(1) [OF laws valid y] by simp
  moreover have "case nd of None \<Rightarrow> \<not> declared_ordinal ?t (Suc (unat l)) | Some z \<Rightarrow> occurrence_of C i (Suc (unat l)) z"
  proof (cases "l = max_ordinal ?t")
    case True
    with nd show ?thesis by (auto simp: declared_ordinal_def)
  next
    case False
    with nd obtain m where m: "checked_add l 1 = Some m" "schedule_occurrence X C i m = Some (Inr nd)"
      by (auto simp: pbind_eq_Inr ok_or_eq_Inr)
    have "unat m = Suc (unat l)"
      using m(1) by (rule unat_checked_succ)
    moreover from this have "m \<noteq> 0"
      by auto
    ultimately show ?thesis
      using m(2) schedule_occurrence_of [OF laws valid, of X m] by (cases nd) auto
  qed
  ultimately show ?thesis
    using range [of n] range n first by (cases nd) (simp_all add: decision_ok_def d occurrence_of_def)
qed

lemma next_ordinal_unat:
  "next_ordinal h = Inr n \<Longrightarrow> unat n = (case h of None \<Rightarrow> 1 | Some m \<Rightarrow> Suc (unat m))"
  by (auto simp: next_ordinal_def ok_or_eq_Inr unat_checked_succ split: option.splits)

lemma decision_ordinal:
  assumes "next_occurrence X C i h observed = Some (Inr d)"
  shows "\<exists>now n. canonical_utc C observed = Some now \<and> next_ordinal h = Inr n"
  using assms by (auto simp: next_occurrence_def pbind_eq_Inr ok_or_eq_Inr)

lemma next_occurrence_ok:
  assumes laws: "chrono_laws C" and valid: "valid_timing C (si_timing i)"
    and now: "canonical_utc C observed = Some now" and n: "next_ordinal h = Inr n"
    and d: "next_occurrence X C i h observed = Some (Inr d)"
  shows "decision_ok C i now (unat n) d"
proof -
  have n0: "n \<noteq> 0"
    using next_ordinal_unat [OF n] by (auto split: option.splits)
  from d now n obtain q where q: "schedule_occurrence X C i n = Some (Inr q)"
    by (auto simp: next_occurrence_def pbind_eq_Inr)
  show ?thesis
  proof (cases q)
    case None
    with q d now n have "d = Exhausted"
      by (simp add: next_occurrence_def)
    with q None n0 show ?thesis
      using schedule_occurrence_of(2) [OF laws valid] by (simp add: decision_ok_def)
  next
    case (Some x)
    have x: "occurrence_of C i (unat n) x"
      using schedule_occurrence_of(1) [OF laws valid] q Some by blast
    let ?due = "due_ns C (si_timing i) (unat n)" and ?late = "uint (si_max_lateness_ms i) * 1000000"
    from d now n q Some obtain due where due: "canonical_utc C (do_due_at_utc x) = Some due"
      by (auto simp: next_occurrence_def pbind_eq_Inr ok_or_eq_Inr)
    then have [simp]: "due = ?due"
      using x chrono_lawsD(5) [OF laws] by (simp add: occurrence_of_def)
    show ?thesis
    proof (cases "now < ?due")
      case True
      with d now n q Some due x show ?thesis
        by (auto simp: next_occurrence_def decision_ok_def)
    next
      case False
      with d now n q Some due obtain late latest where late: "milliseconds C (si_max_lateness_ms i) = Inr late"
          "checked_add_signed C ?due late = Some latest"
        by (auto simp: next_occurrence_def pbind_eq_Inr ok_or_eq_Inr)
      have [simp]: "late = ?late" "latest = ?due + ?late"
        using milliseconds_ns [OF laws late(1)] chrono_lawsD(1) [OF laws late(2)] by simp_all
      show ?thesis
        using d now n q Some due late False x skip_overdue_ok [OF laws valid x, of now]
        by (auto simp: next_occurrence_def decision_ok_def late_at_def split: if_splits MisfirePolicy.splits)
    qed
  qed
qed

lemma schedule_occurrence_total:
  assumes "valid_timing C (si_timing i)"
  shows "schedule_occurrence X C i n \<noteq> None"
proof
  assume "schedule_occurrence X C i n = None"
  then have "occurrence_due C (si_timing i) n = None"
    by (auto simp: schedule_occurrence_def pbind_eq_None Let_def split: option.splits)
  with assms show False
    by (auto simp: occurrence_due_def valid_timing_def pbind_eq_None bind_eq_None_conv
        split: ScheduleTiming.splits if_splits)
qed

lemma last_overdue_total:
  assumes laws: "chrono_laws C" and "valid_timing C t" and late: "first_due + lateness < now"
  shows "last_overdue C t n first_due now lateness \<noteq> None"
proof
  assume none: "last_overdue C t n first_due now lateness = None"
  then obtain f delay bound where t: "t = FixedDelay f delay bound"
    by (cases t) (auto simp: last_overdue_def)
  with none obtain c e w where e: "checked_sub_signed C now lateness = Some c"
      "num_nanoseconds C (c - first_due) = Some e" "checked_mul delay 1000000 = Some w"
      and "e = - (2 ^ 63) \<or> w = 0"
    by (auto simp: last_overdue_def pbind_eq_None ok_or_eq_Inr Let_def split: if_splits)
  moreover have "0 < e"
    using chrono_lawsD(2) [OF laws e(1)] chrono_lawsD(4) [OF laws e(2)] late by auto
  moreover have "unat w = unat delay * unat (1000000 :: u64)"
    using e(3) by (rule unat_checked_mul)
  ultimately show False
    using assms(2) t by (auto simp: valid_timing_def unat_eq_0)
qed

lemma next_occurrence_total:
  assumes laws: "chrono_laws C" and valid: "valid_timing C (si_timing i)"
  shows "next_occurrence X C i h observed \<noteq> None"
proof
  note occ = schedule_occurrence_total [OF valid]
  assume "next_occurrence X C i h observed = None"
  then obtain now n x due late latest where x: "schedule_occurrence X C i n = Some (Inr (Some x))"
      and late: "milliseconds C (si_max_lateness_ms i) = Inr late" "checked_add_signed C due late = Some latest"
        "\<not> now \<le> latest" and none: "skip_overdue X C i x due now late = None"
    using occ by (cases "si_misfire_policy i")
      (auto simp: next_occurrence_def pbind_eq_None ok_or_eq_Inr split: option.splits if_splits)
  have "due + late < now"
    using chrono_lawsD(1) [OF laws late(2)] late(3) by simp
  then have "last_overdue C (si_timing i) (do_ordinal x) due now late \<noteq> None"
    by (rule last_overdue_total [OF laws valid])
  with none occ show False
    by (auto simp: skip_overdue_def pbind_eq_None split: if_splits)
qed

subsection \<open>Handling decisions\<close>

text \<open>
  A worker that handles decisions: firing an occurrence handles its ordinal, skipping a range handles
  its last one. Each decision may be taken at another clock.
\<close>

fun handled_ordinal :: "ScheduleDecision \<Rightarrow> u64 option" where
  "handled_ordinal (Due x) = Some (do_ordinal x)"
| "handled_ordinal (Skipped r) = Some (so_last_ordinal r)"
| "handled_ordinal _ = None"

inductive schedule_run :: "tool_externals \<Rightarrow> chrono \<Rightarrow> ScheduleIntent \<Rightarrow> nat \<Rightarrow> u64 option \<Rightarrow> bool"
  for X C i where
  fresh: "schedule_run X C i 0 None"
| handle: "schedule_run X C i n h \<Longrightarrow> next_occurrence X C i h observed = Some (Inr d) \<Longrightarrow>
     handled_ordinal d = Some k \<Longrightarrow> schedule_run X C i (Suc n) (Some k)"

lemma handled_ordinal_advances:
  assumes "decision_ok C i now n d" and "handled_ordinal d = Some k"
  shows "n \<le> unat k" and "declared_ordinal (si_timing i) (unat k)"
proof -
  have "n \<le> unat k \<and> declared_ordinal (si_timing i) (unat k)"
    using assms by (cases d) (auto simp: decision_ok_def occurrence_of_def)
  then show "n \<le> unat k" and "declared_ordinal (si_timing i) (unat k)"
    by simp_all
qed

lemma decision_at_next:
  assumes "chrono_laws C" and "valid_timing C (si_timing i)" and "next_occurrence X C i h observed = Some (Inr d)"
  shows "\<exists>now. canonical_utc C observed = Some now
    \<and> decision_ok C i now (case h of None \<Rightarrow> 1 | Some m \<Rightarrow> Suc (unat m)) d"
proof -
  from decision_ordinal [OF assms(3)] obtain now n where "canonical_utc C observed = Some now" "next_ordinal h = Inr n"
    by blast
  then show ?thesis
    using next_occurrence_ok [OF assms(1,2) _ _ assms(3)] next_ordinal_unat by metis
qed

lemma schedule_run_handled:
  assumes "chrono_laws C" and "valid_timing C (si_timing i)" and "schedule_run X C i n h"
  shows "n \<le> (case h of None \<Rightarrow> 0 | Some k \<Rightarrow> unat k) \<and> pred_option (\<lambda>k. declared_ordinal (si_timing i) (unat k)) h"
  using assms(3)
proof induction
  case (handle n h observed d k)
  obtain now where ok: "decision_ok C i now (case h of None \<Rightarrow> 1 | Some m \<Rightarrow> Suc (unat m)) d"
    using decision_at_next [OF assms(1,2) handle(2)] by blast
  show ?case
    using handled_ordinal_advances [OF ok handle(3)] handle.IH by (auto split: option.splits)
qed simp

lemma skipped_range:
  assumes "decision_ok C i now n (Skipped r)"
  shows "n \<le> k \<and> k \<le> unat (so_last_ordinal r) \<longleftrightarrow> n \<le> k \<and> declared_ordinal (si_timing i) k \<and> late_at C i now k"
    and "n \<le> unat (so_last_ordinal r)" and "si_misfire_policy i = Skip"
  using assms by (simp_all add: decision_ok_def)

lemma skip_is_complete:
  assumes "decision_ok C i now n (Skipped r)" and "decision_ok C i now (Suc (unat (so_last_ordinal r))) d"
  shows "d \<noteq> Skipped q \<and> d \<noteq> FailMisfire x"
proof -
  let ?m = "Suc (unat (so_last_ordinal r))"
  note r = skipped_range [OF assms(1)]
  have "\<not> (declared_ordinal (si_timing i) ?m \<and> late_at C i now ?m)"
    using r(1) [of ?m] r(2) by simp
  moreover have "declared_ordinal (si_timing i) ?m \<and> late_at C i now ?m" if "d = Skipped q"
    using skipped_range(1) [of C i now ?m q ?m] skipped_range(2) [of C i now ?m q] assms(2) that by simp
  moreover have "si_misfire_policy i = Fail" if "d = FailMisfire x"
    using assms(2) that by (simp add: decision_ok_def)
  ultimately show ?thesis
    using r(3) by auto
qed

subsection \<open>Bindings\<close>

definition semantics_of :: "ScheduleIntent \<Rightarrow> IntentSemantics" where
  "semantics_of i = \<lparr>is_contract = intent_contract, is_version = schedule_contract_version,
     is_subject = si_subject i, is_subject_binding_digest = si_subject_binding_digest i,
     is_timing = si_timing i, is_misfire_policy = si_misfire_policy i,
     is_max_lateness_ms = si_max_lateness_ms i, is_effective_limits_digest = si_effective_limits_digest i\<rparr>"

definition intent_built :: "chrono \<Rightarrow> ScheduleIntent \<Rightarrow> bool" where
  "intent_built C i \<longleftrightarrow> schedule_intent C (si_schedule_id i) (si_revision_id i) (si_subject i)
     (si_subject_binding_digest i) (si_timing i) (si_misfire_policy i) (si_max_lateness_ms i)
     (si_effective_limits_digest i) = Inr i"

lemma schedule_intent_iff:
  "schedule_intent C s r sub b t p m l = Inr i \<longleftrightarrow> intent_built C i \<and>
     i = \<lparr>si_schedule_id = s, si_revision_id = r, si_subject = sub, si_subject_binding_digest = b,
          si_timing = t, si_misfire_policy = p, si_max_lateness_ms = m, si_effective_limits_digest = l\<rparr>"
  by (auto simp: intent_built_def schedule_intent_def Let_def split: if_splits)

lemma semantics_value_of: "semantics_value (semantics_of i) = intent_value i"
  by (simp add: semantics_value_def semantics_of_def intent_value_def)

lemma from_binding_sound:
  assumes "from_binding parse X C s r b = Inr i"
  shows "intent_built C i \<and> si_schedule_id i = s \<and> si_revision_id i = r \<and> intent_binding X i = Inr b"
proof -
  from assms obtain v where v: "jcs X (semantics_value v) = Some (sb_inline_utf8 b)" "sha256 X (sb_inline_utf8 b) = sb_digest b"
      "is_contract v = intent_contract" "is_version v = schedule_contract_version"
    and i: "schedule_intent C s r (is_subject v) (is_subject_binding_digest v) (is_timing v)
                 (is_misfire_policy v) (is_max_lateness_ms v) (is_effective_limits_digest v) = Inr i"
    by (auto simp: from_binding_def rbind_eq_Inr ok_or_eq_Inr split: if_splits sum.splits)
  have built: "intent_built C i" "si_schedule_id i = s" "si_revision_id i = r"
    using i unfolding schedule_intent_iff by auto
  have "v = semantics_of i"
    using v(3,4) i by (simp add: schedule_intent_iff semantics_of_def)
  then have "jcs X (intent_value i) = Some (sb_inline_utf8 b)"
    using v(1) semantics_value_of by simp
  then show ?thesis
    using built v(2) by (simp add: intent_binding_def)
qed

lemma from_binding_exact:
  assumes "\<And>v s. jcs X (semantics_value v) = Some s \<Longrightarrow> parse s = Some v"
  shows "from_binding parse X C s r b = Inr i \<longleftrightarrow>
    intent_built C i \<and> si_schedule_id i = s \<and> si_revision_id i = r \<and> intent_binding X i = Inr b"
proof
  assume i: "intent_built C i \<and> si_schedule_id i = s \<and> si_revision_id i = r \<and> intent_binding X i = Inr b"
  then have b: "jcs X (semantics_value (semantics_of i)) = Some (sb_inline_utf8 b)" "sb_digest b = sha256 X (sb_inline_utf8 b)"
    by (auto simp: intent_binding_def semantics_value_of rbind_eq_Inr ok_or_eq_Inr)
  have built: "schedule_intent C s r (si_subject i) (si_subject_binding_digest i) (si_timing i) (si_misfire_policy i)
      (si_max_lateness_ms i) (si_effective_limits_digest i) = Inr i"
    using i unfolding intent_built_def by auto
  have "parse (sb_inline_utf8 b) = Some (semantics_of i)"
    by (rule assms) (rule b(1))
  with b built show "from_binding parse X C s r b = Inr i"
    by (simp add: from_binding_def) (simp add: semantics_of_def)
qed (rule from_binding_sound)

subsection \<open>A schedule of one occurrence a minute\<close>

definition sample_instants :: "(int \<times> string) list" where
  "sample_instants =
     [(0, ''1970-01-01T00:00:00Z''), (60000000000, ''1970-01-01T00:01:00Z''),
      (120000000000, ''1970-01-01T00:02:00Z''), (180000000000, ''1970-01-01T00:03:00Z''),
      (240000000000, ''1970-01-01T00:04:00Z''), (300000000000, ''1970-01-01T00:05:00Z'')]"

definition sample_chrono :: chrono where
  "sample_chrono = \<lparr>
     parse_from_rfc3339 = map_of (map prod.swap sample_instants),
     to_rfc3339 = (\<lambda>t. case map_of sample_instants t of None \<Rightarrow> [] | Some s \<Rightarrow> s),
     checked_add_signed = (\<lambda>t d. Some (t + d)),
     checked_sub_signed = (\<lambda>t d. Some (t - d)),
     try_milliseconds = (\<lambda>n. Some (n * 1000000)),
     num_nanoseconds = (\<lambda>d. if - (2 ^ 63) \<le> d \<and> d < 2 ^ 63 then Some d else None)\<rparr>"

lemma sample_chrono_laws: "chrono_laws sample_chrono"
  by (auto simp: chrono_laws_def sample_chrono_def sample_instants_def split: if_splits option.splits)

definition sample_schedule :: ScheduleIntent where
  "sample_schedule = \<lparr>si_schedule_id = ''schedule-1'', si_revision_id = ''revision-1'', si_subject = StartTurn,
     si_subject_binding_digest = replicate 64 CHR ''a'',
     si_timing = FixedDelay ''1970-01-01T00:00:00Z'' 60000 (Some 10), si_misfire_policy = Skip,
     si_max_lateness_ms = 30000, si_effective_limits_digest = replicate 64 CHR ''b''\<rparr>"

lemma sample_schedule_made:
  "schedule_intent sample_chrono ''schedule-1'' ''revision-1'' StartTurn (replicate 64 CHR ''a'')
     (FixedDelay ''1970-01-01T00:00:00Z'' 60000 (Some 10)) Skip 30000 (replicate 64 CHR ''b'') = Inr sample_schedule"
proof -
  have "schedule_valid_id ''schedule-1''" "schedule_valid_id ''revision-1''"
    by (simp_all add: schedule_valid_id_def trimmed_def white_space_def byte_def starts_with_def ends_with_def char_of_def)
  moreover have "valid_digest (replicate 64 CHR ''a'')" "valid_digest (replicate 64 CHR ''b'')"
    by (simp_all add: valid_digest_def lower_hex_def list_all_iff)
  moreover have "valid_timing sample_chrono (FixedDelay ''1970-01-01T00:00:00Z'' 60000 (Some 10))"
    by (simp add: valid_timing_def canonical_utc_def sample_chrono_def sample_instants_def)
  ultimately show ?thesis
    by (simp add: schedule_intent_def sample_schedule_def)
qed

text \<open>After five minutes without a worker, the five occurrences that are late by more than half a minute are skipped.\<close>

definition sample_skip :: SkippedOccurrences where
  "sample_skip = \<lparr>so_first_ordinal = 1, so_last_ordinal = 5, so_first_due_at_utc = ''1970-01-01T00:00:00Z'',
     so_last_due_at_utc = ''1970-01-01T00:04:00Z'',
     so_next_due = Some \<lparr>do_ordinal = 6, do_due_at_utc = ''1970-01-01T00:05:00Z'',
       do_occurrence_id = ''occurrence-canonical'', do_runtime_command_id = ''schedule-command-canonical''\<rparr>\<rparr>"

lemmas sample_eval_schedule = canonical_utc_def sample_chrono_def sample_instants_def sample_schedule_def
  next_ordinal_def schedule_occurrence_def occurrence_due_def checked_sub_def checked_mul_def milliseconds_def
  occurrence_identity_def canonical_digest_def sample_tools_def skip_overdue_def last_overdue_def max_ordinal_def
  checked_add_def ensure_def signed_divide_int_def sample_skip_def word_le_nat_alt word_less_nat_alt Let_def

lemma sample_skip_decision:
  "next_occurrence sample_tools sample_chrono sample_schedule None ''1970-01-01T00:05:00Z'' = Some (Inr (Skipped sample_skip))"
  by (simp add: next_occurrence_def sample_eval_schedule)


subsection \<open>Properties\<close>

text \<open>
  C34. For an intent made by its constructor the reduction to the next occurrence returns without a
  panic, and a decision it returns is the one the declaration calls for: exhausted exactly after the
  last declared ordinal, not due before the instant of the occurrence, due from then on within the
  lateness bound, and beyond it due, failed or skipped as the misfire policy says, where the skipped
  range is exactly the declared occurrences from this one on that are too late.
\<close>

theorem next_occurrence_exact:
  assumes "chrono_laws C" and "schedule_intent C s r subject binding t p lateness ld = Inr i"
  shows "next_occurrence X C i handled observed \<noteq> None
    \<and> (\<forall>d. next_occurrence X C i handled observed = Some (Inr d) \<longrightarrow>
         (\<exists>now. canonical_utc C observed = Some now
            \<and> decision_ok C i now (case handled of None \<Rightarrow> 1 | Some m \<Rightarrow> Suc (unat m)) d))"
  using next_occurrence_total [OF assms(1) schedule_intent_valid(1) [OF assms(2)]]
    decision_at_next [OF assms(1) schedule_intent_valid(1) [OF assms(2)]] by blast

theorem next_occurrence_exact_witness:
  "next_occurrence sample_tools sample_chrono sample_schedule None ''1970-01-01T00:05:00Z'' = Some (Inr (Skipped sample_skip))
   \<and> decision_ok sample_chrono sample_schedule 300000000000 1 (Skipped sample_skip)"
proof -
  have now: "canonical_utc sample_chrono ''1970-01-01T00:05:00Z'' = Some 300000000000"
    by (simp add: canonical_utc_def sample_chrono_def sample_instants_def)
  show ?thesis
    using next_occurrence_exact [OF sample_chrono_laws sample_schedule_made, of sample_tools None "''1970-01-01T00:05:00Z''"]
      sample_skip_decision now by auto
qed

text \<open>
  C35. A schedule driven by its own decisions, at whatever instants it is asked, handles at most as
  many of them as it has declared ordinals, and one skip at an instant is final there: asked again
  at the same instant the schedule neither skips nor fails.
\<close>

theorem schedule_run_ends:
  assumes "chrono_laws C" and "schedule_intent C s r subject binding t p lateness ld = Inr i"
  shows "(schedule_run X C i n h \<longrightarrow> n \<le> unat (max_ordinal (si_timing i)))
    \<and> (next_occurrence X C i h observed = Some (Inr (Skipped q))
        \<and> next_occurrence X C i (Some (so_last_ordinal q)) observed = Some (Inr d) \<longrightarrow>
       (\<forall>q'. d \<noteq> Skipped q') \<and> (\<forall>x. d \<noteq> FailMisfire x))"
proof (intro conjI impI)
  note valid = schedule_intent_valid(1) [OF assms(2)]
  show "n \<le> unat (max_ordinal (si_timing i))" if "schedule_run X C i n h"
    using schedule_run_handled [OF assms(1) valid that] by (auto simp: declared_ordinal_def split: option.splits)
  assume twice: "next_occurrence X C i h observed = Some (Inr (Skipped q))
    \<and> next_occurrence X C i (Some (so_last_ordinal q)) observed = Some (Inr d)"
  obtain now where now: "canonical_utc C observed = Some now"
      "decision_ok C i now (case h of None \<Rightarrow> 1 | Some m \<Rightarrow> Suc (unat m)) (Skipped q)"
    using decision_at_next [OF assms(1) valid, of X h observed "Skipped q"] twice by auto
  moreover have "decision_ok C i now (Suc (unat (so_last_ordinal q))) d"
    using decision_at_next [OF assms(1) valid, of X "Some (so_last_ordinal q)" observed d] twice now(1) by auto
  ultimately have "d \<noteq> Skipped q' \<and> d \<noteq> FailMisfire x" for q' x
    by (intro skip_is_complete)
  then show "\<forall>q'. d \<noteq> Skipped q'" and "\<forall>x. d \<noteq> FailMisfire x"
    by blast+
qed

theorem schedule_run_ends_witness:
  "schedule_run sample_tools sample_chrono sample_schedule 1 (Some 5)
   \<and> 1 \<le> unat (max_ordinal (si_timing sample_schedule))
   \<and> (\<exists>x. next_occurrence sample_tools sample_chrono sample_schedule (Some 5) ''1970-01-01T00:05:00Z'' = Some (Inr (Due x)))"
proof -
  have run: "schedule_run sample_tools sample_chrono sample_schedule (Suc 0) (Some 5)"
    by (rule schedule_run.handle [OF schedule_run.fresh sample_skip_decision]) (simp add: sample_skip_def)
  obtain x where x: "next_occurrence sample_tools sample_chrono sample_schedule (Some 5) ''1970-01-01T00:05:00Z'' = Some (Inr (Due x))"
    by (simp add: next_occurrence_def sample_eval_schedule)
  show ?thesis
    using schedule_run_ends [OF sample_chrono_laws sample_schedule_made, of sample_tools "Suc 0" "Some 5"] run x by auto
qed

end
