(* ===== verification/Schedule_Runtime.thy ===== *)
theory Schedule_Runtime
  imports Scheduler Sample_Session Ledger_Reads
begin

section \<open>The runtime's view of a schedule\<close>

text \<open>
  The reconstruction of one schedule from the durable facts of its session
  (\<open>runtime/replica/src/scheduler_runtime/state.rs\<close>). The worker takes every decision on the state it
  rebuilds here, while the ledger admits the facts the worker commits on its own projection. The two
  reducers are separate code over the same facts; \<open>reconstruction_agrees\<close> shows that where the
  reconstruction succeeds on the facts of a reachable session, it has the revision, the intent digest, the
  last handled ordinal, the pending claim and the activity of the ledger's record.

  The two queries of the ledger that the reconstruction makes, the watermark of the session and the facts up
  to it, are arguments. The externals of the ledger, of the canonical encoder and of chrono are parameters,
  as is the derived deserializer of an intent.
\<close>

subsection \<open>State\<close>

record PendingScheduleClaim =
  psc_occurrence :: DueOccurrence
  psc_lease_epoch :: u64

record ScheduleRuntimeState =
  srs_intent :: ScheduleIntent
  srs_last_handled_ordinal :: "u64 option"
  srs_pending_claim :: "PendingScheduleClaim option"
  srs_active :: bool
  srs_session_version :: u64
  srs_through_position :: u64

record schedule_ports =
  sp_ledger :: externals
  sp_tools :: tool_externals
  sp_chrono :: chrono
  sp_parse :: "string \<Rightarrow> IntentSemantics option"

subsection \<open>Payload fields\<close>

definition vget :: "json \<Rightarrow> string \<Rightarrow> json option" where
  "vget v k = Option.bind (as_object v) (\<lambda>m. jget m k)"

definition state_payload :: "externals \<Rightarrow> 'z fact_draft_scheme \<Rightarrow> ScheduleErrorCode + json" where
  "state_payload X f = ok_or (from_str X (payload_json (payload f))) CorruptScheduleState"

definition state_text :: "json \<Rightarrow> string \<Rightarrow> ScheduleErrorCode + string" where
  "state_text v k = ok_or (Option.bind (vget v k) json_as_str) CorruptScheduleState"

definition state_unsigned :: "json \<Rightarrow> string \<Rightarrow> ScheduleErrorCode + u64" where
  "state_unsigned v k = ok_or (Option.bind (vget v k) as_u64) CorruptScheduleState"

definition belongs :: "externals \<Rightarrow> string \<Rightarrow> 'z fact_draft_scheme \<Rightarrow> bool" where
  "belongs X schedule f \<longleftrightarrow> (case state_payload X f of
      Inl _ \<Rightarrow> False
    | Inr v \<Rightarrow> Option.bind (vget v ''schedule_id'') json_as_str = Some schedule)"

definition matches_occurrence :: "json \<Rightarrow> DueOccurrence \<Rightarrow> bool" where
  "matches_occurrence v x \<longleftrightarrow>
     Option.bind (vget v ''occurrence_id'') json_as_str = Some (do_occurrence_id x)
     \<and> Option.bind (vget v ''ordinal'') as_u64 = Some (do_ordinal x)"

definition receipt_exists ::
  "externals \<Rightarrow> durable_fact list \<Rightarrow> durable_fact \<Rightarrow> json \<Rightarrow> ScheduleErrorCode + bool" where
  "receipt_exists X all_facts fired v =
     rbind (state_unsigned v ''committed_position'') (\<lambda>pos.
     rbind (state_text v ''runtime_command_id'') (\<lambda>command.
       Inr (pos < position fired
         \<and> list_ex (\<lambda>f. position f = pos
             \<and> (case state_payload X f of
                  Inl _ \<Rightarrow> False
                | Inr w \<Rightarrow> Option.bind (vget w ''command_id'') json_as_str = Some command)) all_facts)))"

subsection \<open>One fact\<close>

definition active_revision ::
  "ScheduleRuntimeState option \<Rightarrow> json \<Rightarrow> ScheduleErrorCode + ScheduleRuntimeState" where
  "active_revision st v =
     rbind (ok_or (case st of None \<Rightarrow> None | Some s \<Rightarrow> if srs_active s then Some s else None) CorruptScheduleState)
       (\<lambda>current.
     rbind (state_text v ''revision_id'') (\<lambda>revision.
       if si_revision_id (srs_intent current) = revision then Inr current else Inl CorruptScheduleState))"

definition exact_next ::
  "schedule_ports \<Rightarrow> ScheduleIntent \<Rightarrow> u64 option \<Rightarrow> json \<Rightarrow> (ScheduleErrorCode + DueOccurrence) option" where
  "exact_next P i handled v =
     pbind (Some (state_text v ''due_at_utc'')) (\<lambda>due.
     pbind (next_occurrence (sp_tools P) (sp_chrono P) i handled due) (\<lambda>d. Some (case d of
         Due x \<Rightarrow> if matches_occurrence v x then Inr x else Inl CorruptScheduleState
       | _ \<Rightarrow> Inl CorruptScheduleState)))"

definition apply_created :: "schedule_ports \<Rightarrow> json \<Rightarrow> ScheduleErrorCode + ScheduleRuntimeState" where
  "apply_created P v =
     rbind (ok_or (Option.bind (vget v ''intent'') as_object) CorruptScheduleState) (\<lambda>m.
     rbind (state_text (JObject m) ''digest'') (\<lambda>d.
     rbind (state_text (JObject m) ''inline_utf8'') (\<lambda>inline_utf8.
     rbind (state_text v ''schedule_id'') (\<lambda>schedule.
     rbind (state_text v ''revision_id'') (\<lambda>revision.
     rbind (from_binding (sp_parse P) (sp_tools P) (sp_chrono P) schedule revision
              \<lparr>sb_digest = d, sb_inline_utf8 = inline_utf8\<rparr>) (\<lambda>i.
     rbind (intent_digest (sp_tools P) i) (\<lambda>actual.
     rbind (state_text v ''intent_digest'') (\<lambda>asserted.
     if actual \<noteq> asserted then Inl CorruptScheduleState
     else Inr \<lparr>srs_intent = i, srs_last_handled_ordinal = None, srs_pending_claim = None, srs_active = True,
               srs_session_version = 0, srs_through_position = 0\<rparr>))))))))"

definition apply_claimed ::
  "schedule_ports \<Rightarrow> ScheduleRuntimeState option \<Rightarrow> durable_fact \<Rightarrow> json
     \<Rightarrow> (ScheduleErrorCode + ScheduleRuntimeState) option" where
  "apply_claimed P st f v =
     pbind (Some (active_revision st v)) (\<lambda>current.
     pbind (Some (state_unsigned v ''through_position'')) (\<lambda>through.
     if through \<noteq> (if position f = 0 then 0 else position f - 1) then Some (Inl CorruptScheduleState) else
     pbind (exact_next P (srs_intent current) (srs_last_handled_ordinal current) v) (\<lambda>x.
     pbind (Some (state_unsigned v ''lease_epoch'')) (\<lambda>epoch.
       Some (Inr (current\<lparr>srs_pending_claim := Some \<lparr>psc_occurrence = x, psc_lease_epoch = epoch\<rparr>\<rparr>))))))"

definition apply_fired ::
  "schedule_ports \<Rightarrow> ScheduleRuntimeState option \<Rightarrow> durable_fact list \<Rightarrow> durable_fact \<Rightarrow> json
     \<Rightarrow> ScheduleErrorCode + ScheduleRuntimeState" where
  "apply_fired P st all_facts f v =
     rbind (active_revision st v) (\<lambda>current.
     rbind (ok_or (srs_pending_claim current) CorruptScheduleState) (\<lambda>pending.
     if \<not> matches_occurrence v (psc_occurrence pending) then Inl CorruptScheduleState else
     rbind (state_text v ''runtime_command_id'') (\<lambda>command.
     if command \<noteq> do_runtime_command_id (psc_occurrence pending) then Inl CorruptScheduleState else
     rbind (receipt_exists (sp_ledger P) all_facts f v) (\<lambda>found.
     if \<not> found then Inl CorruptScheduleState
     else Inr (current\<lparr>srs_pending_claim := None,
                srs_last_handled_ordinal := Some (do_ordinal (psc_occurrence pending))\<rparr>)))))"

definition apply_skipped ::
  "schedule_ports \<Rightarrow> ScheduleRuntimeState option \<Rightarrow> json \<Rightarrow> (ScheduleErrorCode + ScheduleRuntimeState) option" where
  "apply_skipped P st v =
     pbind (Some (active_revision st v)) (\<lambda>current.
     if srs_pending_claim current \<noteq> None then Some (Inl CorruptScheduleState) else
     pbind (Some (state_text v ''observed_at_utc'')) (\<lambda>observed.
     pbind (next_occurrence (sp_tools P) (sp_chrono P) (srs_intent current)
              (srs_last_handled_ordinal current) observed) (\<lambda>d. Some (case d of
         Skipped s \<Rightarrow>
           rbind (state_unsigned v ''first_ordinal'') (\<lambda>first.
           if so_first_ordinal s \<noteq> first then Inl CorruptScheduleState else
           rbind (state_unsigned v ''last_ordinal'') (\<lambda>final.
           if so_last_ordinal s \<noteq> final then Inl CorruptScheduleState else
           rbind (state_text v ''first_due_at_utc'') (\<lambda>first_due.
           if so_first_due_at_utc s \<noteq> first_due then Inl CorruptScheduleState else
           rbind (state_text v ''last_due_at_utc'') (\<lambda>last_due.
           if so_last_due_at_utc s \<noteq> last_due then Inl CorruptScheduleState
           else Inr (current\<lparr>srs_last_handled_ordinal := Some (so_last_ordinal s)\<rparr>)))))
       | _ \<Rightarrow> Inl CorruptScheduleState))))"

definition apply_cancelled ::
  "ScheduleRuntimeState option \<Rightarrow> json \<Rightarrow> ScheduleErrorCode + ScheduleRuntimeState" where
  "apply_cancelled st v =
     rbind (ok_or st CorruptScheduleState) (\<lambda>current.
     rbind (state_text v ''expected_revision_id'') (\<lambda>revision.
     if si_revision_id (srs_intent current) \<noteq> revision then Inl CorruptScheduleState
     else Inr (current\<lparr>srs_active := False\<rparr>)))"

definition apply_failed ::
  "schedule_ports \<Rightarrow> ScheduleRuntimeState option \<Rightarrow> json \<Rightarrow> (ScheduleErrorCode + ScheduleRuntimeState) option" where
  "apply_failed P st v =
     pbind (Some (active_revision st v)) (\<lambda>current.
     pbind (case Option.bind (vget v ''ordinal'') as_u64 of
         None \<Rightarrow> Some (Inr ())
       | Some ordinal \<Rightarrow>
           pbind (schedule_occurrence (sp_tools P) (sp_chrono P) (srs_intent current) ordinal) (\<lambda>q.
           pbind (Some (ok_or q CorruptScheduleState)) (\<lambda>x.
             let expected = (case srs_last_handled_ordinal current of
                   None \<Rightarrow> Some 1 | Some n \<Rightarrow> checked_add n 1)
             in Some (ensure (matches_occurrence v x \<and> expected = Some ordinal) CorruptScheduleState)))) (\<lambda>_.
       Some (Inr (current\<lparr>srs_pending_claim := None, srs_active := False\<rparr>))))"

definition apply_exhausted ::
  "schedule_ports \<Rightarrow> ScheduleRuntimeState option \<Rightarrow> durable_fact \<Rightarrow> json
     \<Rightarrow> (ScheduleErrorCode + ScheduleRuntimeState) option" where
  "apply_exhausted P st f v =
     pbind (Some (active_revision st v)) (\<lambda>current.
     if srs_pending_claim current \<noteq> None then Some (Inl CorruptScheduleState) else
     pbind (Some (state_unsigned v ''last_handled_ordinal'')) (\<lambda>n.
     if srs_last_handled_ordinal current \<noteq> Some n then Some (Inl CorruptScheduleState) else
     pbind (next_occurrence (sp_tools P) (sp_chrono P) (srs_intent current)
              (srs_last_handled_ordinal current) (recorded_at f)) (\<lambda>d. Some (
       if d \<noteq> ScheduleDecision.Exhausted then Inl CorruptScheduleState
       else Inr (current\<lparr>srs_active := False\<rparr>)))))"

definition state_apply_fact ::
  "schedule_ports \<Rightarrow> durable_fact list \<Rightarrow> ScheduleRuntimeState option \<Rightarrow> durable_fact
     \<Rightarrow> (ScheduleErrorCode + ScheduleRuntimeState option) option" where
  "state_apply_fact P all_facts st f =
     pbind (Some (state_payload (sp_ledger P) f)) (\<lambda>v.
     pbind (if kind f = ''schedule.created'' then Some (apply_created P v)
       else if kind f = ''schedule.claimed'' then apply_claimed P st f v
       else if kind f = ''schedule.fired'' then Some (apply_fired P st all_facts f v)
       else if kind f = ''schedule.skipped'' then apply_skipped P st v
       else if kind f = ''schedule.cancelled'' then Some (apply_cancelled st v)
       else if kind f = ''schedule.failed'' then apply_failed P st v
       else if kind f = ''schedule.exhausted'' then apply_exhausted P st f v
       else Some (Inl CorruptScheduleState)) (\<lambda>s. Some (Inr (Some s))))"

subsection \<open>The reconstruction\<close>

primrec reconstruct_loop ::
  "schedule_ports \<Rightarrow> string \<Rightarrow> durable_fact list \<Rightarrow> ScheduleRuntimeState option \<Rightarrow> durable_fact list
     \<Rightarrow> (ScheduleErrorCode + ScheduleRuntimeState option) option" where
  "reconstruct_loop P schedule all_facts st [] = Some (Inr st)"
| "reconstruct_loop P schedule all_facts st (f # fs) =
     (if belongs (sp_ledger P) schedule f
      then pbind (state_apply_fact P all_facts st f) (\<lambda>st'. reconstruct_loop P schedule all_facts st' fs)
      else reconstruct_loop P schedule all_facts st fs)"

definition reconstruct_schedule_state ::
  "schedule_ports \<Rightarrow> string \<Rightarrow> (u64 \<times> u64) option \<Rightarrow> durable_fact list
     \<Rightarrow> (ScheduleErrorCode + ScheduleRuntimeState) option" where
  "reconstruct_schedule_state P schedule watermark all_facts =
     (if schedule = [] then Some (Inl InvalidSchedule) else
      pbind (Some (ok_or watermark ScheduleNotFound)) (\<lambda>(version, max_position).
      pbind (reconstruct_loop P schedule all_facts None all_facts) (\<lambda>st.
      pbind (Some (ok_or st ScheduleNotFound)) (\<lambda>s.
        Some (Inr (s\<lparr>srs_session_version := version, srs_through_position := max_position\<rparr>))))))"

subsection \<open>Agreement with the ledger\<close>

text \<open>The record of the ledger that a reconstructed state stands for.\<close>

definition claim_view :: "PendingScheduleClaim \<Rightarrow> string \<times> u64 \<times> u64" where
  "claim_view c = (do_occurrence_id (psc_occurrence c), do_ordinal (psc_occurrence c), psc_lease_epoch c)"

definition record_claim_view :: "schedule_claim \<Rightarrow> string \<times> u64 \<times> u64" where
  "record_claim_view c = (cl_occurrence_id c, cl_ordinal c, cl_lease_epoch c)"

definition state_matches :: "schedule_ports \<Rightarrow> ScheduleRuntimeState \<Rightarrow> schedule_record \<Rightarrow> bool" where
  "state_matches P s r \<longleftrightarrow>
     sc_revision_id r = si_revision_id (srs_intent s)
   \<and> intent_digest (sp_tools P) (srs_intent s) = Inr (sc_intent_digest r)
   \<and> sc_last_handled_ordinal r = (case srs_last_handled_ordinal s of None \<Rightarrow> 0 | Some n \<Rightarrow> n)
   \<and> map_option record_claim_view (sc_pending_claim r) = map_option claim_view (srs_pending_claim s)
   \<and> (sc_state r = SchedActive \<longleftrightarrow> srs_active s)"

definition tracks :: "schedule_ports \<Rightarrow> string \<Rightarrow> ScheduleRuntimeState option \<Rightarrow> session_projection \<Rightarrow> bool" where
  "tracks P i st p \<longleftrightarrow> (case st of
      None \<Rightarrow> bt_get (schedules p) i = None
    | Some s \<Rightarrow> (\<exists>r. bt_get (schedules p) i = Some r \<and> state_matches P s r))"

lemma payload_link:
  assumes "payload_of X (draft_of f) = Inr m"
  shows "state_payload X f = Inr (JObject m)"
proof -
  have "payload (draft_of f) = payload f"
    by (simp add: fact_draft.defs)
  moreover have "as_object v = Some m \<Longrightarrow> v = JObject m" for v
    by (cases v) simp_all
  ultimately show ?thesis
    using assms by (auto simp: payload_of_def state_payload_def result_simps)
qed

lemma state_fields [simp]:
  "vget (JObject m) k = jget m k"
  "state_text (JObject m) k = Inr s \<longleftrightarrow> text_at m k = Some s"
  "state_unsigned (JObject m) k = Inr n \<longleftrightarrow> u64_at m k = Some n"
  "matches_occurrence (JObject m) x \<longleftrightarrow>
     text_at m ''occurrence_id'' = Some (do_occurrence_id x) \<and> u64_at m ''ordinal'' = Some (do_ordinal x)"
  by (simp_all add: vget_def state_text_def state_unsigned_def matches_occurrence_def text_at_def u64_at_def
      ok_or_eq_Inr)

lemma active_revision_ok:
  "active_revision st (JObject m) = Inr s \<longleftrightarrow> st = Some s \<and> srs_active s
     \<and> text_at m ''revision_id'' = Some (si_revision_id (srs_intent s))"
  by (auto simp: active_revision_def result_simps split: option.splits if_splits)

lemma tracks_set:
  "tracks P i (Some s) (set_schedule i r p) \<longleftrightarrow> state_matches P s r"
  by (simp add: tracks_def set_schedule_def)

lemma created_tracks:
  assumes "create_schedule X d p = Inr q" and "payload_of X d = Inr m" and "text_at m ''schedule_id'' = Some i"
    and "apply_created P (JObject m) = Inr s"
  shows "tracks P i (Some s) q"
proof -
  from assms(4) obtain n dg inl a where dg: "intent_digest (sp_tools P) (srs_intent s) = Inr a"
      "text_at m ''intent_digest'' = Some a" "text_at m ''revision_id'' = Some n"
      and from_b: "from_binding (sp_parse P) (sp_tools P) (sp_chrono P) i n \<lparr>sb_digest = dg, sb_inline_utf8 = inl\<rparr> = Inr (srs_intent s)"
      and s: "srs_last_handled_ordinal s = None" "srs_pending_claim s = None" "srs_active s"
    using assms(3) by (auto simp: apply_created_def result_simps)
  have "si_revision_id (srs_intent s) = n"
    using from_binding_sound [OF from_b] by simp
  then show ?thesis
    using assms(1-3) dg s
    by (auto simp: create_schedule_def handle Let_def tracks_def state_matches_def split: option.splits if_splits)
qed

lemma only_decision:
  "(case d of Due x \<Rightarrow> f x | _ \<Rightarrow> Inl e) = Inr y \<longleftrightarrow> (\<exists>x. d = Due x \<and> f x = Inr y)"
  "(case d of Skipped r \<Rightarrow> g r | _ \<Rightarrow> Inl e) = Inr y \<longleftrightarrow> (\<exists>r. d = Skipped r \<and> g r = Inr y)"
  by (cases d; simp)+

lemma claimed_tracks:
  assumes "claim_schedule X d p = Inr q" and "payload_of X d = Inr m" and "text_at m ''schedule_id'' = Some i"
    and "apply_claimed P st f (JObject m) = Some (Inr s)" and "tracks P i st p"
  shows "tracks P i (Some s) q"
proof -
  from assms(4) obtain c x e where c: "st = Some c" "srs_active c" "u64_at m ''lease_epoch'' = Some e"
      "exact_next P (srs_intent c) (srs_last_handled_ordinal c) (JObject m) = Some (Inr x)"
      and s: "s = c\<lparr>srs_pending_claim := Some \<lparr>psc_occurrence = x, psc_lease_epoch = e\<rparr>\<rparr>"
    by (auto simp: apply_claimed_def pbind_eq_Inr active_revision_ok split: if_splits)
  have x: "text_at m ''occurrence_id'' = Some (do_occurrence_id x)" "u64_at m ''ordinal'' = Some (do_ordinal x)"
    using c(4) by (auto simp: exact_next_def pbind_eq_Inr only_decision split: if_splits)
  from assms(5) c(1) obtain r where r: "bt_get (schedules p) i = Some r" "state_matches P c r"
    by (auto simp: tracks_def)
  show ?thesis
    using assms(1-3) c r x s
    by (auto simp: claim_schedule_def handle schedule_mut_ok Let_def tracks_set state_matches_def claim_view_def
        record_claim_view_def split: if_splits)
qed

lemma fired_tracks:
  assumes "fire_schedule X d p = Inr q" and "payload_of X d = Inr m" and "text_at m ''schedule_id'' = Some i"
    and "apply_fired P st fs f (JObject m) = Inr s" and "tracks P i st p"
  shows "tracks P i (Some s) q"
proof -
  from assms(4) obtain c pend where c: "st = Some c" "srs_active c" "srs_pending_claim c = Some pend"
      "u64_at m ''ordinal'' = Some (do_ordinal (psc_occurrence pend))"
      and s: "s = c\<lparr>srs_pending_claim := None, srs_last_handled_ordinal := Some (do_ordinal (psc_occurrence pend))\<rparr>"
    by (auto simp: apply_fired_def result_simps active_revision_ok split: if_splits)
  from assms(5) c(1) obtain r where r: "bt_get (schedules p) i = Some r" "state_matches P c r"
    by (auto simp: tracks_def)
  show ?thesis
    using assms(1-3) c r s
    by (auto simp: fire_schedule_def handle schedule_mut_ok tracks_set state_matches_def split: if_splits)
qed

lemma skipped_tracks:
  assumes "skip_schedule X d p = Inr q" and "payload_of X d = Inr m" and "text_at m ''schedule_id'' = Some i"
    and "apply_skipped P st (JObject m) = Some (Inr s)" and "tracks P i st p"
  shows "tracks P i (Some s) q"
proof -
  from assms(4) obtain c n where c: "st = Some c" "srs_active c" "u64_at m ''last_ordinal'' = Some n"
      and s: "s = c\<lparr>srs_last_handled_ordinal := Some n\<rparr>"
    by (auto simp: apply_skipped_def pbind_eq_Inr active_revision_ok only_decision result_simps split: if_splits)
  from assms(5) c(1) obtain r where r: "bt_get (schedules p) i = Some r" "state_matches P c r"
    by (auto simp: tracks_def)
  show ?thesis
    using assms(1-3) c r s
    by (auto simp: skip_schedule_def handle schedule_mut_ok tracks_set state_matches_def split: if_splits)
qed

lemma cancelled_tracks:
  assumes "cancel_schedule X d p = Inr q" and "payload_of X d = Inr m" and "text_at m ''schedule_id'' = Some i"
    and "apply_cancelled st (JObject m) = Inr s" and "tracks P i st p"
  shows "tracks P i (Some s) q"
proof -
  from assms(4) obtain c where c: "st = Some c" and s: "s = c\<lparr>srs_active := False\<rparr>"
    by (auto simp: apply_cancelled_def result_simps split: if_splits)
  from assms(5) c(1) obtain r where r: "bt_get (schedules p) i = Some r" "state_matches P c r"
    by (auto simp: tracks_def)
  show ?thesis
    using assms(1-3) c r s
    by (auto simp: cancel_schedule_def handle tracks_set state_matches_def)
qed

lemma failed_tracks:
  assumes "fail_schedule X d p = Inr q" and "payload_of X d = Inr m" and "text_at m ''schedule_id'' = Some i"
    and "apply_failed P st (JObject m) = Some (Inr s)" and "tracks P i st p"
  shows "tracks P i (Some s) q"
proof -
  from assms(4) obtain c where c: "st = Some c" and s: "s = c\<lparr>srs_pending_claim := None, srs_active := False\<rparr>"
    by (auto simp: apply_failed_def pbind_eq_Inr active_revision_ok)
  from assms(5) c(1) obtain r where r: "bt_get (schedules p) i = Some r" "state_matches P c r"
    by (auto simp: tracks_def)
  show ?thesis
    using assms(1-3) c r s
    by (auto simp: fail_schedule_def handle schedule_mut_ok Let_def tracks_set state_matches_def)
qed

lemma exhausted_tracks:
  assumes "exhaust_schedule X d p = Inr q" and "payload_of X d = Inr m" and "text_at m ''schedule_id'' = Some i"
    and "apply_exhausted P st f (JObject m) = Some (Inr s)" and "tracks P i st p"
  shows "tracks P i (Some s) q"
proof -
  from assms(4) obtain c where c: "st = Some c" and s: "s = c\<lparr>srs_active := False\<rparr>"
    by (auto simp: apply_exhausted_def pbind_eq_Inr active_revision_ok split: if_splits)
  from assms(5) c(1) obtain r where r: "bt_get (schedules p) i = Some r" "state_matches P c r"
    by (auto simp: tracks_def)
  show ?thesis
    using assms(1-3) c r s
    by (auto simp: exhaust_schedule_def handle schedule_mut_ok tracks_set state_matches_def)
qed

text \<open>Facts of other kinds, and facts of other schedules, leave a schedule as it is.\<close>

definition schedule_kinds :: "string list" where
  "schedule_kinds = [''schedule.created'', ''schedule.claimed'', ''schedule.fired'', ''schedule.skipped'',
     ''schedule.cancelled'', ''schedule.failed'', ''schedule.exhausted'']"

definition leaves_schedules :: "handler \<Rightarrow> bool" where
  "leaves_schedules h \<longleftrightarrow> (\<forall>X f p q. h X f p = Inr q \<longrightarrow> schedules q = schedules p)"

lemma leaves_schedulesI: "(\<And>X f p. rpost (h X f p) (\<lambda>q. schedules q = schedules p)) \<Longrightarrow> leaves_schedules h"
  by (auto simp: leaves_schedules_def rpost_def)

lemma untouched_leaves: "untouched h \<Longrightarrow> leaves_schedules h"
  unfolding untouched_def leaves_schedules_def obligations_def by blast

lemma others_leave:
  "leaves_schedules (\<lambda>X f. close_session)" "leaves_schedules admit_turn_input"
  "leaves_schedules request_delegation" "leaves_schedules authorize_delegation" "leaves_schedules deny_delegation"
  "leaves_schedules start_delegation_child" "leaves_schedules terminal_delegation_child"
  "leaves_schedules observe_delegation"
  unfolding close_session_def admit_turn_input_def request_delegation_def authorize_delegation_def
    deny_delegation_def start_delegation_child_def terminal_delegation_child_def observe_delegation_def Let_def
  by (intro leaves_schedulesI post_intros; simp)+

lemma dispatch_leaves:
  assumes "k \<notin> set schedule_kinds"
  shows "leaves_schedules (dispatch k)"
proof -
  have branch: "leaves_schedules (if b then g else h)" if "leaves_schedules g" and "leaves_schedules h" for b g h
    using that by simp
  have "k \<noteq> ''schedule.created''" "k \<noteq> ''schedule.claimed''" "k \<noteq> ''schedule.fired''" "k \<noteq> ''schedule.skipped''"
    "k \<noteq> ''schedule.cancelled''" "k \<noteq> ''schedule.failed''" "k \<noteq> ''schedule.exhausted''"
    using assms by (auto simp: schedule_kinds_def)
  then show ?thesis
    unfolding dispatch_def
    by (simp only: if_False simp_thms)
       (intro branch others_leave untouched_leaves untouched_handlers)
qed

lemma dispatch_schedule:
  "dispatch ''schedule.created'' = create_schedule" "dispatch ''schedule.claimed'' = claim_schedule"
  "dispatch ''schedule.fired'' = fire_schedule" "dispatch ''schedule.skipped'' = skip_schedule"
  "dispatch ''schedule.cancelled'' = cancel_schedule" "dispatch ''schedule.failed'' = fail_schedule"
  "dispatch ''schedule.exhausted'' = exhaust_schedule"
  by (simp_all add: dispatch_def)

lemma schedule_kind_cases:
  assumes "k \<in> set schedule_kinds"
  obtains "dispatch k = create_schedule" | "dispatch k = claim_schedule" | "dispatch k = fire_schedule"
    | "dispatch k = skip_schedule" | "dispatch k = cancel_schedule" | "dispatch k = fail_schedule"
    | "dispatch k = exhaust_schedule"
  using assms by (auto simp: schedule_kinds_def dispatch_schedule)

lemma schedule_payload:
  assumes "k \<in> set schedule_kinds" and "dispatch k X d p = Inr q"
  obtains m j where "payload_of X d = Inr m" and "text_at m ''schedule_id'' = Some j"
    and "\<And>i. i \<noteq> j \<Longrightarrow> bt_get (schedules q) i = bt_get (schedules p) i"
proof -
  have "\<exists>m j. payload_of X d = Inr m \<and> text_at m ''schedule_id'' = Some j
      \<and> (\<forall>i. i \<noteq> j \<longrightarrow> bt_get (schedules q) i = bt_get (schedules p) i)"
    using assms(1)
  proof (cases rule: schedule_kind_cases)
  qed (use assms(2) in \<open>auto simp: create_schedule_def claim_schedule_def fire_schedule_def skip_schedule_def
      cancel_schedule_def fail_schedule_def exhaust_schedule_def handle schedule_mut_ok Let_def set_schedule_def
      split: option.splits if_splits\<close>)
  then show thesis
    using that by blast
qed

lemma tracks_schedules: "bt_get (schedules q) i = bt_get (schedules p) i \<Longrightarrow> tracks P i st q \<longleftrightarrow> tracks P i st p"
  by (cases st) (simp_all add: tracks_def)

lemma belongs_payload:
  "payload_of X (draft_of f) = Inr m \<Longrightarrow> belongs X i f \<longleftrightarrow> text_at m ''schedule_id'' = Some i"
  by (simp add: belongs_def payload_link text_at_def)

lemma foreign_fact_tracks:
  assumes "dispatch (kind (draft_of f)) (sp_ledger P) (draft_of f) p = Inr q" and "\<not> belongs (sp_ledger P) i f"
  shows "tracks P i st q \<longleftrightarrow> tracks P i st p"
proof (rule tracks_schedules, cases "kind (draft_of f) \<in> set schedule_kinds")
  case False
  with dispatch_leaves assms(1) show "bt_get (schedules q) i = bt_get (schedules p) i"
    unfolding leaves_schedules_def by fastforce
next
  case True
  from schedule_payload [OF True assms(1)] obtain m j where m: "payload_of (sp_ledger P) (draft_of f) = Inr m"
      "text_at m ''schedule_id'' = Some j" "i \<noteq> j \<Longrightarrow> bt_get (schedules q) i = bt_get (schedules p) i"
    by metis
  with assms(2) show "bt_get (schedules q) i = bt_get (schedules p) i"
    by (auto simp: belongs_payload)
qed

lemma state_apply_fact_kind:
  "state_apply_fact P fs st f = Some (Inr st') \<Longrightarrow> kind f \<in> set schedule_kinds"
  by (auto simp: state_apply_fact_def pbind_eq_Inr schedule_kinds_def split: if_splits)

lemma own_fact_tracks:
  assumes d: "dispatch (kind (draft_of f)) (sp_ledger P) (draft_of f) p = Inr q" and b: "belongs (sp_ledger P) i f"
    and s: "state_apply_fact P fs st f = Some (Inr st')" and t: "tracks P i st p"
  shows "tracks P i st' q"
proof -
  have kind: "kind (draft_of f) = kind f"
    by (simp add: fact_draft.defs)
  have own: "kind f \<in> set schedule_kinds"
    using s by (rule state_apply_fact_kind)
  from schedule_payload [OF own] d kind obtain m where m: "payload_of (sp_ledger P) (draft_of f) = Inr m"
    by metis
  then have i: "text_at m ''schedule_id'' = Some i" and v: "state_payload (sp_ledger P) f = Inr (JObject m)"
    using b by (simp_all add: belongs_payload payload_link)
  note tracks = created_tracks [OF _ m i] claimed_tracks [OF _ m i] fired_tracks [OF _ m i] skipped_tracks [OF _ m i]
    cancelled_tracks [OF _ m i] failed_tracks [OF _ m i] exhausted_tracks [OF _ m i]
  show ?thesis
    using own d s t v kind
    by (auto simp: schedule_kinds_def dispatch_schedule state_apply_fact_def pbind_eq_Inr intro: tracks)
qed

lemma fact_tracks:
  assumes "apply_fact (sp_ledger P) (draft_of f) p = Inr q" and "tracks P i st p"
    and "reconstruct_loop P i fs st [f] = Some (Inr st')"
  shows "tracks P i st' q"
  using assms(1)
proof (cases rule: apply_fact_cases)
  case first
  then have "kind f = ''session.opened''"
    by (simp add: fact_draft.defs)
  then have "kind f \<notin> set schedule_kinds"
    by (simp add: schedule_kinds_def)
  then have "\<not> belongs (sp_ledger P) i f"
    using assms(3) state_apply_fact_kind [of P fs st f] by (auto simp: pbind_eq_Inr)
  then have "st' = st"
    using assms(3) by simp
  moreover have "bt_get (schedules q) i = bt_get (schedules p) i"
    using first(4) by simp
  from tracks_schedules [THEN iffD2, OF this assms(2)] have "tracks P i st q" .
  ultimately show ?thesis
    by simp
next
  case handled
  show ?thesis
  proof (cases "belongs (sp_ledger P) i f")
    case True
    with assms(3) have "state_apply_fact P fs st f = Some (Inr st')"
      by (auto simp: pbind_eq_Inr)
    with handled(3) True show ?thesis
      using assms(2) by (rule own_fact_tracks)
  next
    case False
    with assms(3) have "st' = st"
      by simp
    with assms(2) show ?thesis
      by (simp only: foreign_fact_tracks [OF handled(3) False])
  qed
qed

lemma reconstruct_loop_append:
  "reconstruct_loop P i fs st (xs @ ys) =
     pbind (reconstruct_loop P i fs st xs) (\<lambda>st'. reconstruct_loop P i fs st' ys)"
proof (induction xs arbitrary: st)
  case (Cons x xs)
  then show ?case
    by (cases "state_apply_fact P fs st x"; cases "the (state_apply_fact P fs st x)") (auto simp: pbind_def)
qed simp

lemma facts_track:
  assumes "run (\<lambda>p f. apply_fact (sp_ledger P) f p) p (map draft_of xs) = Inr q" and "tracks P i st p"
    and "reconstruct_loop P i fs st xs = Some (Inr st')"
  shows "tracks P i st' q"
  using assms
proof (induction xs arbitrary: p st)
  case (Cons x xs)
  from Cons.prems(1) obtain p' where p': "apply_fact (sp_ledger P) (draft_of x) p = Inr p'"
      "run (\<lambda>p f. apply_fact (sp_ledger P) f p) p' (map draft_of xs) = Inr q"
    by (auto simp: result_simps)
  have "reconstruct_loop P i fs st ([x] @ xs) = Some (Inr st')"
    using Cons.prems(3) by simp
  then obtain s where s: "reconstruct_loop P i fs st [x] = Some (Inr s)"
      "reconstruct_loop P i fs s xs = Some (Inr st')"
    unfolding reconstruct_loop_append pbind_eq_Inr by blast
  show ?case
    by (rule Cons.IH [OF p'(2) fact_tracks [OF p'(1) Cons.prems(2) s(1)] s(2)])
qed simp

lemma batches_track:
  assumes "run (apply_batch (sp_ledger P)) p bs = Inr q" and "concat bs = map draft_of xs" and "tracks P i st p"
    and "reconstruct_loop P i fs st xs = Some (Inr st')"
  shows "tracks P i st' q"
  using assms
proof (induction bs arbitrary: p st xs)
  case (Cons b bs)
  from Cons.prems(1) obtain p' where p': "apply_batch (sp_ledger P) p b = Inr p'"
      "run (apply_batch (sp_ledger P)) p' bs = Inr q"
    by (auto simp: result_simps)
  from Cons.prems(2) obtain ys zs where xs: "xs = ys @ zs" "b = map draft_of ys" "concat bs = map draft_of zs"
    by (auto simp: append_eq_map_conv)
  from Cons.prems(4) obtain s where s: "reconstruct_loop P i fs st ys = Some (Inr s)"
      "reconstruct_loop P i fs s zs = Some (Inr st')"
    unfolding xs(1) reconstruct_loop_append pbind_eq_Inr by blast
  have "tracks P i st (begin_commit p)"
    using Cons.prems(3) tracks_schedules [of "begin_commit p" i p] by (simp add: begin_commit_def)
  then have "tracks P i s p'"
    using facts_track [OF apply_batch_run [OF p'(1), unfolded xs(2)] _ s(1)] by simp
  then show ?case
    by (rule Cons.IH [OF p'(2) xs(3) _ s(2)])
qed simp

lemma session_tracks:
  assumes "session_inv (sp_ledger P) sid l"
    and "reconstruct_schedule_state P i w (facts l) = Some (Inr s)"
  shows "\<exists>r. bt_get (schedules (projection l)) i = Some r \<and> state_matches P s r"
proof -
  from assms(1) obtain bs where bs: "concat bs = map draft_of (facts l)" "replay (sp_ledger P) bs = Inr (projection l)"
    by (auto simp: session_inv_def history_ok_def)
  from assms(2) obtain t v m where t: "reconstruct_loop P i (facts l) None (facts l) = Some (Inr (Some t))"
      and s: "s = t\<lparr>srs_session_version := v, srs_through_position := m\<rparr>"
    by (auto simp: reconstruct_schedule_state_def pbind_eq_Inr ok_or_eq_Inr simp del: reconstruct_loop.simps
        split: if_splits)
  have start: "tracks P i None default_projection"
    by (simp add: tracks_def default_projection_def)
  have "tracks P i (Some t) (projection l)"
    by (rule batches_track [OF bs(2) [unfolded replay_def] bs(1) start t])
  then show ?thesis
    by (simp add: tracks_def s state_matches_def)
qed

subsection \<open>No panic\<close>

text \<open>Every intent in the state comes from a binding, so its timing is valid and the reduction returns.\<close>

definition state_built :: "schedule_ports \<Rightarrow> ScheduleRuntimeState option \<Rightarrow> bool" where
  "state_built P st \<longleftrightarrow> (case st of None \<Rightarrow> True | Some s \<Rightarrow> valid_timing (sp_chrono P) (si_timing (srs_intent s)))"

lemma intent_built_valid: "intent_built C i \<Longrightarrow> valid_timing C (si_timing i)"
  unfolding intent_built_def by (rule schedule_intent_valid)

lemma active_revision_built:
  "state_built P st \<Longrightarrow> active_revision st v = Inr s \<Longrightarrow> valid_timing (sp_chrono P) (si_timing (srs_intent s))"
  by (auto simp: active_revision_def result_simps state_built_def split: option.splits if_splits)

lemma state_apply_fact_built:
  assumes "state_built P st" and "state_apply_fact P fs st f = Some (Inr st')"
  shows "state_built P st'"
proof -
  note built = active_revision_built [OF assms(1)]
  have "valid_timing (sp_chrono P) (si_timing (srs_intent s))" if "apply_created P v = Inr s" for v s
    using that from_binding_sound intent_built_valid by (fastforce simp: apply_created_def result_simps split: if_splits)
  moreover have "valid_timing (sp_chrono P) (si_timing (srs_intent s))" if "apply_claimed P st f v = Some (Inr s)" for v s
    using that built by (auto simp: apply_claimed_def pbind_eq_Inr split: if_splits)
  moreover have "valid_timing (sp_chrono P) (si_timing (srs_intent s))" if "apply_fired P st fs f v = Inr s" for v s
    using that built by (auto simp: apply_fired_def result_simps split: if_splits)
  moreover have "valid_timing (sp_chrono P) (si_timing (srs_intent s))" if "apply_skipped P st v = Some (Inr s)" for v s
    using that built by (auto simp: apply_skipped_def pbind_eq_Inr result_simps only_decision split: if_splits)
  moreover have "valid_timing (sp_chrono P) (si_timing (srs_intent s))" if "apply_cancelled st v = Inr s" for v s
    using that assms(1) by (auto simp: apply_cancelled_def result_simps state_built_def split: if_splits)
  moreover have "valid_timing (sp_chrono P) (si_timing (srs_intent s))" if "apply_failed P st v = Some (Inr s)" for v s
    using that built by (auto simp: apply_failed_def pbind_eq_Inr)
  moreover have "valid_timing (sp_chrono P) (si_timing (srs_intent s))" if "apply_exhausted P st f v = Some (Inr s)" for v s
    using that built by (auto simp: apply_exhausted_def pbind_eq_Inr split: if_splits)
  ultimately show ?thesis
    using assms(2) by (auto simp: state_apply_fact_def pbind_eq_Inr state_built_def split: if_splits)
qed

lemma state_apply_fact_total:
  assumes "chrono_laws (sp_chrono P)" and "state_built P st"
  shows "state_apply_fact P fs st f \<noteq> None"
proof
  note built = active_revision_built [OF assms(2)]
  note total = next_occurrence_total [OF assms(1)] schedule_occurrence_total
  assume none: "state_apply_fact P fs st f = None"
  have "apply_claimed P st f v \<noteq> None" "apply_skipped P st v \<noteq> None" "apply_exhausted P st f v \<noteq> None" "apply_failed P st v \<noteq> None" for v
    using built total
    by (auto simp: apply_claimed_def apply_skipped_def apply_exhausted_def apply_failed_def exact_next_def pbind_eq_None Let_def
        simp del: not_None_eq split: if_splits option.splits)
  with none show False
    by (auto simp: state_apply_fact_def pbind_eq_None simp del: not_None_eq split: if_splits)
qed

lemma reconstruct_loop_total:
  assumes "chrono_laws (sp_chrono P)" and "state_built P st"
  shows "reconstruct_loop P i fs st xs \<noteq> None"
  using assms(2)
proof (induction xs arbitrary: st)
  case (Cons x xs)
  have "state_apply_fact P fs st x \<noteq> None"
    by (rule state_apply_fact_total [OF assms(1) Cons.prems])
  moreover have "reconstruct_loop P i fs st' xs \<noteq> None" if "state_apply_fact P fs st x = Some (Inr st')" for st'
    by (rule Cons.IH [OF state_apply_fact_built [OF Cons.prems that]])
  moreover have "reconstruct_loop P i fs st xs \<noteq> None"
    by (rule Cons.IH [OF Cons.prems])
  ultimately show ?case
    by (auto simp: pbind_eq_None simp del: not_None_eq)
qed simp

lemma reconstruct_total:
  assumes "chrono_laws (sp_chrono P)"
  shows "reconstruct_schedule_state P i w fs \<noteq> None"
  using reconstruct_loop_total [OF assms, of None i fs fs]
  by (auto simp: reconstruct_schedule_state_def state_built_def pbind_eq_None simp del: not_None_eq)

subsection \<open>A session with a skipped schedule\<close>

definition created_payload :: json where
  [sample_eval]: "created_payload = JObject [text_member ''command_id'' ''command-1'', content_member ''intent'',
     digest_member ''intent_digest'', text_member ''revision_id'' ''revision-1'', text_member ''schedule_id'' ''schedule-1'']"

definition skipped_payload :: json where
  [sample_eval]: "skipped_payload = JObject [text_member ''first_due_at_utc'' ''1970-01-01T00:00:00Z'',
     number_member ''first_ordinal'' 1, text_member ''last_due_at_utc'' ''1970-01-01T00:04:00Z'',
     number_member ''last_ordinal'' 5, text_member ''observed_at_utc'' ''1970-01-01T00:05:00Z'',
     text_member ''revision_id'' ''revision-1'', text_member ''schedule_id'' ''schedule-1'']"

definition schedule_sample :: externals where
  "schedule_sample = \<lparr>sha256_hex = (\<lambda>_. sample_digest),
     from_str = map_of [(''opened'', JObject []), (''created'', created_payload), (''skipped'', skipped_payload)],
     rfc3339_utc = Some\<rparr>"

lemma schedule_sample_sel [simp]:
  "sha256_hex schedule_sample s = sample_digest" "rfc3339_utc schedule_sample s = Some s"
  "from_str schedule_sample ''opened'' = Some (JObject [])" "from_str schedule_sample ''created'' = Some created_payload"
  "from_str schedule_sample ''skipped'' = Some skipped_payload"
  by (simp_all add: schedule_sample_def)

definition created_fact :: fact_draft where
  [sample_eval]: "created_fact = sample_fact ''created'' ''schedule.created'' 1"

definition skipped_fact :: fact_draft where
  [sample_eval]: "skipped_fact = sample_fact ''skipped'' ''schedule.skipped'' 1"

definition schedule_batch :: "fact_draft list" where
  "schedule_batch = [opened_fact, created_fact, skipped_fact]"

definition schedule_commits :: "commit_command list" where
  "schedule_commits = [(sample_session, 0, schedule_batch)]"

definition sample_record :: schedule_record where
  "sample_record = \<lparr>sc_revision_id = ''revision-1'', sc_intent_digest = sample_digest, sc_last_handled_ordinal = 0,
     sc_pending_claim = None, sc_state = SchedActive\<rparr>"

definition after_created :: session_projection where
  "after_created = after_opened\<lparr>schedules := bt_insert ''schedule-1'' sample_record bt_empty\<rparr>"

definition after_skipped :: session_projection where
  "after_skipped = after_created\<lparr>schedules :=
     bt_insert ''schedule-1'' (sample_record\<lparr>sc_last_handled_ordinal := 5\<rparr>) (schedules after_created)\<rparr>"

lemmas schedule_checks = admission_defs check_defs timestamp_def schedule_created_def schedule_skipped_def schedule_validate_def
  opt_le_def jat_def jindex_def

lemma schedule_admitted:
  "validate_runtime_fact schedule_sample opened_fact = Inr Opaque"
  "validate_runtime_fact schedule_sample created_fact = Inr AppliedV1"
  "validate_runtime_fact schedule_sample skipped_fact = Inr AppliedV1"
  by (simp_all add: sample_eval schedule_checks cong: rbind_eval)

lemma schedule_applied:
  "apply_fact schedule_sample opened_fact default_projection = Inr after_opened"
  "apply_fact schedule_sample created_fact after_opened = Inr after_created"
  "apply_fact schedule_sample skipped_fact after_created = Inr after_skipped"
  by (simp_all add: sample_eval handler_defs create_schedule_def skip_schedule_def schedule_mut_def set_schedule_def
      after_skipped_def after_created_def after_opened_def default_projection_def sample_record_def checked_add_def
      cong: rbind_eval)

lemma schedule_batch_valid: "f \<in> set schedule_batch \<Longrightarrow> draft_validate schedule_sample f = Inr ()"
  by (auto simp: schedule_batch_def sample_eval draft_validate_def payload_verify_def)

lemma schedule_screened: "screen_drafts schedule_sample default_ledger sid {} schedule_batch = Inr []"
proof (rule screen_fresh)
  show "\<forall>d \<in> set schedule_batch. draft_validate schedule_sample d = Inr ()
      \<and> (\<exists>v. validate_runtime_fact schedule_sample d = Inr v)"
    using schedule_batch_valid by (simp add: schedule_batch_def schedule_admitted)
qed (simp_all add: schedule_batch_def sample_eval)

definition schedule_ledger :: session_ledger where
  "schedule_ledger = \<lparr>version = 1,
     facts = [durable_from sample_session 1 opened_fact, durable_from sample_session 2 created_fact,
       durable_from sample_session 3 skipped_fact],
     drafts = bt_insert 3 skipped_fact (bt_insert 2 created_fact (bt_insert 1 opened_fact bt_empty)),
     projection = after_skipped\<rparr>"

lemma schedule_boundary: "validate_commit_boundary after_skipped = Inr ()"
  by (simp add: validate_commit_boundary_def after_skipped_def after_created_def after_opened_def default_projection_def
      sample_record_def bt_values_def bt_empty.rep_eq bt_insert.rep_eq)

lemma schedule_appended:
  "append_batch schedule_sample default_ledger sample_session 0 schedule_batch = Inr (schedule_ledger, [1, 2, 3])"
  by (simp add: append_batch_def default_ledger_def default_session_ledger_def Let_def first_position_def
      begin_default schedule_applied durable_verify_from schedule_batch_valid schedule_batch_def
      checked_add_def ok_or_def schedule_ledger_def schedule_boundary)

lemma schedule_in_ledger:
  "bt_get (sessions (ledger_after schedule_sample default_ledger schedule_commits)) sample_session = Some schedule_ledger"
proof -
  have "schedule_batch \<noteq> []" by (simp add: schedule_batch_def)
  then show ?thesis
    unfolding schedule_commits_def ledger_after_def
    by (simp add: commit_def schedule_screened schedule_appended)
qed

definition sample_ports :: schedule_ports where
  "sample_ports = \<lparr>sp_ledger = schedule_sample,
     sp_tools = \<lparr>read_json = (\<lambda>_. None), jcs = (\<lambda>_. Some ''content''), sha256 = (\<lambda>_. sample_digest)\<rparr>,
     sp_chrono = sample_chrono, sp_parse = (\<lambda>_. Some (semantics_of sample_schedule))\<rparr>"

lemma sample_ports_sel [simp]: "sp_ledger sample_ports = schedule_sample" "sp_chrono sample_ports = sample_chrono"
  by (simp_all add: sample_ports_def)

lemma sample_created:
  "apply_created sample_ports created_payload = Inr \<lparr>srs_intent = sample_schedule, srs_last_handled_ordinal = None,
      srs_pending_claim = None, srs_active = True, srs_session_version = 0, srs_through_position = 0\<rparr>"
proof -
  have ids: "si_schedule_id sample_schedule = ''schedule-1''" "si_revision_id sample_schedule = ''revision-1''"
    by (simp_all add: sample_schedule_def)
  have "intent_built sample_chrono sample_schedule"
    using sample_schedule_made by (simp add: schedule_intent_iff)
  then have "from_binding (sp_parse sample_ports) (sp_tools sample_ports) sample_chrono ''schedule-1'' ''revision-1''
      \<lparr>sb_digest = sample_digest, sb_inline_utf8 = ''content''\<rparr> = Inr sample_schedule"
    unfolding intent_built_def ids by (simp add: from_binding_def sample_ports_def semantics_of_def)
  moreover have "intent_digest (sp_tools sample_ports) sample_schedule = Inr sample_digest"
    by (simp add: intent_digest_def intent_binding_def sample_ports_def)
  ultimately show ?thesis
    by (simp add: apply_created_def created_payload_def content_member_def text_member_def digest_member_def
        state_text_def vget_def jget_def)
qed

definition sample_created_state :: ScheduleRuntimeState where
  "sample_created_state = \<lparr>srs_intent = sample_schedule, srs_last_handled_ordinal = None, srs_pending_claim = None,
     srs_active = True, srs_session_version = 0, srs_through_position = 0\<rparr>"

lemma sample_skip_applied:
  "apply_skipped sample_ports (Some sample_created_state) skipped_payload
     = Some (Inr (sample_created_state\<lparr>srs_last_handled_ordinal := Some 5\<rparr>))"
proof -
  obtain r where "next_occurrence (sp_tools sample_ports) sample_chrono sample_schedule None ''1970-01-01T00:05:00Z''
      = Some (Inr (Skipped r))" "so_first_ordinal r = 1" "so_last_ordinal r = 5"
      "so_first_due_at_utc r = ''1970-01-01T00:00:00Z''" "so_last_due_at_utc r = ''1970-01-01T00:04:00Z''"
    by (simp add: next_occurrence_def sample_eval_schedule sample_ports_def)
  moreover have "si_revision_id sample_schedule = ''revision-1''"
    by (simp add: sample_schedule_def)
  ultimately show ?thesis
    by (simp add: apply_skipped_def active_revision_def sample_created_state_def sample_eval
        state_text_def state_unsigned_def vget_def jget_def)
qed

lemma schedule_fact_payloads:
  "state_payload schedule_sample (durable_from sample_session n opened_fact) = Inr (JObject [])"
  "state_payload schedule_sample (durable_from sample_session n created_fact) = Inr created_payload"
  "state_payload schedule_sample (durable_from sample_session n skipped_fact) = Inr skipped_payload"
  "kind created_fact = ''schedule.created''" "kind skipped_fact = ''schedule.skipped''"
  by (simp_all add: state_payload_def durable_from_def fact_draft.defs sample_eval)

lemma sample_reconstructed:
  "\<exists>s. reconstruct_schedule_state sample_ports ''schedule-1'' (Some (1, 3)) (facts schedule_ledger) = Some (Inr s)
     \<and> srs_last_handled_ordinal s = Some 5"
proof -
  let ?f = "durable_from sample_session"
  have "\<not> belongs schedule_sample ''schedule-1'' (?f 1 opened_fact)" "belongs schedule_sample ''schedule-1'' (?f 2 created_fact)"
      "belongs schedule_sample ''schedule-1'' (?f 3 skipped_fact)"
    by (simp_all add: belongs_def schedule_fact_payloads)
      (simp_all add: vget_def jget_def created_payload_def skipped_payload_def text_member_def digest_member_def
        content_member_def number_member_def)
  moreover have "state_apply_fact sample_ports fs None (?f 2 created_fact) = Some (Inr (Some sample_created_state))"
      "state_apply_fact sample_ports fs (Some sample_created_state) (?f 3 skipped_fact)
         = Some (Inr (Some (sample_created_state\<lparr>srs_last_handled_ordinal := Some 5\<rparr>)))" for fs
    by (simp_all add: state_apply_fact_def schedule_fact_payloads sample_created sample_skip_applied)
      (simp add: sample_created_state_def)
  ultimately show ?thesis
    by (simp add: reconstruct_schedule_state_def schedule_ledger_def)
qed

subsection \<open>Properties\<close>

text \<open>
  C36. Reconstruction of a schedule from the facts of any session that commits can produce never
  panics, and a state it returns agrees with the schedule record of the ledger projection on
  revision, intent digest, activity, last handled ordinal and pending claim.
\<close>

theorem reconstruction_agrees:
  assumes "chrono_laws (sp_chrono P)"
    and "bt_get (sessions (ledger_after (sp_ledger P) default_ledger cs)) sid = Some l"
  shows "reconstruct_schedule_state P i w (facts l) \<noteq> None
    \<and> (\<forall>s. reconstruct_schedule_state P i w (facts l) = Some (Inr s) \<longrightarrow>
         (\<exists>r. bt_get (schedules (projection l)) i = Some r \<and> state_matches P s r))"
proof -
  have "session_inv (sp_ledger P) sid l"
    using reachable_inv [of "sp_ledger P" cs] assms(2) by (simp add: ledger_inv_def)
  then show ?thesis
    using reconstruct_total [OF assms(1)] session_tracks by blast
qed

theorem reconstruction_agrees_witness:
  "\<exists>s r. reconstruct_schedule_state sample_ports ''schedule-1'' (Some (1, 3)) (facts schedule_ledger) = Some (Inr s)
     \<and> bt_get (schedules (projection schedule_ledger)) ''schedule-1'' = Some r \<and> state_matches sample_ports s r
     \<and> sc_last_handled_ordinal r = 5"
proof -
  obtain s where s: "reconstruct_schedule_state sample_ports ''schedule-1'' (Some (1, 3)) (facts schedule_ledger) = Some (Inr s)"
      "srs_last_handled_ordinal s = Some 5"
    using sample_reconstructed by blast
  have "bt_get (sessions (ledger_after (sp_ledger sample_ports) default_ledger schedule_commits)) sample_session
      = Some schedule_ledger"
    using schedule_in_ledger by simp
  from reconstruction_agrees [OF _ this, of "''schedule-1''" "Some (1, 3)"] s obtain r
    where r: "bt_get (schedules (projection schedule_ledger)) ''schedule-1'' = Some r" "state_matches sample_ports s r"
    using sample_chrono_laws by auto
  then have "sc_last_handled_ordinal r = 5"
    using s(2) by (simp add: state_matches_def)
  with s r show ?thesis
    by blast
qed

end
