(* ===== verification/Sample_Obligations.thy ===== *)
theory Sample_Obligations
  imports Schedule_Runtime
begin

section \<open>A sample session with a schedule and a delegation\<close>

text \<open>
  A session in which the obligations really arise: a schedule is created and its first occurrence
  claimed, and a turn hands a piece of work to the turn of another agent. The delegation is requested,
  authorized, started in the commit that suspends the parent, finished with the child turn and observed.
\<close>

subsection \<open>Committing a first batch\<close>

lemma append_drafts_fresh:
  assumes "run (\<lambda>p f. apply_fact X f p) (projection l) ds = Inr p" and "\<forall>d \<in> set ds. draft_validate X d = Inr ()"
    and "pos \<noteq> 0" and "unat pos + length ds < 2 ^ 64"
  shows "\<exists>n ps. append_drafts X sid l pos ds = Inr (n, ps) \<and> projection n = p"
  using assms
proof (induction ds arbitrary: l pos)
  case (Cons d ds)
  obtain q where q: "apply_fact X d (projection l) = Inr q" "run (\<lambda>p f. apply_fact X f p) q ds = Inr p"
    using Cons.prems(1) by (auto simp: result_simps)
  have verified: "durable_verify X (durable_from sid pos d) = Inr ()"
    using Cons.prems(2,3) by (simp add: durable_verify_from)
  let ?l = "l\<lparr>projection := q, drafts := bt_insert pos d (drafts l), facts := facts l @ [durable_from sid pos d]\<rparr>"
  have succ: "checked_add pos 1 = Some (pos + 1)" "unat (pos + 1) = Suc (unat pos)" if "ds \<noteq> []"
    using Cons.prems(4) that by (auto simp: checked_add_def unat_word_ariths)
  show ?case
  proof (cases "ds = []")
    case True
    with q verified show ?thesis by simp
  next
    case False
    from succ [OF this] Cons.prems(4) have "pos + 1 \<noteq> 0" "unat (pos + 1) + length ds < 2 ^ 64"
      by (auto simp: unat_eq_0 [symmetric])
    then obtain n ps where "append_drafts X sid ?l (pos + 1) ds = Inr (n, ps)" "projection n = p"
      using Cons.IH [of ?l "pos + 1"] q(2) Cons.prems(2) by auto
    with q(1) verified succ(1) [OF False] False show ?thesis
      by (simp add: ok_or_def)
  qed
qed simp

lemma fresh_commit:
  assumes "ds \<noteq> []" and "length ds < 2 ^ 64 - 1"
    and "\<forall>d \<in> set ds. draft_validate X d = Inr () \<and> (\<exists>v. validate_runtime_fact X d = Inr v)"
    and "distinct (map fact_id ds)" and "run (\<lambda>p f. apply_fact X f p) default_projection ds = Inr p"
    and "validate_commit_boundary p = Inr ()"
  shows "\<exists>l. bt_get (sessions (ledger_after X default_ledger [(sid, 0, ds)])) sid = Some l
    \<and> projection l = p \<and> map draft_of (facts l) = ds"
proof -
  have screened: "screen_drafts X default_ledger sid {} ds = Inr []"
    using assms(3,4) by (intro screen_fresh) simp_all
  obtain n ps where n: "append_drafts X sid default_session_ledger 1 ds = Inr (n, ps)" "projection n = p"
    using append_drafts_fresh [of X default_session_ledger ds p 1 sid] assms(2,3,5)
    by (auto simp: default_session_ledger_def)
  have stored: "length ps = length ds" "facts n = map2 (durable_from sid) ps ds" "version n = 0"
    using append_drafts_facts [OF n(1)] by (simp_all add: default_session_ledger_def)
  have "default_session_ledger\<lparr>projection := begin_commit (projection default_session_ledger)\<rparr> = default_session_ledger"
    by (simp add: default_session_ledger_def begin_default)
  then have "append_batch X default_ledger sid 0 ds = Inr (n\<lparr>version := 1\<rparr>, ps)"
    using n assms(6) stored(3)
    by (simp add: append_batch_def default_ledger_def Let_def first_position_def checked_add_def ok_or_def)
      (simp add: default_session_ledger_def)
  with screened assms(1) n(2) stored draft_of_map2 [OF stored(1), of sid] show ?thesis
    by (simp add: ledger_after_def commit_def)
qed

subsection \<open>The facts\<close>

definition usage_member :: "string \<Rightarrow> string \<times> json" where
  [sample_eval]: "usage_member k = (k, JObject [(''input_tokens'', JObject [text_member ''kind'' ''unknown'']),
     (''output_tokens'', JObject [text_member ''kind'' ''unknown'']), text_member ''source'' ''estimated''])"

definition claimed_payload :: json where
  [sample_eval]: "claimed_payload = JObject [text_member ''due_at_utc'' ''1970-01-01T00:00:00Z'',
     number_member ''lease_epoch'' 1, text_member ''lease_id'' ''lease-1'', text_member ''occurrence_id'' ''occurrence-1'',
     number_member ''ordinal'' 1, text_member ''revision_id'' ''revision-1'', text_member ''schedule_id'' ''schedule-1'',
     number_member ''through_position'' 2]"

definition requested_payload :: json where
  [sample_eval]: "requested_payload = JObject [text_member ''delegation_id'' ''delegation-1'', content_member ''intent'',
     digest_member ''intent_digest'', text_member ''parent_agent_instance_id'' ''agent-1'', number_member ''through_position'' 5]"

definition granted_payload :: json where
  [sample_eval]: "granted_payload = JObject [text_member ''authority_revision'' ''1'',
     text_member ''delegation_id'' ''delegation-1'', text_member ''grant_id'' ''grant-1'', digest_member ''intent_digest'',
     (''reserved_budget'', JObject (map (\<lambda>k. number_member k 1) budget_fields))]"

definition suspended_execution_payload :: json where
  [sample_eval]: "suspended_execution_payload = JObject [number_member ''completed_iterations'' 0,
     content_member ''continuation'', text_member ''reason'' ''delegation_pending'',
     text_member ''suspension_id'' ''suspension-1'', usage_member ''usage'']"

definition suspended_turn_payload :: json where
  [sample_eval]: "suspended_turn_payload = JObject [content_member ''continuation'', usage_member ''cumulative_usage'',
     text_member ''execution_id'' ''execution-1'', text_member ''reason'' ''delegation_pending'',
     text_member ''suspension_id'' ''suspension-1'']"

definition child_turn_payload :: json where
  [sample_eval]: "child_turn_payload = JObject [text_member ''agent_instance_id'' ''agent-2'',
     text_member ''command_id'' ''command-2'', text_member ''definition_id'' ''definition-1'',
     text_member ''definition_revision'' ''1'', text_member ''kind'' ''start'',
     digest_member ''snapshot_digest'', digest_member ''trusted_input_digest'']"

definition child_started_payload :: json where
  [sample_eval]: "child_started_payload = JObject [text_member ''child_agent_instance_id'' ''agent-2'',
     digest_member ''child_snapshot_digest'', text_member ''child_turn_id'' ''turn-2'',
     text_member ''delegation_id'' ''delegation-1'', text_member ''grant_id'' ''grant-1'',
     text_member ''suspension_id'' ''suspension-1'']"

definition completed_execution_payload :: json where
  [sample_eval]: "completed_execution_payload = JObject [number_member ''completed_iterations'' 0,
     content_member ''response'', usage_member ''usage'']"

definition completed_turn_payload :: json where
  [sample_eval]: "completed_turn_payload = JObject [usage_member ''cumulative_usage'',
     text_member ''execution_id'' ''execution-2'', content_member ''response'']"

definition child_terminal_payload :: json where
  [sample_eval]: "child_terminal_payload = JObject [text_member ''child_agent_instance_id'' ''agent-2'',
     text_member ''child_turn_id'' ''turn-2'', text_member ''delegation_id'' ''delegation-1'',
     text_member ''grant_id'' ''grant-1'', content_member ''result'', digest_member ''result_digest'',
     text_member ''result_id'' ''result-1'', text_member ''suspension_id'' ''suspension-1'']"

definition observed_payload :: json where
  [sample_eval]: "observed_payload = JObject [text_member ''delegation_id'' ''delegation-1'',
     text_member ''grant_id'' ''grant-1'', digest_member ''result_digest'',
     text_member ''result_id'' ''result-1'', text_member ''suspension_id'' ''suspension-1'']"

definition obligation_documents :: "(string \<times> json) list" where
  "obligation_documents = [(''opened'', JObject []), (''created'', created_payload), (''claimed'', claimed_payload),
     (''turn'', turn_payload), (''execution'', execution_payload), (''requested'', requested_payload),
     (''granted'', granted_payload), (''suspended-execution'', suspended_execution_payload),
     (''suspended-turn'', suspended_turn_payload), (''child-turn'', child_turn_payload),
     (''child-started'', child_started_payload), (''child-execution'', execution_payload),
     (''completed-execution'', completed_execution_payload), (''completed-turn'', completed_turn_payload),
     (''child-terminal'', child_terminal_payload), (''observed'', observed_payload)]"

definition obligation_sample :: externals where
  "obligation_sample = \<lparr>sha256_hex = (\<lambda>_. sample_digest), from_str = map_of obligation_documents, rfc3339_utc = Some\<rparr>"

lemma obligation_sample_sel [simp]:
  "sha256_hex obligation_sample s = sample_digest" "rfc3339_utc obligation_sample s = Some s"
  "from_str obligation_sample s = map_of obligation_documents s"
  by (simp_all add: obligation_sample_def)

definition in_child :: "fact_draft \<Rightarrow> fact_draft" where
  [sample_eval]: "in_child f = f\<lparr>turn_id := Some (Ident ''turn-2'')\<rparr>"
definition in_child_execution :: "fact_draft \<Rightarrow> fact_draft" where
  [sample_eval]: "in_child_execution f = (in_child f)\<lparr>execution_id := Some (Ident ''execution-2'')\<rparr>"

definition claimed_fact :: fact_draft where
  [sample_eval]: "claimed_fact = sample_fact ''claimed'' ''schedule.claimed'' 1"
definition requested_fact :: fact_draft where
  [sample_eval]: "requested_fact = in_execution (sample_fact ''requested'' ''delegation.requested'' 1)"
definition granted_fact :: fact_draft where
  [sample_eval]: "granted_fact = in_execution (sample_fact ''granted'' ''delegation.authorized'' 1)"
definition suspended_execution_fact :: fact_draft where
  [sample_eval]: "suspended_execution_fact = in_execution (sample_fact ''suspended-execution'' ''execution.suspended'' 1)"
definition suspended_turn_fact :: fact_draft where
  [sample_eval]: "suspended_turn_fact = in_turn (sample_fact ''suspended-turn'' ''turn.suspended'' 1)"
definition child_turn_fact :: fact_draft where
  [sample_eval]: "child_turn_fact = in_child (sample_fact ''child-turn'' ''turn.started'' 1)"
definition child_started_fact :: fact_draft where
  [sample_eval]: "child_started_fact = in_execution (sample_fact ''child-started'' ''delegation.child_started'' 1)"
definition child_execution_fact :: fact_draft where
  [sample_eval]: "child_execution_fact = in_child_execution (sample_fact ''child-execution'' ''execution.started'' 1)"
definition completed_execution_fact :: fact_draft where
  [sample_eval]: "completed_execution_fact = in_child_execution (sample_fact ''completed-execution'' ''execution.completed'' 1)"
definition completed_turn_fact :: fact_draft where
  [sample_eval]: "completed_turn_fact = in_child (sample_fact ''completed-turn'' ''turn.completed'' 1)"
definition child_terminal_fact :: fact_draft where
  [sample_eval]: "child_terminal_fact = in_execution (sample_fact ''child-terminal'' ''delegation.child_terminal'' 1)"
definition observed_fact :: fact_draft where
  [sample_eval]: "observed_fact = in_execution (sample_fact ''observed'' ''delegation.observed'' 1)"

definition obligation_batch :: "fact_draft list" where
  "obligation_batch = [opened_fact, created_fact, claimed_fact, turn_fact, execution_fact, requested_fact, granted_fact,
     suspended_execution_fact, suspended_turn_fact, child_turn_fact, child_started_fact, child_execution_fact,
     completed_execution_fact, completed_turn_fact, child_terminal_fact, observed_fact]"

lemmas obligation_checks = sample_checks obligation_documents_def timestamp_def schedule_validate_def schedule_created_def
  schedule_claimed_def turn_suspended_def turn_completed_def execution_part_def usage_part_def usage_def token_count_def
  delegation_validate_def delegation_requested_def delegation_authorized_def delegation_budget_def
  delegation_child_started_def delegation_child_terminal_def delegation_observed_def same_binding_digest_def
  budget_fields_def jat_def jindex_def

lemma obligation_admitted_schedule:
  "validate_runtime_fact obligation_sample opened_fact = Inr Opaque"
  "validate_runtime_fact obligation_sample created_fact = Inr AppliedV1"
  "validate_runtime_fact obligation_sample claimed_fact = Inr AppliedV1"
  by (simp_all add: sample_eval obligation_checks cong: rbind_eval)

lemma obligation_admitted_parent:
  "validate_runtime_fact obligation_sample turn_fact = Inr AppliedV1"
  "validate_runtime_fact obligation_sample execution_fact = Inr AppliedV1"
  "validate_runtime_fact obligation_sample requested_fact = Inr AppliedV1"
  "validate_runtime_fact obligation_sample granted_fact = Inr AppliedV1"
  "validate_runtime_fact obligation_sample suspended_execution_fact = Inr AppliedV1"
  "validate_runtime_fact obligation_sample suspended_turn_fact = Inr AppliedV1"
  by (simp_all add: sample_eval obligation_checks cong: rbind_eval)

lemma obligation_admitted_child:
  "validate_runtime_fact obligation_sample child_turn_fact = Inr AppliedV1"
  "validate_runtime_fact obligation_sample child_started_fact = Inr AppliedV1"
  "validate_runtime_fact obligation_sample child_execution_fact = Inr AppliedV1"
  "validate_runtime_fact obligation_sample completed_execution_fact = Inr AppliedV1"
  "validate_runtime_fact obligation_sample completed_turn_fact = Inr AppliedV1"
  "validate_runtime_fact obligation_sample child_terminal_fact = Inr AppliedV1"
  "validate_runtime_fact obligation_sample observed_fact = Inr AppliedV1"
  by (simp_all add: sample_eval obligation_checks cong: rbind_eval)

lemma obligation_valid:
  "d \<in> set obligation_batch \<Longrightarrow> draft_validate obligation_sample d = Inr () \<and> (\<exists>v. validate_runtime_fact obligation_sample d = Inr v)"
  by (auto simp: obligation_batch_def obligation_admitted_schedule obligation_admitted_parent obligation_admitted_child)
    (simp_all add: sample_eval draft_validate_def payload_verify_def)

lemma obligation_ids: "distinct (map fact_id obligation_batch)"
  by (simp add: obligation_batch_def sample_eval)

subsection \<open>The projection after the facts\<close>

lemma list_ex_bt_insert: "\<not> P v \<Longrightarrow> \<not> list_ex P (bt_values m) \<Longrightarrow> \<not> list_ex P (bt_values (bt_insert k v m))"
  by (auto simp: list_ex_bt_values split: if_splits)

lemma bt_values_empty: "bt_values bt_empty = []"
  by (simp add: bt_values_def bt_empty.rep_eq)

definition claimed_record :: schedule_record where
  "claimed_record = sample_record\<lparr>sc_pending_claim := Some \<lparr>cl_occurrence_id = ''occurrence-1'', cl_ordinal = 1,
     cl_due_at_utc = ''1970-01-01T00:00:00Z'', cl_lease_epoch = 1\<rparr>\<rparr>"

definition requested_delegation :: delegation_record where
  "requested_delegation = \<lparr>dl_parent_turn = Ident ''turn-1'', dl_parent_execution = Ident ''execution-1'',
     dl_intent_digest = sample_digest, dl_grant_id = None, dl_suspension_id = None, dl_child_turn = None,
     dl_result_id = None, dl_result_digest = None, dl_input_admitted = False, dl_state = DelRequested\<rparr>"
definition granted_delegation :: delegation_record where
  "granted_delegation = requested_delegation\<lparr>dl_grant_id := Some ''grant-1'', dl_state := DelAuthorized\<rparr>"
definition started_delegation :: delegation_record where
  "started_delegation = granted_delegation\<lparr>dl_suspension_id := Some ''suspension-1'',
     dl_child_turn := Some (Ident ''turn-2''), dl_state := DelStarted\<rparr>"
definition finished_delegation :: delegation_record where
  "finished_delegation = started_delegation\<lparr>dl_result_id := Some ''result-1'', dl_result_digest := Some sample_digest,
     dl_state := DelTerminal\<rparr>"

definition state_claimed :: session_projection where
  "state_claimed = after_opened\<lparr>schedules := bt_insert ''schedule-1'' claimed_record bt_empty\<rparr>"
definition state_turn :: session_projection where
  "state_turn = state_claimed\<lparr>turns := bt_insert (Ident ''turn-1'') TurnOpen bt_empty,
     turn_agents := bt_insert (Ident ''turn-1'') (''agent-1'', sample_digest) bt_empty,
     turns_started_in_commit := {Ident ''turn-1''}, suspensions := bt_remove (Ident ''turn-1'') bt_empty\<rparr>"
definition state_execution :: session_projection where
  "state_execution = state_turn\<lparr>executions := bt_insert (Ident ''execution-1'') (Ident ''turn-1'', ExecActive) bt_empty,
     execution_iterations := bt_insert (Ident ''execution-1'') 0 bt_empty\<rparr>"
definition state_requested :: session_projection where
  "state_requested = state_execution\<lparr>delegations := bt_insert ''delegation-1'' requested_delegation bt_empty\<rparr>"
definition state_granted :: session_projection where
  "state_granted = state_execution\<lparr>delegations := bt_insert ''delegation-1'' granted_delegation bt_empty\<rparr>"
definition state_suspended_execution :: session_projection where
  "state_suspended_execution = state_granted\<lparr>
     executions := bt_insert (Ident ''execution-1'') (Ident ''turn-1'', ExecSuspended) bt_empty\<rparr>"
definition state_suspended :: session_projection where
  "state_suspended = state_suspended_execution\<lparr>turns := bt_insert (Ident ''turn-1'') TurnSuspended bt_empty,
     suspensions := bt_insert (Ident ''turn-1'') ''suspension-1'' (bt_remove (Ident ''turn-1'') bt_empty),
     turns_suspended_in_commit := {Ident ''turn-1''}\<rparr>"
definition state_child_turn :: session_projection where
  "state_child_turn = state_suspended\<lparr>
     turns := bt_insert (Ident ''turn-2'') TurnOpen (turns state_suspended),
     turn_agents := bt_insert (Ident ''turn-2'') (''agent-2'', sample_digest) (turn_agents state_suspended),
     turns_started_in_commit := {Ident ''turn-2'', Ident ''turn-1''},
     suspensions := bt_remove (Ident ''turn-2'') (suspensions state_suspended)\<rparr>"
definition state_child_started :: session_projection where
  "state_child_started = state_child_turn\<lparr>delegations := bt_insert ''delegation-1'' started_delegation bt_empty\<rparr>"
definition state_child_execution :: session_projection where
  "state_child_execution = state_child_started\<lparr>
     executions := bt_insert (Ident ''execution-2'') (Ident ''turn-2'', ExecActive) (executions state_suspended),
     execution_iterations := bt_insert (Ident ''execution-2'') 0 (execution_iterations state_suspended)\<rparr>"
definition state_completed_execution :: session_projection where
  "state_completed_execution = state_child_execution\<lparr>
     executions := bt_insert (Ident ''execution-2'') (Ident ''turn-2'', ExecCompleted) (executions state_suspended)\<rparr>"
definition state_completed :: session_projection where
  "state_completed = state_completed_execution\<lparr>
     turns := bt_insert (Ident ''turn-2'') TurnCompleted (turns state_suspended),
     turns_terminal_in_commit := {Ident ''turn-2''}\<rparr>"
definition state_finished :: session_projection where
  "state_finished = state_completed\<lparr>delegations := bt_insert ''delegation-1'' finished_delegation bt_empty\<rparr>"
definition state_observed :: session_projection where
  "state_observed = state_completed\<lparr>
     delegations := bt_insert ''delegation-1'' (finished_delegation\<lparr>dl_state := DelObserved\<rparr>) bt_empty\<rparr>"

lemmas state_defs = state_observed_def state_finished_def state_completed_def state_completed_execution_def
  state_child_execution_def state_child_started_def state_child_turn_def state_suspended_def
  state_suspended_execution_def state_granted_def state_requested_def state_execution_def state_turn_def
  state_claimed_def after_created_def after_opened_def default_projection_def claimed_record_def sample_record_def
  finished_delegation_def started_delegation_def granted_delegation_def requested_delegation_def

lemmas obligation_handlers = handler_defs obligation_documents_def create_schedule_def claim_schedule_def schedule_mut_def
  set_schedule_def checked_add_def request_delegation_def delegation_decidable_def authorize_delegation_def
  start_delegation_child_def terminal_delegation_child_def observe_delegation_def suspend_turn_def
  transition_turn_def terminal_turn_def transition_execution_def identity_of_def ledger_identity_def
  has_recovery_pending_invocation_def has_pending_knowledge_def has_pending_interaction_def
  has_pending_interaction_for_turn_def list_ex_bt_insert bt_values_empty bt.put_put

lemma applied_schedule:
  "apply_fact obligation_sample opened_fact default_projection = Inr after_opened"
  "apply_fact obligation_sample created_fact after_opened = Inr after_created"
  "apply_fact obligation_sample claimed_fact after_created = Inr state_claimed"
  by (simp_all add: sample_eval obligation_handlers state_defs cong: rbind_eval)

lemma applied_parent:
  "apply_fact obligation_sample turn_fact state_claimed = Inr state_turn"
  "apply_fact obligation_sample execution_fact state_turn = Inr state_execution"
  "apply_fact obligation_sample requested_fact state_execution = Inr state_requested"
  "apply_fact obligation_sample granted_fact state_requested = Inr state_granted"
  by (simp_all add: sample_eval obligation_handlers state_defs cong: rbind_eval)

lemma applied_suspension:
  "apply_fact obligation_sample suspended_execution_fact state_granted = Inr state_suspended_execution"
  "apply_fact obligation_sample suspended_turn_fact state_suspended_execution = Inr state_suspended"
  by (simp_all add: sample_eval obligation_handlers state_defs cong: rbind_eval)

lemma applied_child:
  "apply_fact obligation_sample child_turn_fact state_suspended = Inr state_child_turn"
  "apply_fact obligation_sample child_started_fact state_child_turn = Inr state_child_started"
  "apply_fact obligation_sample child_execution_fact state_child_started = Inr state_child_execution"
  by (simp_all add: sample_eval obligation_handlers state_defs cong: rbind_eval)

lemma applied_completion:
  "apply_fact obligation_sample completed_execution_fact state_child_execution = Inr state_completed_execution"
  "apply_fact obligation_sample completed_turn_fact state_completed_execution = Inr state_completed"
  by (simp_all add: sample_eval obligation_handlers state_defs cong: rbind_eval)

lemma applied_result:
  "apply_fact obligation_sample child_terminal_fact state_completed = Inr state_finished"
  "apply_fact obligation_sample observed_fact state_finished = Inr state_observed"
  by (simp_all add: sample_eval obligation_handlers state_defs cong: rbind_eval)

subsection \<open>The session\<close>

definition obligation_commits :: "commit_command list" where
  "obligation_commits = [(sample_session, 0, obligation_batch)]"

lemma obligation_boundary: "validate_commit_boundary state_observed = Inr ()"
  by (simp add: validate_commit_boundary_def state_defs list_ex_bt_insert bt_values_empty)

lemma obligation_in_ledger:
  "\<exists>l. bt_get (sessions (ledger_after obligation_sample default_ledger obligation_commits)) sample_session = Some l
    \<and> projection l = state_observed \<and> map draft_of (facts l) = obligation_batch"
  unfolding obligation_commits_def
proof (rule fresh_commit)
  show "run (\<lambda>p f. apply_fact obligation_sample f p) default_projection obligation_batch = Inr state_observed"
    by (simp add: obligation_batch_def applied_schedule applied_parent applied_suspension applied_child
        applied_completion applied_result)
qed (simp_all add: obligation_valid obligation_ids obligation_boundary, simp_all add: obligation_batch_def)

lemma obligation_records:
  "bt_get (delegations state_observed) ''delegation-1'' = Some (finished_delegation\<lparr>dl_state := DelObserved\<rparr>)"
  "bt_get (schedules state_observed) ''schedule-1'' = Some claimed_record"
  by (simp_all add: state_defs)

end
