(* ===== verification/Skill_Activation.thy ===== *)
theory Skill_Activation
  imports Rust_Text Tool_Preparation
begin

section \<open>Skills and their activation\<close>

text \<open>
  Skill definitions (\<open>engine/skill/src/definition.rs\<close>) and the selection of the skills that enter the
  model context of one iteration (\<open>engine/skill/src/reducer.rs\<close>). A definition binds its instructions
  by digest and may only narrow the capabilities and tools of the snapshot. Activation takes the enabled
  definitions, ranks the ones the trusted request selects, and activates a prefix of that ranking within
  the bounds of the request.

  The main result is \<open>activation_exact\<close>: the activated skills are the longest prefix of the ranking that
  stays within the bounds, each within the available capabilities and tools. SHA-256 and the canonical
  encoder are parameters.
\<close>

subsection \<open>Definitions\<close>

datatype SkillErrorCode =
    InvalidSkill | SkillNotEnabled | SkillRevisionMismatch | InstructionDigestMismatch
  | ActivationModeUnsupported | RequiredCapabilityUnavailable | InstructionLimitExceeded
  | ActivationConflict | SkillDurabilityFailure | CorruptSkillState

record ContentBinding =
  cb_digest :: string
  cb_inline_utf8 :: string

definition content_binding :: "tool_externals \<Rightarrow> string \<Rightarrow> string \<Rightarrow> SkillErrorCode + ContentBinding" where
  "content_binding X d inline_utf8 =
     (if \<not> valid_digest d \<or> sha256 X inline_utf8 \<noteq> d then Inl InstructionDigestMismatch
      else Inr \<lparr>cb_digest = d, cb_inline_utf8 = inline_utf8\<rparr>)"

definition from_inline :: "tool_externals \<Rightarrow> string \<Rightarrow> ContentBinding" where
  "from_inline X inline_utf8 = \<lparr>cb_digest = sha256 X inline_utf8, cb_inline_utf8 = inline_utf8\<rparr>"

definition byte_len :: "ContentBinding \<Rightarrow> u64" where
  "byte_len c = of_nat (length (cb_inline_utf8 c))"

datatype CapabilityReference = CapabilityReference
  (cr_kind: string) (cr_name: string) (cr_exact_revision: string) (cr_contract_version: string)

datatype ExactToolReference = ExactToolReference (tr_name: string) (tr_exact_revision: string)

definition capability_key :: "CapabilityReference \<Rightarrow> string \<times> string \<times> string \<times> string" where
  "capability_key c = (cr_kind c, cr_name c, cr_exact_revision c, cr_contract_version c)"

definition tool_key :: "ExactToolReference \<Rightarrow> string \<times> string" where
  "tool_key t = (tr_name t, tr_exact_revision t)"

text \<open>The derived orders compare the fields in their order.\<close>

instantiation CapabilityReference :: linorder
begin

definition less_eq_CapabilityReference :: "CapabilityReference \<Rightarrow> CapabilityReference \<Rightarrow> bool" where
  "less_eq_CapabilityReference a b \<longleftrightarrow> capability_key a \<le> capability_key b"

definition less_CapabilityReference :: "CapabilityReference \<Rightarrow> CapabilityReference \<Rightarrow> bool" where
  "less_CapabilityReference a b \<longleftrightarrow> capability_key a < capability_key b"

instance
proof
  fix a b :: CapabilityReference
  show "a \<le> b \<Longrightarrow> b \<le> a \<Longrightarrow> a = b"
    unfolding less_eq_CapabilityReference_def
    by (drule (1) antisym) (simp add: capability_key_def CapabilityReference.expand)
qed (auto simp: less_eq_CapabilityReference_def less_CapabilityReference_def less_le_not_le)

end

instantiation ExactToolReference :: linorder
begin

definition less_eq_ExactToolReference :: "ExactToolReference \<Rightarrow> ExactToolReference \<Rightarrow> bool" where
  "less_eq_ExactToolReference a b \<longleftrightarrow> tool_key a \<le> tool_key b"

definition less_ExactToolReference :: "ExactToolReference \<Rightarrow> ExactToolReference \<Rightarrow> bool" where
  "less_ExactToolReference a b \<longleftrightarrow> tool_key a < tool_key b"

instance
proof
  fix a b :: ExactToolReference
  show "a \<le> b \<Longrightarrow> b \<le> a \<Longrightarrow> a = b"
    unfolding less_eq_ExactToolReference_def
    by (drule (1) antisym) (simp add: tool_key_def ExactToolReference.expand)
qed (auto simp: less_eq_ExactToolReference_def less_ExactToolReference_def less_le_not_le)

end

definition capability_reference ::
  "string \<Rightarrow> string \<Rightarrow> string \<Rightarrow> string \<Rightarrow> SkillErrorCode + CapabilityReference" where
  "capability_reference k n r v =
     (if list_ex (\<lambda>part. \<not> valid_text part 256) [k, n, r, v] then Inl InvalidSkill
      else Inr (CapabilityReference k n r v))"

definition exact_tool_reference :: "string \<Rightarrow> string \<Rightarrow> SkillErrorCode + ExactToolReference" where
  "exact_tool_reference n r =
     (if \<not> valid_text n 256 \<or> \<not> valid_text r 256 then Inl InvalidSkill else Inr (ExactToolReference n r))"

datatype ActivationPolicy = ExplicitOnly | PolicyTagged (policy_tags: "string list")

definition policy_tagged :: "string list \<Rightarrow> SkillErrorCode + ActivationPolicy" where
  "policy_tagged tags =
     (if tags = [] \<or> list_ex (\<lambda>t. \<not> valid_text t 128) tags \<or> \<not> ordered_unique tags then Inl InvalidSkill
      else Inr (PolicyTagged tags))"

definition matched_tag_count :: "ActivationPolicy \<Rightarrow> string set \<Rightarrow> nat" where
  "matched_tag_count p trusted = (case p of
      ExplicitOnly \<Rightarrow> 0 | PolicyTagged tags \<Rightarrow> length (filter (\<lambda>t. t \<in> trusted) tags))"

record SkillDefinition =
  sd_skill_id :: string
  sd_skill_revision :: string
  sd_name :: string
  sd_description :: string
  sd_instructions :: ContentBinding
  sd_activation :: ActivationPolicy
  sd_required_capabilities :: "CapabilityReference list"
  sd_allowed_tool_references :: "ExactToolReference list"
  sd_max_instruction_bytes :: u64
  sd_contract_version :: string

definition skill_definition ::
  "string \<Rightarrow> string \<Rightarrow> string \<Rightarrow> string \<Rightarrow> ContentBinding \<Rightarrow> ActivationPolicy \<Rightarrow> CapabilityReference list
     \<Rightarrow> ExactToolReference list \<Rightarrow> u64 \<Rightarrow> string \<Rightarrow> SkillErrorCode + SkillDefinition" where
  "skill_definition i r n d content policy caps refs bytes version_text =
     (let v = \<lparr>sd_skill_id = i, sd_skill_revision = r, sd_name = n, sd_description = d,
               sd_instructions = content, sd_activation = policy, sd_required_capabilities = caps,
               sd_allowed_tool_references = refs, sd_max_instruction_bytes = bytes,
               sd_contract_version = version_text\<rparr>
      in if \<not> valid_text (sd_skill_id v) 128
            \<or> \<not> valid_text (sd_skill_revision v) 128
            \<or> \<not> valid_text (sd_name v) 256
            \<or> \<not> valid_text (sd_description v) 4096
            \<or> \<not> valid_text (sd_contract_version v) 256
            \<or> sd_max_instruction_bytes v = 0
            \<or> byte_len (sd_instructions v) > sd_max_instruction_bytes v
            \<or> \<not> ordered_unique (sd_required_capabilities v)
            \<or> \<not> ordered_unique (sd_allowed_tool_references v)
         then Inl InvalidSkill else Inr v)"

definition capability_json :: "CapabilityReference \<Rightarrow> json" where
  "capability_json c = jobject [(''kind'', JString (cr_kind c)), (''name'', JString (cr_name c)),
     (''exact_revision'', JString (cr_exact_revision c)), (''contract_version'', JString (cr_contract_version c))]"

definition tool_reference_json :: "ExactToolReference \<Rightarrow> json" where
  "tool_reference_json t = jobject [(''name'', JString (tr_name t)), (''exact_revision'', JString (tr_exact_revision t))]"

definition skill_policy_json :: "ActivationPolicy \<Rightarrow> json" where
  "skill_policy_json p = (case p of
      ExplicitOnly \<Rightarrow> jobject [(''kind'', JString ''explicit_only'')]
    | PolicyTagged tags \<Rightarrow> jobject [(''kind'', JString ''tagged''), (''tags'', jtext_list tags)])"

definition skill_json :: "SkillDefinition \<Rightarrow> json" where
  "skill_json d = jobject [
     (''skill_id'', JString (sd_skill_id d)), (''skill_revision'', JString (sd_skill_revision d)),
     (''name'', JString (sd_name d)), (''description'', JString (sd_description d)),
     (''instructions'', jobject [(''digest'', JString (cb_digest (sd_instructions d))),
        (''inline_utf8'', JString (cb_inline_utf8 (sd_instructions d)))]),
     (''activation'', skill_policy_json (sd_activation d)),
     (''required_capabilities'', JArray (map capability_json (sd_required_capabilities d))),
     (''allowed_tool_references'', JArray (map tool_reference_json (sd_allowed_tool_references d))),
     (''max_instruction_bytes'', JNumber (PosInt (sd_max_instruction_bytes d))),
     (''contract_version'', JString (sd_contract_version d))]"

definition definition_digest :: "tool_externals \<Rightarrow> SkillDefinition \<Rightarrow> SkillErrorCode + string" where
  "definition_digest X d =
     rbind (ok_or (jcs X (jobject [(''contract'', JString ''garive.skill-definition''),
                     (''version'', JNumber (PosInt 1)), (''definition'', skill_json d)])) InvalidSkill)
       (\<lambda>bytes. Inr (sha256 X bytes))"

subsection \<open>Requests\<close>

datatype ActivationMode = ModeExplicit | ModeTagged

datatype ActivationReason = ReasonExplicit | TagMatch

definition mode_from_wire :: "string \<Rightarrow> SkillErrorCode + ActivationMode" where
  "mode_from_wire s = (if s = ''explicit'' then Inr ModeExplicit
     else if s = ''tagged'' then Inr ModeTagged else Inl ActivationModeUnsupported)"

record SkillActivationRequest =
  ar_activation_id :: string
  ar_turn_id :: string
  ar_execution_id :: string
  ar_iteration :: u64
  ar_mode :: ActivationMode
  ar_requested_skill_id :: "string option"
  ar_trusted_tags :: "string list"
  ar_through_position :: u64
  ar_max_active_skills :: u32
  ar_max_total_instruction_bytes :: u64

definition activation_request ::
  "string \<Rightarrow> string \<Rightarrow> string \<Rightarrow> u64 \<Rightarrow> ActivationMode \<Rightarrow> string option \<Rightarrow> string list \<Rightarrow> u64 \<Rightarrow> u32 \<Rightarrow> u64
     \<Rightarrow> SkillErrorCode + SkillActivationRequest" where
  "activation_request activation turn execution iteration mode requested tags through max_active max_bytes =
     (let v = \<lparr>ar_activation_id = activation, ar_turn_id = turn, ar_execution_id = execution,
               ar_iteration = iteration, ar_mode = mode, ar_requested_skill_id = requested,
               ar_trusted_tags = tags, ar_through_position = through, ar_max_active_skills = max_active,
               ar_max_total_instruction_bytes = max_bytes\<rparr>;
          explicit_shape = (ar_requested_skill_id v \<noteq> None \<and> ar_trusted_tags v = []);
          tagged_shape = (ar_requested_skill_id v = None)
      in if \<not> valid_text (ar_activation_id v) 128
            \<or> \<not> valid_text (ar_turn_id v) 128
            \<or> \<not> valid_text (ar_execution_id v) 128
            \<or> ar_iteration v = 0
            \<or> ar_max_active_skills v = 0
            \<or> ar_max_total_instruction_bytes v = 0
            \<or> (case ar_requested_skill_id v of None \<Rightarrow> False | Some i \<Rightarrow> \<not> valid_text i 128)
            \<or> list_ex (\<lambda>t. \<not> valid_text t 128) (ar_trusted_tags v)
            \<or> \<not> ordered_unique (ar_trusted_tags v)
            \<or> (ar_mode v = ModeExplicit \<and> \<not> explicit_shape)
            \<or> (ar_mode v = ModeTagged \<and> \<not> tagged_shape)
         then Inl InvalidSkill else Inr v)"

definition mode_name :: "ActivationMode \<Rightarrow> string" where
  "mode_name m = (case m of ModeExplicit \<Rightarrow> ''explicit'' | ModeTagged \<Rightarrow> ''tagged'')"

definition request_digest :: "tool_externals \<Rightarrow> SkillActivationRequest \<Rightarrow> SkillErrorCode + string" where
  "request_digest X r =
     rbind (ok_or (jcs X (jobject [(''contract'', JString ''garive.skill-activation''),
         (''version'', JNumber (PosInt 1)),
         (''request'', jobject [
           (''turn_id'', JString (ar_turn_id r)), (''execution_id'', JString (ar_execution_id r)),
           (''iteration'', JNumber (PosInt (ar_iteration r))), (''mode'', JString (mode_name (ar_mode r))),
           (''requested_skill_id'', case ar_requested_skill_id r of None \<Rightarrow> JNull | Some i \<Rightarrow> JString i),
           (''trusted_tags'', jtext_list (ar_trusted_tags r)),
           (''through_position'', JNumber (PosInt (ar_through_position r))),
           (''max_active_skills'', JNumber (PosInt (ucast (ar_max_active_skills r)))),
           (''max_total_instruction_bytes'', JNumber (PosInt (ar_max_total_instruction_bytes r)))])])) InvalidSkill)
       (\<lambda>bytes. Inr (sha256 X bytes))"

subsection \<open>Activation\<close>

record ActivatedSkill =
  as_skill_id :: string
  as_skill_revision :: string
  as_definition_digest :: string
  as_instructions :: string
  as_instruction_digest :: string
  as_reason :: ActivationReason
  as_allowed_tool_references :: "ExactToolReference list"

datatype SkillActivationResult = Activated (ordered_skills: "ActivatedSkill list") (truncated: bool) | NoneActivated

fun deduplicate ::
  "(string \<times> string, SkillDefinition) btmap \<Rightarrow> SkillDefinition list
     \<Rightarrow> SkillErrorCode + (string \<times> string, SkillDefinition) btmap" where
  "deduplicate result [] = Inr result"
| "deduplicate result (d # ds) =
     (let key = (sd_skill_id d, sd_skill_revision d)
      in case bt_get result key of
           Some previous \<Rightarrow> if previous \<noteq> d then Inl ActivationConflict else deduplicate (bt_insert key d result) ds
         | None \<Rightarrow> deduplicate (bt_insert key d result) ds)"

definition validate_snapshot_narrowing ::
  "SkillDefinition \<Rightarrow> CapabilityReference set \<Rightarrow> ExactToolReference set \<Rightarrow> SkillErrorCode + unit" where
  "validate_snapshot_narrowing d caps tool_refs =
     (if list_ex (\<lambda>c. c \<notin> caps) (sd_required_capabilities d) then Inl RequiredCapabilityUnavailable
      else if list_ex (\<lambda>t. t \<notin> tool_refs) (sd_allowed_tool_references d) then Inl SkillNotEnabled
      else Inr ())"

type_synonym candidate = "SkillDefinition \<times> nat \<times> ActivationReason"

definition explicit_candidates ::
  "SkillDefinition list \<Rightarrow> string option \<Rightarrow> (SkillErrorCode + candidate list) option" where
  "explicit_candidates definitions requested = (case requested of
      None \<Rightarrow> None
    | Some i \<Rightarrow> Some (case filter (\<lambda>d. sd_skill_id d = i) definitions of
          [] \<Rightarrow> Inl SkillNotEnabled
        | [d] \<Rightarrow> Inr [(d, 0, ReasonExplicit)]
        | _ \<Rightarrow> Inl SkillRevisionMismatch))"

definition tagged_candidates :: "SkillDefinition list \<Rightarrow> string set \<Rightarrow> candidate list" where
  "tagged_candidates definitions trusted =
     List.map_filter (\<lambda>d. let count = matched_tag_count (sd_activation d) trusted
       in if count > 0 then Some (d, count, TagMatch) else None) definitions"

definition candidate_key :: "candidate \<Rightarrow> int \<times> string \<times> string" where
  "candidate_key c = (- int (fst (snd c)), sd_skill_id (fst c), sd_skill_revision (fst c))"

definition activated_skill ::
  "tool_externals \<Rightarrow> SkillDefinition \<Rightarrow> ActivationReason \<Rightarrow> SkillErrorCode + ActivatedSkill" where
  "activated_skill X d reason = rbind (definition_digest X d) (\<lambda>dg. Inr
     \<lparr>as_skill_id = sd_skill_id d, as_skill_revision = sd_skill_revision d, as_definition_digest = dg,
      as_instructions = cb_inline_utf8 (sd_instructions d), as_instruction_digest = cb_digest (sd_instructions d),
      as_reason = reason, as_allowed_tool_references = sd_allowed_tool_references d\<rparr>)"

fun activation_loop ::
  "tool_externals \<Rightarrow> CapabilityReference set \<Rightarrow> ExactToolReference set \<Rightarrow> SkillActivationRequest
     \<Rightarrow> ActivatedSkill list \<Rightarrow> u64 \<Rightarrow> candidate list \<Rightarrow> SkillErrorCode + ActivatedSkill list \<times> bool" where
  "activation_loop X caps tool_refs r activated total_bytes [] = Inr (activated, False)"
| "activation_loop X caps tool_refs r activated total_bytes ((d, _, reason) # cs) =
     rbind (validate_snapshot_narrowing d caps tool_refs) (\<lambda>_.
     let next_bytes = saturating_add total_bytes (byte_len (sd_instructions d))
     in if length activated = unat (ar_max_active_skills r) \<or> next_bytes > ar_max_total_instruction_bytes r
        then (if ar_mode r = ModeExplicit then Inl InstructionLimitExceeded else Inr (activated, True))
        else rbind (activated_skill X d reason) (\<lambda>s.
               activation_loop X caps tool_refs r (activated @ [s]) next_bytes cs))"

definition activate_skills ::
  "tool_externals \<Rightarrow> SkillDefinition list \<Rightarrow> CapabilityReference set \<Rightarrow> ExactToolReference set
     \<Rightarrow> SkillActivationRequest \<Rightarrow> (SkillErrorCode + SkillActivationResult) option" where
  "activate_skills X enabled caps tool_refs r =
     pbind (Some (deduplicate bt_empty enabled)) (\<lambda>definitions.
     pbind (case ar_mode r of
         ModeExplicit \<Rightarrow> explicit_candidates (bt_values definitions) (ar_requested_skill_id r)
       | ModeTagged \<Rightarrow> Some (Inr (tagged_candidates (bt_values definitions) (set (ar_trusted_tags r))))) (\<lambda>candidates.
     pbind (Some (activation_loop X caps tool_refs r [] 0 (sort_key candidate_key candidates)))
       (\<lambda>(activated, truncated).
       Some (Inr (if activated = [] \<and> \<not> truncated then NoneActivated else Activated activated truncated)))))"

subsection \<open>The ranking\<close>

definition skill_key :: "SkillDefinition \<Rightarrow> string \<times> string" where
  "skill_key d = (sd_skill_id d, sd_skill_revision d)"

text \<open>Which definitions a request selects, and in which order.\<close>

definition selects :: "SkillActivationRequest \<Rightarrow> SkillDefinition \<Rightarrow> bool" where
  "selects r d \<longleftrightarrow> (case ar_mode r of
      ModeExplicit \<Rightarrow> ar_requested_skill_id r = Some (sd_skill_id d)
    | ModeTagged \<Rightarrow> matched_tag_count (sd_activation d) (set (ar_trusted_tags r)) > 0)"

definition skill_rank :: "SkillActivationRequest \<Rightarrow> SkillDefinition \<Rightarrow> int \<times> string \<times> string" where
  "skill_rank r d = ((case ar_mode r of ModeExplicit \<Rightarrow> 0
     | ModeTagged \<Rightarrow> - int (matched_tag_count (sd_activation d) (set (ar_trusted_tags r)))), skill_key d)"

definition ranking :: "SkillActivationRequest \<Rightarrow> SkillDefinition list \<Rightarrow> SkillDefinition list \<Rightarrow> bool" where
  "ranking r enabled ds \<longleftrightarrow> set ds = {d \<in> set enabled. selects r d}
     \<and> sorted_wrt (\<lambda>a b. skill_rank r a < skill_rank r b) ds"

definition reason_of :: "SkillActivationRequest \<Rightarrow> ActivationReason" where
  "reason_of r = (case ar_mode r of ModeExplicit \<Rightarrow> ReasonExplicit | ModeTagged \<Rightarrow> TagMatch)"

lemma deduplicate_get:
  assumes "deduplicate m ds = Inr m'" and "\<And>k d. bt_get m k = Some d \<Longrightarrow> k = skill_key d"
  shows "bt_get m' k = Some d \<longleftrightarrow> bt_get m k = Some d \<or> (d \<in> set ds \<and> k = skill_key d)"
  using assms
proof (induction ds arbitrary: m)
  case (Cons x ds)
  let ?n = "bt_insert (skill_key x) x m"
  have n: "deduplicate ?n ds = Inr m'" and same: "bt_get m (skill_key x) \<in> {None, Some x}"
    using Cons.prems(1) by (auto simp: skill_key_def Let_def split: option.splits if_splits)
  have keys: "l = skill_key e" if "bt_get ?n l = Some e" for l e
    using that Cons.prems(2) by (auto split: if_splits)
  show ?case
    using Cons.IH [OF n keys] same by (auto split: if_splits)
qed simp

lemma deduplicated:
  assumes "deduplicate bt_empty ds = Inr m"
  shows "set (bt_values m) = set ds" and "sorted_wrt (<) (map skill_key (bt_values m))"
proof -
  have get: "bt_get m k = Some d \<longleftrightarrow> d \<in> set ds \<and> k = skill_key d" for k d
    using deduplicate_get [OF assms] by simp
  then show "set (bt_values m) = set ds"
    unfolding set_eq_iff bt_values_iff by blast
  have "map skill_key (bt_values m) = map fst (bt_entries m)"
    unfolding bt_values_def using get bt.entry_iff [of _ _ m] by (auto simp: comp_def)
  then show "sorted_wrt (<) (map skill_key (bt_values m))"
    using bt_entries_sorted [of m] by simp
qed

lemma sorted_ranking:
  assumes "distinct (map skill_key ds)"
  shows "sorted_wrt (\<lambda>a b. skill_rank r a < skill_rank r b) (sort_key (skill_rank r) ds)"
proof -
  have "map skill_key ds = map snd (map (skill_rank r) ds)"
    by (simp add: skill_rank_def)
  then have "distinct (map (skill_rank r) ds)"
    using assms distinct_map by metis
  then have "distinct (map (skill_rank r) (sort_key (skill_rank r) ds))"
    by (simp add: distinct_map)
  then have "sorted_wrt (<) (map (skill_rank r) (sort_key (skill_rank r) ds))"
    by (simp add: strict_sorted_iff)
  then show ?thesis
    by (simp add: sorted_wrt_map)
qed

lemma insort_key_map: "insort_key f (g x) (map g xs) = map g (insort_key (\<lambda>x. f (g x)) x xs)"
  by (induction xs) auto

lemma sort_key_map: "sort_key f (map g xs) = map g (sort_key (\<lambda>x. f (g x)) xs)"
  by (induction xs) (simp_all add: insort_key_map)

definition candidate_of :: "SkillActivationRequest \<Rightarrow> SkillDefinition \<Rightarrow> candidate" where
  "candidate_of r d = (d, (case ar_mode r of ModeExplicit \<Rightarrow> 0
     | ModeTagged \<Rightarrow> matched_tag_count (sd_activation d) (set (ar_trusted_tags r))), reason_of r)"

lemma candidate_rank: "candidate_key (candidate_of r d) = skill_rank r d"
  by (simp add: candidate_key_def candidate_of_def skill_rank_def skill_key_def split: ActivationMode.split)

lemma candidates_are:
  assumes "(case ar_mode r of ModeExplicit \<Rightarrow> explicit_candidates vs (ar_requested_skill_id r)
       | ModeTagged \<Rightarrow> Some (Inr (tagged_candidates vs (set (ar_trusted_tags r))))) = Some (Inr cs)"
  shows "cs = map (candidate_of r) (filter (selects r) vs)" and "ar_mode r = ModeExplicit \<Longrightarrow> length cs = 1"
proof -
  have *: "cs = map (candidate_of r) (filter (selects r) vs) \<and> (ar_mode r = ModeExplicit \<longrightarrow> length cs = 1)"
  proof (cases "ar_mode r")
    case ModeExplicit
    with assms obtain i d where "ar_requested_skill_id r = Some i" "filter (\<lambda>d. sd_skill_id d = i) vs = [d]"
        "cs = [(d, 0, ReasonExplicit)]"
      by (auto simp: explicit_candidates_def split: option.splits list.splits)
    moreover from this have "selects r = (\<lambda>d. sd_skill_id d = i)"
      using ModeExplicit by (auto simp: selects_def fun_eq_iff)
    ultimately show ?thesis
      using ModeExplicit by (simp add: candidate_of_def reason_of_def)
  next
    case ModeTagged
    with assms have "cs = tagged_candidates vs (set (ar_trusted_tags r))"
      by simp
    moreover have "tagged_candidates vs (set (ar_trusted_tags r)) = map (candidate_of r) (filter (selects r) vs)"
      using ModeTagged by (induction vs) (simp_all add: tagged_candidates_def candidate_of_def selects_def reason_of_def Let_def)
    ultimately show ?thesis
      using ModeTagged by simp
  qed
  then show "cs = map (candidate_of r) (filter (selects r) vs)" and "ar_mode r = ModeExplicit \<Longrightarrow> length cs = 1"
    by auto
qed

lemma candidates_ranked:
  assumes "deduplicate bt_empty enabled = Inr m"
    and "(case ar_mode r of ModeExplicit \<Rightarrow> explicit_candidates (bt_values m) (ar_requested_skill_id r)
       | ModeTagged \<Rightarrow> Some (Inr (tagged_candidates (bt_values m) (set (ar_trusted_tags r))))) = Some (Inr cs)"
  obtains ds where "ranking r enabled ds" and "sort_key candidate_key cs = map (candidate_of r) ds"
    and "ar_mode r = ModeExplicit \<longrightarrow> length ds = 1"
proof -
  let ?ds = "sort_key (skill_rank r) (filter (selects r) (bt_values m))"
  note m = deduplicated [OF assms(1)]
  note cs = candidates_are [OF assms(2)]
  have "distinct (map skill_key (bt_values m))"
    using m(2) strict_sorted_iff by blast
  then have "distinct (map skill_key (filter (selects r) (bt_values m)))"
    by (rule distinct_map_filter)
  then have rank: "ranking r enabled ?ds"
    using m(1) by (simp add: ranking_def sorted_ranking)
  have "sort_key candidate_key cs = map (candidate_of r) ?ds"
    unfolding cs(1) sort_key_map candidate_rank ..
  moreover have "ar_mode r = ModeExplicit \<longrightarrow> length ?ds = 1"
    using cs by simp
  ultimately show thesis
    using rank that by blast
qed

subsection \<open>The loop\<close>

definition narrowed :: "CapabilityReference set \<Rightarrow> ExactToolReference set \<Rightarrow> SkillDefinition \<Rightarrow> bool" where
  "narrowed caps tool_refs d \<longleftrightarrow> set (sd_required_capabilities d) \<subseteq> caps
     \<and> set (sd_allowed_tool_references d) \<subseteq> tool_refs"

definition instruction_bytes :: "SkillDefinition list \<Rightarrow> nat" where
  "instruction_bytes ds = sum_list (map (\<lambda>d. unat (byte_len (sd_instructions d))) ds)"

text \<open>The bytes counted with saturation: at most the largest 64-bit number.\<close>

definition counted_bytes :: "SkillDefinition list \<Rightarrow> nat" where
  "counted_bytes ds = min (instruction_bytes ds) (2 ^ 64 - 1)"

lemma narrowing_ok: "validate_snapshot_narrowing d caps tool_refs = Inr u \<longleftrightarrow> narrowed caps tool_refs d"
  by (auto simp: validate_snapshot_narrowing_def narrowed_def list_ex_iff)

lemma counted_bytes_Nil [simp]: "counted_bytes [] = 0"
  by (simp add: counted_bytes_def instruction_bytes_def)

lemma counted_bytes_snoc:
  "unat b = counted_bytes ds \<Longrightarrow>
     unat (saturating_add b (byte_len (sd_instructions d))) = counted_bytes (ds @ [d])"
  by (simp add: unat_saturating_add counted_bytes_def instruction_bytes_def min_def)

lemma activation_loop_Cons:
  "activation_loop X caps tool_refs r sofar b (candidate_of r d # cs) =
     rbind (validate_snapshot_narrowing d caps tool_refs) (\<lambda>_.
     let next_bytes = saturating_add b (byte_len (sd_instructions d))
     in if length sofar = unat (ar_max_active_skills r) \<or> next_bytes > ar_max_total_instruction_bytes r
        then (if ar_mode r = ModeExplicit then Inl InstructionLimitExceeded else Inr (sofar, True))
        else rbind (activated_skill X d (reason_of r)) (\<lambda>s.
               activation_loop X caps tool_refs r (sofar @ [s]) next_bytes cs))"
  by (simp add: candidate_of_def)

lemma activation_loop_prefix:
  assumes "activation_loop X caps tool_refs r sofar b (map (candidate_of r) ds) = Inr (out, t)"
    and "unat b = counted_bytes before" and "counted_bytes before \<le> unat (ar_max_total_instruction_bytes r)"
    and "length sofar = length before" and "length sofar \<le> unat (ar_max_active_skills r)"
  shows "\<exists>n \<le> length ds. \<exists>skills. out = sofar @ skills
    \<and> list_all2 (\<lambda>d s. activated_skill X d (reason_of r) = Inr s \<and> narrowed caps tool_refs d) (take n ds) skills
    \<and> length before + n \<le> unat (ar_max_active_skills r)
    \<and> counted_bytes (before @ take n ds) \<le> unat (ar_max_total_instruction_bytes r)
    \<and> (t \<longleftrightarrow> n < length ds)
    \<and> (t \<longrightarrow> ar_mode r = ModeTagged \<and> (length before + n = unat (ar_max_active_skills r)
         \<or> unat (ar_max_total_instruction_bytes r) < counted_bytes (before @ take (Suc n) ds)))"
  using assms
proof (induction ds arbitrary: sofar b before)
  case Nil
  then show ?case by auto
next
  case (Cons d ds)
  let ?nb = "saturating_add b (byte_len (sd_instructions d))"
  have nb: "unat ?nb = counted_bytes (before @ [d])"
    using Cons.prems(2) by (rule counted_bytes_snoc)
  have narrow: "narrowed caps tool_refs d"
    using Cons.prems(1) by (auto simp: activation_loop_Cons result_simps narrowing_ok)
  show ?case
  proof (cases "length sofar = unat (ar_max_active_skills r) \<or> ?nb > ar_max_total_instruction_bytes r")
    case True
    with Cons.prems(1) have "ar_mode r \<noteq> ModeExplicit" "out = sofar" "t"
      by (auto simp: activation_loop_Cons result_simps narrowing_ok Let_def split: if_splits)
    moreover have "length before = unat (ar_max_active_skills r)
        \<or> unat (ar_max_total_instruction_bytes r) < counted_bytes (before @ [d])"
      using True Cons.prems(4) nb by (auto simp: word_less_nat_alt)
    ultimately show ?thesis
      using Cons.prems(3-5) by (intro exI [of _ 0]) (auto intro: ActivationMode.exhaust)
  next
    case False
    with Cons.prems(1) obtain s where s: "activated_skill X d (reason_of r) = Inr s"
        "activation_loop X caps tool_refs r (sofar @ [s]) ?nb (map (candidate_of r) ds) = Inr (out, t)"
      by (auto simp: activation_loop_Cons result_simps Let_def split: if_splits)
    have "counted_bytes (before @ [d]) \<le> unat (ar_max_total_instruction_bytes r)"
      using False nb by (auto simp: word_less_nat_alt not_less)
    moreover have "length (sofar @ [s]) \<le> unat (ar_max_active_skills r)"
      using False Cons.prems(5) by simp
    ultimately obtain n skills where n: "n \<le> length ds" "out = (sofar @ [s]) @ skills"
        "list_all2 (\<lambda>d s. activated_skill X d (reason_of r) = Inr s \<and> narrowed caps tool_refs d) (take n ds) skills"
        "length (before @ [d]) + n \<le> unat (ar_max_active_skills r)"
        "counted_bytes ((before @ [d]) @ take n ds) \<le> unat (ar_max_total_instruction_bytes r)"
        "t \<longleftrightarrow> n < length ds"
        "t \<longrightarrow> ar_mode r = ModeTagged \<and> (length (before @ [d]) + n = unat (ar_max_active_skills r)
         \<or> unat (ar_max_total_instruction_bytes r) < counted_bytes ((before @ [d]) @ take (Suc n) ds))"
      using Cons.IH [OF s(2) nb] Cons.prems(4) by auto
    then show ?thesis
      using s(1) narrow by (intro exI [of _ "Suc n"]) auto
  qed
qed

subsection \<open>Properties\<close>

lemma activate_skills_total:
  assumes "activation_request a tu e it mode rq tags th ma mb = Inr r"
  shows "activate_skills X enabled caps tool_refs r \<noteq> None"
proof -
  have "ar_mode r = ModeExplicit \<Longrightarrow> ar_requested_skill_id r \<noteq> None"
    using assms by (auto simp: activation_request_def Let_def split: if_splits)
  then show ?thesis
    by (auto simp: activate_skills_def pbind_eq_None explicit_candidates_def simp del: not_None_eq
        split: ActivationMode.splits option.splits)
qed

lemma activate_skills_prefix:
  assumes "activate_skills X enabled caps tool_refs r = Some (Inr res)"
  shows "\<exists>ds n skills. ranking r enabled ds \<and> n \<le> length ds
    \<and> list_all2 (\<lambda>d s. activated_skill X d (reason_of r) = Inr s \<and> narrowed caps tool_refs d) (take n ds) skills
    \<and> n \<le> unat (ar_max_active_skills r)
    \<and> counted_bytes (take n ds) \<le> unat (ar_max_total_instruction_bytes r)
    \<and> (n < length ds \<longrightarrow> n = unat (ar_max_active_skills r)
         \<or> unat (ar_max_total_instruction_bytes r) < counted_bytes (take (Suc n) ds))
    \<and> (ar_mode r = ModeExplicit \<longrightarrow> length ds = 1 \<and> n = 1)
    \<and> res = (if ds = [] then NoneActivated else Activated skills (n < length ds))"
proof -
  from assms obtain m cs out t where m: "deduplicate bt_empty enabled = Inr m"
      and cs: "(case ar_mode r of ModeExplicit \<Rightarrow> explicit_candidates (bt_values m) (ar_requested_skill_id r)
       | ModeTagged \<Rightarrow> Some (Inr (tagged_candidates (bt_values m) (set (ar_trusted_tags r))))) = Some (Inr cs)"
      and loop: "activation_loop X caps tool_refs r [] 0 (sort_key candidate_key cs) = Inr (out, t)"
      and res: "res = (if out = [] \<and> \<not> t then NoneActivated else Activated out t)"
    by (auto simp: activate_skills_def pbind_eq_Inr)
  obtain ds where ds: "ranking r enabled ds" "sort_key candidate_key cs = map (candidate_of r) ds"
      "ar_mode r = ModeExplicit \<longrightarrow> length ds = 1"
    by (rule candidates_ranked [OF m cs])
  from activation_loop_prefix [OF loop [unfolded ds(2)], of "[]"] obtain n where n: "n \<le> length ds"
      "list_all2 (\<lambda>d s. activated_skill X d (reason_of r) = Inr s \<and> narrowed caps tool_refs d) (take n ds) out"
      "n \<le> unat (ar_max_active_skills r)" "counted_bytes (take n ds) \<le> unat (ar_max_total_instruction_bytes r)"
      "t \<longleftrightarrow> n < length ds"
      "t \<longrightarrow> ar_mode r = ModeTagged \<and> (n = unat (ar_max_active_skills r)
         \<or> unat (ar_max_total_instruction_bytes r) < counted_bytes (take (Suc n) ds))"
    by auto
  have "out = [] \<and> \<not> t \<longleftrightarrow> ds = []"
    using n(1,5) list_all2_lengthD [OF n(2)] by auto
  then have result: "res = (if ds = [] then NoneActivated else Activated out (n < length ds))"
    unfolding res n(5) by simp
  have explicit: "ar_mode r = ModeExplicit \<longrightarrow> length ds = 1 \<and> n = 1"
  proof
    assume mode: "ar_mode r = ModeExplicit"
    with n(6) have "\<not> t" by auto
    with n(1,5) ds(3) mode show "length ds = 1 \<and> n = 1" by simp
  qed
  have "n < length ds \<longrightarrow> n = unat (ar_max_active_skills r)
      \<or> unat (ar_max_total_instruction_bytes r) < counted_bytes (take (Suc n) ds)"
    using n(5,6) by blast
  with ds(1) n(1-4) explicit result show ?thesis
    by blast
qed

lemma first_fits:
  assumes "activation_request a tu e it mode rq tags th ma mb = Inr r" and "ranking r enabled ds" and "ds \<noteq> []"
    and fits: "\<forall>d \<in> set enabled. selects r d \<longrightarrow> byte_len (sd_instructions d) \<le> ar_max_total_instruction_bytes r"
    and cut: "n < length ds \<longrightarrow> n = unat (ar_max_active_skills r)
         \<or> unat (ar_max_total_instruction_bytes r) < counted_bytes (take (Suc n) ds)"
  shows "0 < n"
proof (rule ccontr)
  assume "\<not> 0 < n"
  obtain x xs where ds: "ds = x # xs"
    using assms(3) by (cases ds) auto
  then have "x \<in> set enabled" "selects r x"
    using assms(2) by (auto simp: ranking_def)
  with fits have "counted_bytes [x] \<le> unat (ar_max_total_instruction_bytes r)"
    by (auto simp: counted_bytes_def instruction_bytes_def word_le_nat_alt min_le_iff_disj)
  moreover have "ar_max_active_skills r \<noteq> 0"
    using assms(1) by (auto simp: activation_request_def Let_def split: if_splits)
  ultimately show False
    using cut \<open>\<not> 0 < n\<close> ds by (simp add: unat_eq_0)
qed

text \<open>
  C37. For a request made by its constructor whose byte bound leaves room for each selected skill
  alone, activation returns without a panic, and a result it returns is the longest prefix, within
  the bounds on the number of skills and on their instruction bytes, of the ranking of the enabled
  skills that the request selects, with at least one skill whenever any is selected; every activated
  skill needs only available capabilities and tools, and an explicit request activates its one
  skill.
\<close>

theorem activation_exact:
  assumes "activation_request a tu e it mode rq tags th ma mb = Inr r"
    and "\<forall>d \<in> set enabled. selects r d \<longrightarrow> byte_len (sd_instructions d) \<le> ar_max_total_instruction_bytes r"
  shows "activate_skills X enabled caps tool_refs r \<noteq> None
    \<and> (\<forall>res. activate_skills X enabled caps tool_refs r = Some (Inr res) \<longrightarrow>
        (\<exists>ds n skills. ranking r enabled ds \<and> n \<le> length ds
          \<and> list_all2 (\<lambda>d s. activated_skill X d (reason_of r) = Inr s \<and> narrowed caps tool_refs d) (take n ds) skills
          \<and> n \<le> unat (ar_max_active_skills r)
          \<and> counted_bytes (take n ds) \<le> unat (ar_max_total_instruction_bytes r)
          \<and> (n < length ds \<longrightarrow> n = unat (ar_max_active_skills r)
               \<or> unat (ar_max_total_instruction_bytes r) < counted_bytes (take (Suc n) ds))
          \<and> (ds \<noteq> [] \<longrightarrow> skills \<noteq> [])
          \<and> (ar_mode r = ModeExplicit \<longrightarrow> length ds = 1 \<and> n = 1)
          \<and> res = (if ds = [] then NoneActivated else Activated skills (n < length ds))))"
  (is "_ \<and> (\<forall>res. _ \<longrightarrow> ?result res)")
proof (intro conjI allI impI)
  show "activate_skills X enabled caps tool_refs r \<noteq> None"
    by (rule activate_skills_total [OF assms(1)])
  fix res
  assume "activate_skills X enabled caps tool_refs r = Some (Inr res)"
  from activate_skills_prefix [OF this] obtain ds n skills where found: "ranking r enabled ds \<and> n \<le> length ds
      \<and> list_all2 (\<lambda>d s. activated_skill X d (reason_of r) = Inr s \<and> narrowed caps tool_refs d) (take n ds) skills
      \<and> n \<le> unat (ar_max_active_skills r)
      \<and> counted_bytes (take n ds) \<le> unat (ar_max_total_instruction_bytes r)
      \<and> (n < length ds \<longrightarrow> n = unat (ar_max_active_skills r)
           \<or> unat (ar_max_total_instruction_bytes r) < counted_bytes (take (Suc n) ds))
      \<and> (ar_mode r = ModeExplicit \<longrightarrow> length ds = 1 \<and> n = 1)
      \<and> res = (if ds = [] then NoneActivated else Activated skills (n < length ds))"
    by blast
  then have "ds \<noteq> [] \<longrightarrow> skills \<noteq> []"
    using first_fits [OF assms(1) _ _ assms(2), of ds n] by auto
  with found show "?result res"
    by blast
qed

definition sample_skill :: "string \<Rightarrow> string list \<Rightarrow> SkillDefinition" where
  "sample_skill i tags = \<lparr>sd_skill_id = i, sd_skill_revision = ''1'', sd_name = i, sd_description = i,
     sd_instructions = \<lparr>cb_digest = ''text'', cb_inline_utf8 = ''text''\<rparr>, sd_activation = PolicyTagged tags,
     sd_required_capabilities = [], sd_allowed_tool_references = [ExactToolReference ''read'' ''1''],
     sd_max_instruction_bytes = 8, sd_contract_version = ''1''\<rparr>"

definition sample_request :: "u64 \<Rightarrow> SkillActivationRequest" where
  "sample_request bytes = \<lparr>ar_activation_id = ''activation'', ar_turn_id = ''turn'', ar_execution_id = ''execution'',
     ar_iteration = 1, ar_mode = ModeTagged, ar_requested_skill_id = None, ar_trusted_tags = [''a'', ''b''],
     ar_through_position = 0, ar_max_active_skills = 4, ar_max_total_instruction_bytes = bytes\<rparr>"

lemma sample_request_made:
  "activation_request ''activation'' ''turn'' ''execution'' 1 ModeTagged None [''a'', ''b''] 0 4 6 = Inr (sample_request 6)"
  by (simp add: activation_request_def sample_request_def valid_text_def trimmed_def white_space_def byte_def
      starts_with_def ends_with_def char_of_def ordered_unique_def)

definition sample_skills :: "SkillDefinition list" where
  "sample_skills = [sample_skill ''skill'' [''b'', ''c''], sample_skill ''skill'' [''b'', ''c'']]"

definition sample_activated :: ActivatedSkill where
  "sample_activated = \<lparr>as_skill_id = ''skill'', as_skill_revision = ''1'', as_definition_digest = ''canonical'',
     as_instructions = ''text'', as_instruction_digest = ''text'', as_reason = TagMatch,
     as_allowed_tool_references = [ExactToolReference ''read'' ''1'']\<rparr>"

lemmas activation_eval = activate_skills_def sample_skills_def sample_skill_def sample_request_def bt_values_def
  bt_insert.rep_eq bt_empty.rep_eq tagged_candidates_def matched_tag_count_def validate_snapshot_narrowing_def
  saturating_add_def byte_len_def activated_skill_def definition_digest_def sample_tools_def sample_activated_def Let_def

lemma sample_activation:
  "activate_skills sample_tools sample_skills {} {ExactToolReference ''read'' ''1''} (sample_request 6)
     = Some (Inr (Activated [sample_activated] False))"
  by (simp add: activation_eval word_less_nat_alt)

theorem activation_exact_witness:
  "\<exists>ds. ranking (sample_request 6) sample_skills ds \<and> ds \<noteq> []
     \<and> (\<forall>d \<in> set ds. narrowed {} {ExactToolReference ''read'' ''1''} d)"
proof -
  have "\<forall>d \<in> set sample_skills. selects (sample_request 6) d \<longrightarrow>
      byte_len (sd_instructions d) \<le> ar_max_total_instruction_bytes (sample_request 6)"
    by (simp add: sample_skills_def sample_skill_def sample_request_def byte_len_def word_le_nat_alt)
  from activation_exact [OF sample_request_made this, of sample_tools "{}" "{ExactToolReference ''read'' ''1''}"]
    sample_activation obtain ds n where ds: "ranking (sample_request 6) sample_skills ds" "\<not> n < length ds" "ds \<noteq> []"
      "list_all2 (\<lambda>d s. activated_skill sample_tools d (reason_of (sample_request 6)) = Inr s
         \<and> narrowed {} {ExactToolReference ''read'' ''1''} d) (take n ds) [sample_activated]"
    by (metis (no_types, lifting) SkillActivationResult.distinct(1) SkillActivationResult.inject option.inject sum.inject(2))
  then show ?thesis
    by (intro exI [of _ ds]) (auto simp: list_all2_Cons2)
qed

text \<open>
  A request whose bound no matching skill fits in is answered by an activation of no skill.
\<close>

lemma activated_may_be_empty:
  "activate_skills sample_tools sample_skills {} {ExactToolReference ''read'' ''1''} (sample_request 2)
     = Some (Inr (Activated [] True))"
  by (simp add: activation_eval word_less_nat_alt)

end
