(* ===== verification/Model_Stream.thy ===== *)
theory Model_Stream
  imports Garive_Prelude
begin

section \<open>Model requests and streams\<close>

text \<open>
  The provider-neutral model contract (\<open>engine/llm\<close>): the validation of a request (\<open>request.rs\<close>), the
  usage and items of an outcome (\<open>outcome.rs\<close>), and the validator of the live event stream
  (\<open>stream.rs\<close>). Adapters pass every normalized event through the validator; \<open>stream_validator_exact\<close>
  shows that it accepts exactly the streams in which items start at increasing indexes, and every delta
  and completion belongs to an item that has started with that kind and is not completed.
\<close>

subsection \<open>Outcomes\<close>

datatype TokenCount = KnownTokens u64 | UnknownTokens

datatype UsageTotal = KnownTotal u64 | UnknownTotal | Overflow

datatype UsageSource = ProviderReported | Estimated

record ModelUsage =
  mu_input_tokens :: TokenCount
  mu_output_tokens :: TokenCount
  mu_cache_read_tokens :: "TokenCount option"
  mu_cache_write_tokens :: "TokenCount option"
  mu_source :: UsageSource

definition total_tokens :: "ModelUsage \<Rightarrow> UsageTotal" where
  "total_tokens u = (case (mu_input_tokens u, mu_output_tokens u) of
      (KnownTokens i, KnownTokens n) \<Rightarrow> (case checked_add i n of Some t \<Rightarrow> KnownTotal t | None \<Rightarrow> Overflow)
    | _ \<Rightarrow> UnknownTotal)"

datatype ReasoningContent = ModelVisible string | OpaqueReference string

datatype MediaKind = Image | Audio | Video | MediaFile | OtherMedia string

datatype ModelItem =
    TextItem string
  | RefusalItem string
  | ReasoningItem ReasoningContent
  | ToolIntentItem (item_call: string) (item_tool: string) (item_arguments: string)
  | ToolObservationItem string string
  | MediaReferenceItem MediaKind string

subsection \<open>Requests\<close>

datatype ModelCapability = TextCapability | Vision | ReasoningCapability | ToolsCapability | JsonOutput | Streaming

record ToolDescriptor =
  tdr_name :: string
  tdr_description :: string
  tdr_definition_revision :: string
  tdr_input_schema_json :: string
  tdr_strict :: bool

datatype ModelRole = System | Developer | User | Assistant

datatype ModelInputContent = TextContent string | MediaContent MediaKind string string

datatype ModelInputItem =
    MessageInput ModelRole "ModelInputContent list"
  | ToolIntentInput string string string
  | ToolObservationInput string string
  | ReasoningReferenceInput string

datatype TextMode = Plain | JsonObject | JsonSchema string

record ModelOutputSettings =
  mos_max_output_tokens :: "u64 option"
  mos_text_mode :: TextMode
  mos_reasoning_visibility :: bool

record ModelRequest =
  mr_request_id :: string
  mr_target_id :: string
  mr_required_capabilities :: "ModelCapability list"
  mr_input_items :: "ModelInputItem list"
  mr_tools :: "ToolDescriptor list"
  mr_output :: ModelOutputSettings
  mr_trace_metadata :: "(string \<times> string) list"

datatype RequestValidationError =
    EmptyIdentity | DuplicateCapability | InvalidTool | DuplicateTool | ZeroOutputLimit | InvalidMetadata
  | DuplicateMetadata

fun validate_tools :: "string set \<Rightarrow> ToolDescriptor list \<Rightarrow> RequestValidationError + unit" where
  "validate_tools names [] = Inr ()"
| "validate_tools names (t # ts) =
     (if tdr_name t = [] \<or> tdr_definition_revision t = [] \<or> tdr_input_schema_json t = [] then Inl InvalidTool
      else if tdr_name t \<in> names then Inl DuplicateTool
      else validate_tools (insert (tdr_name t) names) ts)"

fun validate_metadata :: "string set \<Rightarrow> (string \<times> string) list \<Rightarrow> RequestValidationError + unit" where
  "validate_metadata keys [] = Inr ()"
| "validate_metadata keys ((k, v) # ms) =
     (if k = [] \<or> length k > 64 \<or> length v > 512 then Inl InvalidMetadata
      else if k \<in> keys then Inl DuplicateMetadata
      else validate_metadata (insert k keys) ms)"

definition validate_request :: "ModelRequest \<Rightarrow> RequestValidationError + unit" where
  "validate_request r =
     (if mr_request_id r = [] \<or> mr_target_id r = [] then Inl EmptyIdentity
      else if card (set (mr_required_capabilities r)) \<noteq> length (mr_required_capabilities r)
        then Inl DuplicateCapability
      else rbind (validate_tools {} (mr_tools r)) (\<lambda>_.
        if mos_max_output_tokens (mr_output r) = Some 0 then Inl ZeroOutputLimit
        else validate_metadata {} (mr_trace_metadata r)))"

subsection \<open>Streams\<close>

datatype ModelOutputKind =
    TextKind | RefusalKind | ReasoningKind | ToolIntentKind (model_call_id: string) | ToolObservationKind
  | MediaReferenceKind

datatype ModelStreamEvent =
    OutputItemStarted u32 ModelOutputKind
  | TextDelta u32 string
  | RefusalDelta u32 string
  | ReasoningDelta u32 string
  | ToolArgumentsDelta u32 string string
  | OutputItemCompleted u32 ModelItem
  | UsageUpdated ModelUsage

datatype StreamInvariantError = NonMonotonicStart | ItemNotStarted | ItemAlreadyCompleted | ItemKindMismatch

record StreamValidator =
  sv_started :: "(u32, ModelOutputKind) btmap"
  sv_completed :: "u32 set"
  sv_last_started :: "u32 option"

definition default_validator :: StreamValidator where
  "default_validator = \<lparr>sv_started = bt_empty, sv_completed = {}, sv_last_started = None\<rparr>"

fun kind_of :: "ModelItem \<Rightarrow> ModelOutputKind" where
  "kind_of (TextItem _) = TextKind"
| "kind_of (RefusalItem _) = RefusalKind"
| "kind_of (ReasoningItem _) = ReasoningKind"
| "kind_of (ToolIntentItem c _ _) = ToolIntentKind c"
| "kind_of (ToolObservationItem _ _) = ToolObservationKind"
| "kind_of (MediaReferenceItem _ _) = MediaReferenceKind"

definition require_kind :: "StreamValidator \<Rightarrow> u32 \<Rightarrow> ModelOutputKind \<Rightarrow> StreamInvariantError + unit" where
  "require_kind v i expected = (case bt_get (sv_started v) i of
      None \<Rightarrow> Inl ItemNotStarted
    | Some actual \<Rightarrow>
        if i \<in> sv_completed v then Inl ItemAlreadyCompleted
        else if actual \<noteq> expected then Inl ItemKindMismatch else Inr ())"

definition stream_accept :: "StreamValidator \<Rightarrow> ModelStreamEvent \<Rightarrow> StreamInvariantError + StreamValidator" where
  "stream_accept v event = (case event of
      OutputItemStarted i k \<Rightarrow>
        if (case sv_last_started v of None \<Rightarrow> False | Some l \<Rightarrow> i \<le> l) then Inl NonMonotonicStart
        else Inr (v\<lparr>sv_started := bt_insert i k (sv_started v), sv_last_started := Some i\<rparr>)
    | TextDelta i _ \<Rightarrow> rbind (require_kind v i TextKind) (\<lambda>_. Inr v)
    | RefusalDelta i _ \<Rightarrow> rbind (require_kind v i RefusalKind) (\<lambda>_. Inr v)
    | ReasoningDelta i _ \<Rightarrow> rbind (require_kind v i ReasoningKind) (\<lambda>_. Inr v)
    | ToolArgumentsDelta i c _ \<Rightarrow> rbind (require_kind v i (ToolIntentKind c)) (\<lambda>_. Inr v)
    | OutputItemCompleted i item \<Rightarrow>
        if i \<in> sv_completed v then Inl ItemAlreadyCompleted
        else rbind (require_kind v i (kind_of item)) (\<lambda>_. Inr (v\<lparr>sv_completed := insert i (sv_completed v)\<rparr>))
    | UsageUpdated _ \<Rightarrow> Inr v)"

subsection \<open>What a stream must satisfy\<close>

definition item_open :: "ModelStreamEvent list \<Rightarrow> u32 \<Rightarrow> ModelOutputKind \<Rightarrow> bool" where
  "item_open past i k \<longleftrightarrow> OutputItemStarted i k \<in> set past \<and> (\<forall>item. OutputItemCompleted i item \<notin> set past)"

fun event_admissible :: "ModelStreamEvent list \<Rightarrow> ModelStreamEvent \<Rightarrow> bool" where
  "event_admissible past (OutputItemStarted i k) \<longleftrightarrow> (\<forall>j l. OutputItemStarted j l \<in> set past \<longrightarrow> j < i)"
| "event_admissible past (TextDelta i _) \<longleftrightarrow> item_open past i TextKind"
| "event_admissible past (RefusalDelta i _) \<longleftrightarrow> item_open past i RefusalKind"
| "event_admissible past (ReasoningDelta i _) \<longleftrightarrow> item_open past i ReasoningKind"
| "event_admissible past (ToolArgumentsDelta i c _) \<longleftrightarrow> item_open past i (ToolIntentKind c)"
| "event_admissible past (OutputItemCompleted i item) \<longleftrightarrow> item_open past i (kind_of item)"
| "event_admissible past (UsageUpdated _) \<longleftrightarrow> True"

definition stream_ok :: "ModelStreamEvent list \<Rightarrow> bool" where
  "stream_ok es \<longleftrightarrow> (\<forall>n < length es. event_admissible (take n es) (es ! n))"

definition validator_of :: "ModelStreamEvent list \<Rightarrow> StreamValidator \<Rightarrow> bool" where
  "validator_of past v \<longleftrightarrow>
     (\<forall>i k. bt_get (sv_started v) i = Some k \<longleftrightarrow> OutputItemStarted i k \<in> set past)
   \<and> sv_completed v = {i. \<exists>item. OutputItemCompleted i item \<in> set past}
   \<and> (case sv_last_started v of
        None \<Rightarrow> \<forall>i k. OutputItemStarted i k \<notin> set past
      | Some l \<Rightarrow> (\<exists>k. OutputItemStarted l k \<in> set past) \<and> (\<forall>i k. OutputItemStarted i k \<in> set past \<longrightarrow> i \<le> l))"

lemma not_completed: "validator_of past v \<Longrightarrow> i \<in> sv_completed v \<longleftrightarrow> (\<exists>item. OutputItemCompleted i item \<in> set past)"
  by (simp add: validator_of_def)

lemma started_iff: "validator_of past v \<Longrightarrow> OutputItemStarted i k \<in> set past \<longleftrightarrow> bt_get (sv_started v) i = Some k"
  by (simp add: validator_of_def)

lemma require_kind_open:
  assumes "validator_of past v"
  shows "require_kind v i k = Inr u \<longleftrightarrow> item_open past i k"
  unfolding item_open_def started_iff [OF assms]
  using not_completed [OF assms] by (auto simp: require_kind_def split: option.splits)

lemma monotone_start:
  assumes "validator_of past v"
  shows "(case sv_last_started v of None \<Rightarrow> False | Some l \<Rightarrow> i \<le> l) \<longleftrightarrow> \<not> (\<forall>j l. OutputItemStarted j l \<in> set past \<longrightarrow> j < i)"
  using assms by (fastforce simp: validator_of_def not_less intro: order_trans split: option.splits)

lemma stream_accept_iff:
  assumes "validator_of past v"
  shows "(\<exists>w. stream_accept v e = Inr w) \<longleftrightarrow> event_admissible past e"
  using monotone_start [OF assms] require_kind_open [OF assms] not_completed [OF assms]
  by (cases e) (auto simp: stream_accept_def rbind_eq_Inr item_open_def)

lemma stream_accept_keeps:
  assumes v: "validator_of past v" and w: "stream_accept v e = Inr w"
  shows "validator_of (past @ [e]) w"
proof (cases e)
  case (OutputItemStarted i k)
  have "\<forall>j l. OutputItemStarted j l \<in> set past \<longrightarrow> j < i"
    using stream_accept_iff [OF v, of e] w OutputItemStarted by auto
  with v w OutputItemStarted show ?thesis
    by (auto simp: stream_accept_def validator_of_def split: if_splits option.splits)
next
  case (OutputItemCompleted i item)
  with v w show ?thesis
    by (auto simp: stream_accept_def validator_of_def rbind_eq_Inr split: if_splits option.splits)
qed (use v w in \<open>auto simp: stream_accept_def validator_of_def rbind_eq_Inr split: option.splits\<close>)

lemma default_validator_of: "validator_of [] default_validator"
  by (simp add: validator_of_def default_validator_def)

lemma stream_ok_snoc: "stream_ok (es @ [e]) \<longleftrightarrow> stream_ok es \<and> event_admissible es e"
  by (auto simp: stream_ok_def nth_append less_Suc_eq all_conj_distrib cong: if_cong)

lemma stream_run:
  "(\<exists>v. run stream_accept default_validator es = Inr v) \<longleftrightarrow> stream_ok es"
  "run stream_accept default_validator es = Inr v \<Longrightarrow> validator_of es v"
proof (induction es arbitrary: v rule: rev_induct)
  case Nil
  {
    case 1 show ?case by (simp add: stream_ok_def)
  next
    case 2 then show ?case by (simp add: default_validator_of)
  }
next
  case (snoc e es)
  {
    case 1
    show ?case
      using snoc.IH stream_accept_iff by (auto simp: run_append rbind_eq_Inr stream_ok_snoc) blast+
  next
    case 2
    then show ?case
      using snoc.IH(2) stream_accept_keeps by (auto simp: run_append rbind_eq_Inr)
  }
qed

fun started_indexes :: "ModelStreamEvent list \<Rightarrow> u32 list" where
  "started_indexes [] = []"
| "started_indexes (OutputItemStarted i _ # es) = i # started_indexes es"
| "started_indexes (_ # es) = started_indexes es"

fun completed_indexes :: "ModelStreamEvent list \<Rightarrow> u32 list" where
  "completed_indexes [] = []"
| "completed_indexes (OutputItemCompleted i _ # es) = i # completed_indexes es"
| "completed_indexes (_ # es) = completed_indexes es"

lemma started_indexes_append: "started_indexes (xs @ ys) = started_indexes xs @ started_indexes ys"
  by (induction xs rule: started_indexes.induct) auto

lemma completed_indexes_append: "completed_indexes (xs @ ys) = completed_indexes xs @ completed_indexes ys"
  by (induction xs rule: completed_indexes.induct) auto

lemma set_started_indexes: "set (started_indexes es) = {i. \<exists>k. OutputItemStarted i k \<in> set es}"
  by (induction es rule: started_indexes.induct) auto

lemma set_completed_indexes: "set (completed_indexes es) = {i. \<exists>item. OutputItemCompleted i item \<in> set es}"
  by (induction es rule: completed_indexes.induct) auto

lemma stream_ok_items:
  "stream_ok es \<Longrightarrow> sorted_wrt (<) (started_indexes es)
     \<and> distinct (completed_indexes es) \<and> set (completed_indexes es) \<subseteq> set (started_indexes es)"
proof (induction es rule: rev_induct)
  case (snoc e es)
  then have ih: "sorted_wrt (<) (started_indexes es)" "distinct (completed_indexes es)"
      "set (completed_indexes es) \<subseteq> set (started_indexes es)" and e: "event_admissible es e"
    by (auto simp: stream_ok_snoc)
  show ?case
    using ih e set_started_indexes [of es] set_completed_indexes [of es]
    by (cases e) (auto simp: started_indexes_append completed_indexes_append sorted_wrt_append item_open_def)
qed simp

lemma validate_tools_iff:
  "validate_tools names ts = Inr () \<longleftrightarrow>
     (\<forall>t \<in> set ts. tdr_name t \<noteq> [] \<and> tdr_definition_revision t \<noteq> [] \<and> tdr_input_schema_json t \<noteq> [])
   \<and> distinct (map tdr_name ts) \<and> names \<inter> tdr_name ` set ts = {}"
  by (induction names ts rule: validate_tools.induct) auto

lemma validate_metadata_iff:
  "validate_metadata keys ms = Inr () \<longleftrightarrow>
     (\<forall>(k, v) \<in> set ms. k \<noteq> [] \<and> length k \<le> 64 \<and> length v \<le> 512)
   \<and> distinct (map fst ms) \<and> keys \<inter> fst ` set ms = {}"
  by (induction keys ms rule: validate_metadata.induct) (auto simp: not_less)

lemma validate_request_iff:
  "validate_request r = Inr () \<longleftrightarrow>
     mr_request_id r \<noteq> [] \<and> mr_target_id r \<noteq> [] \<and> distinct (mr_required_capabilities r)
   \<and> distinct (map tdr_name (mr_tools r))
   \<and> (\<forall>t \<in> set (mr_tools r). tdr_name t \<noteq> [] \<and> tdr_definition_revision t \<noteq> [] \<and> tdr_input_schema_json t \<noteq> [])
   \<and> mos_max_output_tokens (mr_output r) \<noteq> Some 0
   \<and> distinct (map fst (mr_trace_metadata r))
   \<and> (\<forall>(k, v) \<in> set (mr_trace_metadata r). k \<noteq> [] \<and> length k \<le> 64 \<and> length v \<le> 512)"
  by (auto simp: validate_request_def rbind_eq_Inr validate_tools_iff validate_metadata_iff
      card_distinct distinct_card)

lemma total_tokens_exact:
  "total_tokens u = KnownTotal t \<longleftrightarrow>
     (\<exists>i n. mu_input_tokens u = KnownTokens i \<and> mu_output_tokens u = KnownTokens n \<and> unat t = unat i + unat n)"
proof -
  have sum: "checked_add i n = Some t \<longleftrightarrow> unat t = unat i + unat n" for i n :: u64
    using unsigned_less [where w = t and 'a = nat] by (auto simp: checked_add_eq_Some unat_word_ariths word_unat_eq_iff)
  show ?thesis
    unfolding sum [symmetric] by (auto simp: total_tokens_def split: TokenCount.splits option.splits)
qed

text \<open>
  C38. The stream validator accepts exactly the event sequences in which items start at increasing
  indexes and every delta and completion belongs to an item that has started with that kind and is
  not completed; in an accepted stream no item is completed twice.
\<close>

theorem stream_validator_exact:
  "((\<exists>v. run stream_accept default_validator es = Inr v) \<longleftrightarrow> stream_ok es)
   \<and> (case run stream_accept default_validator es of
        Inl _ \<Rightarrow> True
      | Inr v \<Rightarrow> validator_of es v \<and> sorted_wrt (<) (started_indexes es)
          \<and> distinct (completed_indexes es) \<and> set (completed_indexes es) \<subseteq> set (started_indexes es))"
  using stream_run [of es] stream_ok_items [of es] by (auto split: sum.splits)

end
