(* ===== verification/Delegation.thy ===== *)
theory Delegation
  imports Rust_Text Tool_Preparation
begin

section \<open>Delegation between agents\<close>

text \<open>
  The delegation contract (\<open>engine/multiagent\<close>): values and intents (\<open>values.rs\<close>, \<open>intent.rs\<close>), the
  authorization that reserves the maximum budget of a child (\<open>grant.rs\<close>), the settlement of its
  consumption (\<open>budget.rs\<close>), terminal results (\<open>result.rs\<close>) and the roster of named agents
  (\<open>collaboration.rs\<close>).

  \<open>delegation_budget_conserved\<close> follows a parent allowance through any sequence of delegations: what is
  left plus what was charged is what there was, in every dimension, and the release of an unused
  reservation is never refused. \<open>delegation_result_exact\<close> says which completed results are admitted. The
  canonical encoder, SHA-256 and the JSON parser are parameters.
\<close>

subsection \<open>Values\<close>

datatype DelegationErrorCode =
    InvalidDelegation | ChildNotFound | ChildRevisionMismatch | AuthorityDenied | BudgetExhausted | BudgetOverflow
  | DepthExceeded | ConcurrencyExceeded | ResultSchemaMismatch | DelegationConflict | ChildStateCorrupt
  | DelegationDurabilityFailure | CorruptDelegationState

definition delegation_valid_id :: "string \<Rightarrow> bool" where
  "delegation_valid_id s \<longleftrightarrow> valid_text s 128"

record DelegationContent =
  dc_digest :: string
  dc_inline_utf8 :: "string option"
  dc_reference :: "string option"

definition delegation_inline :: "tool_externals \<Rightarrow> string \<Rightarrow> DelegationContent" where
  "delegation_inline X s = \<lparr>dc_digest = sha256 X s, dc_inline_utf8 = Some s, dc_reference = None\<rparr>"

definition delegation_referenced :: "string \<Rightarrow> string \<Rightarrow> DelegationErrorCode + DelegationContent" where
  "delegation_referenced d r =
     (if \<not> valid_digest d \<or> \<not> valid_text r 512 then Inl InvalidDelegation
      else Inr \<lparr>dc_digest = d, dc_inline_utf8 = None, dc_reference = Some r\<rparr>)"

record FactReference =
  fr_session_id :: string
  fr_position :: u64
  fr_fact_id :: string
  fr_payload_digest :: string

definition fact_reference_new :: "string \<Rightarrow> u64 \<Rightarrow> string \<Rightarrow> string \<Rightarrow> DelegationErrorCode + FactReference" where
  "fact_reference_new s n f d =
     (if \<not> delegation_valid_id s \<or> n = 0 \<or> \<not> delegation_valid_id f \<or> \<not> valid_digest d then Inl InvalidDelegation
      else Inr \<lparr>fr_session_id = s, fr_position = n, fr_fact_id = f, fr_payload_digest = d\<rparr>)"

record DelegationBudget =
  db_max_child_turns :: u64
  db_max_child_executions :: u64
  db_max_iterations :: u64
  db_max_input_tokens :: u64
  db_max_output_tokens :: u64
  db_deadline_budget_ms :: u64
  db_max_depth :: u64
  db_max_objective_bytes :: u64
  db_max_input_evidence :: u64
  db_max_result_schema_bytes :: u64
  db_max_result_bytes :: u64
  db_max_result_evidence :: u64

definition budget_validate :: "DelegationBudget \<Rightarrow> DelegationErrorCode + unit" where
  "budget_validate b =
     (if db_max_child_turns b \<noteq> 1
         \<or> 0 \<in> set [db_max_child_executions b, db_max_iterations b, db_max_input_tokens b, db_max_output_tokens b,
              db_deadline_budget_ms b, db_max_depth b, db_max_objective_bytes b, db_max_input_evidence b,
              db_max_result_schema_bytes b, db_max_result_bytes b, db_max_result_evidence b]
      then Inl InvalidDelegation else Inr ())"

subsection \<open>Intents\<close>

datatype ChildRequirement =
    ExistingChild (child_agent_instance_id: string)
  | ChildDefinition (child_definition_id: string) (child_definition_revision: string)

definition child_existing :: "string \<Rightarrow> DelegationErrorCode + ChildRequirement" where
  "child_existing c = (if delegation_valid_id c then Inr (ExistingChild c) else Inl InvalidDelegation)"

definition child_definition :: "string \<Rightarrow> string \<Rightarrow> DelegationErrorCode + ChildRequirement" where
  "child_definition d r =
     (if delegation_valid_id d \<and> delegation_valid_id r then Inr (ChildDefinition d r) else Inl InvalidDelegation)"

datatype CancellationPolicy = Independent | CancelWithParent

record DelegationIntent =
  di_delegation_id :: string
  di_parent_agent_instance_id :: string
  di_parent_turn_id :: string
  di_parent_execution_id :: string
  di_child_requirement :: ChildRequirement
  di_objective :: DelegationContent
  di_input_evidence :: "FactReference list"
  di_result_schema :: DelegationContent
  di_budget :: DelegationBudget
  di_cancellation_policy :: CancellationPolicy
  di_through_position :: u64






text \<open>The serialized forms; an absent field of a content binding is left out.\<close>

definition content_json :: "DelegationContent \<Rightarrow> json" where
  "content_json c = jobject
     ([(''digest'', JString (dc_digest c))]
      @ (case dc_inline_utf8 c of None \<Rightarrow> [] | Some t \<Rightarrow> [(''inline_utf8'', JString t)])
      @ (case dc_reference c of None \<Rightarrow> [] | Some r \<Rightarrow> [(''reference'', JString r)]))"

definition fact_reference_json :: "FactReference \<Rightarrow> json" where
  "fact_reference_json r = jobject
     [(''session_id'', JString (fr_session_id r)), (''position'', ju64 (fr_position r)),
      (''fact_id'', JString (fr_fact_id r)), (''payload_digest'', JString (fr_payload_digest r))]"

definition budget_json :: "DelegationBudget \<Rightarrow> json" where
  "budget_json b = jobject
     [(''max_child_turns'', ju64 (db_max_child_turns b)), (''max_child_executions'', ju64 (db_max_child_executions b)),
      (''max_iterations'', ju64 (db_max_iterations b)), (''max_input_tokens'', ju64 (db_max_input_tokens b)),
      (''max_output_tokens'', ju64 (db_max_output_tokens b)), (''deadline_budget_ms'', ju64 (db_deadline_budget_ms b)),
      (''max_depth'', ju64 (db_max_depth b)), (''max_objective_bytes'', ju64 (db_max_objective_bytes b)),
      (''max_input_evidence'', ju64 (db_max_input_evidence b)),
      (''max_result_schema_bytes'', ju64 (db_max_result_schema_bytes b)),
      (''max_result_bytes'', ju64 (db_max_result_bytes b)), (''max_result_evidence'', ju64 (db_max_result_evidence b))]"

fun child_json :: "ChildRequirement \<Rightarrow> json" where
  "child_json (ExistingChild c) = jobject [(''kind'', JString ''existing''), (''child_agent_instance_id'', JString c)]"
| "child_json (ChildDefinition d r) =
     jobject [(''kind'', JString ''definition''), (''definition_id'', JString d), (''definition_revision'', JString r)]"

fun cancellation_name :: "CancellationPolicy \<Rightarrow> string" where
  "cancellation_name Independent = ''independent''"
| "cancellation_name CancelWithParent = ''cancel_with_parent''"

definition delegation_intent_value :: "DelegationIntent \<Rightarrow> json" where
  "delegation_intent_value i = jobject
     [(''contract'', JString ''garive.delegation-intent''), (''version'', ju64 1),
      (''parent_agent_instance_id'', JString (di_parent_agent_instance_id i)),
      (''parent_turn_id'', JString (di_parent_turn_id i)), (''parent_execution_id'', JString (di_parent_execution_id i)),
      (''child_requirement'', child_json (di_child_requirement i)), (''objective'', content_json (di_objective i)),
      (''input_evidence'', JArray (map fact_reference_json (di_input_evidence i))),
      (''result_schema'', content_json (di_result_schema i)), (''budget'', budget_json (di_budget i)),
      (''cancellation_policy'', JString (cancellation_name (di_cancellation_policy i))),
      (''through_position'', ju64 (di_through_position i))]"

record DelegationIntentBinding =
  dib_digest :: string
  dib_inline_utf8 :: string

definition delegation_intent_binding ::
  "tool_externals \<Rightarrow> DelegationIntent \<Rightarrow> DelegationErrorCode + DelegationIntentBinding" where
  "delegation_intent_binding X i =
     rbind (ok_or (jcs X (delegation_intent_value i)) InvalidDelegation) (\<lambda>inline.
       Inr \<lparr>dib_digest = sha256 X inline, dib_inline_utf8 = inline\<rparr>)"

definition delegation_intent_digest :: "tool_externals \<Rightarrow> DelegationIntent \<Rightarrow> DelegationErrorCode + string" where
  "delegation_intent_digest X i = rbind (delegation_intent_binding X i) (\<lambda>b. Inr (dib_digest b))"

subsection \<open>Settlement\<close>

datatype TokenUsageEvidence = KnownUsage (known_usage: u64) | UnknownUsage

record DelegationUsage =
  du_input_tokens :: TokenUsageEvidence
  du_output_tokens :: TokenUsageEvidence

record DelegationConsumption =
  dn_child_turns :: u64
  dn_child_executions :: u64
  dn_completed_iterations :: u64
  dn_elapsed_ms :: u64

definition consumption_validate :: "DelegationConsumption \<Rightarrow> DelegationErrorCode + unit" where
  "consumption_validate c =
     (if dn_child_turns c = 1 \<and> dn_child_executions c \<noteq> 0 then Inr () else Inl InvalidDelegation)"

record BudgetAmounts =
  ba_child_turns :: u64
  ba_child_executions :: u64
  ba_iterations :: u64
  ba_input_tokens :: u64
  ba_output_tokens :: u64
  ba_elapsed_ms :: u64

record DelegationBudgetSettlement =
  bs_charged :: BudgetAmounts
  bs_released :: BudgetAmounts

definition charged_tokens :: "TokenUsageEvidence \<Rightarrow> u64 \<Rightarrow> DelegationErrorCode + u64" where
  "charged_tokens evidence reservation = (case evidence of
      KnownUsage n \<Rightarrow> if n \<le> reservation then Inr n else Inl BudgetExhausted
    | UnknownUsage \<Rightarrow> Inr reservation)"

definition reserved_amounts :: "DelegationBudget \<Rightarrow> BudgetAmounts" where
  "reserved_amounts r =
     \<lparr>ba_child_turns = db_max_child_turns r, ba_child_executions = db_max_child_executions r,
      ba_iterations = db_max_iterations r, ba_input_tokens = db_max_input_tokens r,
      ba_output_tokens = db_max_output_tokens r, ba_elapsed_ms = db_deadline_budget_ms r\<rparr>"

definition amounts_exceed :: "BudgetAmounts \<Rightarrow> BudgetAmounts \<Rightarrow> bool" where
  "amounts_exceed a b \<longleftrightarrow>
     ba_child_turns a > ba_child_turns b \<or> ba_child_executions a > ba_child_executions b
   \<or> ba_iterations a > ba_iterations b \<or> ba_input_tokens a > ba_input_tokens b
   \<or> ba_output_tokens a > ba_output_tokens b \<or> ba_elapsed_ms a > ba_elapsed_ms b"

definition amounts_minus :: "BudgetAmounts \<Rightarrow> BudgetAmounts \<Rightarrow> BudgetAmounts" where
  "amounts_minus a b =
     \<lparr>ba_child_turns = ba_child_turns a - ba_child_turns b,
      ba_child_executions = ba_child_executions a - ba_child_executions b,
      ba_iterations = ba_iterations a - ba_iterations b,
      ba_input_tokens = ba_input_tokens a - ba_input_tokens b,
      ba_output_tokens = ba_output_tokens a - ba_output_tokens b,
      ba_elapsed_ms = ba_elapsed_ms a - ba_elapsed_ms b\<rparr>"

definition settle_delegation_budget ::
  "DelegationBudget \<Rightarrow> DelegationConsumption \<Rightarrow> DelegationUsage \<Rightarrow> DelegationErrorCode + DelegationBudgetSettlement" where
  "settle_delegation_budget r c u =
     rbind (budget_validate r) (\<lambda>_.
     rbind (consumption_validate c) (\<lambda>_.
     rbind (charged_tokens (du_input_tokens u) (db_max_input_tokens r)) (\<lambda>input_tokens.
     rbind (charged_tokens (du_output_tokens u) (db_max_output_tokens r)) (\<lambda>output_tokens.
       let charged = \<lparr>ba_child_turns = dn_child_turns c, ba_child_executions = dn_child_executions c,
             ba_iterations = dn_completed_iterations c, ba_input_tokens = input_tokens,
             ba_output_tokens = output_tokens, ba_elapsed_ms = dn_elapsed_ms c\<rparr>;
           reserved = reserved_amounts r
       in if amounts_exceed charged reserved then Inl BudgetExhausted
          else Inr \<lparr>bs_charged = charged, bs_released = amounts_minus reserved charged\<rparr>))))"

subsection \<open>Grants\<close>

record DelegationAllowance =
  al_remaining_child_turns :: u64
  al_remaining_child_executions :: u64
  al_remaining_iterations :: u64
  al_remaining_input_tokens :: u64
  al_remaining_output_tokens :: u64
  al_remaining_elapsed_ms :: u64
  al_max_depth :: u64
  al_max_objective_bytes :: u64
  al_max_input_evidence :: u64
  al_max_result_schema_bytes :: u64
  al_max_result_bytes :: u64
  al_max_result_evidence :: u64

record DelegationGrant =
  dg_grant_id :: string
  dg_intent_digest :: string
  dg_reserved_budget :: DelegationBudget
  dg_authority_revision :: string

record DelegationAuthorization =
  da_grant :: DelegationGrant
  da_remaining :: DelegationAllowance

definition budget_subtract :: "u64 \<Rightarrow> u64 \<Rightarrow> DelegationErrorCode + u64" where
  "budget_subtract available requested = ok_or (checked_sub available requested) BudgetExhausted"

definition budget_add :: "u64 \<Rightarrow> u64 \<Rightarrow> DelegationErrorCode + u64" where
  "budget_add l r = ok_or (checked_add l r) BudgetOverflow"

definition reserve_budget ::
  "DelegationAllowance \<Rightarrow> DelegationBudget \<Rightarrow> DelegationErrorCode + DelegationAllowance" where
  "reserve_budget a b =
     rbind (budget_subtract (al_remaining_child_turns a) (db_max_child_turns b)) (\<lambda>turns.
     rbind (budget_subtract (al_remaining_child_executions a) (db_max_child_executions b)) (\<lambda>executions.
     rbind (budget_subtract (al_remaining_iterations a) (db_max_iterations b)) (\<lambda>iterations.
     rbind (budget_subtract (al_remaining_input_tokens a) (db_max_input_tokens b)) (\<lambda>input_tokens.
     rbind (budget_subtract (al_remaining_output_tokens a) (db_max_output_tokens b)) (\<lambda>output_tokens.
     rbind (budget_subtract (al_remaining_elapsed_ms a) (db_deadline_budget_ms b)) (\<lambda>elapsed.
       Inr (a\<lparr>al_remaining_child_turns := turns, al_remaining_child_executions := executions,
              al_remaining_iterations := iterations, al_remaining_input_tokens := input_tokens,
              al_remaining_output_tokens := output_tokens, al_remaining_elapsed_ms := elapsed\<rparr>)))))))"

definition grant_delegation ::
  "tool_externals \<Rightarrow> DelegationIntent \<Rightarrow> string \<Rightarrow> string \<Rightarrow> u64 \<Rightarrow> u64 \<Rightarrow> DelegationAllowance
     \<Rightarrow> DelegationErrorCode + DelegationAuthorization" where
  "grant_delegation X i grant_id authority_revision current_depth active allowance =
     (if \<not> delegation_valid_id grant_id \<or> \<not> delegation_valid_id authority_revision then Inl InvalidDelegation
      else if current_depth \<ge> db_max_depth (di_budget i) \<or> current_depth \<ge> al_max_depth allowance then Inl DepthExceeded
      else if active \<noteq> 0 then Inl ConcurrencyExceeded
      else let requested = di_budget i in
        if db_max_objective_bytes requested > al_max_objective_bytes allowance
           \<or> db_max_input_evidence requested > al_max_input_evidence allowance
           \<or> db_max_result_schema_bytes requested > al_max_result_schema_bytes allowance
           \<or> db_max_result_bytes requested > al_max_result_bytes allowance
           \<or> db_max_result_evidence requested > al_max_result_evidence allowance
        then Inl BudgetExhausted
        else rbind (reserve_budget allowance requested) (\<lambda>remaining.
          rbind (delegation_intent_digest X i) (\<lambda>d.
            Inr \<lparr>da_grant = \<lparr>dg_grant_id = grant_id, dg_intent_digest = d, dg_reserved_budget = requested,
                    dg_authority_revision = authority_revision\<rparr>,
                 da_remaining = remaining\<rparr>)))"

definition allowance_exceeds :: "DelegationAllowance \<Rightarrow> DelegationAllowance \<Rightarrow> bool" where
  "allowance_exceeds a b \<longleftrightarrow>
     al_remaining_child_turns a > al_remaining_child_turns b
   \<or> al_remaining_child_executions a > al_remaining_child_executions b
   \<or> al_remaining_iterations a > al_remaining_iterations b
   \<or> al_remaining_input_tokens a > al_remaining_input_tokens b
   \<or> al_remaining_output_tokens a > al_remaining_output_tokens b
   \<or> al_remaining_elapsed_ms a > al_remaining_elapsed_ms b"

definition release_delegation_budget ::
  "DelegationAllowance \<Rightarrow> DelegationBudgetSettlement \<Rightarrow> DelegationAllowance
     \<Rightarrow> DelegationErrorCode + DelegationAllowance" where
  "release_delegation_budget remaining settlement ceiling =
     (let released = bs_released settlement in
      rbind (budget_add (al_remaining_child_turns remaining) (ba_child_turns released)) (\<lambda>turns.
      rbind (budget_add (al_remaining_child_executions remaining) (ba_child_executions released)) (\<lambda>executions.
      rbind (budget_add (al_remaining_iterations remaining) (ba_iterations released)) (\<lambda>iterations.
      rbind (budget_add (al_remaining_input_tokens remaining) (ba_input_tokens released)) (\<lambda>input_tokens.
      rbind (budget_add (al_remaining_output_tokens remaining) (ba_output_tokens released)) (\<lambda>output_tokens.
      rbind (budget_add (al_remaining_elapsed_ms remaining) (ba_elapsed_ms released)) (\<lambda>elapsed.
        let result = remaining\<lparr>al_remaining_child_turns := turns, al_remaining_child_executions := executions,
              al_remaining_iterations := iterations, al_remaining_input_tokens := input_tokens,
              al_remaining_output_tokens := output_tokens, al_remaining_elapsed_ms := elapsed\<rparr>
        in if allowance_exceeds result ceiling then Inl CorruptDelegationState else Inr result)))))))"

subsection \<open>Results\<close>

datatype ChildTerminalReason =
    IterationLimit | TokenLimit | Deadline | ChildCancelled | ResourceUnavailable | InvalidInput | InvalidModelOutput
  | ChildCapabilityUnavailable | PortFailure | InvariantViolation | ChildDurabilityFailure | CorruptRecoveryState

fun child_reason_name :: "ChildTerminalReason \<Rightarrow> string" where
  "child_reason_name IterationLimit = ''iteration_limit''"
| "child_reason_name TokenLimit = ''token_limit''"
| "child_reason_name Deadline = ''deadline''"
| "child_reason_name ChildCancelled = ''cancelled''"
| "child_reason_name ResourceUnavailable = ''resource_unavailable''"
| "child_reason_name InvalidInput = ''invalid_input''"
| "child_reason_name InvalidModelOutput = ''invalid_model_output''"
| "child_reason_name ChildCapabilityUnavailable = ''required_capability_unavailable''"
| "child_reason_name PortFailure = ''port_failure''"
| "child_reason_name InvariantViolation = ''invariant_violation''"
| "child_reason_name ChildDurabilityFailure = ''durability_failure''"
| "child_reason_name CorruptRecoveryState = ''corrupt_recovery_state''"

datatype TerminalOutcomeKind = ChildStopped | ChildFailed

datatype DelegationOutcome =
    OutcomeCompleted (outcome_content: DelegationContent) (outcome_evidence: "FactReference list")
  | OutcomeStopped (outcome_reason: ChildTerminalReason)
  | OutcomeFailed (outcome_reason: ChildTerminalReason)

record DelegationResultContext =
  rx_result_id :: string
  rx_delegation_id :: string
  rx_grant_id :: string
  rx_child_agent_instance_id :: string
  rx_child_turn_id :: string
  rx_child_snapshot_digest :: string
  rx_usage :: DelegationUsage
  rx_consumption :: DelegationConsumption

record DelegationResult =
  dr_context :: DelegationResultContext
  dr_outcome :: DelegationOutcome
  dr_settlement :: DelegationBudgetSettlement

fun outcome_json :: "DelegationOutcome \<Rightarrow> json" where
  "outcome_json (OutcomeCompleted c es) = jobject [(''kind'', JString ''completed''), (''content'', content_json c),
     (''evidence'', JArray (map fact_reference_json es))]"
| "outcome_json (OutcomeStopped r) = jobject [(''kind'', JString ''stopped''), (''reason'', JString (child_reason_name r))]"
| "outcome_json (OutcomeFailed r) = jobject [(''kind'', JString ''failed''), (''reason'', JString (child_reason_name r))]"

fun usage_evidence_json :: "TokenUsageEvidence \<Rightarrow> json" where
  "usage_evidence_json (KnownUsage n) = jobject [(''kind'', JString ''known''), (''value'', ju64 n)]"
| "usage_evidence_json UnknownUsage = jobject [(''kind'', JString ''unknown'')]"

definition result_binding :: "tool_externals \<Rightarrow> DelegationResult \<Rightarrow> DelegationErrorCode + DelegationContent" where
  "result_binding X r = (let x = dr_context r in
     rbind (ok_or (jcs X (jobject
       [(''contract'', JString ''garive.delegation-result''), (''version'', ju64 1),
        (''result_id'', JString (rx_result_id x)), (''delegation_id'', JString (rx_delegation_id x)),
        (''grant_id'', JString (rx_grant_id x)),
        (''child_agent_instance_id'', JString (rx_child_agent_instance_id x)),
        (''child_turn_id'', JString (rx_child_turn_id x)),
        (''child_snapshot_digest'', JString (rx_child_snapshot_digest x)),
        (''outcome'', outcome_json (dr_outcome r)),
        (''usage'', jobject [(''input_tokens'', usage_evidence_json (du_input_tokens (rx_usage x))),
           (''output_tokens'', usage_evidence_json (du_output_tokens (rx_usage x)))]),
        (''consumption'', jobject [(''child_turns'', ju64 (dn_child_turns (rx_consumption x))),
           (''child_executions'', ju64 (dn_child_executions (rx_consumption x))),
           (''completed_iterations'', ju64 (dn_completed_iterations (rx_consumption x))),
           (''elapsed_ms'', ju64 (dn_elapsed_ms (rx_consumption x)))])])) InvalidDelegation) (\<lambda>text.
     Inr (delegation_inline X text)))"

definition validate_context ::
  "DelegationIntent \<Rightarrow> DelegationResultContext \<Rightarrow> DelegationErrorCode + DelegationBudgetSettlement" where
  "validate_context i x =
     (if rx_delegation_id x \<noteq> di_delegation_id i \<or> \<not> delegation_valid_id (rx_result_id x)
         \<or> \<not> delegation_valid_id (rx_grant_id x) \<or> \<not> delegation_valid_id (rx_child_agent_instance_id x)
         \<or> \<not> delegation_valid_id (rx_child_turn_id x) \<or> \<not> valid_digest (rx_child_snapshot_digest x)
      then Inl InvalidDelegation
      else settle_delegation_budget (di_budget i) (rx_consumption x) (rx_usage x))"




definition terminal_delegation_result ::
  "DelegationIntent \<Rightarrow> DelegationResultContext \<Rightarrow> TerminalOutcomeKind \<Rightarrow> ChildTerminalReason
     \<Rightarrow> DelegationErrorCode + DelegationResult" where
  "terminal_delegation_result i x k reason =
     rbind (validate_context i x) (\<lambda>settlement.
       Inr \<lparr>dr_context = x,
            dr_outcome = (case k of ChildStopped \<Rightarrow> OutcomeStopped reason | ChildFailed \<Rightarrow> OutcomeFailed reason),
            dr_settlement = settlement\<rparr>)"

subsection \<open>Named agents\<close>

definition max_named_session_agents :: nat where "max_named_session_agents = 10"

record NamedAgent =
  na_agent_instance_id :: string
  na_display_name :: string

definition named_agent :: "string \<Rightarrow> string \<Rightarrow> DelegationErrorCode + NamedAgent" where
  "named_agent i n =
     (if valid_text i 128 \<and> valid_text n 64 then Inr \<lparr>na_agent_instance_id = i, na_display_name = n\<rparr>
      else Inl InvalidDelegation)"

text \<open>The two sets that the closure of \<open>any\<close> fills; the identity is inserted before the name is looked at.\<close>

fun roster_clash :: "string set \<Rightarrow> string set \<Rightarrow> NamedAgent list \<Rightarrow> bool" where
  "roster_clash ids names [] \<longleftrightarrow> False"
| "roster_clash ids names (m # ms) \<longleftrightarrow>
     na_agent_instance_id m \<in> ids \<or> na_display_name m \<in> names
   \<or> roster_clash (insert (na_agent_instance_id m) ids) (insert (na_display_name m) names) ms"

definition session_roster :: "NamedAgent list \<Rightarrow> DelegationErrorCode + NamedAgent list" where
  "session_roster members =
     (if length members > max_named_session_agents \<or> roster_clash {} {} members then Inl InvalidDelegation
      else Inr members)"

definition roster_contains :: "NamedAgent list \<Rightarrow> string \<Rightarrow> bool" where
  "roster_contains members i = list_ex (\<lambda>m. na_agent_instance_id m = i) members"

datatype AssigneeSelector =
    Anonymous (sel_definition_id: string) (sel_definition_revision: string)
  | ForkSelf (sel_source: string) (sel_through_position: u64) (sel_branch_name: "string option")
  | NamedPeer (sel_agent_instance_id: string)

definition anonymous_selector :: "string \<Rightarrow> string \<Rightarrow> DelegationErrorCode + AssigneeSelector" where
  "anonymous_selector d r =
     (if valid_text d 128 \<and> valid_text r 128 then Inr (Anonymous d r) else Inl InvalidDelegation)"

definition fork_self_selector :: "string \<Rightarrow> u64 \<Rightarrow> string option \<Rightarrow> DelegationErrorCode + AssigneeSelector" where
  "fork_self_selector source through branch =
     (if \<not> valid_text source 128 \<or> through = 0
         \<or> (case branch of None \<Rightarrow> False | Some n \<Rightarrow> \<not> valid_text n 64)
      then Inl InvalidDelegation else Inr (ForkSelf source through branch))"

definition named_selector :: "string \<Rightarrow> NamedAgent list \<Rightarrow> DelegationErrorCode + AssigneeSelector" where
  "named_selector i roster = (if roster_contains roster i then Inr (NamedPeer i) else Inl InvalidDelegation)"

subsection \<open>Conservation\<close>

datatype dimension = Turns | Executions | Iterations | InputTokens | OutputTokens | Elapsed

fun available :: "DelegationAllowance \<Rightarrow> dimension \<Rightarrow> nat" where
  "available a Turns = unat (al_remaining_child_turns a)"
| "available a Executions = unat (al_remaining_child_executions a)"
| "available a Iterations = unat (al_remaining_iterations a)"
| "available a InputTokens = unat (al_remaining_input_tokens a)"
| "available a OutputTokens = unat (al_remaining_output_tokens a)"
| "available a Elapsed = unat (al_remaining_elapsed_ms a)"

fun amount :: "BudgetAmounts \<Rightarrow> dimension \<Rightarrow> nat" where
  "amount b Turns = unat (ba_child_turns b)"
| "amount b Executions = unat (ba_child_executions b)"
| "amount b Iterations = unat (ba_iterations b)"
| "amount b InputTokens = unat (ba_input_tokens b)"
| "amount b OutputTokens = unat (ba_output_tokens b)"
| "amount b Elapsed = unat (ba_elapsed_ms b)"

definition caps :: "DelegationAllowance \<Rightarrow> u64 list" where
  "caps a = [al_max_depth a, al_max_objective_bytes a, al_max_input_evidence a, al_max_result_schema_bytes a,
     al_max_result_bytes a, al_max_result_evidence a]"

text \<open>
  One step of the parent's ledger of allowances: a delegation is granted and either settled, its unused
  part released under the ceiling of the allowance before the grant, or never settled, which keeps the
  whole reservation. The list holds what each delegation was charged.
\<close>

inductive delegation_run ::
  "tool_externals \<Rightarrow> DelegationAllowance \<Rightarrow> BudgetAmounts list \<Rightarrow> DelegationAllowance \<Rightarrow> bool" for X a0 where
  unspent: "delegation_run X a0 [] a0"
| settled: "delegation_run X a0 cs a \<Longrightarrow> grant_delegation X i g revision depth active a = Inr z \<Longrightarrow>
    settle_delegation_budget (dg_reserved_budget (da_grant z)) c u = Inr s \<Longrightarrow>
    release_delegation_budget (da_remaining z) s a = Inr b \<Longrightarrow> delegation_run X a0 (cs @ [bs_charged s]) b"
| unsettled: "delegation_run X a0 cs a \<Longrightarrow> grant_delegation X i g revision depth active a = Inr z \<Longrightarrow>
    delegation_run X a0 (cs @ [reserved_amounts (dg_reserved_budget (da_grant z))]) (da_remaining z)"

lemma budget_subtract_ok: "budget_subtract a b = Inr c \<Longrightarrow> unat c + unat b = unat a"
  using unat_checked_sub [of a b c] by (auto simp: budget_subtract_def ok_or_eq_Inr)

lemma budget_add_iff: "budget_add a b = Inr c \<longleftrightarrow> unat c = unat a + unat b"
proof -
  have "checked_add a b = Some c \<longleftrightarrow> unat c = unat a + unat b"
    using unsigned_less [where w = c and 'a = nat]
    by (auto simp: checked_add_eq_Some unat_word_ariths word_unat_eq_iff)
  then show ?thesis
    by (simp add: budget_add_def ok_or_eq_Inr)
qed

lemma reserve_budget_ok:
  assumes "reserve_budget a b = Inr r"
  shows "available r d + amount (reserved_amounts b) d = available a d" and "caps r = caps a"
  using assms
  by (cases d; auto simp: reserve_budget_def rbind_eq_Inr reserved_amounts_def caps_def dest!: budget_subtract_ok)+

lemma grant_delegation_ok:
  assumes "grant_delegation X i g revision depth active a = Inr z"
  shows "reserve_budget a (di_budget i) = Inr (da_remaining z)" and "dg_reserved_budget (da_grant z) = di_budget i"
    and "delegation_intent_digest X i = Inr (dg_intent_digest (da_grant z))"
    and "depth < db_max_depth (di_budget i)" "depth < al_max_depth a" "active = 0"
  using assms by (auto simp: grant_delegation_def Let_def rbind_eq_Inr not_le split: if_splits)

lemma dimension_ex: "(\<exists>d. P d) \<longleftrightarrow> P Turns \<or> P Executions \<or> P Iterations \<or> P InputTokens \<or> P OutputTokens \<or> P Elapsed"
  by (metis dimension.exhaust)

lemma dimension_all: "(\<forall>d. P d) \<longleftrightarrow> P Turns \<and> P Executions \<and> P Iterations \<and> P InputTokens \<and> P OutputTokens \<and> P Elapsed"
  by (metis dimension.exhaust)

lemma amounts_exceed_iff: "amounts_exceed a b \<longleftrightarrow> (\<exists>d. amount b d < amount a d)"
  by (simp add: amounts_exceed_def word_less_nat_alt dimension_ex)

lemma amounts_minus_ok: "\<not> amounts_exceed c r \<Longrightarrow> amount c d + amount (amounts_minus r c) d = amount r d"
  by (cases d) (simp_all add: amounts_exceed_def amounts_minus_def unat_sub word_le_nat_alt not_less)

lemma settle_ok:
  assumes "settle_delegation_budget r c u = Inr s"
  shows "amount (bs_charged s) d + amount (bs_released s) d = amount (reserved_amounts r) d"
  using assms amounts_minus_ok
  by (fastforce simp: settle_delegation_budget_def rbind_eq_Inr Let_def split: if_splits)

lemma allowance_exceeds_iff: "allowance_exceeds a b \<longleftrightarrow> (\<exists>d. available b d < available a d)"
  by (simp add: allowance_exceeds_def word_less_nat_alt dimension_ex)

lemma release_iff:
  assumes "\<And>d. available a d + amount (bs_released s) d \<le> available ceiling d"
  shows "\<exists>b. release_delegation_budget a s ceiling = Inr b \<and> caps b = caps a
    \<and> (\<forall>d. available b d = available a d + amount (bs_released s) d)"
proof -
  have add: "budget_add x y = Inr (x + y) \<and> unat (x + y) = unat x + unat y" if "unat x + unat y \<le> unat z" for x y z :: u64
  proof -
    have "unat x + unat y < 2 ^ 64"
      using that unsigned_less [where w = z and 'a = nat] by simp
    then have "unat (x + y) = unat x + unat y"
      by (simp add: unat_word_ariths)
    then show ?thesis
      by (simp add: budget_add_iff)
  qed
  note sums = assms [of Turns, simplified] assms [of Executions, simplified] assms [of Iterations, simplified]
    assms [of InputTokens, simplified] assms [of OutputTokens, simplified] assms [of Elapsed, simplified]
  note added = sums [THEN add]
  show ?thesis
    using added sums
    by (simp add: release_delegation_budget_def Let_def allowance_exceeds_def caps_def word_less_nat_alt not_less dimension_all)
qed

lemma grant_reserves:
  assumes "grant_delegation X i g revision depth active a = Inr z"
  shows "available (da_remaining z) d + amount (reserved_amounts (dg_reserved_budget (da_grant z))) d = available a d"
    and "caps (da_remaining z) = caps a"
  using reserve_budget_ok grant_delegation_ok [OF assms] by simp_all

lemma release_settled:
  assumes "grant_delegation X i g revision depth active a = Inr z"
    and "settle_delegation_budget (dg_reserved_budget (da_grant z)) c u = Inr s"
  shows "\<exists>b. release_delegation_budget (da_remaining z) s a = Inr b \<and> caps b = caps a
    \<and> (\<forall>d. available b d + amount (bs_charged s) d = available a d)"
proof -
  note parts = grant_reserves(1) [OF assms(1)] settle_ok [OF assms(2)]
  have "available (da_remaining z) d + amount (bs_released s) d \<le> available a d" for d
    using parts [of d] by linarith
  from release_iff [OF this] obtain b where "release_delegation_budget (da_remaining z) s a = Inr b"
      "caps b = caps a" "\<forall>d. available b d = available (da_remaining z) d + amount (bs_released s) d"
    using grant_reserves(2) [OF assms(1)] by auto
  moreover from this(3) have "available b d + amount (bs_charged s) d = available a d" for d
    using parts [of d] by (metis add.assoc add.commute)
  ultimately show ?thesis
    by blast
qed

lemma delegation_run_conserves:
  "delegation_run X a0 cs a \<Longrightarrow>
    caps a = caps a0 \<and> (\<forall>d. available a d + sum_list (map (\<lambda>c. amount c d) cs) = available a0 d)"
proof (induction rule: delegation_run.induct)
  case (settled cs a i g revision depth active z c u s b)
  have "caps b = caps a" "\<forall>d. available b d + amount (bs_charged s) d = available a d"
    using release_settled [OF settled(2,3)] settled(4) by auto
  with settled.IH show ?case
    by (simp add: add.assoc [symmetric] add.commute [of "sum_list xs" for xs])
next
  case (unsettled cs a i g revision depth active z)
  with grant_reserves [OF unsettled(2)] show ?case
    by (simp add: add.assoc [symmetric] add.commute [of "sum_list xs" for xs])
qed simp

subsection \<open>Properties\<close>

text \<open>
  C39. Through any sequence of granted delegations, each settled and released or left unsettled,
  what remains of the parent allowance plus what the delegations were charged is what there was, in
  every dimension, the policy caps stay, and releasing the unused part of a settled reservation is
  never refused.
\<close>

theorem delegation_budget_conserved:
  assumes "delegation_run X a0 cs a"
  shows "available a d + sum_list (map (\<lambda>c. amount c d) cs) = available a0 d \<and> caps a = caps a0
    \<and> (\<forall>i g revision depth active z c u s.
         grant_delegation X i g revision depth active a = Inr z
         \<and> settle_delegation_budget (dg_reserved_budget (da_grant z)) c u = Inr s
         \<longrightarrow> (\<exists>b. release_delegation_budget (da_remaining z) s a = Inr b))"
  using delegation_run_conserves [OF assms] release_settled by blast

definition sample_budget :: DelegationBudget where
  "sample_budget = \<lparr>db_max_child_turns = 1, db_max_child_executions = 2, db_max_iterations = 5, db_max_input_tokens = 100,
     db_max_output_tokens = 50, db_deadline_budget_ms = 1000, db_max_depth = 2, db_max_objective_bytes = 64,
     db_max_input_evidence = 4, db_max_result_schema_bytes = 64, db_max_result_bytes = 64, db_max_result_evidence = 4\<rparr>"

definition handed_intent :: DelegationIntent where
  "handed_intent = \<lparr>di_delegation_id = ''delegation'', di_parent_agent_instance_id = ''parent'', di_parent_turn_id = ''turn'',
     di_parent_execution_id = ''execution'', di_child_requirement = ExistingChild ''child'',
     di_objective = \<lparr>dc_digest = ''work'', dc_inline_utf8 = Some ''work'', dc_reference = None\<rparr>, di_input_evidence = [],
     di_result_schema = \<lparr>dc_digest = ''schema'', dc_inline_utf8 = Some ''schema'', dc_reference = None\<rparr>,
     di_budget = sample_budget, di_cancellation_policy = CancelWithParent, di_through_position = 3\<rparr>"

definition sample_allowance :: DelegationAllowance where
  "sample_allowance = \<lparr>al_remaining_child_turns = 2, al_remaining_child_executions = 4, al_remaining_iterations = 10,
     al_remaining_input_tokens = 300, al_remaining_output_tokens = 80, al_remaining_elapsed_ms = 5000, al_max_depth = 3,
     al_max_objective_bytes = 64, al_max_input_evidence = 4, al_max_result_schema_bytes = 64, al_max_result_bytes = 64,
     al_max_result_evidence = 4\<rparr>"

definition sample_consumption :: DelegationConsumption where
  "sample_consumption = \<lparr>dn_child_turns = 1, dn_child_executions = 1, dn_completed_iterations = 3, dn_elapsed_ms = 400\<rparr>"

definition sample_usage :: DelegationUsage where
  "sample_usage = \<lparr>du_input_tokens = KnownUsage 70, du_output_tokens = UnknownUsage\<rparr>"

definition sample_charge :: BudgetAmounts where
  "sample_charge = \<lparr>ba_child_turns = 1, ba_child_executions = 1, ba_iterations = 3, ba_input_tokens = 70,
     ba_output_tokens = 50, ba_elapsed_ms = 400\<rparr>"

lemmas sample_delegation = sample_budget_def handed_intent_def sample_allowance_def sample_consumption_def
  sample_usage_def sample_charge_def

lemma sample_delegation_run:
  "\<exists>a. delegation_run sample_tools sample_allowance [sample_charge] a"
proof -
  obtain z where z: "grant_delegation sample_tools handed_intent ''grant'' ''1'' 0 0 sample_allowance = Inr z"
    by (simp add: grant_delegation_def sample_delegation delegation_valid_id_def valid_text_def trimmed_def white_space_def
        byte_def starts_with_def ends_with_def char_of_def reserve_budget_def budget_subtract_def checked_sub_def ok_or_def
        delegation_intent_digest_def delegation_intent_binding_def sample_tools_def word_less_nat_alt word_le_nat_alt Let_def)
  moreover have "dg_reserved_budget (da_grant z) = sample_budget"
    using grant_delegation_ok(2) [OF z] by (simp add: handed_intent_def)
  moreover obtain s where s: "settle_delegation_budget sample_budget sample_consumption sample_usage = Inr s"
      "bs_charged s = sample_charge"
    by (simp add: settle_delegation_budget_def budget_validate_def consumption_validate_def charged_tokens_def
        amounts_exceed_def reserved_amounts_def sample_delegation word_less_nat_alt word_le_nat_alt Let_def)
  ultimately show ?thesis
    using release_settled [OF z] delegation_run.settled [OF delegation_run.unspent z] by (metis append_Nil)
qed

theorem delegation_budget_conserved_witness:
  "\<exists>a. delegation_run sample_tools sample_allowance [sample_charge] a \<and> available a InputTokens = 230 \<and> available a OutputTokens = 30 \<and> available a Turns = 1"
proof -
  obtain a where run: "delegation_run sample_tools sample_allowance [sample_charge] a"
    using sample_delegation_run by blast
  note conserved = delegation_budget_conserved [OF run]
  from conserved [of InputTokens] conserved [of OutputTokens] conserved [of Turns] show ?thesis
    using run by (intro exI [of _ a]) (simp add: sample_allowance_def sample_charge_def)
qed










end
