(* ===== verification/Spec2Isabelle.thy ===== *)
theory Spec2Isabelle
  imports Builtin_Tools Effect_Batch Governed_Effect Plan_Properties Goal_Lifecycle Sample_Session
    Sample_Obligations Schedule_Runtime Skill_Activation Model_Stream Delegation
begin

section \<open>A verified model of the Garive engine\<close>

text \<open>
  Garive is an agent platform. Its engine is event sourced: every step of every agent turn is a \<^emph>\<open>fact\<close>
  with a canonical JSON payload, appended to the ledger of a session, and everything else (recovery,
  projections, user interfaces) is derived from those facts. Around the ledger stand the contracts of
  what a turn works with: goals and plans, tools and their governed effects, schedules, skills, model
  calls and delegations. Each of them is a crate without I/O that a runtime drives; their meeting point
  is the ledger, which admits their facts and projects them. This library models the ledger and these
  crates and proves what the rest of the platform relies on.

  \<^bold>\<open>Shared theories.\<close>
  \<^item> \<open>BTree_Map\<close>: the standard library's ordered map, behind the locale \<open>ordered_map\<close>, which is
    interpreted on the model. \<open>Garive_Prelude\<close>: \<open>Result\<close> and the \<open>?\<close> operator (\<open>rbind\<close>), blocks of checks
    (\<open>rall\<close>, \<open>rcheck\<close>), postconditions of fallible code (\<open>rpost\<close>), panics (\<open>pbind\<close>), checked arithmetic,
    identities, digests, and the locales \<open>invariant_reducer\<close>, \<open>absorbing_reducer\<close> and \<open>ordered_reducer\<close> for
    state machines that reduce a list of events. \<open>Rust_Text\<close>: the string operations of the standard
    library, with addresses and numbers read and printed.

  \<^bold>\<open>The ledger\<close> (\<open>src/engine/ledger\<close>).
  \<^item> \<open>Json_Canonical\<close> (\<open>canonical.rs\<close>): JSON values, the canonical encoder, payloads bound by a digest.
    The encoder is injective, so equal digested texts mean equal values.
  \<^item> \<open>Ledger_Types\<close> (\<open>types.rs\<close>): identities, drafts, durable facts, errors and their codes.
  \<^item> \<open>Fact_Values\<close>, \<open>Execution_Facts\<close>, \<open>Effect_Facts\<close>, \<open>Schedule_Facts\<close>, \<open>Domain_Facts\<close>, \<open>Plan_Facts\<close>,
    \<open>Memory_Facts\<close> and \<open>Runtime_Facts\<close> (\<open>runtime_facts/*.rs\<close>): the payload validator of every fact kind
    and \<open>validate_runtime_fact\<close>, which picks one by family and schema version.
  \<^item> \<open>Ledger_Projection\<close>, \<open>Effect_Projection\<close> and \<open>Session_Projection\<close> (\<open>projection.rs\<close>): the state of a
    session as a record with the fields of \<open>SessionProjection\<close>, one definition per handler, and
    \<open>apply_fact\<close>, which dispatches on the kind.
  \<^item> \<open>Session_Lifecycle\<close>: an abstract machine of turns, executions, calls, questions and lookups, and the
    proof that every admitted fact is one of its moves.
  \<^item> \<open>Ledger_State\<close> (\<open>state.rs\<close>): \<open>commit\<close> and the queries. \<open>Ledger_Invariants\<close> and \<open>Ledger_Reads\<close>: the
    invariant of the store, its growth order, and what each query returns.
  \<^item> \<open>Session_Properties\<close>: the locale \<open>session_history\<close>, which lifts a relation between the committed facts
    and the projection from the handlers to every session of every reachable ledger, and its special
    case \<open>session_property\<close> for invariants of the projection alone. \<open>Effect_Safety\<close> and
    \<open>Session_Obligations\<close> interpret them for dispatch proofs, batch plans, schedules, delegations and closing.
  \<^item> \<open>Sample_Session\<close> and \<open>Sample_Obligations\<close>: two concrete sessions on which the properties are
    exercised, a governed tool call and a claimed schedule with a finished delegation.

  \<^bold>\<open>Goals and plans\<close> (\<open>src/engine/goal\<close>, \<open>src/engine/plan\<close>). \<open>Goal_Definition\<close>, \<open>Goal_Lifecycle\<close>,
  \<open>Plan_Definition\<close> and \<open>Plan_Lifecycle\<close> hold the constructors, the exact decoders and the revisioned
  reducers; \<open>Plan_Properties\<close> and the end of \<open>Goal_Lifecycle\<close> their properties: success only with complete
  evidence, commands in revision order, child goals without added authority (stated over \<open>goal_permits\<close>,
  what a definition lets a goal do), topologies that are acyclic, steps that run after their dependencies.

  \<^bold>\<open>Tools and effects\<close> (\<open>src/engine/tools\<close>). \<open>Tool_Access\<close> (\<open>access.rs\<close>), \<open>Tool_Schema\<close> (\<open>schema.rs\<close>,
  \<open>schema_validate.rs\<close>: the validator decides conformance, a keyword by keyword definition), \<open>Tool_Preparation\<close>
  (\<open>prepared.rs\<close>, \<open>sandbox.rs\<close>, \<open>unique_json.rs\<close>), \<open>T1_Patch\<close> (\<open>t1_patch.rs\<close>), \<open>Builtin_Tools\<close>
  (\<open>basic_tools.rs\<close>), \<open>Effect_Batch\<close> (\<open>batch.rs\<close>: groups without conflict, in order) and \<open>Governed_Effect\<close>
  (\<open>governed_*.rs\<close>: the reducer of one invocation).

  \<^bold>\<open>Schedules\<close> (\<open>src/engine/scheduler\<close>, \<open>src/runtime/replica/src/scheduler_runtime/state.rs\<close>). \<open>Scheduler\<close> holds
  intents, occurrences and the next decision; \<open>Schedule_Runtime\<close> the reconstruction of a schedule from its
  facts, which agrees with the ledger's projection of them.

  \<^bold>\<open>Skills, models, delegation\<close> (\<open>src/engine/skill\<close>, \<open>src/engine/llm\<close>, \<open>src/engine/multiagent\<close>).
  \<open>Skill_Activation\<close>: definitions and the activation of a longest fitting prefix of the ranking.
  \<open>Model_Stream\<close>: requests, usage and the stream validator. \<open>Delegation\<close>: intents, grants, settlement and
  results; no sequence of delegations creates or loses budget.

  \<^bold>\<open>Conventions.\<close> A method that mutates \<open>self\<close> and may fail takes the state and returns an error or the
  new state; an early return of the code is a branch; code that can panic returns an option whose \<open>None\<close> is
  the panic. \<open>u64\<close> and \<open>u32\<close> are words of that width, with \<open>checked_add\<close>, \<open>saturating_add\<close> and their like
  modelled as such. Strings are their UTF-8 bytes.

  \<^bold>\<open>Parameters.\<close> Third-party code is an argument. \<open>externals\<close> holds the ledger's SHA-256, JSON parser and
  RFC 3339 parser; \<open>tool_externals\<close> the duplicate-aware token stream, the RFC 8785 encoder and SHA-256;
  \<open>float_ops\<close> the arithmetic of IEEE numbers; \<open>chrono\<close> the calendar library; \<open>schedule_ports\<close> the ports of the
  schedule runtime; canonical printers and derived JSON readers are function arguments. Only the calendar
  is assumed anything of: \<open>chrono_laws\<close>, exactness of its arithmetic and of printing and parsing on instants
  that are not leap seconds, and a concrete calendar satisfies it.

  \<^bold>\<open>Termination.\<close> The definitions that translate code are executable and no fuel is used. Recursion is structural on the data,
  except for three: the two loops of the unified diff parser, which consume a line each; the schema
  functions, which descend in the size of the schema; and the topological sort of a plan, which removes
  at least one step in each round. Each has its measure.

  \<^bold>\<open>Not modelled.\<close> The durable SQLite store, the rest of the runtime, the gateway, providers and their
  adapters, clients and user interfaces are I/O around these components, in Rust, Swift, Kotlin and
  TypeScript. In \<open>plan_effect_batch\<close> of the projection the code indexes a JSON map with two keys that the
  validator of schema version 1 requires; under an opaque schema version the index expression panics
  where a key is missing, and the model returns \<open>InvalidFact\<close> there.
\<close>
text \<open>
  C1. Submitting a committed batch again, at any later time, with any expected version and any
  recorded times, changes nothing and returns the positions of the first commit.
\<close>

theorem commit_idempotent:
  assumes "commit X (ledger_after X default_ledger before) sid v ds = (st, Inr r)"
    and "disposition r = Committed"
    and "list_all2 same_semantics ds again" and "\<forall>d \<in> set again. draft_validate X d = Inr ()"
  shows "\<exists>l. bt_get (sessions (ledger_after X st later)) sid = Some l
    \<and> commit X (ledger_after X st later) sid w again = (ledger_after X st later,
         Inr \<lparr>disposition = Replayed, session_version = version l, positions = positions r\<rparr>)"
proof -
  have "st = fst (commit X (ledger_after X default_ledger before) sid v ds)" using assms(1) by simp
  then have "ledger_inv X st" by (simp add: commit_keeps_inv reachable_inv)
  then show ?thesis
    by (intro commit_again [OF reachable_inv assms(1,2) _ _ assms(3,4)] ledger_after_inv ledger_after_le)
qed

theorem commit_idempotent_witness:
  "\<exists>l. bt_get (sessions sample_state) sample_session = Some l
    \<and> commit sample sample_state sample_session 41 sample_batch = (sample_state,
        Inr \<lparr>disposition = Replayed, session_version = version l, positions = [1, 2, 3, 4, 5, 6, 7, 8, 9]\<rparr>)"
proof -
  have "commit sample (ledger_after sample default_ledger []) sample_session 0 sample_batch =
    (sample_state, Inr \<lparr>disposition = Committed, session_version = 1, positions = [1, 2, 3, 4, 5, 6, 7, 8, 9]\<rparr>)"
    by (simp add: ledger_after_def sample_commit)
  from commit_idempotent [OF this, of sample_batch "[]" 41] show ?thesis
    by (simp add: ledger_after_def list_all2_refl sample_batch_valid)
qed

text \<open>
  C4. A committed batch is appended to its session at consecutive positions after the facts already
  there, the version goes up by exactly one from the expected one, and no other session changes.
\<close>

theorem commit_effect:
  assumes "commit X (ledger_after X default_ledger before) sid v ds = (st, Inr r)"
    and "disposition r = Committed"
  shows "\<exists>l. bt_get (sessions st) sid = Some l
    \<and> facts l = facts (ledger_of (ledger_after X default_ledger before) sid) @ map2 (durable_from sid) (positions r) ds
    \<and> version (ledger_of (ledger_after X default_ledger before) sid) = v
    \<and> unat (version l) = Suc (unat v) \<and> session_version r = version l
    \<and> length (positions r) = length ds
    \<and> (\<forall>i < length ds. unat (positions r ! i) =
         Suc (length (facts (ledger_of (ledger_after X default_ledger before) sid)) + i))
    \<and> (\<forall>s. s \<noteq> sid \<longrightarrow> bt_get (sessions st) s =
         bt_get (sessions (ledger_after X default_ledger before)) s)"
proof -
  let ?st = "ledger_after X default_ledger before"
  from assms obtain n where n: "append_batch X ?st sid v ds = Inr (n, positions r)"
    and "session_version r = version n" and st: "st = added X ?st sid ds n (positions r)"
    by (rule committed_state)
  moreover have "numbered (facts (ledger_of ?st sid))"
    using reachable_inv [of X before]
    by (auto simp: ledger_of_def ledger_inv_def session_inv_def stored_ok_def default_session_ledger_def numbered_def
        split: option.splits)
  ultimately show ?thesis
    using append_batch_facts [OF n] by (intro exI [of _ n]) (simp add: added_def)
qed

theorem commit_effect_witness:
  "\<exists>l. bt_get (sessions sample_state) sample_session = Some l \<and> version l = 1
     \<and> facts l = map2 (durable_from sample_session) [1, 2, 3, 4, 5, 6, 7, 8, 9] sample_batch"
proof -
  have "commit sample (ledger_after sample default_ledger []) sample_session 0 sample_batch =
    (sample_state, Inr \<lparr>disposition = Committed, session_version = 1, positions = [1, 2, 3, 4, 5, 6, 7, 8, 9]\<rparr>)"
    by (simp add: ledger_after_def sample_commit)
  from commit_effect [OF this] show ?thesis
    by (auto simp: ledger_after_def ledger_of_def default_ledger_def default_session_ledger_def)
qed

text \<open>
  C11. A commit that changes the ledger has succeeded: every error and every replay leaves it as it
  was.
\<close>

theorem commit_atomic:
  assumes "fst (commit X st sid v ds) \<noteq> st"
  shows "\<exists>r. snd (commit X st sid v ds) = Inr r \<and> disposition r = Committed"
  using assms by (cases rule: commit_cases [of X st sid v ds]) auto

theorem commit_atomic_witness:
  "\<exists>r. snd (commit sample default_ledger sample_session 0 sample_batch) = Inr r \<and> disposition r = Committed"
  by (rule commit_atomic) (simp add: sample_commit sample_state_new)

text \<open>
  A batch of new facts whose expected version is not the version of the session is refused with
  \<open>ConcurrentModification\<close>.
\<close>

lemma commit_stale:
  assumes "ds \<noteq> []" and "screen_drafts X st sid {} ds = Inr []" and "version (ledger_of st sid) \<noteq> v"
  shows "commit X st sid v ds = (st, Inl ConcurrentModification)"
  using assms by (simp add: commit_def append_batch_def ledger_of_def Let_def)

lemma commit_stale_witness:
  "commit sample default_ledger sample_session 7 sample_batch = (default_ledger, Inl ConcurrentModification)"
  by (rule commit_stale [OF _ sample_screened])
    (simp_all add: sample_batch_def ledger_of_def default_ledger_def default_session_ledger_def)

text \<open>
  C5. In every reachable ledger the facts of a session are numbered from 1 without gaps and verify
  against their digests, and the projection is what a replay of the committed batches, as many as
  the version counts, makes of them.
\<close>

theorem ledger_history:
  assumes "bt_get (sessions (ledger_after X default_ledger cs)) sid = Some l"
  shows "numbered (facts l) \<and> (\<forall>f \<in> set (facts l). session_id f = sid \<and> durable_verify X f = Inr ())
    \<and> (\<exists>bs. concat bs = map draft_of (facts l) \<and> replay X bs = Inr (projection l)
         \<and> length bs = unat (version l))"
  using reachable_inv [of X cs] assms
  by (fastforce simp: ledger_inv_def session_inv_def stored_ok_def history_ok_def)

theorem ledger_history_witness:
  "numbered (facts sample_ledger) \<and> (\<exists>bs. replay sample bs = Inr after_dispatch \<and> length bs = 1)"
  using ledger_history [OF sample_in_ledger] by auto

text \<open>
  C10. Looking up a position of a session gives the fact with that number, counted from 1, and
  nothing outside the committed range, and a committed fact is found at its position whatever is
  committed later.
\<close>

theorem facts_are_permanent:
  assumes "bt_get (sessions (ledger_after X default_ledger before)) sid = Some l"
  shows "fact_at (ledger_after X default_ledger before) sid n
      = (if 1 \<le> unat n \<and> unat n \<le> length (facts l) then Some (facts l ! (unat n - 1)) else None)
    \<and> (1 \<le> unat n \<and> unat n \<le> length (facts l) \<longrightarrow>
        fact_at (ledger_after X (ledger_after X default_ledger before) later) sid n = Some (facts l ! (unat n - 1)))"
proof -
  have "numbered (facts l)"
    using reachable_session [OF assms] by (simp add: session_inv_def stored_ok_def)
  then have "fact_at (ledger_after X default_ledger before) sid n
      = (if 1 \<le> unat n \<and> unat n \<le> length (facts l) then Some (facts l ! (unat n - 1)) else None)"
    by (simp add: fact_at_def assms find_position)
  then show ?thesis
    using ledger_le_fact_at [OF reachable_inv ledger_after_inv [OF reachable_inv] ledger_after_le [OF reachable_inv],
        of X before sid n] by auto
qed

theorem facts_are_permanent_witness:
  "fact_at sample_state sample_session 9 = Some (durable_from sample_session 9 dispatch_fact)
   \<and> fact_at sample_state sample_session 10 = None
   \<and> fact_at (ledger_after sample sample_state [(sample_session, 1, [opened_fact])]) sample_session 9
       = Some (durable_from sample_session 9 dispatch_fact)"
  using facts_are_permanent [OF sample_in_ledger, of 9 "[(sample_session, 1, [opened_fact])]"]
    facts_are_permanent [OF sample_in_ledger, of 10]
  by (simp add: sample_reached sample_facts)

text \<open>
  C12. Reading a range of a session returns exactly the facts with a position after the lower and up
  to the upper bound and one of the wanted kinds, in order; no stored fact fails verification.
\<close>

theorem read_facts_exact:
  assumes "bt_get (sessions (ledger_after X default_ledger cs)) sid = Some l" and "after < through"
  shows "read_facts X (ledger_after X default_ledger cs) sid after through kinds
    = Inr (filter (\<lambda>f. after < position f \<and> position f \<le> through
             \<and> (case kinds of None \<Rightarrow> True | Some ks \<Rightarrow> kind f \<in> ks)) (facts l))"
  using read_facts_ok [OF reachable_inv assms] .

theorem read_facts_exact_witness:
  "read_facts sample sample_state sample_session 1 3 None
    = Inr [durable_from sample_session 2 turn_fact, durable_from sample_session 3 execution_fact]"
  using read_facts_exact [OF sample_in_ledger, of 1 3 None] by (simp add: sample_reached sample_facts)

text \<open>
  C13. A turn snapshot holds all facts of the turn in the whole ledger, with the version and the
  last position of their session.
\<close>

theorem load_turn_complete:
  assumes "load_turn (ledger_after X default_ledger cs) t = Inr snap"
  shows "\<exists>s l. bt_get (sessions (ledger_after X default_ledger cs)) s = Some l
    \<and> ts_facts snap = turn_facts t l \<and> ts_facts snap \<noteq> []
    \<and> ts_session_version snap = version l \<and> unat (ts_through_position snap) = length (facts l)
    \<and> (\<forall>s' f. holds (ledger_after X default_ledger cs) s' f \<and> turn_id f = Some t \<longrightarrow>
         s' = s \<and> f \<in> set (ts_facts snap))"
  using load_turn_ok [OF reachable_inv assms] .

theorem load_turn_complete_witness:
  "\<exists>snap s l. load_turn sample_state (Ident ''turn-1'') = Inr snap \<and> bt_get (sessions sample_state) s = Some l
     \<and> ts_facts snap = turn_facts (Ident ''turn-1'') l"
proof -
  have "turn_facts (Ident ''turn-1'') sample_ledger \<noteq> []"
    by (simp add: turn_facts_def sample_facts sample_eval)
  then obtain snap where "load_turn (ledger_after sample default_ledger sample_commits) (Ident ''turn-1'') = Inr snap"
    by (simp add: load_turn_def sample_reached sample_state_def bt_values_def bt_insert.rep_eq bt_empty.rep_eq)
  from this load_turn_complete [OF this] show ?thesis
    unfolding sample_reached by blast
qed

text \<open>
  C8. No turn, execution, model request or tool invocation appears in the facts of two sessions.
\<close>

theorem identities_belong_to_one_session:
  assumes "holds (ledger_after X default_ledger cs) s f" and "holds (ledger_after X default_ledger cs) s' f'"
    and "same_present (turn_id f) (turn_id f') \<or> same_present (execution_id f) (execution_id f')
      \<or> same_present (model_request_id f) (model_request_id f')
      \<or> same_present (tool_invocation_id f) (tool_invocation_id f')"
  shows "s = s'"
  using same_session [OF reachable_inv assms(1,2)] assms(3) by (simp add: shares_def)

theorem identities_belong_to_one_session_witness:
  "\<exists>f f'. holds sample_state sample_session f \<and> holds sample_state sample_session f' \<and> f \<noteq> f'
     \<and> same_present (turn_id f) (turn_id f') \<and> (\<forall>s. holds sample_state s f' \<longrightarrow> s = sample_session)"
proof -
  let ?f = "durable_from sample_session 2 turn_fact" and ?g = "durable_from sample_session 3 execution_fact"
  have f: "holds sample_state sample_session ?f" "holds sample_state sample_session ?g"
    by (auto simp: holds_def sample_state_session sample_facts)
  moreover have share: "same_present (turn_id ?f) (turn_id ?g)"
    by (simp add: same_present_def sample_eval)
  moreover have "s = sample_session" if "holds sample_state s ?g" for s
    using identities_belong_to_one_session [of sample sample_commits s ?g sample_session ?f] f(1) that
    unfolding sample_reached by (simp add: same_present_def sample_eval)
  ultimately show ?thesis
    by (intro exI [of _ ?f] exI [of _ ?g]) simp
qed

text \<open>
  C2. In every session that any commits can produce, a tool of contract version 3 for which a start
  was ever committed, whatever became of it since, or whose state is that of a started tool, has an
  Allow decision on exactly its prepared digest and a sandbox proof for the grant and the executor
  it runs under.
\<close>

theorem tools_run_only_with_proof:
  assumes "bt_get (sessions (ledger_after X default_ledger cs)) sid = Some l"
    and "bt_get (tool_contract_versions (projection l)) t = Some 3"
    and "(\<exists>f \<in> set (facts l). kind f = ''effect.started'' \<and> tool_invocation_id f = Some t)
      \<or> (\<exists>e st. bt_get (tools (projection l)) t = Some (e, st)
           \<and> st \<in> {Started, Receipt, invocation_state.Completed, Uncertain, Reconciled})"
  shows "\<exists>r sp g. bt_get (f0 (projection l)) t = Some r \<and> f0_disposition r = Allow
    \<and> bt_get (tool_digests (projection l)) t = Some (f0_prepared_digest r)
    \<and> f0_sandbox r = Some sp \<and> sp_grant_id sp = Some g \<and> sp_dispatch_attempt_id sp \<noteq> None
    \<and> bt_get (tool_grants (projection l)) t = Some g
    \<and> bt_get (tool_executors (projection l)) t = Some (sp_executor_id sp, sp_executor_revision sp)"
proof -
  have safe: "tool_safe (projection l) t"
    using effects.ledger_keeps [OF assms(1)] by (simp add: effects_safe_def)
  have "recorded (projection l) t"
    using assms(3)
  proof
    assume "\<exists>f \<in> set (facts l). kind f = ''effect.started'' \<and> tool_invocation_id f = Some t"
    then show ?thesis
      using dispatches.history_ledger [OF assms(1)] by (force simp: starts_def)
  qed (use safe assms(2) in \<open>auto simp: tool_safe_def begun_def\<close>)
  with safe assms(2) have "proven (projection l) t"
    unfolding tool_safe_def bt_contains_iff by fast
  then show ?thesis
    by (auto simp: proven_def allowed_def matching_proof_def)
qed

theorem tools_run_only_with_proof_witness:
  "\<exists>r sp g. bt_get (f0 after_dispatch) (Ident ''tool-1'') = Some r \<and> f0_disposition r = Allow
    \<and> f0_sandbox r = Some sp \<and> sp_grant_id sp = Some g \<and> bt_get (tool_grants after_dispatch) (Ident ''tool-1'') = Some g"
proof -
  let ?f = "durable_from sample_session 9 dispatch_fact"
  have "bt_get (tool_contract_versions (projection sample_ledger)) (Ident ''tool-1'') = Some 3"
    by (simp add: after_defs)
  moreover have "\<exists>f \<in> set (facts sample_ledger). kind f = ''effect.started'' \<and> tool_invocation_id f = Some (Ident ''tool-1'')"
    by (rule bexI [of _ ?f]) (simp_all add: sample_facts sample_eval)
  ultimately show ?thesis
    using tools_run_only_with_proof [OF sample_in_ledger, of "Ident ''tool-1''"] by fastforce
qed

text \<open>
  C3. Every fact the projection admits is one move of the abstract lifecycle machine of turns,
  executions, calls, questions and lookups.
\<close>

theorem projection_refines_lifecycle:
  assumes "apply_fact X f p = Inr q"
  shows "lifecycle_step (lifecycle_of p) (lifecycle_of q)"
  using assms by (rule apply_refines)

theorem projection_refines_lifecycle_witness:
  "lifecycle_step (lifecycle_of after_execution) (lifecycle_of after_prepared)"
  by (rule projection_refines_lifecycle [OF apply_prepared])

text \<open>
  C7. In every session that any commits can produce, a model call or a tool that is started or has a
  receipt belongs to an active execution of an open turn.
\<close>

theorem dispatched_calls_have_live_owners:
  assumes "bt_get (sessions (ledger_after X default_ledger cs)) sid = Some l"
    and "bt_get (tools (projection l)) t = Some (e, st) \<or> bt_get (models (projection l)) r = Some (e, st)"
    and "st = Started \<or> st = Receipt"
  shows "\<exists>turn. bt_get (executions (projection l)) e = Some (turn, ExecActive)
    \<and> bt_get (turns (projection l)) turn = Some TurnOpen"
proof -
  have "lifecycle_inv (lifecycle_of (projection l))"
    using assms(1) by (rule reachable_lifecycle)
  then have ok: "executions_ok (bt_get (turns (projection l))) (bt_get (executions (projection l)))"
      "calls_ok (bt_get (executions (projection l))) (bt_get (models (projection l)))"
      "calls_ok (bt_get (executions (projection l))) (bt_get (tools (projection l)))"
    by (simp_all add: lifecycle_inv_def)
  from assms(2,3) ok(2,3) obtain turn where "bt_get (executions (projection l)) e = Some (turn, ExecActive)"
    unfolding calls_ok_def by blast
  with ok(1) show ?thesis
    unfolding executions_ok_def by auto
qed

theorem dispatched_calls_have_live_owners_witness:
  "\<exists>turn. bt_get (executions after_dispatch) (Ident ''execution-1'') = Some (turn, ExecActive)
    \<and> bt_get (turns after_dispatch) turn = Some TurnOpen"
proof -
  have "bt_get (tools (projection sample_ledger)) (Ident ''tool-1'') = Some (Ident ''execution-1'', Started)"
    by (simp add: after_defs)
  then show ?thesis
    using dispatched_calls_have_live_owners [OF sample_in_ledger, of "Ident ''tool-1''" "Ident ''execution-1''" Started]
    by simp
qed

text \<open>
  C9. A session is never lost: later commits only append facts and raise the version, finished turns
  and executions keep their state, and calls only move forward in their lifecycle under the same
  owner.
\<close>

theorem sessions_only_advance:
  assumes "bt_get (sessions (ledger_after X default_ledger before)) sid = Some l"
  shows "\<exists>l'. bt_get (sessions (ledger_after X (ledger_after X default_ledger before) later)) sid = Some l'
    \<and> (\<exists>more. facts l' = facts l @ more) \<and> version l \<le> version l'
    \<and> lifecycle_le (lifecycle_of (projection l)) (lifecycle_of (projection l'))"
  using ledger_after_le [OF reachable_inv, of X before later] assms
  by (fastforce simp: ledger_le_def entries_le_def session_le_def projection_le_def)

theorem sessions_only_advance_witness:
  "\<exists>l'. bt_get (sessions (ledger_after sample sample_state [(sample_session, 9, [opened_fact])])) sample_session = Some l'
     \<and> 1 \<le> version l'"
  using sessions_only_advance [OF sample_in_ledger, of "[(sample_session, 9, [opened_fact])]"]
  unfolding sample_reached by auto

text \<open>
  C6. A closed session has no open turn, active execution, dispatched call, active schedule or
  unresolved delegation, and no later commit changes it.
\<close>

theorem closed_sessions_are_final:
  assumes "bt_get (sessions (ledger_after X default_ledger before)) sid = Some l" and "closed (projection l)"
  shows "settled (projection l)
    \<and> bt_get (sessions (ledger_after X (ledger_after X default_ledger before) later)) sid = Some l"
  using closing.ledger_keeps [OF assms(1)] assms(2) closed_ledger_after [OF assms] by blast

theorem closed_sessions_are_final_witness:
  "settled (projection closed_ledger)
    \<and> bt_get (sessions (ledger_after sample (ledger_after sample default_ledger closed_commits) sample_commits)) sample_session
      = Some closed_ledger"
  by (rule closed_sessions_are_final [OF closed_in_ledger]) (simp add: closed_ledger_def)

text \<open>
  C15. A schedule with a pending claim is active and the ordinal of the claim is the last handled
  one plus one, without wrap-around.
\<close>

theorem pending_claims_follow_the_last_ordinal:
  assumes "bt_get (sessions (ledger_after X default_ledger cs)) sid = Some l"
    and "bt_get (schedules (projection l)) i = Some r" and "sc_pending_claim r = Some c"
  shows "sc_state r = SchedActive \<and> unat (cl_ordinal c) = Suc (unat (sc_last_handled_ordinal r))"
proof -
  have "schedule_ok r"
    using scheduling.ledger_keeps [OF assms(1)] assms(2) by (rule schedules_okD)
  then show ?thesis
    using assms(3) by (auto simp: schedule_ok_def dest: unat_checked_succ)
qed

theorem pending_claims_follow_the_last_ordinal_witness:
  "\<exists>l r c. bt_get (sessions (ledger_after obligation_sample default_ledger obligation_commits)) sample_session = Some l
    \<and> bt_get (schedules (projection l)) ''schedule-1'' = Some r \<and> sc_pending_claim r = Some c
    \<and> sc_state r = SchedActive \<and> sc_last_handled_ordinal r = 0 \<and> unat (cl_ordinal c) = 1"
proof -
  obtain l where l: "bt_get (sessions (ledger_after obligation_sample default_ledger obligation_commits)) sample_session = Some l"
      "projection l = state_observed"
    using obligation_in_ledger by blast
  then have r: "bt_get (schedules (projection l)) ''schedule-1'' = Some claimed_record"
    by (simp add: obligation_records)
  obtain c where "sc_pending_claim claimed_record = Some c" "sc_last_handled_ordinal claimed_record = 0"
    by (simp add: claimed_record_def sample_record_def)
  with pending_claims_follow_the_last_ordinal [OF l(1) r] l(1) r show ?thesis
    by auto
qed

text \<open>
  C14. A delegation has a grant, a suspension and child turn, and a result and result digest exactly
  when its state calls for them; each of these bindings is the one that the committed facts that
  brought it there carry, all from the execution of its parent turn and with the same identities in
  every later fact; and no parent turn has two unresolved delegations.
\<close>

theorem delegations_are_bound_and_exclusive:
  assumes "bt_get (sessions (ledger_after X default_ledger cs)) sid = Some l"
    and "bt_get (delegations (projection l)) i = Some d"
  shows "delegation_ok d \<and> delegation_bound X (map draft_of (facts l)) i d
    \<and> (\<forall>j d'. bt_get (delegations (projection l)) j = Some d' \<and> dl_parent_turn d' = dl_parent_turn d
         \<and> \<not> delegation_resolved d \<and> \<not> delegation_resolved d' \<longrightarrow> j = i)"
proof -
  have "delegations_ok (projection l)"
    by (rule delegating.ledger_keeps [OF assms(1)])
  moreover have "delegations_bound X (map draft_of (facts l)) (projection l)"
    by (rule binding.history_ledger [OF assms(1)])
  ultimately show ?thesis
    using assms(2) unfolding delegations_ok_def delegations_bound_def by metis
qed

theorem delegations_are_bound_and_exclusive_witness:
  "\<exists>d. dl_state d = DelObserved \<and> dl_grant_id d = Some ''grant-1'' \<and> dl_result_id d = Some ''result-1''
    \<and> delegation_ok d \<and> delegation_bound obligation_sample obligation_batch ''delegation-1'' d"
proof -
  let ?d = "finished_delegation\<lparr>dl_state := DelObserved\<rparr>"
  obtain l where l: "bt_get (sessions (ledger_after obligation_sample default_ledger obligation_commits)) sample_session = Some l"
      "projection l = state_observed" "map draft_of (facts l) = obligation_batch"
    using obligation_in_ledger by blast
  have "bt_get (delegations (projection l)) ''delegation-1'' = Some ?d"
    by (simp add: l(2) obligation_records)
  from delegations_are_bound_and_exclusive [OF l(1) this] l(3) show ?thesis
    by (intro exI [of _ ?d]) (auto simp: finished_delegation_def started_delegation_def granted_delegation_def)
qed

text \<open>
  C16. Two JSON values with the same canonical text are equal, so a digest of the text binds the
  value.
\<close>

theorem canonical_text_is_injective:
  assumes "wf_json v" and "wf_json w" and "encode v = Inr s" and "encode w = Inr s"
  shows "v = w"
  using assms by (rule encode_inj)

theorem canonical_text_is_injective_witness:
  "encode (JString ''7'') \<noteq> encode (JNumber (PosInt 7))"
proof
  have s: "encode (JString ''7'') = Inr [CHR 0x22, CHR ''7'', CHR 0x22]" by code_simp
  assume "encode (JString ''7'') = encode (JNumber (PosInt 7))"
  with s have n: "encode (JNumber (PosInt 7)) = Inr [CHR 0x22, CHR ''7'', CHR 0x22]" by simp
  have "JString ''7'' = JNumber (PosInt 7)"
    by (rule canonical_text_is_injective [OF _ _ s n]) simp_all
  then show False by simp
qed

text \<open>
  The canonical encoder refuses a value exactly when it contains a floating point number, and with
  \<open>UnsupportedNumber\<close>.
\<close>

lemma encoder_accepts_exactly_integers:
  "encode v = Inl UnsupportedNumber \<longleftrightarrow> \<not> no_floats v"
  using encode_accepts(1) [of v] encode_errors(1) [of v]
  by (cases "encode v") auto

text \<open>
  A payload read back from storage is accepted exactly when its text is the canonical text of the
  value it parses to and the digest is that of the text.
\<close>

lemma stored_payloads_are_canonical:
  "from_canonical_parts X j d = Inr p \<longleftrightarrow>
     (\<exists>v. from_str X j = Some v \<and> encode v = Inr j) \<and> d = sha256_hex X j
     \<and> p = \<lparr>payload_json = j, payload_sha256 = d\<rparr>"
  by (rule from_canonical_parts_eq_Inr)

end
